(* ===== verification/Go_Base.thy ===== *)
theory Go_Base
  imports Main "HOL-Library.Sublist"
begin

text \<open>
  Prelude of the development: the pieces of Go and of its standard library that
  every component of juggler uses. Go strings and byte slices are byte lists,
  Isabelle's \<^typ>\<open>string\<close> (a \<^typ>\<open>char\<close> is one byte); Go errors are
  the values of \<open>gerror\<close>; a fallible operation on a state is a function to a
  sum (\<open>Inl\<close> the error) paired with the next state, and the combinators
  \<open>attempt\<close> and \<open>attempt_or\<close> are Go's \<open>if err != nil\<close>.
  The collections \<open>go_defs\<close> (definitions that unfold to evaluate a model),
  \<open>frame\<close> (what an operation leaves alone) and \<open>keeps_intros\<close> (rules that
  build an invariance proof) are filled by the components.
\<close>

named_theorems go_defs
named_theorems frame
named_theorems keeps_intros

section \<open>Strings\<close>

definition has_prefix :: "string \<Rightarrow> string \<Rightarrow> bool" where
  "has_prefix s p \<longleftrightarrow> prefix p s"

definition trim_prefix :: "string \<Rightarrow> string \<Rightarrow> string" where
  "trim_prefix s p = (if has_prefix s p then drop (length p) s else s)"

fun has_sub :: "string \<Rightarrow> string \<Rightarrow> bool" where
  "has_sub [] p = (p = [])"
| "has_sub (c # cs) p = (prefix p (c # cs) \<or> has_sub cs p)"

text \<open>\<open>strings.Cut\<close> at a one-byte separator: the text before it, the text after
  it, and whether it was found.\<close>

fun cut :: "char \<Rightarrow> string \<Rightarrow> string \<times> string \<times> bool" where
  "cut sep [] = ([], [], False)"
| "cut sep (c # cs) =
     (if c = sep then ([], cs, True)
      else (let (a, b, f) = cut sep cs in (c # a, b, f)))"

fun join :: "string \<Rightarrow> string list \<Rightarrow> string" where
  "join sep [] = []"
| "join sep [s] = s"
| "join sep (s # t # ss) = s @ sep @ join sep (t # ss)"

text \<open>\<open>strings.Split\<close> at a one-byte separator (always at least one piece).\<close>

fun split_on :: "char \<Rightarrow> string \<Rightarrow> string list" where
  "split_on sep [] = [[]]"
| "split_on sep (c # cs) =
     (if c = sep then [] # split_on sep cs
      else (case split_on sep cs of [] \<Rightarrow> [[c]] | p # ps \<Rightarrow> (c # p) # ps))"

text \<open>ASCII white space of \<open>strings.TrimSpace\<close> and \<open>bytes.TrimSpace\<close>: tab,
  line feed, vertical tab, form feed, carriage return and space. The Unicode spaces
  outside ASCII (U+0085, U+00A0 and a few more) are not trimmed here.\<close>

definition is_space :: "char \<Rightarrow> bool" where
  "is_space c \<longleftrightarrow> c = CHR '' '' \<or> c = CHR 0x09 \<or> c = CHR 0x0A \<or> c = CHR 0x0B \<or> c = CHR 0x0C \<or> c = CHR 0x0D"

definition trim_space :: "string \<Rightarrow> string" where
  "trim_space s = rev (dropWhile is_space (rev (dropWhile is_space s)))"

definition trim_right :: "char \<Rightarrow> string \<Rightarrow> string" where
  "trim_right c s = rev (dropWhile (\<lambda>x. x = c) (rev s))"

definition byte :: "char \<Rightarrow> nat" where
  "byte c = of_char c"

definition is_upper :: "char \<Rightarrow> bool" where
  "is_upper c \<longleftrightarrow> 65 \<le> byte c \<and> byte c \<le> 90"

definition is_lower :: "char \<Rightarrow> bool" where
  "is_lower c \<longleftrightarrow> 97 \<le> byte c \<and> byte c \<le> 122"

definition is_digit :: "char \<Rightarrow> bool" where
  "is_digit c \<longleftrightarrow> 48 \<le> byte c \<and> byte c \<le> 57"

definition is_alnum :: "char \<Rightarrow> bool" where
  "is_alnum c \<longleftrightarrow> is_upper c \<or> is_lower c \<or> is_digit c"

definition to_lower :: "string \<Rightarrow> string" where
  "to_lower s = map (\<lambda>c. if is_upper c then char_of (byte c + 32) else c) s"

definition upper_char :: "char \<Rightarrow> char" where
  "upper_char c = (if is_lower c then char_of (byte c - 32) else c)"

text \<open>The same tests on the bits of a character, for evaluation.\<close>

definition is_ctl :: "char \<Rightarrow> bool" where
  "is_ctl c \<longleftrightarrow> byte c < 32"

definition is_ascii :: "char \<Rightarrow> bool" where
  "is_ascii c \<longleftrightarrow> byte c < 128"

lemma byte_Char: "byte (Char b0 b1 b2 b3 b4 b5 b6 b7) =
    of_bool b0 + 2 * (of_bool b1 + 2 * (of_bool b2 + 2 * (of_bool b3 + 2 * (of_bool b4 + 2 * (of_bool b5 + 2 * (of_bool b6 + 2 * of_bool b7))))))"
  by (simp add: byte_def of_char_def)

lemma is_ctl_code [code]: "is_ctl (Char b0 b1 b2 b3 b4 b5 b6 b7) \<longleftrightarrow> \<not> b5 \<and> \<not> b6 \<and> \<not> b7"
  by (cases b0; cases b1; cases b2; cases b3; cases b4; cases b5; cases b6; cases b7) (simp_all add: is_ctl_def byte_Char)

lemma is_ascii_code [code]: "is_ascii (Char b0 b1 b2 b3 b4 b5 b6 b7) \<longleftrightarrow> \<not> b7"
  by (cases b0; cases b1; cases b2; cases b3; cases b4; cases b5; cases b6; cases b7) (simp_all add: is_ascii_def byte_Char)

lemma is_digit_code [code]: "is_digit (Char b0 b1 b2 b3 b4 b5 b6 b7) \<longleftrightarrow>
    b4 \<and> b5 \<and> \<not> b6 \<and> \<not> b7 \<and> (\<not> b3 \<or> \<not> b1 \<and> \<not> b2)"
  by (cases b0; cases b1; cases b2; cases b3; cases b4; cases b5; cases b6; cases b7) (simp_all add: is_digit_def byte_Char)

lemma is_lower_code [code]: "is_lower (Char b0 b1 b2 b3 b4 b5 b6 b7) \<longleftrightarrow>
    b5 \<and> b6 \<and> \<not> b7 \<and> (b0 \<or> b1 \<or> b2 \<or> b3 \<or> b4) \<and> \<not> (b4 \<and> b3 \<and> (b2 \<or> b1 \<and> b0))"
  by (cases b0; cases b1; cases b2; cases b3; cases b4; cases b5; cases b6; cases b7) (simp_all add: is_lower_def byte_Char)

lemma is_upper_code [code]: "is_upper (Char b0 b1 b2 b3 b4 b5 b6 b7) \<longleftrightarrow>
    \<not> b5 \<and> b6 \<and> \<not> b7 \<and> (b0 \<or> b1 \<or> b2 \<or> b3 \<or> b4) \<and> \<not> (b4 \<and> b3 \<and> (b2 \<or> b1 \<and> b0))"
  by (cases b0; cases b1; cases b2; cases b3; cases b4; cases b5; cases b6; cases b7) (simp_all add: is_upper_def byte_Char)

lemma upper_char_code [code]: "upper_char (Char b0 b1 b2 b3 b4 b5 b6 b7) =
    (if is_lower (Char b0 b1 b2 b3 b4 b5 b6 b7) then Char b0 b1 b2 b3 b4 False b6 b7 else Char b0 b1 b2 b3 b4 b5 b6 b7)"
  by (cases b0; cases b1; cases b2; cases b3; cases b4; cases b5; cases b6; cases b7)
     (simp_all add: upper_char_def is_lower_code byte_Char char_of_def bit_0)

lemma byte_code [code_unfold]: "byte c < 32 \<longleftrightarrow> is_ctl c" "byte c < 128 \<longleftrightarrow> is_ascii c"
  by (simp_all add: is_ctl_def is_ascii_def)

text \<open>Byte order of Go string comparison.\<close>

fun str_less :: "string \<Rightarrow> string \<Rightarrow> bool" where
  "str_less _ [] = False"
| "str_less [] (_ # _) = True"
| "str_less (a # as) (b # bs) = (byte a < byte b \<or> (a = b \<and> str_less as bs))"

definition str_le :: "string \<Rightarrow> string \<Rightarrow> bool" where
  "str_le a b \<longleftrightarrow> a = b \<or> str_less a b"

text \<open>\<open>sort.Strings\<close> (the order of equal strings cannot be observed).\<close>

fun insert_str :: "string \<Rightarrow> string list \<Rightarrow> string list" where
  "insert_str x [] = [x]"
| "insert_str x (y # ys) = (if str_le x y then x # y # ys else y # insert_str x ys)"

definition sort_strings :: "string list \<Rightarrow> string list" where
  "sort_strings xs = foldr insert_str xs []"

section \<open>Decimal numbers and quoting\<close>

definition digit_char :: "nat \<Rightarrow> char" where
  "digit_char d = char_of (48 + d)"

fun nat_str :: "nat \<Rightarrow> string" where
  "nat_str n = (if n < 10 then [digit_char n] else nat_str (n div 10) @ [digit_char (n mod 10)])"

declare nat_str.simps [simp del]

definition itoa :: "int \<Rightarrow> string" where
  "itoa i = (if i < 0 then ''-'' @ nat_str (nat (- i)) else nat_str (nat i))"

text \<open>\<open>strconv.Atoi\<close>: an optional sign and decimal digits within int64.\<close>

definition digits_value :: "string \<Rightarrow> int" where
  "digits_value s = foldl (\<lambda>n c. 10 * n + int (byte c - 48)) 0 s"

definition Atoi :: "string \<Rightarrow> int option" where
  "Atoi s = (let (neg, ds) = (case s of c # r \<Rightarrow> if c = CHR ''-'' then (True, r) else if c = CHR ''+'' then (False, r) else (False, s) | [] \<Rightarrow> (False, s));
       n = (if neg then - digits_value ds else digits_value ds) in
     if ds = [] \<or> \<not> list_all is_digit ds \<or> n < - (2 ^ 63) \<or> 2 ^ 63 \<le> n then None else Some n)"

definition hex_digit :: "nat \<Rightarrow> char" where
  "hex_digit d = (if d < 10 then char_of (48 + d) else char_of (87 + d))"

text \<open>\<open>%q\<close> (\<open>strconv.Quote\<close>): exact on ASCII; bytes from 0x80 on are kept, which is
  what Go prints for a printable rune.\<close>

definition quote_char :: "char \<Rightarrow> string" where
  "quote_char c =
     (if c = CHR 0x22 then [CHR 0x5C, CHR 0x22]
      else if c = CHR 0x5C then [CHR 0x5C, CHR 0x5C]
      else if c = CHR 0x07 then [CHR 0x5C, CHR ''a'']
      else if c = CHR 0x08 then [CHR 0x5C, CHR ''b'']
      else if c = CHR 0x0C then [CHR 0x5C, CHR ''f'']
      else if c = CHR 0x0A then [CHR 0x5C, CHR ''n'']
      else if c = CHR 0x0D then [CHR 0x5C, CHR ''r'']
      else if c = CHR 0x09 then [CHR 0x5C, CHR ''t'']
      else if c = CHR 0x0B then [CHR 0x5C, CHR ''v'']
      else if byte c < 32 \<or> byte c = 127
        then [CHR 0x5C, CHR ''x'', hex_digit (byte c div 16), hex_digit (byte c mod 16)]
      else [c])"

definition quoted :: "string \<Rightarrow> string" where
  "quoted s = CHR 0x22 # concat (map quote_char s) @ [CHR 0x22]"

section \<open>Errors\<close>

text \<open>
  The error values juggler distinguishes with \<open>errors.Is\<close> and \<open>errors.As\<close>; every
  other error is its message. \<open>ErrWrap pre e post\<close> is \<open>fmt.Errorf\<close> with one
  \<open>%w\<close>; \<open>ErrJoin\<close> is \<open>errors.Join\<close> of the non-nil errors.
\<close>

datatype gerror =
    ErrMsg string
  | ErrWrap string gerror string
  | ErrJoin "gerror list"
  | ErrNotExist string
  | ErrCanceled
  | ErrCommand int string string        \<comment> \<open>exit code, stderr, full text\<close>
  | ErrSystemdNotReady string string string   \<comment> \<open>state, detail, full text\<close>
  | ErrToolResolution string string     \<comment> \<open>tool, detail\<close>
  | ErrToolCoverage string string       \<comment> \<open>tool, resolved\<close>
  | ErrBriefWidens string "string list" \<comment> \<open>full text, moxy's violation lines\<close>
  | ErrPendingRun string string string gerror \<comment> \<open>run key, root principal, room, cause\<close>

fun err_text :: "gerror \<Rightarrow> string" where
  "err_text (ErrMsg s) = s"
| "err_text (ErrWrap pre e post) = pre @ err_text e @ post"
| "err_text (ErrJoin es) = join [CHR 0x0A] (map err_text es)"
| "err_text (ErrNotExist s) = s"
| "err_text ErrCanceled = ''context canceled''"
| "err_text (ErrCommand code err full) = full"
| "err_text (ErrSystemdNotReady st d full) = full"
| "err_text (ErrToolResolution tool detail) =
     ''resolving tools entry '' @ quoted tool @ '' to its canonical server.tool name: '' @ detail"
| "err_text (ErrToolCoverage tool resolved) =
     ''tools entry '' @ quoted tool @ '' resolves to '' @ quoted resolved
     @ '', which the brief's own moxyfile allow-tools does not cover''"
| "err_text (ErrBriefWidens full lines) = full"
| "err_text (ErrPendingRun key root room e) =
     err_text e @ '' (run '' @ key @ '' saved as pending; retry with the same --run-key)''"

text \<open>\<open>errors.As\<close>: the first error of the wrapped tree the test accepts.\<close>

fun err_as :: "(gerror \<Rightarrow> 'a option) \<Rightarrow> gerror \<Rightarrow> 'a option" where
  "err_as f (ErrWrap pre e post) =
     (case f (ErrWrap pre e post) of Some x \<Rightarrow> Some x | None \<Rightarrow> err_as f e)"
| "err_as f (ErrJoin es) =
     (case f (ErrJoin es) of Some x \<Rightarrow> Some x
      | None \<Rightarrow> fold (\<lambda>r acc. case acc of Some x \<Rightarrow> Some x | None \<Rightarrow> r) (map (err_as f) es) None)"
| "err_as f (ErrPendingRun key root room e) =
     (case f (ErrPendingRun key root room e) of Some x \<Rightarrow> Some x | None \<Rightarrow> err_as f e)"
| "err_as f e = f e"

definition is_command :: "gerror \<Rightarrow> (int \<times> string) option" where
  "is_command e = (case e of ErrCommand code stderr _ \<Rightarrow> Some (code, stderr) | _ \<Rightarrow> None)"

text \<open>A sequence of checks that stops at the first refusal.\<close>

fun first_error :: "gerror option list \<Rightarrow> gerror option" where
  "first_error [] = None"
| "first_error (c # cs) = (case c of Some e \<Rightarrow> Some e | None \<Rightarrow> first_error cs)"

lemma first_error_None [simp]: "first_error es = None \<longleftrightarrow> (\<forall>e \<in> set es. e = None)"
  by (induction es) (auto split: option.split)

section \<open>Fallible operations on a state\<close>

type_synonym ('s, 'a) op = "'s \<Rightarrow> (gerror + 'a) \<times> 's"

definition attempt_or :: "('s, 'a) op \<Rightarrow> (gerror \<Rightarrow> 's \<Rightarrow> 'b) \<Rightarrow> ('a \<Rightarrow> 's \<Rightarrow> 'b) \<Rightarrow> 's \<Rightarrow> 'b" where
  "attempt_or m h k s = (case m s of (Inl e, s') \<Rightarrow> h e s' | (Inr x, s') \<Rightarrow> k x s')"

definition fail :: "gerror \<Rightarrow> ('s, 'a) op" where
  "fail e s = (Inl e, s)"

definition ret :: "'a \<Rightarrow> ('s, 'a) op" where
  "ret x s = (Inr x, s)"

definition attempt :: "('s, 'a) op \<Rightarrow> ('a \<Rightarrow> ('s, 'b) op) \<Rightarrow> ('s, 'b) op" where
  "attempt m k = attempt_or m fail k"

text \<open>Run an operation for its effect, look at its error value, go on.\<close>

definition observe :: "('s, 'a) op \<Rightarrow> (gerror option \<Rightarrow> 's \<Rightarrow> 'b) \<Rightarrow> 's \<Rightarrow> 'b" where
  "observe m k s = attempt_or m (\<lambda>e. k (Some e)) (\<lambda>_. k None) s"

lemma attempt_or_split:
  "P (attempt_or m h k s) \<longleftrightarrow>
     (\<forall>e s'. m s = (Inl e, s') \<longrightarrow> P (h e s')) \<and> (\<forall>x s'. m s = (Inr x, s') \<longrightarrow> P (k x s'))"
  by (auto simp: attempt_or_def split: prod.splits sum.splits)

lemma attempt_InrE:
  assumes "attempt m k s = (Inr y, s')"
  obtains x s1 where "m s = (Inr x, s1)" and "k x s1 = (Inr y, s')"
  using assms by (auto simp: attempt_def attempt_or_def fail_def split: prod.splits sum.splits)

lemma attempt_cases:
  assumes "attempt m k s = r"
  obtains (err) e s1 where "m s = (Inl e, s1)" and "r = (Inl e, s1)"
    | (ok) x s1 where "m s = (Inr x, s1)" and "r = k x s1"
  using assms by (auto simp: attempt_def attempt_or_def fail_def split: prod.splits sum.splits)

lemma ret_run [simp]: "ret x s = (Inr x, s)"
  by (simp add: ret_def)

lemma fail_run [simp]: "fail e s = (Inl e, s)"
  by (simp add: fail_def)

text \<open>
  \<open>keeps I m\<close>: a property of the state that \<open>m\<close> never breaks, whether it returns a
  value or an error. The rules below follow the shape of the code, so a proof that
  a long handler keeps an invariant is one application of \<open>keeps_intros\<close>.
\<close>

definition keeps :: "('s \<Rightarrow> bool) \<Rightarrow> ('s \<Rightarrow> 'r \<times> 's) \<Rightarrow> bool" where
  "keeps I m \<longleftrightarrow> (\<forall>s. I s \<longrightarrow> I (snd (m s)))"

lemma keepsD: "keeps I m \<Longrightarrow> I s \<Longrightarrow> m s = (r, s') \<Longrightarrow> I s'"
  by (metis keeps_def snd_conv)

lemma keepsI: "(\<And>s r s'. I s \<Longrightarrow> m s = (r, s') \<Longrightarrow> I s') \<Longrightarrow> keeps I m"
  by (metis keeps_def prod.collapse)

lemma keeps_fail [keeps_intros, intro]: "keeps I (fail e)"
  by (simp add: keeps_def)

lemma keeps_ret [keeps_intros, intro]: "keeps I (ret x)"
  by (simp add: keeps_def)

lemma keeps_attempt_or [keeps_intros]:
  assumes "keeps I m" and "\<And>e. keeps I (h e)" and "\<And>x. keeps I (k x)"
  shows "keeps I (attempt_or m h k)"
  using assms by (fastforce simp: keeps_def attempt_or_def split: prod.splits sum.splits)

lemma keeps_attempt [keeps_intros]:
  "keeps I m \<Longrightarrow> (\<And>x. keeps I (k x)) \<Longrightarrow> keeps I (attempt m k)"
  unfolding attempt_def by (intro keeps_attempt_or keeps_fail)

lemma keeps_observe [keeps_intros]:
  assumes "keeps I m" and "\<And>r. keeps I (k r)"
  shows "keeps I (observe m k)"
  using assms by (fastforce simp: keeps_def observe_def attempt_or_def split: prod.splits sum.splits)

lemma keeps_if [keeps_intros]:
  "(b \<Longrightarrow> keeps I m) \<Longrightarrow> (\<not> b \<Longrightarrow> keeps I n) \<Longrightarrow> keeps I (if b then m else n)"
  by simp

lemma keeps_option [keeps_intros]:
  "(x = None \<Longrightarrow> keeps I m) \<Longrightarrow> (\<And>y. x = Some y \<Longrightarrow> keeps I (f y)) \<Longrightarrow> keeps I (case x of None \<Rightarrow> m | Some y \<Rightarrow> f y)"
  by (cases x) auto

lemma keeps_Let [keeps_intros]: "(\<And>x. keeps I (f x)) \<Longrightarrow> keeps I (Let a f)"
  by (simp add: Let_def)

section \<open>Insertion-ordered tables\<close>

text \<open>
  Go code that keeps a map beside a slice of its keys in first-insertion order
  (\<open>latest\<close> and \<open>order\<close>) is one association list here: \<open>alist_put\<close> overwrites
  in place or appends.
\<close>

fun alist_put :: "'k \<Rightarrow> 'v \<Rightarrow> ('k \<times> 'v) list \<Rightarrow> ('k \<times> 'v) list" where
  "alist_put k v [] = [(k, v)]"
| "alist_put k v ((k', v') # xs) = (if k = k' then (k, v) # xs else (k', v') # alist_put k v xs)"

lemma map_of_alist_put [simp]: "map_of (alist_put k v xs) = (map_of xs)(k \<mapsto> v)"
  by (induction xs) (auto simp: fun_eq_iff)

lemma keys_alist_put:
  "map fst (alist_put k v xs) = (if k \<in> set (map fst xs) then map fst xs else map fst xs @ [k])"
proof (induction xs)
  case Nil
  then show ?case by simp
next
  case (Cons p xs)
  then show ?case by (cases p) (simp del: set_map)
qed

lemma fst_set_alist_put [simp]: "fst ` set (alist_put k v xs) = insert k (fst ` set xs)"
proof -
  have "set (map fst (alist_put k v xs)) = insert k (set (map fst xs))"
    by (simp add: keys_alist_put del: set_map) auto
  then show ?thesis by simp
qed

lemma distinct_alist_put [simp]: "distinct (map fst xs) \<Longrightarrow> distinct (map fst (alist_put k v xs))"
  by (auto simp: keys_alist_put)

section \<open>Basic facts\<close>

lemma has_prefix_append [simp]: "has_prefix (p @ s) p"
  by (simp add: has_prefix_def)

lemma trim_prefix_append [simp]: "trim_prefix (p @ s) p = s"
  by (simp add: trim_prefix_def)

lemma str_less_irrefl [simp]: "\<not> str_less a a"
  by (induction a) auto

lemma byte_inject [simp]: "byte a = byte b \<longleftrightarrow> a = b"
  unfolding byte_def by simp

lemma str_less_linear: "str_less a b \<or> a = b \<or> str_less b a"
proof (induction a b rule: str_less.induct)
  case (3 a as b bs)
  have "byte a < byte b \<or> a = b \<or> byte b < byte a"
    using byte_inject by (metis linorder_neqE_nat)
  with 3 show ?case by auto
next
  case (1 a)
  then show ?case by (cases a) auto
qed auto

lemma str_less_trans: "str_less a b \<Longrightarrow> str_less b c \<Longrightarrow> str_less a c"
proof (induction a arbitrary: b c)
  case Nil
  then show ?case by (cases b; cases c) auto
next
  case (Cons x a)
  then show ?case by (cases b; cases c) auto
qed

lemma str_le_refl [simp]: "str_le a a"
  by (simp add: str_le_def)

lemma str_le_total: "str_le a b \<or> str_le b a"
  using str_less_linear by (auto simp: str_le_def)

lemma str_le_trans: "str_le a b \<Longrightarrow> str_le b c \<Longrightarrow> str_le a c"
  using str_less_trans by (auto simp: str_le_def)

lemma set_insert_str [simp]: "set (insert_str x ys) = insert x (set ys)"
  by (induction ys) auto

lemma sorted_insert_str: "sorted_wrt str_le ys \<Longrightarrow> sorted_wrt str_le (insert_str x ys)"
proof (induction ys)
  case Nil
  then show ?case by simp
next
  case (Cons y ys)
  then show ?case using str_le_total str_le_trans by auto
qed

lemma set_sort_strings [simp]: "set (sort_strings xs) = set xs"
  by (induction xs) (auto simp: sort_strings_def)

lemma sorted_sort_strings: "sorted_wrt str_le (sort_strings xs)"
  by (induction xs) (auto simp: sort_strings_def sorted_insert_str)

lemma length_sort_strings [simp]: "length (sort_strings xs) = length xs"
proof -
  have "length (insert_str x ys) = Suc (length ys)" for x ys by (induction ys) auto
  then show ?thesis by (induction xs) (auto simp: sort_strings_def)
qed

lemma distinct_sort_strings [simp]: "distinct (sort_strings xs) \<longleftrightarrow> distinct xs"
  by (metis card_distinct distinct_card length_sort_strings set_sort_strings)

lemma find_SomeD: "find P xs = Some x \<Longrightarrow> x \<in> set xs \<and> P x"
  by (auto simp: find_Some_iff)

lemma cut_found: "c \<notin> set k \<Longrightarrow> cut c (k @ c # v) = (k, v, True)"
  by (induction k) auto

lemma cut_key: "cut c s = (k, v, ok) \<Longrightarrow> c \<notin> set k"
  by (induction s arbitrary: k) (auto split: if_splits prod.splits)

lemma cut_absent: "c \<notin> set s \<Longrightarrow> cut c s = (s, [], False)"
  by (induction s) auto

lemma map_of_puts: "map_of (fold (\<lambda>(k, v). alist_put k v) xs env) k = (case map_of (rev xs) k of Some v \<Rightarrow> Some v | None \<Rightarrow> map_of env k)"
  by (induction xs arbitrary: env) (auto simp: map_add_def split: option.split prod.split)

lemma map_of_filter_key: "map_of (filter (\<lambda>(k, _). P k) xs) k = (if P k then map_of xs k else None)"
  by (induction xs) auto

end
