(* ===== verification/Go_Json.thy ===== *)
theory Go_Json
  imports Go_Base
begin

text \<open>
  Go's \<open>encoding/json\<close> as far as juggler uses it, on byte strings. A
  \<open>json.RawMessage\<close> stays text: \<open>raw_object\<close> and \<open>raw_array\<close> split one level of a
  document into the texts of its parts, which is what unmarshalling into
  \<open>map[string]json.RawMessage\<close>, a struct, or \<open>[]json.RawMessage\<close> does; the
  \<open>un_\<close> functions read one scalar target. \<open>json_value\<close> is the reader, with fuel
  (\<open>json_fuel\<close> of the text, always enough: \<open>json_value_fuel\<close>); \<open>json_quote\<close> is the
  string encoder of \<open>json.Marshal\<close>. Not modelled: the nesting limit of 10000.
\<close>

section \<open>UTF-8\<close>

definition is_cont :: "char \<Rightarrow> bool" where
  "is_cont c \<longleftrightarrow> 128 \<le> byte c \<and> byte c < 192"

definition between :: "nat \<Rightarrow> char \<Rightarrow> nat \<Rightarrow> bool" where
  "between lo c hi \<longleftrightarrow> lo \<le> byte c \<and> byte c \<le> hi"

text \<open>\<open>utf8.DecodeRune\<close>: the width of the encoding at the head of the text, 0 when it is
  invalid (Go then reports the replacement rune and width 1).\<close>

definition second3 :: "char \<Rightarrow> char \<Rightarrow> bool" where
  "second3 a b \<longleftrightarrow> (byte a = 224 \<and> between 160 b 191) \<or> (between 225 a 236 \<and> is_cont b)
     \<or> (byte a = 237 \<and> between 128 b 159) \<or> (between 238 a 239 \<and> is_cont b)"

definition second4 :: "char \<Rightarrow> char \<Rightarrow> bool" where
  "second4 a b \<longleftrightarrow> (byte a = 240 \<and> between 144 b 191) \<or> (between 241 a 243 \<and> is_cont b)
     \<or> (byte a = 244 \<and> between 128 b 143)"

fun rune_width :: "string \<Rightarrow> nat" where
  "rune_width [] = 0"
| "rune_width (a # cs) =
     (if byte a < 128 then 1
      else case cs of [] \<Rightarrow> 0
      | b # ds \<Rightarrow>
        if between 194 a 223 \<and> is_cont b then 2
        else case ds of [] \<Rightarrow> 0
        | c # es \<Rightarrow>
          if second3 a b \<and> is_cont c then 3
          else case es of [] \<Rightarrow> 0
          | d # _ \<Rightarrow> if second4 a b \<and> is_cont c \<and> is_cont d then 4 else 0)"

definition replacement :: string where
  "replacement = [CHR 0xEF, CHR 0xBF, CHR 0xBD]"

text \<open>\<open>utf8.AppendRune\<close> of a code point that is not a surrogate.\<close>

definition encode_rune :: "nat \<Rightarrow> string" where
  "encode_rune r =
     (if r < 128 then [char_of r]
      else if r < 2048 then [char_of (192 + r div 64), char_of (128 + r mod 64)]
      else if r < 65536 then [char_of (224 + r div 4096), char_of (128 + r div 64 mod 64), char_of (128 + r mod 64)]
      else [char_of (240 + r div 262144), char_of (128 + r div 4096 mod 64), char_of (128 + r div 64 mod 64), char_of (128 + r mod 64)])"

section \<open>Reading\<close>

definition is_json_space :: "char \<Rightarrow> bool" where
  "is_json_space c \<longleftrightarrow> c = CHR '' '' \<or> c = CHR 0x09 \<or> c = CHR 0x0A \<or> c = CHR 0x0D"

definition skip_ws :: "string \<Rightarrow> string" where
  "skip_ws s = dropWhile is_json_space s"

definition is_hex :: "char \<Rightarrow> bool" where
  "is_hex c \<longleftrightarrow> is_digit c \<or> between 97 c 102 \<or> between 65 c 70"

definition hex_val :: "char \<Rightarrow> nat" where
  "hex_val c = (if is_digit c then byte c - 48 else if between 97 c 102 then byte c - 87 else byte c - 55)"

definition is_escape :: "char \<Rightarrow> bool" where
  "is_escape e \<longleftrightarrow> e \<in> set [CHR 0x22, CHR 0x5C, CHR ''/'', CHR ''b'', CHR ''f'', CHR ''n'', CHR ''r'', CHR ''t'']"

text \<open>The text of a string literal after its opening quote: the undecoded content and
  what follows the closing quote.\<close>

fun scan_lit :: "string \<Rightarrow> (string \<times> string) option" where
  "scan_lit [] = None"
| "scan_lit (c # cs) =
     (if c = CHR 0x22 then Some ([], cs)
      else if c = CHR 0x5C then
        (case cs of [] \<Rightarrow> None
         | e # ds \<Rightarrow>
           if is_escape e
           then map_option (\<lambda>(t, r). (c # e # t, r)) (scan_lit ds)
           else if e = CHR ''u'' then
             (case ds of h1 # h2 # h3 # h4 # es \<Rightarrow>
                if is_hex h1 \<and> is_hex h2 \<and> is_hex h3 \<and> is_hex h4
                then map_option (\<lambda>(t, r). (c # e # h1 # h2 # h3 # h4 # t, r)) (scan_lit es)
                else None
              | _ \<Rightarrow> None)
           else None)
      else if byte c < 32 then None
      else map_option (\<lambda>(t, r). (c # t, r)) (scan_lit cs))"

definition hex4 :: "string \<Rightarrow> nat option" where
  "hex4 s = (case s of h1 # h2 # h3 # h4 # _ \<Rightarrow>
      if is_hex h1 \<and> is_hex h2 \<and> is_hex h3 \<and> is_hex h4
      then Some (((hex_val h1 * 16 + hex_val h2) * 16 + hex_val h3) * 16 + hex_val h4) else None
    | _ \<Rightarrow> None)"

definition is_surrogate :: "nat \<Rightarrow> bool" where
  "is_surrogate r \<longleftrightarrow> 55296 \<le> r \<and> r < 57344"

text \<open>The rune of an escape whose four digits are at the head of the text, and how many
  bytes after the letter \<open>u\<close> it takes (10 for a surrogate pair).\<close>

definition read_u :: "string \<Rightarrow> string \<times> nat" where
  "read_u s = (case hex4 s of None \<Rightarrow> (replacement, 4)
     | Some r \<Rightarrow>
       if is_surrogate r then
         (case drop 4 s of
            b # u # t \<Rightarrow>
              (case hex4 t of
                 Some r2 \<Rightarrow> if b = CHR 0x5C \<and> u = CHR ''u'' \<and> r < 56320 \<and> 56320 \<le> r2 \<and> r2 < 57344
                   then (encode_rune (65536 + (r - 55296) * 1024 + (r2 - 56320)), 10)
                   else (replacement, 4)
               | None \<Rightarrow> (replacement, 4))
          | _ \<Rightarrow> (replacement, 4))
       else (encode_rune r, 4))"

definition escape_value :: "char \<Rightarrow> char" where
  "escape_value e = (if e = CHR ''b'' then CHR 0x08 else if e = CHR ''f'' then CHR 0x0C
     else if e = CHR ''n'' then CHR 0x0A else if e = CHR ''r'' then CHR 0x0D
     else if e = CHR ''t'' then CHR 0x09 else e)"

text \<open>The Go string of a literal's content: escapes decoded, invalid UTF-8 replaced.\<close>

function unquote :: "string \<Rightarrow> string" where
  "unquote s = (case s of [] \<Rightarrow> []
     | c # cs \<Rightarrow>
       if c = CHR 0x5C then
         (case cs of [] \<Rightarrow> []
          | e # ds \<Rightarrow> if e = CHR ''u'' then (case read_u ds of (t, n) \<Rightarrow> t @ unquote (drop n ds))
                      else escape_value e # unquote ds)
       else if rune_width s = 0 then replacement @ unquote cs
       else take (rune_width s) s @ unquote (drop (rune_width s) s))"
  by pat_completeness auto
termination
  by (relation "measure length") (auto split: if_splits)

declare unquote.simps [simp del]

definition take_digits :: "string \<Rightarrow> string \<times> string" where
  "take_digits s = (takeWhile is_digit s, dropWhile is_digit s)"

text \<open>A number literal: optional minus, integer part, fraction, exponent.\<close>

definition scan_int :: "string \<Rightarrow> (string \<times> string) option" where
  "scan_int s = (case take_digits s of
      ([], _) \<Rightarrow> None
    | (d # ds, r) \<Rightarrow> if d = CHR ''0'' then Some ([d], ds @ r) else Some (d # ds, r))"

definition scan_frac :: "string \<Rightarrow> (string \<times> string) option" where
  "scan_frac s = (case s of
      c # r \<Rightarrow> if c = CHR ''.'' then
                 (case take_digits r of ([], _) \<Rightarrow> None | (ds, r') \<Rightarrow> Some (c # ds, r'))
               else Some ([], s)
    | [] \<Rightarrow> Some ([], s))"

definition scan_exp :: "string \<Rightarrow> (string \<times> string) option" where
  "scan_exp s = (case s of
      c # r \<Rightarrow> if c = CHR ''e'' \<or> c = CHR ''E'' then
                 (case r of
                    g # r' \<Rightarrow> if g = CHR ''+'' \<or> g = CHR ''-''
                       then (case take_digits r' of ([], _) \<Rightarrow> None | (ds, t) \<Rightarrow> Some (c # g # ds, t))
                       else (case take_digits r of ([], _) \<Rightarrow> None | (ds, t) \<Rightarrow> Some (c # ds, t))
                  | [] \<Rightarrow> None)
               else Some ([], s)
    | [] \<Rightarrow> Some ([], s))"

definition scan_number :: "string \<Rightarrow> (string \<times> string) option" where
  "scan_number s =
     (let (m, s1) = (case s of c # r \<Rightarrow> if c = CHR ''-'' then ([c], r) else ([], s) | [] \<Rightarrow> ([], s))
      in case scan_int s1 of None \<Rightarrow> None
         | Some (i, s2) \<Rightarrow> (case scan_frac s2 of None \<Rightarrow> None
           | Some (f, s3) \<Rightarrow> (case scan_exp s3 of None \<Rightarrow> None
             | Some (e, s4) \<Rightarrow> Some (m @ i @ f @ e, s4))))"

datatype json = JNull | JBool bool | JNum string | JStr string | JArr "json list" | JObj "(string \<times> json) list"

definition scan_word :: "string \<Rightarrow> json \<Rightarrow> string \<Rightarrow> (json \<times> string) option" where
  "scan_word w v s = (if has_prefix s w then Some (v, drop (length w) s) else None)"

definition scan_scalar :: "string \<Rightarrow> (json \<times> string) option" where
  "scan_scalar s = (case s of [] \<Rightarrow> None
     | c # cs \<Rightarrow>
       if c = CHR 0x22 then map_option (\<lambda>(t, r). (JStr (unquote t), r)) (scan_lit cs)
       else if c = CHR ''t'' then scan_word ''true'' (JBool True) s
       else if c = CHR ''f'' then scan_word ''false'' (JBool False) s
       else if c = CHR ''n'' then scan_word ''null'' JNull s
       else map_option (\<lambda>(t, r). (JNum t, r)) (scan_number s))"

text \<open>
  The reader. \<open>json_value\<close> expects no leading white space; \<open>json_elems\<close> reads the rest of
  an array after the bracket or a comma, \<open>json_members\<close> the rest of an object.
\<close>

fun json_value :: "nat \<Rightarrow> string \<Rightarrow> (json \<times> string) option"
and json_elems :: "nat \<Rightarrow> string \<Rightarrow> (json list \<times> string) option"
and json_members :: "nat \<Rightarrow> string \<Rightarrow> ((string \<times> json) list \<times> string) option" where
  "json_value 0 s = None"
| "json_value (Suc n) s = (case s of [] \<Rightarrow> None
     | c # cs \<Rightarrow>
       if c = CHR ''['' then
         (case skip_ws cs of
            d # ds \<Rightarrow> if d = CHR '']'' then Some (JArr [], ds)
                      else map_option (\<lambda>(vs, r). (JArr vs, r)) (json_elems n (d # ds))
          | [] \<Rightarrow> None)
       else if c = CHR 0x7B then
         (case skip_ws cs of
            d # ds \<Rightarrow> if d = CHR 0x7D then Some (JObj [], ds)
                      else map_option (\<lambda>(ms, r). (JObj ms, r)) (json_members n (d # ds))
          | [] \<Rightarrow> None)
       else scan_scalar s)"
| "json_elems 0 s = None"
| "json_elems (Suc n) s = (case json_value n (skip_ws s) of None \<Rightarrow> None
     | Some (v, r) \<Rightarrow>
       (case skip_ws r of
          d # ds \<Rightarrow> if d = CHR '']'' then Some ([v], ds)
                    else if d = CHR '','' then map_option (\<lambda>(vs, r'). (v # vs, r')) (json_elems n ds)
                    else None
        | [] \<Rightarrow> None))"
| "json_members 0 s = None"
| "json_members (Suc n) s = (case skip_ws s of [] \<Rightarrow> None
     | q # cs \<Rightarrow> if q \<noteq> CHR 0x22 then None
       else (case scan_lit cs of None \<Rightarrow> None
         | Some (k, r) \<Rightarrow>
           (case skip_ws r of [] \<Rightarrow> None
            | colon # ds \<Rightarrow> if colon \<noteq> CHR '':'' then None
              else (case json_value n (skip_ws ds) of None \<Rightarrow> None
                | Some (v, r2) \<Rightarrow>
                  (case skip_ws r2 of
                     e # es \<Rightarrow> if e = CHR 0x7D then Some ([(unquote k, v)], es)
                               else if e = CHR '','' then map_option (\<lambda>(ms, r'). ((unquote k, v) # ms, r')) (json_members n es)
                               else None
                   | [] \<Rightarrow> None)))))"

definition json_fuel :: "string \<Rightarrow> nat" where
  "json_fuel s = 2 * length s + 2"

text \<open>One complete document, white space around it allowed (\<open>json.Unmarshal\<close>,
  \<open>json.Valid\<close>).\<close>

definition json_parse :: "string \<Rightarrow> json option" where
  "json_parse s = (case json_value (json_fuel s) (skip_ws s) of
      Some (v, r) \<Rightarrow> if skip_ws r = [] then Some v else None
    | None \<Rightarrow> None)"

definition json_valid :: "string \<Rightarrow> bool" where
  "json_valid s \<longleftrightarrow> json_parse s \<noteq> None"

section \<open>One level of a document\<close>

text \<open>The text of the value at the head of \<open>s\<close> and the rest.\<close>

definition raw_value :: "string \<Rightarrow> (string \<times> string) option" where
  "raw_value s = (case json_value (json_fuel s) s of None \<Rightarrow> None
     | Some (_, r) \<Rightarrow> Some (take (length s - length r) s, r))"

fun raw_elems :: "nat \<Rightarrow> string \<Rightarrow> string list option" where
  "raw_elems 0 s = None"
| "raw_elems (Suc n) s = (case raw_value (skip_ws s) of None \<Rightarrow> None
     | Some (t, r) \<Rightarrow>
       (case skip_ws r of
          d # ds \<Rightarrow> if d = CHR '']'' then Some [t]
                    else if d = CHR '','' then map_option (\<lambda>ts. t # ts) (raw_elems n ds) else None
        | [] \<Rightarrow> None))"

fun raw_members :: "nat \<Rightarrow> string \<Rightarrow> (string \<times> string) list option" where
  "raw_members 0 s = None"
| "raw_members (Suc n) s = (case skip_ws s of [] \<Rightarrow> None
     | q # cs \<Rightarrow>
       (case scan_lit cs of None \<Rightarrow> None
        | Some (k, r) \<Rightarrow>
          (case raw_value (skip_ws (tl (skip_ws r))) of None \<Rightarrow> None
           | Some (t, r2) \<Rightarrow>
             (case skip_ws r2 of
                e # es \<Rightarrow> if e = CHR 0x7D then Some [(unquote k, t)]
                          else if e = CHR '','' then map_option (\<lambda>ms. (unquote k, t) # ms) (raw_members n es) else None
              | [] \<Rightarrow> None))))"

text \<open>
  What \<open>json.Unmarshal\<close> does to a target of each shape: \<open>UErr\<close> an error (not JSON, or
  the wrong shape), \<open>UNull\<close> the document \<open>null\<close> (no error, the target keeps its value),
  \<open>UVal\<close> the new value.
\<close>

datatype 'a unm = UErr | UNull | UVal 'a

definition un_object :: "string \<Rightarrow> (string \<times> string) list unm" where
  "un_object s = (case json_parse s of
      Some JNull \<Rightarrow> UNull
    | Some (JObj []) \<Rightarrow> UVal []
    | Some (JObj _) \<Rightarrow>
        (case raw_members (length s) (tl (skip_ws s)) of Some ms \<Rightarrow> UVal ms | None \<Rightarrow> UErr)
    | _ \<Rightarrow> UErr)"

definition un_array :: "string \<Rightarrow> string list unm" where
  "un_array s = (case json_parse s of
      Some JNull \<Rightarrow> UNull
    | Some (JArr []) \<Rightarrow> UVal []
    | Some (JArr _) \<Rightarrow>
        (case raw_elems (length s) (tl (skip_ws s)) of Some ts \<Rightarrow> UVal ts | None \<Rightarrow> UErr)
    | _ \<Rightarrow> UErr)"

definition un_string :: "string \<Rightarrow> string unm" where
  "un_string s = (case json_parse s of
      Some JNull \<Rightarrow> UNull | Some (JStr t) \<Rightarrow> UVal t | _ \<Rightarrow> UErr)"

definition un_bool :: "string \<Rightarrow> bool unm" where
  "un_bool s = (case json_parse s of
      Some JNull \<Rightarrow> UNull | Some (JBool b) \<Rightarrow> UVal b | _ \<Rightarrow> UErr)"

text \<open>A map target: the last of several members with the same key wins.\<close>

definition obj_get :: "(string \<times> string) list \<Rightarrow> string \<Rightarrow> string option" where
  "obj_get ms k = map_of (rev ms) k"

text \<open>
  A struct target: a member sets the field whose name it equals under Unicode case
  folding (\<open>bytes.EqualFold\<close>; U+017F folds to S and U+212A to K), in document order.
\<close>

fun fold_name :: "string \<Rightarrow> string" where
  "fold_name (a # b # c # s) =
     (if a = CHR 0xE2 \<and> b = CHR 0x84 \<and> c = CHR 0xAA then CHR ''K'' # fold_name s
      else if a = CHR 0xC5 \<and> b = CHR 0xBF then CHR ''S'' # fold_name (c # s)
      else upper_char a # fold_name (b # c # s))"
| "fold_name [a, b] = (if a = CHR 0xC5 \<and> b = CHR 0xBF then ''S''
      else [upper_char a, upper_char b])"
| "fold_name [a] = [upper_char a]"
| "fold_name [] = []"

definition field_texts :: "string \<Rightarrow> (string \<times> string) list \<Rightarrow> string list" where
  "field_texts name ms = map snd (filter (\<lambda>(k, _). fold_name k = fold_name name) ms)"

text \<open>
  A decoder turns the text of a value and the target's present value into the target's
  new value, \<open>None\<close> when Unmarshal reports an error for it. \<open>null\<close> leaves a scalar or a
  struct alone, empties a slice or pointer, and is a \<open>RawMessage\<close> like any other text.
  \<open>dec_texts\<close> runs a decoder over all the members that name one field; an Unmarshal
  whose error is ignored (\<open>dec_lax\<close>) passes over the ill-typed ones.
\<close>

type_synonym 'a decoder = "string \<Rightarrow> 'a \<Rightarrow> 'a option"

definition dec_string :: "string decoder" where
  "dec_string t old = (case un_string t of UErr \<Rightarrow> None | UNull \<Rightarrow> Some old | UVal v \<Rightarrow> Some v)"

definition dec_bool :: "bool decoder" where
  "dec_bool t old = (case un_bool t of UErr \<Rightarrow> None | UNull \<Rightarrow> Some old | UVal v \<Rightarrow> Some v)"

definition dec_pstring :: "string option decoder" where
  "dec_pstring t old = (case un_string t of UErr \<Rightarrow> None | UNull \<Rightarrow> Some None | UVal v \<Rightarrow> Some (Some v))"

text \<open>\<open>time.Time\<close> takes \<open>null\<close> or a string it can parse, an \<open>int\<close> a literal without fraction or exponent.\<close>

definition dec_time :: "(string \<Rightarrow> int option) \<Rightarrow> int decoder" where
  "dec_time parse s old = (case un_string s of UErr \<Rightarrow> None | UNull \<Rightarrow> Some old | UVal t \<Rightarrow> parse t)"

definition dec_int :: "int decoder" where
  "dec_int t old = (case json_parse t of Some JNull \<Rightarrow> Some old | Some (JNum n) \<Rightarrow> Atoi n | _ \<Rightarrow> None)"

definition dec_raw :: "string decoder" where
  "dec_raw t old = Some t"

fun map_opt :: "('a \<Rightarrow> 'b option) \<Rightarrow> 'a list \<Rightarrow> 'b list option" where
  "map_opt f [] = Some []"
| "map_opt f (x # xs) = (case f x of None \<Rightarrow> None | Some y \<Rightarrow> map_option (\<lambda>ys. y # ys) (map_opt f xs))"

definition dec_list :: "'a decoder \<Rightarrow> 'a \<Rightarrow> 'a list decoder" where
  "dec_list dec zero t old = (case un_array t of UErr \<Rightarrow> None | UNull \<Rightarrow> Some [] | UVal ts \<Rightarrow> map_opt (\<lambda>u. dec u zero) ts)"

fun dec_texts :: "'a decoder \<Rightarrow> string list \<Rightarrow> 'a \<Rightarrow> 'a option" where
  "dec_texts dec [] v = Some v"
| "dec_texts dec (t # ts) v = (case dec t v of None \<Rightarrow> None | Some w \<Rightarrow> dec_texts dec ts w)"

fun dec_lax :: "'a decoder \<Rightarrow> string list \<Rightarrow> 'a \<Rightarrow> 'a" where
  "dec_lax dec [] v = v"
| "dec_lax dec (t # ts) v = dec_lax dec ts (case dec t v of None \<Rightarrow> v | Some w \<Rightarrow> w)"

definition dec_struct :: "((string \<times> string) list \<Rightarrow> 'a \<Rightarrow> 'a option) \<Rightarrow> 'a decoder" where
  "dec_struct fields t old = (case un_object t of UErr \<Rightarrow> None | UNull \<Rightarrow> Some old | UVal ms \<Rightarrow> fields ms old)"

section \<open>Writing strings\<close>

definition hex_escape :: "nat \<Rightarrow> string" where
  "hex_escape n = [CHR 0x5C, CHR ''u'', hex_digit (n div 4096), hex_digit (n div 256 mod 16), hex_digit (n div 16 mod 16), hex_digit (n mod 16)]"

definition quote_ascii :: "bool \<Rightarrow> char \<Rightarrow> string" where
  "quote_ascii html c =
     (if c = CHR 0x22 \<or> c = CHR 0x5C then [CHR 0x5C, c]
      else if c = CHR 0x08 then [CHR 0x5C, CHR ''b'']
      else if c = CHR 0x0C then [CHR 0x5C, CHR ''f'']
      else if c = CHR 0x0A then [CHR 0x5C, CHR ''n'']
      else if c = CHR 0x0D then [CHR 0x5C, CHR ''r'']
      else if c = CHR 0x09 then [CHR 0x5C, CHR ''t'']
      else if byte c < 32 \<or> (html \<and> (c = CHR ''<'' \<or> c = CHR ''>'' \<or> c = CHR ''&'')) then hex_escape (byte c)
      else [c])"

function quote_body :: "bool \<Rightarrow> string \<Rightarrow> string" where
  "quote_body html s = (case s of [] \<Rightarrow> []
     | c # cs \<Rightarrow>
       if byte c < 128 then quote_ascii html c @ quote_body html cs
       else if rune_width s = 0 then hex_escape 65533 @ quote_body html cs
       else if take 3 s = [CHR 0xE2, CHR 0x80, CHR 0xA8] then hex_escape 8232 @ quote_body html (drop 3 s)
       else if take 3 s = [CHR 0xE2, CHR 0x80, CHR 0xA9] then hex_escape 8233 @ quote_body html (drop 3 s)
       else take (rune_width s) s @ quote_body html (drop (rune_width s) s))"
  by pat_completeness auto
termination
  by (relation "measure (\<lambda>(_, s). length s)") (auto split: if_splits)

declare quote_body.simps [simp del]

text \<open>\<open>json.Marshal\<close> of a string (\<open>html\<close>: the default HTML escaping).\<close>

definition json_quote :: "bool \<Rightarrow> string \<Rightarrow> string" where
  "json_quote html s = CHR 0x22 # quote_body html s @ [CHR 0x22]"

text \<open>\<open>json.Marshal\<close> of a raw message: white space outside strings goes, and the characters
  of HTML are escaped.\<close>

fun json_compact :: "bool \<Rightarrow> string \<Rightarrow> string" where
  "json_compact lit [] = []"
| "json_compact lit (c # cs) =
     (if c = CHR ''<'' \<or> c = CHR ''>'' \<or> c = CHR ''&'' then hex_escape (byte c) @ json_compact lit cs
      else if lit \<and> c = CHR 0x5C then
        (case cs of [] \<Rightarrow> [c] | e # ds \<Rightarrow> c # e # json_compact lit ds)
      else if \<not> lit \<and> is_json_space c then json_compact lit cs
      else if c = CHR 0xE2 \<and> take 2 cs = [CHR 0x80, CHR 0xA8] then hex_escape 8232 @ json_compact lit (drop 2 cs)
      else if c = CHR 0xE2 \<and> take 2 cs = [CHR 0x80, CHR 0xA9] then hex_escape 8233 @ json_compact lit (drop 2 cs)
      else c # json_compact (if c = CHR 0x22 then \<not> lit else lit) cs)"

text \<open>Printing a document with sorted object keys, as \<open>json.Marshal\<close> prints a
  \<open>map[string]any\<close> (numbers keep their text: \<open>UseNumber\<close>).\<close>

definition last_wins :: "(string \<times> 'a) list \<Rightarrow> (string \<times> 'a) list" where
  "last_wins ms = fold (\<lambda>(k, v) acc. alist_put k v acc) ms []"

fun insert_key :: "string \<times> 'a \<Rightarrow> (string \<times> 'a) list \<Rightarrow> (string \<times> 'a) list" where
  "insert_key p [] = [p]"
| "insert_key p (q # qs) = (if str_le (fst p) (fst q) then p # q # qs else q # insert_key p qs)"

definition sort_keys :: "(string \<times> 'a) list \<Rightarrow> (string \<times> 'a) list" where
  "sort_keys ms = foldr insert_key ms []"

fun json_print :: "bool \<Rightarrow> json \<Rightarrow> string" where
  "json_print html JNull = ''null''"
| "json_print html (JBool b) = (if b then ''true'' else ''false'')"
| "json_print html (JNum t) = t"
| "json_print html (JStr s) = json_quote html s"
| "json_print html (JArr vs) = ''['' @ join '','' (map (json_print html) vs) @ '']''"
| "json_print html (JObj ms) =
     [CHR 0x7B] @ join '','' (map (\<lambda>(k, t). json_quote html k @ '':'' @ t)
                 (sort_keys (last_wins (map (\<lambda>(k, v). (k, json_print html v)) ms)))) @ [CHR 0x7D]"

end
