(* ===== verification/Json_Facts.thy ===== *)
theory Json_Facts
  imports Go_Json
begin

text \<open>
  What the JSON model guarantees: a written string is a valid document and, for valid
  UTF-8, reads back as itself (\<open>json_parse_quote_utf8\<close>); the reader consumes text and
  the fuel it is given is enough (\<open>json_read_bound\<close>, \<open>json_value_fuel\<close>).
\<close>

section \<open>Facts about strings\<close>

lemma rune_width_cases:
  assumes "128 \<le> byte a" and "rune_width (a # cs) \<noteq> 0"
  obtains (two) b ds where "cs = b # ds" "rune_width (a # cs) = 2" "128 \<le> byte b"
  | (three) b c ds where "cs = b # c # ds" "rune_width (a # cs) = 3" "128 \<le> byte b" "128 \<le> byte c"
  | (four) b c d ds where "cs = b # c # d # ds" "rune_width (a # cs) = 4" "128 \<le> byte b" "128 \<le> byte c" "128 \<le> byte d"
proof -
  from assms obtain b ds where cs: "cs = b # ds" by (cases cs) auto
  show ?thesis
  proof (cases "between 194 a 223 \<and> is_cont b")
    case True
    with two cs assms show ?thesis by (auto simp: is_cont_def)
  next
    case two_no: False
    with assms cs obtain c es where ds: "ds = c # es" by (cases ds) auto
    show ?thesis
    proof (cases "second3 a b \<and> is_cont c")
      case True
      then have "128 \<le> byte b" "128 \<le> byte c" by (auto simp: second3_def is_cont_def between_def)
      moreover have "rune_width (a # cs) = 3" using True two_no cs ds assms(1) by simp
      ultimately show ?thesis using three cs ds by blast
    next
      case three_no: False
      with two_no assms cs ds obtain d fs where es: "es = d # fs" by (cases es) auto
      have cond: "second4 a b \<and> is_cont c \<and> is_cont d"
        using two_no three_no assms cs ds es by (simp split: if_splits)
      then have "128 \<le> byte b" "128 \<le> byte c" "128 \<le> byte d" by (auto simp: second4_def is_cont_def between_def)
      moreover have "rune_width (a # cs) = 4" using cond two_no three_no cs ds es assms(1) by simp
      ultimately show ?thesis using four cs ds es by blast
    qed
  qed
qed

declare rune_width.simps [simp del]

lemma rune_width_ascii [simp]: "byte c < 128 \<Longrightarrow> rune_width (c # cs) = 1"
  by (simp add: rune_width.simps)

lemma rune_width_bytes:
  assumes "128 \<le> byte a" and "x \<in> set (take (rune_width (a # cs)) (a # cs))"
  shows "128 \<le> byte x"
proof (cases "rune_width (a # cs) = 0")
  case True
  with assms show ?thesis by simp
next
  case False
  from assms(1) False show ?thesis
    by (rule rune_width_cases) (use assms in auto)
qed

lemma scan_lit_plain:
  assumes "\<forall>x \<in> set t. 32 \<le> byte x \<and> x \<noteq> CHR 0x22 \<and> x \<noteq> CHR 0x5C"
  shows "scan_lit (t @ s) = map_option (\<lambda>(u, r). (t @ u, r)) (scan_lit s)"
  using assms
proof (induction t)
  case Nil
  then show ?case by (simp add: case_prod_beta option.map_ident)
next
  case (Cons x t)
  then have "scan_lit ((x # t) @ s) = map_option (\<lambda>(u, r). (x # u, r)) (scan_lit (t @ s))" by simp
  with Cons show ?case by (simp add: option.map_comp comp_def case_prod_beta)
qed

lemma byte_char_of [simp]: "byte (char_of n) = n mod 256"
  by (simp add: byte_def)

lemma byte_special [simp]:
  "byte CHR 0x22 = 34" "byte CHR 0x5C = 92" "byte CHR ''u'' = 117"
  by (simp_all add: byte_def)

lemma scan_lit_high:
  assumes "\<forall>x \<in> set t. 128 \<le> byte x"
  shows "scan_lit (t @ s) = map_option (\<lambda>(u, r). (t @ u, r)) (scan_lit s)"
  using assms by (intro scan_lit_plain) auto

lemma is_hex_digit [simp]: "n < 16 \<Longrightarrow> is_hex (hex_digit n)"
  by (auto simp: is_hex_def hex_digit_def is_digit_def between_def)

lemma hex_val_digit [simp]: "n < 16 \<Longrightarrow> hex_val (hex_digit n) = n"
  by (auto simp: hex_val_def hex_digit_def is_digit_def between_def)

lemma scan_lit_hex_escape:
  "n < 65536 \<Longrightarrow> scan_lit (hex_escape n @ s) = map_option (\<lambda>(u, r). (hex_escape n @ u, r)) (scan_lit s)"
  by (simp add: hex_escape_def case_prod_beta is_escape_def)

lemma scan_lit_quote_ascii:
  assumes "byte c < 128"
  shows "scan_lit (quote_ascii html c @ s) = map_option (\<lambda>(u, r). (quote_ascii html c @ u, r)) (scan_lit s)"
proof -
  have "byte c < 65536" using assms by simp
  then show ?thesis
    by (auto simp: quote_ascii_def scan_lit_hex_escape is_escape_def)
qed

lemma quote_body_Nil [simp]: "quote_body html [] = []"
  by (simp add: quote_body.simps)

lemma quote_body_ascii: "byte c < 128 \<Longrightarrow> quote_body html (c # cs) = quote_ascii html c @ quote_body html cs"
  by (subst quote_body.simps) simp

lemma quote_body_bad:
  "128 \<le> byte c \<Longrightarrow> rune_width (c # cs) = 0 \<Longrightarrow> quote_body html (c # cs) = hex_escape 65533 @ quote_body html cs"
  by (subst quote_body.simps) simp

lemma quote_body_rune:
  assumes "128 \<le> byte c" and "rune_width (c # cs) \<noteq> 0"
  shows "quote_body html (c # cs) =
     (if take 3 (c # cs) = [CHR 0xE2, CHR 0x80, CHR 0xA8] then hex_escape 8232 @ quote_body html (drop 3 (c # cs))
      else if take 3 (c # cs) = [CHR 0xE2, CHR 0x80, CHR 0xA9] then hex_escape 8233 @ quote_body html (drop 3 (c # cs))
      else take (rune_width (c # cs)) (c # cs) @ quote_body html (drop (rune_width (c # cs)) (c # cs)))"
  using assms by (subst quote_body.simps) (simp del: take_Suc_Cons drop_Suc_Cons)

lemma scan_lit_quote_body:
  "scan_lit (quote_body html s @ CHR 0x22 # r) = Some (quote_body html s, r)"
proof (induction s rule: length_induct)
  case (1 s)
  show ?case
  proof (cases s)
    case Nil
    then show ?thesis by simp
  next
    case (Cons c cs)
    have IH: "scan_lit (quote_body html t @ CHR 0x22 # r) = Some (quote_body html t, r)" if "length t < length s" for t
      using 1 that by blast
    show ?thesis
    proof (cases "byte c < 128")
      case True
      then show ?thesis using IH [of cs] Cons by (simp add: quote_body_ascii scan_lit_quote_ascii)
    next
      case False
      then have hi: "128 \<le> byte c" by simp
      show ?thesis
      proof (cases "rune_width (c # cs) = 0")
        case True
        then show ?thesis using IH [of cs] Cons hi by (simp add: quote_body_bad scan_lit_hex_escape)
      next
        case False
        have high: "\<forall>x \<in> set (take (rune_width (c # cs)) (c # cs)). 128 \<le> byte x"
          using rune_width_bytes hi by blast
        have d: "length (drop 3 s) < length s" "length (drop (rune_width (c # cs)) s) < length s"
          using Cons False by auto
        show ?thesis
          unfolding Cons quote_body_rune [OF hi False]
          using IH [OF d(1)] IH [OF d(2)] Cons
          by (simp add: scan_lit_hex_escape scan_lit_high [OF high] del: take_Suc_Cons drop_Suc_Cons)
      qed
    qed
  qed
qed

lemma json_value_quote: "json_value (Suc n) (json_quote html s @ r) = Some (JStr (unquote (quote_body html s)), r)"
  by (simp add: json_quote_def scan_scalar_def scan_lit_quote_body)

lemma skip_ws_quote [simp]: "skip_ws (json_quote html s @ r) = json_quote html s @ r"
  by (simp add: skip_ws_def json_quote_def is_json_space_def)

lemma skip_ws_Nil [simp]: "skip_ws [] = []"
  by (simp add: skip_ws_def)

lemma json_parse_quote: "json_parse (json_quote html s) = Some (JStr (unquote (quote_body html s)))"
  using json_value_quote [of "Suc (2 * length (json_quote html s))" html s "[]"] skip_ws_quote [of html s "[]"]
  by (simp add: json_parse_def json_fuel_def)

lemma json_valid_quote [simp]: "json_valid (json_quote html s)"
  by (simp add: json_valid_def json_parse_quote)

text \<open>Reading a written string gives the string back, when it is valid UTF-8.\<close>

function valid_utf8 :: "string \<Rightarrow> bool" where
  "valid_utf8 s = (if s = [] then True else if rune_width s = 0 then False else valid_utf8 (drop (rune_width s) s))"
  by pat_completeness auto
termination
  by (relation "measure length") auto

declare valid_utf8.simps [simp del]

lemma valid_utf8_Nil [simp]: "valid_utf8 []"
  by (simp add: valid_utf8.simps)

lemma valid_utf8_ascii: "byte c < 128 \<Longrightarrow> valid_utf8 (c # cs) \<longleftrightarrow> valid_utf8 cs"
  by (subst valid_utf8.simps) simp

lemma rune_width_append:
  assumes "128 \<le> byte a" and "rune_width (a # cs) \<noteq> 0"
  shows "rune_width (take (rune_width (a # cs)) (a # cs) @ t) = rune_width (a # cs)"
  using assms
proof (rule rune_width_cases)
  fix b ds
  assume *: "cs = b # ds" "rune_width (a # cs) = 2" "128 \<le> byte b"
  then have "between 194 a 223 \<and> is_cont b"
    by (auto simp: rune_width.simps split: if_splits list.splits)
  with * assms show ?thesis by (auto simp: rune_width.simps)
next
  fix b c ds
  assume *: "cs = b # c # ds" "rune_width (a # cs) = 3" "128 \<le> byte b" "128 \<le> byte c"
  then have "\<not> (between 194 a 223 \<and> is_cont b) \<and> second3 a b \<and> is_cont c"
    by (auto simp: rune_width.simps split: if_splits list.splits)
  with * assms show ?thesis by (auto simp: rune_width.simps numeral_eq_Suc)
next
  fix b c d ds
  assume *: "cs = b # c # d # ds" "rune_width (a # cs) = 4" "128 \<le> byte b" "128 \<le> byte c" "128 \<le> byte d"
  then have "\<not> (between 194 a 223 \<and> is_cont b) \<and> \<not> (second3 a b \<and> is_cont c) \<and> second4 a b \<and> is_cont c \<and> is_cont d"
    by (auto simp: rune_width.simps split: if_splits list.splits)
  with * assms show ?thesis by (auto simp: rune_width.simps numeral_eq_Suc)
qed

lemma unquote_Nil [simp]: "unquote [] = []"
  by (simp add: unquote.simps)

lemma unquote_plain: "byte c < 128 \<Longrightarrow> c \<noteq> CHR 0x5C \<Longrightarrow> unquote (c # cs) = c # unquote cs"
  by (subst unquote.simps) simp

lemma unquote_escape: "e \<noteq> CHR ''u'' \<Longrightarrow> unquote (CHR 0x5C # e # cs) = escape_value e # unquote cs"
  by (subst unquote.simps) simp

lemma hex_digits_value:
  "(((n::nat) div 4096 * 16 + n div 256 mod 16) * 16 + n div 16 mod 16) * 16 + n mod 16 = n"
proof -
  have "n div 4096 = n div 256 div 16" "n div 256 = n div 16 div 16" by (simp_all flip: div_mult2_eq)
  then show ?thesis by (simp add: div_mult_mod_eq)
qed

lemma hex4_escape:
  assumes "n < 65536"
  shows "hex4 (drop 2 (hex_escape n) @ t) = Some n"
proof -
  have "n div 4096 < 16" "n div 256 mod 16 < 16" "n div 16 mod 16 < 16" "n mod 16 < 16" using assms by auto
  then show ?thesis
    using hex_digits_value [of n] by (simp add: hex4_def hex_escape_def)
qed

lemma unquote_hex_escape:
  assumes "n < 65536" and "\<not> is_surrogate n"
  shows "unquote (hex_escape n @ t) = encode_rune n @ unquote t"
proof -
  have "hex_escape n @ t = CHR 0x5C # CHR ''u'' # drop 2 (hex_escape n) @ t"
    by (simp add: hex_escape_def)
  moreover have "read_u (drop 2 (hex_escape n) @ t) = (encode_rune n, 4)"
    using assms by (simp add: read_u_def hex4_escape)
  moreover have "drop 4 (drop 2 (hex_escape n) @ t) = t" by (simp add: hex_escape_def)
  moreover have "unquote (CHR 0x5C # CHR ''u'' # u) = (case read_u u of (v, k) \<Rightarrow> v @ unquote (drop k u))" for u
    by (subst unquote.simps) simp
  ultimately show ?thesis by (metis case_prod_conv)
qed

lemma unquote_rune:
  assumes "128 \<le> byte a" and "rune_width (a # cs) \<noteq> 0"
  shows "unquote (take (rune_width (a # cs)) (a # cs) @ t) = take (rune_width (a # cs)) (a # cs) @ unquote t"
proof -
  let ?w = "rune_width (a # cs)"
  have ne: "take ?w (a # cs) @ t = a # take (?w - Suc 0) cs @ t" using assms(2) by (cases ?w) auto
  have len: "length (take ?w (a # cs)) = ?w" using assms by (rule rune_width_cases) (use assms in simp_all)
  have w: "rune_width (a # take (?w - Suc 0) cs @ t) = ?w" using rune_width_append [OF assms, of t] ne by simp
  have a: "a \<noteq> CHR 0x5C" using assms(1) by auto
  have "unquote (a # take (?w - Suc 0) cs @ t) =
      take ?w (a # take (?w - Suc 0) cs @ t) @ unquote (drop ?w (a # take (?w - Suc 0) cs @ t))"
    using a w assms(2) by (subst unquote.simps) simp
  then have "unquote (take ?w (a # cs) @ t) = take ?w (take ?w (a # cs) @ t) @ unquote (drop ?w (take ?w (a # cs) @ t))"
    by (simp only: ne)
  then show ?thesis using len by (simp del: take_Suc_Cons drop_Suc_Cons)
qed

lemma unquote_quote_ascii:
  assumes "byte c < 128"
  shows "unquote (quote_ascii html c @ t) = c # unquote t"
proof -
  have rune: "encode_rune (byte c) = [c]" using assms by (simp add: encode_rune_def byte_def)
  show ?thesis
    using assms unquote_hex_escape [of "byte c" t]
    by (auto simp: quote_ascii_def unquote_escape escape_value_def unquote_plain is_surrogate_def rune)
qed

lemma unquote_quote_body: "valid_utf8 s \<Longrightarrow> unquote (quote_body html s) = s"
proof (induction s rule: length_induct)
  case (1 s)
  show ?case
  proof (cases s)
    case Nil
    then show ?thesis by simp
  next
    case (Cons c cs)
    have IH: "valid_utf8 t \<Longrightarrow> unquote (quote_body html t) = t" if "length t < length s" for t
      using 1 that by blast
    show ?thesis
    proof (cases "byte c < 128")
      case True
      then show ?thesis using IH [of cs] Cons "1.prems"
        by (simp add: quote_body_ascii unquote_quote_ascii valid_utf8_ascii)
    next
      case False
      then have hi: "128 \<le> byte c" by simp
      have w: "rune_width (c # cs) \<noteq> 0" and v: "valid_utf8 (drop (rune_width (c # cs)) (c # cs))"
        using "1.prems" Cons valid_utf8.simps [of s] by (auto split: if_splits)
      have IHd: "unquote (quote_body html (drop (rune_width (c # cs)) (c # cs))) = drop (rune_width (c # cs)) (c # cs)"
        using IH [of "drop (rune_width (c # cs)) (c # cs)"] v w Cons by simp
      have sep: "rune_width (c # cs) = 3 \<and> encode_rune n = take 3 (c # cs)"
        if h1: "take 3 (c # cs) = [CHR 0xE2, CHR 0x80, x]" and h2: "x = CHR 0xA8 \<and> n = 8232 \<or> x = CHR 0xA9 \<and> n = 8233" for x n
      proof -
        obtain ds where "c # cs = CHR 0xE2 # CHR 0x80 # x # ds"
          using h1 by (cases cs; cases "tl cs") (simp_all add: numeral_eq_Suc)
        then show ?thesis using h2
          by (auto simp: rune_width.simps between_def is_cont_def second3_def byte_def encode_rune_def char_of_eq_iff take_bit_eq_mod)
      qed
      let ?t = "c # cs"
      have split3: "take 3 ?t @ drop 3 ?t = ?t" and splitw: "take (rune_width ?t) ?t @ drop (rune_width ?t) ?t = ?t"
        by (simp_all only: append_take_drop_id)
      consider (ls) "take 3 ?t = [CHR 0xE2, CHR 0x80, CHR 0xA8]" | (ps) "take 3 ?t = [CHR 0xE2, CHR 0x80, CHR 0xA9]"
        | (other) "take 3 ?t \<noteq> [CHR 0xE2, CHR 0x80, CHR 0xA8]" "take 3 ?t \<noteq> [CHR 0xE2, CHR 0x80, CHR 0xA9]" by blast
      then have "unquote (quote_body html ?t) = ?t"
      proof cases
        case ls
        from sep [OF ls, of 8232] have w3: "rune_width ?t = 3" and enc: "encode_rune 8232 = take 3 ?t" by simp_all
        have "unquote (quote_body html ?t) = encode_rune 8232 @ unquote (quote_body html (drop 3 ?t))"
          unfolding quote_body_rune [OF hi w] if_P [OF ls] by (rule unquote_hex_escape) (simp_all add: is_surrogate_def)
        then show ?thesis using IHd w3 enc split3 by simp
      next
        case ps
        then have no: "take 3 ?t \<noteq> [CHR 0xE2, CHR 0x80, CHR 0xA8]" by simp
        from sep [OF ps, of 8233] have w3: "rune_width ?t = 3" and enc: "encode_rune 8233 = take 3 ?t" by simp_all
        have "unquote (quote_body html ?t) = encode_rune 8233 @ unquote (quote_body html (drop 3 ?t))"
          unfolding quote_body_rune [OF hi w] if_not_P [OF no] if_P [OF ps]
          by (rule unquote_hex_escape) (simp_all add: is_surrogate_def)
        then show ?thesis using IHd w3 enc split3 by simp
      next
        case other
        have "unquote (quote_body html ?t) = take (rune_width ?t) ?t @ unquote (quote_body html (drop (rune_width ?t) ?t))"
          unfolding quote_body_rune [OF hi w] if_not_P [OF other(1)] if_not_P [OF other(2)] by (rule unquote_rune [OF hi w])
        then show ?thesis using IHd splitw by argo
      qed
      then show ?thesis using Cons by simp
    qed
  qed
qed

lemma json_parse_quote_utf8 [simp]: "valid_utf8 s \<Longrightarrow> json_parse (json_quote html s) = Some (JStr s)"
  by (simp add: json_parse_quote unquote_quote_body)

section \<open>Decoding\<close>

lemma skip_ws_head [simp]: "\<not> is_json_space c \<Longrightarrow> skip_ws (c # s) = c # s"
  by (simp add: skip_ws_def)

lemma dec_string_quote [simp]: "valid_utf8 v \<Longrightarrow> dec_string (json_quote True v) old = Some v"
  by (simp add: dec_string_def un_string_def)

lemma dec_time_quote [simp]: "valid_utf8 v \<Longrightarrow> dec_time parse (json_quote True v) old = parse v"
  by (simp add: dec_time_def un_string_def)

lemmas name_eval = fold_name.simps upper_char_code is_lower_code

section \<open>Fuel\<close>

lemma scan_lit_length: "scan_lit s = Some (t, r) \<Longrightarrow> length r < length s"
proof (induction s arbitrary: t r rule: scan_lit.induct)
  case (2 c cs)
  consider "c = CHR 0x22" | "c = CHR 0x5C" | "c \<noteq> CHR 0x22" "c \<noteq> CHR 0x5C" by blast
  then show ?case
  proof cases
    case 2
    then obtain e ds where cs: "cs = e # ds" using "2.prems" by (cases cs) auto
    show ?thesis
    proof (cases "is_escape e")
      case True
      then obtain t' where "scan_lit ds = Some (t', r)" using "2.prems" 2 cs by auto
      then show ?thesis using "2.IH"(1) 2 cs True by fastforce
    next
      case False
      then obtain h1 h2 h3 h4 es t' where ds: "ds = h1 # h2 # h3 # h4 # es" "is_hex h1 \<and> is_hex h2 \<and> is_hex h3 \<and> is_hex h4" "e = CHR ''u''"
          and "scan_lit es = Some (t', r)"
        using "2.prems" 2 cs by (auto split: if_splits list.splits)
      then show ?thesis using "2.IH"(2) 2 cs False by fastforce
    qed
  next
    case 1
    then show ?thesis using "2.prems" by simp
  next
    case 3
    then obtain t' where "scan_lit cs = Some (t', r)" using "2.prems" by (auto split: if_splits)
    then show ?thesis using "2.IH"(3) 3 "2.prems" by (fastforce split: if_splits)
  qed
qed simp

lemma skip_ws_le: "length (skip_ws s) \<le> length s"
  by (simp add: skip_ws_def length_dropWhile_le)

lemma take_digits_length: "take_digits s = (d, r) \<Longrightarrow> length s = length d + length r"
  unfolding take_digits_def by (metis length_append prod.inject takeWhile_dropWhile_id)

lemma scan_int_length: "scan_int s = Some (t, r) \<Longrightarrow> length r < length s"
  by (auto simp: scan_int_def split: prod.splits list.splits if_splits dest!: take_digits_length)

lemma scan_frac_length: "scan_frac s = Some (t, r) \<Longrightarrow> length r \<le> length s"
  by (auto simp: scan_frac_def split: prod.splits list.splits if_splits dest!: take_digits_length)

lemma scan_exp_length: "scan_exp s = Some (t, r) \<Longrightarrow> length r \<le> length s"
  by (auto simp: scan_exp_def split: prod.splits list.splits if_splits dest!: take_digits_length)

lemma scan_number_length: "scan_number s = Some (t, r) \<Longrightarrow> length r < length s"
  by (fastforce simp: scan_number_def Let_def split: prod.splits list.splits if_splits option.splits
      dest!: scan_int_length scan_frac_length scan_exp_length)

lemma scan_scalar_length: "scan_scalar s = Some (v, r) \<Longrightarrow> length r < length s"
  by (auto simp: scan_scalar_def scan_word_def split: list.splits if_splits
      dest!: scan_number_length scan_lit_length)

text \<open>A successful read consumes text, and twice the text it consumed is fuel enough.\<close>

lemma json_read_bound:
  "json_value n s = Some (v, r) \<Longrightarrow> length r < length s \<and> (\<forall>m \<ge> 2 * (length s - length r). json_value m s = Some (v, r))"
  "json_elems n s = Some (vs, r) \<Longrightarrow> length r < length s \<and> (\<forall>m \<ge> 2 * (length s - length r). json_elems m s = Some (vs, r))"
  "json_members n s = Some (ms, r) \<Longrightarrow> length r < length s \<and> (\<forall>m \<ge> 2 * (length s - length r). json_members m s = Some (ms, r))"
proof (induction n s and n s and n s arbitrary: v r and vs r and ms r rule: json_value_json_elems_json_members.induct)
  case (2 n s)
  from "2.prems" obtain c cs where s: "s = c # cs" by (cases s) auto
  show ?case
  proof (cases "c = CHR ''[''")
    case arr: True
    with "2.prems" s obtain d ds where ds: "skip_ws cs = d # ds" by (auto split: list.splits)
    have le: "length ds < length cs" using skip_ws_le [of cs] ds by simp
    show ?thesis
    proof (cases "d = CHR '']''")
      case True
      show ?thesis
      proof (intro conjI allI impI)
        show "length r < length s" using "2.prems" s arr ds True le by simp
        fix m assume "2 * (length s - length r) \<le> m"
        then obtain k where "m = Suc k" using "2.prems" s arr ds True le by (cases m) auto
        then show "json_value m s = Some (v, r)" using "2.prems" s arr ds True by simp
      qed
    next
      case False
      then obtain vs where vs: "json_elems n (d # ds) = Some (vs, r)" "v = JArr vs"
        using "2.prems" s arr ds by auto
      then have IH: "length r < length (d # ds)" "\<forall>m \<ge> 2 * (length (d # ds) - length r). json_elems m (d # ds) = Some (vs, r)"
        using "2.IH"(1) [OF s arr ds False vs(1)] by simp_all
      show ?thesis
      proof (intro conjI allI impI)
        show "length r < length s" using IH(1) le s by simp
        fix m assume "2 * (length s - length r) \<le> m"
        then obtain k where "m = Suc k" "2 * (length (d # ds) - length r) \<le> k"
          using IH(1) le s by (cases m) auto
        then show "json_value m s = Some (v, r)" using IH(2) s arr ds False vs by simp
      qed
    qed
  next
    case not_arr: False
    show ?thesis
    proof (cases "c = CHR 0x7B")
      case obj: True
      with "2.prems" s obtain d ds where ds: "skip_ws cs = d # ds" by (auto split: list.splits)
      have le: "length ds < length cs" using skip_ws_le [of cs] ds by simp
      show ?thesis
      proof (cases "d = CHR 0x7D")
        case True
        show ?thesis
        proof (intro conjI allI impI)
          show "length r < length s" using "2.prems" s obj ds True le by simp
          fix m assume "2 * (length s - length r) \<le> m"
          then obtain k where "m = Suc k" using "2.prems" s obj ds True le by (cases m) auto
          then show "json_value m s = Some (v, r)" using "2.prems" s obj ds True by simp
        qed
      next
        case False
        then obtain ms where ms: "json_members n (d # ds) = Some (ms, r)" "v = JObj ms"
          using "2.prems" s obj ds by auto
        then have IH: "length r < length (d # ds)" "\<forall>m \<ge> 2 * (length (d # ds) - length r). json_members m (d # ds) = Some (ms, r)"
          using "2.IH"(2) [OF s not_arr obj ds False ms(1)] by simp_all
        show ?thesis
        proof (intro conjI allI impI)
          show "length r < length s" using IH(1) le s by simp
          fix m assume "2 * (length s - length r) \<le> m"
          then obtain k where "m = Suc k" "2 * (length (d # ds) - length r) \<le> k"
            using IH(1) le s by (cases m) auto
          then show "json_value m s = Some (v, r)" using IH(2) s obj ds False ms by simp
        qed
      qed
    next
      case False
      then have sc: "scan_scalar s = Some (v, r)" using "2.prems" s not_arr by simp
      show ?thesis
      proof (intro conjI allI impI)
        show "length r < length s" using sc by (rule scan_scalar_length)
        then show "json_value m s = Some (v, r)" if "2 * (length s - length r) \<le> m" for m
          using that sc s not_arr False by (cases m) auto
      qed
    qed
  qed
next
  case (4 n s)
  from "4.prems" obtain v r1 d ds where v: "json_value n (skip_ws s) = Some (v, r1)" and ds: "skip_ws r1 = d # ds"
    by (auto split: option.splits list.splits)
  then have IHv: "length r1 < length (skip_ws s)" "\<forall>m \<ge> 2 * (length (skip_ws s) - length r1). json_value m (skip_ws s) = Some (v, r1)"
    using "4.IH"(1) [OF v] by simp_all
  have le: "length ds < length r1" "length (skip_ws s) \<le> length s" using skip_ws_le [of r1] skip_ws_le [of s] ds by auto
  show ?case
  proof (cases "d = CHR '']''")
    case True
    then have "r = ds" "vs = [v]" using "4.prems" v ds by auto
    show ?thesis
    proof (intro conjI allI impI)
      show "length r < length s" using IHv(1) le \<open>r = ds\<close> by simp
      fix m assume "2 * (length s - length r) \<le> m"
      then obtain k where "m = Suc k" "2 * (length (skip_ws s) - length r1) \<le> k"
        using IHv(1) le \<open>r = ds\<close> by (cases m) auto
      then show "json_elems m s = Some (vs, r)" using IHv(2) ds True \<open>r = ds\<close> \<open>vs = [v]\<close> by simp
    qed
  next
    case False
    then obtain vs' where vs': "json_elems n ds = Some (vs', r)" "vs = v # vs'" "d = CHR '',''"
      using "4.prems" v ds by (auto split: if_splits)
    then have IH: "length r < length ds" "\<forall>m \<ge> 2 * (length ds - length r). json_elems m ds = Some (vs', r)"
      using "4.IH"(2) [OF v refl ds False vs'(3) vs'(1)] by simp_all
    show ?thesis
    proof (intro conjI allI impI)
      show "length r < length s" using IHv(1) IH(1) le by simp
      fix m assume "2 * (length s - length r) \<le> m"
      then obtain k where "m = Suc k" "2 * (length (skip_ws s) - length r1) \<le> k" "2 * (length ds - length r) \<le> k"
        using IHv(1) IH(1) le by (cases m) auto
      then show "json_elems m s = Some (vs, r)" using IHv(2) IH(2) ds False vs' by simp
    qed
  qed
next
  case (6 n s)
  from "6.prems" obtain q cs where q: "skip_ws s = q # cs" by (auto split: list.splits)
  with "6.prems" obtain k r1 where k: "scan_lit cs = Some (k, r1)" "q = CHR 0x22" by (auto split: if_splits option.splits)
  with "6.prems" q obtain ds where col: "skip_ws r1 = CHR '':'' # ds" by (auto split: list.splits if_splits)
  with "6.prems" q k obtain v r2 where v: "json_value n (skip_ws ds) = Some (v, r2)" by (auto split: option.splits)
  with "6.prems" q k col obtain e es where es: "skip_ws r2 = e # es" by (auto split: list.splits)
  have IHv: "length r2 < length (skip_ws ds)" "\<forall>m \<ge> 2 * (length (skip_ws ds) - length r2). json_value m (skip_ws ds) = Some (v, r2)"
    using "6.IH"(1) [OF q _ k(1) refl col _ v] k(2) by simp_all
  have le: "length cs < length s" "length r1 < length cs" "length ds < length r1" "length (skip_ws ds) \<le> length ds" "length es < length r2"
    using skip_ws_le [of s] skip_ws_le [of r1] skip_ws_le [of r2] skip_ws_le [of ds] q k col es scan_lit_length by auto
  show ?case
  proof (cases "e = CHR 0x7D")
    case True
    then have r: "r = es" "ms = [(unquote k, v)]" using "6.prems" q k col v es by auto
    show ?thesis
    proof (intro conjI allI impI)
      show "length r < length s" using IHv(1) le r by simp
      fix m assume "2 * (length s - length r) \<le> m"
      then obtain j where "m = Suc j" "2 * (length (skip_ws ds) - length r2) \<le> j"
        using IHv(1) le r by (cases m) auto
      then show "json_members m s = Some (ms, r)" using IHv(2) q k col es True r by simp
    qed
  next
    case False
    then obtain ms' where ms': "json_members n es = Some (ms', r)" "ms = (unquote k, v) # ms'" "e = CHR '',''"
      using "6.prems" q k col v es by (auto split: if_splits)
    then have IH: "length r < length es" "\<forall>m \<ge> 2 * (length es - length r). json_members m es = Some (ms', r)"
      using "6.IH"(2) [OF q _ k(1) refl col _ v refl es False ms'(3) ms'(1)] k(2) by simp_all
    show ?thesis
    proof (intro conjI allI impI)
      show "length r < length s" using IHv(1) IH(1) le by simp
      fix m assume "2 * (length s - length r) \<le> m"
      then obtain j where "m = Suc j" "2 * (length (skip_ws ds) - length r2) \<le> j" "2 * (length es - length r) \<le> j"
        using IHv(1) IH(1) le by (cases m) auto
      then show "json_members m s = Some (ms, r)" using IHv(2) IH(2) q k col es False ms' by simp
    qed
  qed
qed simp_all

lemma json_value_fuel:
  assumes "json_value n s = Some (v, r)"
  shows "json_value (json_fuel s) s = Some (v, r)"
proof -
  have "2 * (length s - length r) \<le> json_fuel s" by (simp add: json_fuel_def)
  with json_read_bound(1) [OF assms] show ?thesis by blast
qed

end
