(* ===== verification/Loop_Types.thy ===== *)
theory Loop_Types
  imports Json_Facts
begin

text \<open>
  The data of the tool-use loop (package \<open>internal/alfa/jugglerloop\<close>): turns and the
  transcript (\<open>turn.go\<close>), the ledger (\<open>ledger.go\<close>), tool specifications and the
  provider-neutral request and reply (\<open>codec.go\<close>), traffic records (\<open>traffic.go\<close>), the
  canonical JSON of arguments (\<open>canonical.go\<close>), and the URI extraction rule. A time is
  an integer (nanoseconds since the epoch).
\<close>

section \<open>Turns\<close>

text \<open>Go's \<open>EndReason\<close> is a string; \<open>EndOther\<close> is any other string, the empty one included.\<close>

datatype end_reason =
    EndTurn | EndStepCap | EndTimeout | EndToolError | EndCannotComplete
  | EndModelError | EndMaxTokens | EndEvaluatorPass | EndOther string

fun end_reason_str :: "end_reason \<Rightarrow> string" where
  "end_reason_str EndTurn = ''end_turn''"
| "end_reason_str EndStepCap = ''step_cap''"
| "end_reason_str EndTimeout = ''timeout''"
| "end_reason_str EndToolError = ''tool_error''"
| "end_reason_str EndCannotComplete = ''cannot_complete''"
| "end_reason_str EndModelError = ''model_error''"
| "end_reason_str EndMaxTokens = ''max_tokens''"
| "end_reason_str EndEvaluatorPass = ''evaluator_pass''"
| "end_reason_str (EndOther s) = s"

record tool_call =
  tc_name :: string
  tc_args :: string
  tc_call_id :: string

record tool_result =
  tr_call_id :: string
  tr_ok :: bool
  tr_content :: string
  tr_error :: string

text \<open>\<open>Body\<close> is a tagged union in Go; here the tag is the constructor.\<close>

datatype body =
    TextBody string
  | ToolCallBody tool_call
  | ToolResultBody tool_result
  | TerminalBody end_reason

record turn =
  t_id :: string
  t_sender :: string
  t_parent :: string
  t_signature :: string
  t_at :: int
  t_body :: body

definition is_tool_call :: "turn \<Rightarrow> bool" where
  "is_tool_call t \<longleftrightarrow> (case t_body t of ToolCallBody _ \<Rightarrow> True | _ \<Rightarrow> False)"

section \<open>The ledger\<close>

record ledger_call =
  lc_tool :: string
  lc_kind :: "string option"
  lc_ok :: bool
  lc_uris :: "string list"
  lc_error :: string
  lc_args_digest :: string

record ledger =
  l_schema :: int
  l_calls :: "ledger_call list"
  l_end :: end_reason
  l_cannot_complete :: "string option"
  l_steps :: int
  l_elapsed_ms :: int
  l_notes :: "string list"

definition newLedger :: ledger where
  "newLedger = \<lparr>l_schema = 1, l_calls = [], l_end = EndOther [], l_cannot_complete = None,
     l_steps = 0, l_elapsed_ms = 0, l_notes = []\<rparr>"

definition readOnlyKinds :: "string list" where
  "readOnlyKinds = [''list'', ''search'', ''read'', ''get'', ''query'']"

definition KindProducesArtifacts :: "string \<Rightarrow> bool" where
  "KindProducesArtifacts kind \<longleftrightarrow> kind \<notin> set readOnlyKinds"

text \<open>A string field that is present, is a JSON string or null, and is not empty.\<close>

definition uri_field :: "(string \<times> string) list \<Rightarrow> string \<Rightarrow> string list" where
  "uri_field obj key = (case obj_get obj key of None \<Rightarrow> []
     | Some raw \<Rightarrow> (case un_string raw of UVal s \<Rightarrow> if s \<noteq> [] then [s] else [] | _ \<Rightarrow> []))"

definition uri_array :: "(string \<times> string) list \<Rightarrow> string \<Rightarrow> string list" where
  "uri_array obj key = (case obj_get obj key of None \<Rightarrow> []
     | Some raw \<Rightarrow> (case un_array raw of
         UVal items \<Rightarrow> concat (map (\<lambda>item. case un_string item of UVal s \<Rightarrow> if s \<noteq> [] then [s] else [] | _ \<Rightarrow> []) items)
       | _ \<Rightarrow> []))"

definition ExtractURIsFromTopLevelFields :: "string \<Rightarrow> string \<Rightarrow> string list" where
  "ExtractURIsFromTopLevelFields tool content = (case un_object content of
      UErr \<Rightarrow> []
    | UNull \<Rightarrow> []
    | UVal obj \<Rightarrow> uri_field obj ''uri'' @ uri_field obj ''url'' @ uri_array obj ''uris'' @ uri_array obj ''urls'')"

section \<open>Requests and replies\<close>

record tool_spec =
  ts_name :: string
  ts_description :: string
  ts_input_schema :: string
  ts_kind :: string

text \<open>The provider's stop reason, normalised; an unknown one is kept.\<close>

datatype stop_reason = StopEndTurn | StopToolUse | StopMaxTokens | StopOther string

record model_request =
  mr_system :: string
  mr_agent :: string
  mr_turns :: "turn list"
  mr_tools :: "tool_spec list"
  mr_max_tokens :: int

text \<open>A reply's turns carry only a body.\<close>

record model_reply =
  rp_bodies :: "body list"
  rp_stop :: stop_reason

section \<open>Resolved models\<close>

text \<open>\<open>juggler.ResolveModelResult\<close> (\<open>internal/0/juggler/rpc.go\<close>).\<close>

record resolved_model =
  rm_kind :: string
  rm_url :: string
  rm_token :: string
  rm_style :: string
  rm_model_id :: string

definition UpstreamModel :: "resolved_model \<Rightarrow> string \<Rightarrow> string" where
  "UpstreamModel r registryName = (if rm_model_id r \<noteq> [] then rm_model_id r else registryName)"

section \<open>Traffic records and argument digests\<close>

record traffic_record =
  tf_step :: int
  tf_job :: string
  tf_tool :: string
  tf_args :: string
  tf_args_digest :: string
  tf_result_size :: int
  tf_ok :: bool
  tf_ts :: int

text \<open>
  \<open>CanonicalJSON\<close> decodes the first JSON value of the text and prints it with sorted
  keys, number texts kept and no HTML escaping; text after that value is ignored.
  \<open>ArgsDigest\<close> hashes it, or the raw bytes when there is no value to decode. SHA-256 in
  hex is the parameter \<open>sha\<close>.
\<close>

definition CanonicalJSON :: "string \<Rightarrow> string option" where
  "CanonicalJSON doc = (case json_value (json_fuel doc) (skip_ws doc) of
      Some (v, _) \<Rightarrow> Some (json_print False v)
    | None \<Rightarrow> None)"

definition ArgsDigest :: "(string \<Rightarrow> string) \<Rightarrow> string \<Rightarrow> string" where
  "ArgsDigest sha args = sha (case CanonicalJSON args of Some payload \<Rightarrow> payload | None \<Rightarrow> args)"

section \<open>Facts\<close>

text \<open>Projections of a transcript that the loop's invariants speak about.\<close>

fun call_of :: "body \<Rightarrow> tool_call list" where
  "call_of (ToolCallBody c) = [c]"
| "call_of _ = []"

fun result_of :: "body \<Rightarrow> tool_result list" where
  "result_of (ToolResultBody r) = [r]"
| "result_of _ = []"

definition calls_of :: "turn list \<Rightarrow> tool_call list" where
  "calls_of ts = concat (map (\<lambda>t. call_of (t_body t)) ts)"

definition results_of :: "turn list \<Rightarrow> tool_result list" where
  "results_of ts = concat (map (\<lambda>t. result_of (t_body t)) ts)"

lemma calls_of_simps [simp]:
  "calls_of [] = []"
  "calls_of (t # ts) = call_of (t_body t) @ calls_of ts"
  "calls_of (ts @ us) = calls_of ts @ calls_of us"
  by (simp_all add: calls_of_def)

lemma results_of_simps [simp]:
  "results_of [] = []"
  "results_of (t # ts) = result_of (t_body t) @ results_of ts"
  "results_of (ts @ us) = results_of ts @ results_of us"
  by (simp_all add: results_of_def)

lemma uris_nonempty:
  "u \<in> set (ExtractURIsFromTopLevelFields tool content) \<Longrightarrow> u \<noteq> []"
  by (auto simp: ExtractURIsFromTopLevelFields_def uri_field_def uri_array_def
      split: unm.splits option.splits if_splits)

end
