(* ===== verification/Loop_Codec.thy ===== *)
theory Loop_Codec
  imports Loop_Types
begin

text \<open>
  The two provider codecs (\<open>codec.go\<close>, \<open>openaicompat.go\<close>, \<open>anthropic.go\<close>): how a
  transcript becomes a wire request and a wire response becomes a reply. Both are
  interpretations of \<open>wire_codec\<close>, the contract the loop relies on: every tool call and
  every tool result of the transcript is on the wire, once and in order.
\<close>

section \<open>Common parts\<close>

datatype wire_role = RoleSkip | RoleUser | RoleAssistant | RoleToolResult

definition classifyTurn :: "turn \<Rightarrow> string \<Rightarrow> wire_role" where
  "classifyTurn t agent = (case t_body t of
      ToolResultBody _ \<Rightarrow> RoleToolResult
    | ToolCallBody _ \<Rightarrow> RoleAssistant
    | TextBody _ \<Rightarrow> if t_sender t = agent then RoleAssistant else RoleUser
    | TerminalBody _ \<Rightarrow> RoleSkip)"

definition toolResultText :: "tool_result \<Rightarrow> string" where
  "toolResultText r =
     (if tr_content r = [] then tr_error r
      else case un_string (tr_content r) of
             UVal s \<Rightarrow> s
           | UNull \<Rightarrow> []
           | UErr \<Rightarrow> tr_content r)"

definition schemaOrEmptyObject :: "string \<Rightarrow> string" where
  "schemaOrEmptyObject s = (if trim_space s = []
     then [CHR 0x7B, CHR 0x22] @ ''type'' @ [CHR 0x22, CHR '':'', CHR 0x22] @ ''object'' @ [CHR 0x22, CHR 0x7D] else s)"

definition argsOrEmptyObject :: "string \<Rightarrow> string" where
  "argsOrEmptyObject a = (if trim_space a = [] then [CHR 0x7B, CHR 0x7D] else a)"

datatype codec = AnthropicCodec | OpenAICompatCodec

definition ModelKindLocal :: string where "ModelKindLocal = ''local''"
definition ModelKindRemote :: string where "ModelKindRemote = ''remote''"
definition StyleAnthropic :: string where "StyleAnthropic = ''anthropic''"
definition StyleOpenAICompat :: string where "StyleOpenAICompat = ''openai-compat''"

definition CodecFor :: "resolved_model \<Rightarrow> gerror + codec" where
  "CodecFor resolved =
     (if rm_kind resolved = ModelKindLocal \<or> rm_style resolved = StyleAnthropic then Inr AnthropicCodec
      else if rm_style resolved = StyleOpenAICompat then Inr OpenAICompatCodec
      else Inl (ErrMsg (''style '' @ quoted (rm_style resolved) @ '' has no loop codec'')))"

section \<open>OpenAI-compatible chat completions\<close>

record openai_tool_call =
  oc_id :: string
  oc_type :: string
  oc_name :: string
  oc_arguments :: string

record openai_message =
  om_role :: string
  om_content :: "string option"
  om_tool_calls :: "openai_tool_call list"
  om_tool_call_id :: string

record openai_tool =
  ot_type :: string
  ot_name :: string
  ot_description :: string
  ot_parameters :: string

record openai_request =
  or_model :: string
  or_max_tokens :: int
  or_messages :: "openai_message list"
  or_tools :: "openai_tool list"

definition openai_msg :: "string \<Rightarrow> string option \<Rightarrow> openai_message" where
  "openai_msg role content = \<lparr>om_role = role, om_content = content, om_tool_calls = [], om_tool_call_id = []\<rparr>"

definition update_last :: "('a \<Rightarrow> 'a) \<Rightarrow> 'a list \<Rightarrow> 'a list" where
  "update_last f xs = butlast xs @ [f (last xs)]"

definition body_text :: "body \<Rightarrow> string" where
  "body_text b = (case b of TextBody s \<Rightarrow> s | _ \<Rightarrow> [])"

text \<open>What one agent turn adds to the open assistant message.\<close>

definition add_agent_turn :: "turn \<Rightarrow> openai_message \<Rightarrow> openai_message" where
  "add_agent_turn t m = (case t_body t of
      ToolCallBody c \<Rightarrow> m\<lparr>om_tool_calls := om_tool_calls m @
         [\<lparr>oc_id = tc_call_id c, oc_type = ''function'', oc_name = tc_name c, oc_arguments = argsOrEmptyObject (tc_args c)\<rparr>]\<rparr>
    | b \<Rightarrow> m\<lparr>om_content := Some (case om_content m of Some s \<Rightarrow> s @ body_text b | None \<Rightarrow> body_text b)\<rparr>)"

text \<open>One round of the loop over the turns: the messages so far and \<open>lastIsAssistant\<close>.\<close>

definition openai_turn :: "string \<Rightarrow> turn \<Rightarrow> openai_message list \<times> bool \<Rightarrow> openai_message list \<times> bool" where
  "openai_turn agent t st = (case st of (msgs, lastIsAssistant) \<Rightarrow>
     (case classifyTurn t agent of
        RoleUser \<Rightarrow> (msgs @ [openai_msg ''user'' (Some (body_text (t_body t)))], False)
      | RoleAssistant \<Rightarrow>
          (let msgs1 = (if lastIsAssistant then msgs else msgs @ [openai_msg ''assistant'' None])
           in (update_last (add_agent_turn t) msgs1, True))
      | RoleToolResult \<Rightarrow> (case t_body t of
            ToolResultBody r \<Rightarrow>
              (msgs @ [(openai_msg ''tool'' (Some (toolResultText r)))\<lparr>om_tool_call_id := tr_call_id r\<rparr>], False)
          | _ \<Rightarrow> (msgs, lastIsAssistant))
      | RoleSkip \<Rightarrow> (msgs, lastIsAssistant)))"

definition encodeOpenAIMessages :: "string \<Rightarrow> string \<Rightarrow> turn list \<Rightarrow> openai_message list" where
  "encodeOpenAIMessages system agent turns =
     fst (fold (openai_turn agent) turns
            (if system \<noteq> [] then [openai_msg ''system'' (Some system)] else [], False))"

definition OpenAI_EncodeRequest :: "resolved_model \<Rightarrow> string \<Rightarrow> model_request \<Rightarrow> openai_request" where
  "OpenAI_EncodeRequest resolved model req =
     \<lparr>or_model = UpstreamModel resolved model,
      or_max_tokens = mr_max_tokens req,
      or_messages = encodeOpenAIMessages (mr_system req) (mr_agent req) (mr_turns req),
      or_tools = map (\<lambda>t. \<lparr>ot_type = ''function'', ot_name = ts_name t, ot_description = ts_description t,
                            ot_parameters = schemaOrEmptyObject (ts_input_schema t)\<rparr>) (mr_tools req)\<rparr>"

text \<open>Arguments that are not JSON are kept as a JSON string.\<close>

definition decodeOpenAIArguments :: "string \<Rightarrow> string" where
  "decodeOpenAIArguments arguments =
     (if trim_space arguments = [] then [CHR 0x7B, CHR 0x7D]
      else if json_valid arguments then arguments
      else json_quote True arguments)"

text \<open>The response structs and their decoders.\<close>

definition dec_openai_call :: "openai_tool_call decoder" where
  "dec_openai_call = dec_struct (\<lambda>ms old.
     case dec_texts dec_string (field_texts ''id'' ms) (oc_id old) of None \<Rightarrow> None | Some i \<Rightarrow>
     case dec_texts dec_string (field_texts ''type'' ms) (oc_type old) of None \<Rightarrow> None | Some ty \<Rightarrow>
     dec_texts (dec_struct (\<lambda>fs c.
        case dec_texts dec_string (field_texts ''name'' fs) (oc_name c) of None \<Rightarrow> None | Some nm \<Rightarrow>
        case dec_texts dec_string (field_texts ''arguments'' fs) (oc_arguments c) of None \<Rightarrow> None | Some as \<Rightarrow>
        Some (c\<lparr>oc_name := nm, oc_arguments := as\<rparr>)))
       (field_texts ''function'' ms) (old\<lparr>oc_id := i, oc_type := ty\<rparr>))"

definition zero_openai_call :: openai_tool_call where
  "zero_openai_call = \<lparr>oc_id = [], oc_type = [], oc_name = [], oc_arguments = []\<rparr>"

definition dec_openai_message :: "openai_message decoder" where
  "dec_openai_message = dec_struct (\<lambda>ms old.
     case dec_texts dec_string (field_texts ''role'' ms) (om_role old) of None \<Rightarrow> None | Some r \<Rightarrow>
     case dec_texts dec_pstring (field_texts ''content'' ms) (om_content old) of None \<Rightarrow> None | Some c \<Rightarrow>
     case dec_texts (dec_list dec_openai_call zero_openai_call) (field_texts ''tool_calls'' ms) (om_tool_calls old) of None \<Rightarrow> None | Some tcs \<Rightarrow>
     case dec_texts dec_string (field_texts ''tool_call_id'' ms) (om_tool_call_id old) of None \<Rightarrow> None | Some ti \<Rightarrow>
     Some (old\<lparr>om_role := r, om_content := c, om_tool_calls := tcs, om_tool_call_id := ti\<rparr>))"

text \<open>A choice: its message and its finish reason.\<close>

definition dec_openai_choice :: "(openai_message \<times> string) decoder" where
  "dec_openai_choice = dec_struct (\<lambda>ms (m, f).
     case dec_texts dec_openai_message (field_texts ''message'' ms) m of None \<Rightarrow> None | Some m' \<Rightarrow>
     case dec_texts dec_string (field_texts ''finish_reason'' ms) f of None \<Rightarrow> None | Some f' \<Rightarrow>
     Some (m', f'))"

definition dec_openai_response :: "(openai_message \<times> string) list decoder" where
  "dec_openai_response = dec_struct (\<lambda>ms old.
     dec_texts (dec_list dec_openai_choice (openai_msg [] None, [])) (field_texts ''choices'' ms) old)"

text \<open>The loop over the choice's tool calls: an error at the first one without a name.\<close>

fun openai_reply_calls :: "openai_tool_call list \<Rightarrow> gerror + body list" where
  "openai_reply_calls [] = Inr []"
| "openai_reply_calls (tc # tcs) =
     (if oc_name tc = [] then Inl (ErrMsg (''tool call '' @ quoted (oc_id tc) @ '' has no function name''))
      else case openai_reply_calls tcs of
             Inl e \<Rightarrow> Inl e
           | Inr bs \<Rightarrow> Inr (ToolCallBody \<lparr>tc_name = oc_name tc, tc_args = decodeOpenAIArguments (oc_arguments tc),
                                          tc_call_id = oc_id tc\<rparr> # bs))"

definition openai_stop :: "string \<Rightarrow> stop_reason" where
  "openai_stop f =
     (if f = ''stop'' then StopEndTurn
      else if f = ''tool_calls'' \<or> f = ''function_call'' then StopToolUse
      else if f = ''length'' then StopMaxTokens
      else StopOther f)"

definition OpenAI_DecodeResponse :: "(string \<Rightarrow> string) \<Rightarrow> string \<Rightarrow> gerror + model_reply" where
  "OpenAI_DecodeResponse json_errmsg resp = (case dec_openai_response resp [] of
      None \<Rightarrow> Inl (ErrMsg (json_errmsg resp))
    | Some [] \<Rightarrow> Inl (ErrMsg ''no choices in response'')
    | Some ((m, finish) # _) \<Rightarrow>
        (case openai_reply_calls (om_tool_calls m) of
           Inl e \<Rightarrow> Inl e
         | Inr bs \<Rightarrow> Inr \<lparr>rp_bodies = (case om_content m of
                                       Some c \<Rightarrow> if c \<noteq> [] then [TextBody c] else []
                                     | None \<Rightarrow> []) @ bs,
                          rp_stop = openai_stop finish\<rparr>))"

section \<open>Anthropic Messages\<close>

record anthropic_block =
  ab_type :: string
  ab_text :: string
  ab_id :: string
  ab_name :: string
  ab_input :: string
  ab_tool_use_id :: string
  ab_content :: string
  ab_is_error :: bool

record anthropic_message =
  am_role :: string
  am_content :: "anthropic_block list"

record anthropic_tool =
  at_name :: string
  at_description :: string
  at_input_schema :: string

record anthropic_request =
  ar_model :: string
  ar_max_tokens :: int
  ar_system :: string
  ar_messages :: "anthropic_message list"
  ar_tools :: "anthropic_tool list"

definition zero_block :: anthropic_block where
  "zero_block = \<lparr>ab_type = [], ab_text = [], ab_id = [], ab_name = [], ab_input = [],
     ab_tool_use_id = [], ab_content = [], ab_is_error = False\<rparr>"

definition appendBlock :: "string \<Rightarrow> anthropic_block \<Rightarrow> anthropic_message list \<Rightarrow> anthropic_message list" where
  "appendBlock role b msgs =
     (if msgs \<noteq> [] \<and> am_role (last msgs) = role
      then update_last (\<lambda>m. m\<lparr>am_content := am_content m @ [b]\<rparr>) msgs
      else msgs @ [\<lparr>am_role = role, am_content = [b]\<rparr>])"

definition anthropic_turn :: "string \<Rightarrow> turn \<Rightarrow> anthropic_message list \<Rightarrow> anthropic_message list" where
  "anthropic_turn agent t msgs = (case classifyTurn t agent of
      RoleUser \<Rightarrow>
        if body_text (t_body t) \<noteq> [] then appendBlock ''user'' (zero_block\<lparr>ab_type := ''text'', ab_text := body_text (t_body t)\<rparr>) msgs else msgs
    | RoleAssistant \<Rightarrow> (case t_body t of
          ToolCallBody c \<Rightarrow>
            appendBlock ''assistant'' (zero_block\<lparr>ab_type := ''tool_use'', ab_id := tc_call_id c, ab_name := tc_name c,
                                                   ab_input := argsOrEmptyObject (tc_args c)\<rparr>) msgs
        | b \<Rightarrow> if body_text b \<noteq> [] then appendBlock ''assistant'' (zero_block\<lparr>ab_type := ''text'', ab_text := body_text b\<rparr>) msgs else msgs)
    | RoleToolResult \<Rightarrow> (case t_body t of
          ToolResultBody r \<Rightarrow>
            appendBlock ''user'' (zero_block\<lparr>ab_type := ''tool_result'', ab_tool_use_id := tr_call_id r,
                                             ab_content := toolResultText r, ab_is_error := \<not> tr_ok r\<rparr>) msgs
        | _ \<Rightarrow> msgs)
    | RoleSkip \<Rightarrow> msgs)"

definition encodeAnthropicMessages :: "string \<Rightarrow> turn list \<Rightarrow> anthropic_message list" where
  "encodeAnthropicMessages agent turns = fold (anthropic_turn agent) turns []"

definition Anthropic_EncodeRequest :: "resolved_model \<Rightarrow> string \<Rightarrow> model_request \<Rightarrow> anthropic_request" where
  "Anthropic_EncodeRequest resolved model req =
     \<lparr>ar_model = UpstreamModel resolved model,
      ar_max_tokens = mr_max_tokens req,
      ar_system = mr_system req,
      ar_messages = encodeAnthropicMessages (mr_agent req) (mr_turns req),
      ar_tools = map (\<lambda>t. \<lparr>at_name = ts_name t, at_description = ts_description t,
                            at_input_schema = schemaOrEmptyObject (ts_input_schema t)\<rparr>) (mr_tools req)\<rparr>"

definition dec_block :: "anthropic_block decoder" where
  "dec_block = dec_struct (\<lambda>ms old.
     case dec_texts dec_string (field_texts ''type'' ms) (ab_type old) of None \<Rightarrow> None | Some ty \<Rightarrow>
     case dec_texts dec_string (field_texts ''text'' ms) (ab_text old) of None \<Rightarrow> None | Some tx \<Rightarrow>
     case dec_texts dec_string (field_texts ''id'' ms) (ab_id old) of None \<Rightarrow> None | Some i \<Rightarrow>
     case dec_texts dec_string (field_texts ''name'' ms) (ab_name old) of None \<Rightarrow> None | Some nm \<Rightarrow>
     case dec_texts dec_raw (field_texts ''input'' ms) (ab_input old) of None \<Rightarrow> None | Some inp \<Rightarrow>
     case dec_texts dec_string (field_texts ''tool_use_id'' ms) (ab_tool_use_id old) of None \<Rightarrow> None | Some tu \<Rightarrow>
     case dec_texts dec_string (field_texts ''content'' ms) (ab_content old) of None \<Rightarrow> None | Some c \<Rightarrow>
     case dec_texts dec_bool (field_texts ''is_error'' ms) (ab_is_error old) of None \<Rightarrow> None | Some ie \<Rightarrow>
     Some \<lparr>ab_type = ty, ab_text = tx, ab_id = i, ab_name = nm, ab_input = inp,
           ab_tool_use_id = tu, ab_content = c, ab_is_error = ie\<rparr>)"

definition dec_anthropic_response :: "(anthropic_block list \<times> string) decoder" where
  "dec_anthropic_response = dec_struct (\<lambda>ms (bs, stop).
     case dec_texts (dec_list dec_block zero_block) (field_texts ''content'' ms) bs of None \<Rightarrow> None | Some bs' \<Rightarrow>
     case dec_texts dec_string (field_texts ''stop_reason'' ms) stop of None \<Rightarrow> None | Some stop' \<Rightarrow>
     Some (bs', stop'))"

fun anthropic_reply_blocks :: "anthropic_block list \<Rightarrow> gerror + body list" where
  "anthropic_reply_blocks [] = Inr []"
| "anthropic_reply_blocks (b # bs) =
     (if ab_type b = ''text'' then
        (if ab_text b \<noteq> []
         then (case anthropic_reply_blocks bs of Inl e \<Rightarrow> Inl e | Inr ts \<Rightarrow> Inr (TextBody (ab_text b) # ts))
         else anthropic_reply_blocks bs)
      else if ab_type b = ''tool_use'' then
        (if ab_name b = [] then Inl (ErrMsg (''tool_use block '' @ quoted (ab_id b) @ '' has no name''))
         else case anthropic_reply_blocks bs of
                Inl e \<Rightarrow> Inl e
              | Inr ts \<Rightarrow> Inr (ToolCallBody \<lparr>tc_name = ab_name b, tc_args = argsOrEmptyObject (ab_input b),
                                             tc_call_id = ab_id b\<rparr> # ts))
      else anthropic_reply_blocks bs)"

definition anthropic_stop :: "string \<Rightarrow> stop_reason" where
  "anthropic_stop s =
     (if s = ''end_turn'' \<or> s = ''stop_sequence'' then StopEndTurn
      else if s = ''tool_use'' then StopToolUse
      else if s = ''max_tokens'' then StopMaxTokens
      else StopOther s)"

definition Anthropic_DecodeResponse :: "(string \<Rightarrow> string) \<Rightarrow> string \<Rightarrow> gerror + model_reply" where
  "Anthropic_DecodeResponse json_errmsg resp = (case dec_anthropic_response resp ([], []) of
      None \<Rightarrow> Inl (ErrMsg (json_errmsg resp))
    | Some (blocks, stop) \<Rightarrow>
        (case anthropic_reply_blocks blocks of
           Inl e \<Rightarrow> Inl e
         | Inr bs \<Rightarrow> Inr \<lparr>rp_bodies = bs, rp_stop = anthropic_stop stop\<rparr>))"

section \<open>HTTP requests\<close>

datatype payload = OpenAIPayload openai_request | AnthropicPayload anthropic_request

record http_request =
  hr_url :: string
  hr_headers :: "(string \<times> string) list"
  hr_payload :: payload

text \<open>\<open>json.Marshal\<close> of a payload fails exactly on a raw message that is not JSON.\<close>

definition payload_raws :: "payload \<Rightarrow> string list" where
  "payload_raws p = (case p of
      OpenAIPayload r \<Rightarrow> map ot_parameters (or_tools r)
    | AnthropicPayload r \<Rightarrow> map at_input_schema (ar_tools r)
        @ concat (map (\<lambda>m. concat (map (\<lambda>b. if ab_input b = [] then [] else [ab_input b]) (am_content m))) (ar_messages r)))"

text \<open>\<open>url_error\<close> stands for the parse of the URL by \<open>http.NewRequest\<close>, \<open>json_errmsg\<close> for the
  text of encoding/json's error.\<close>

definition newJSONPost :: "(string \<Rightarrow> string option) \<Rightarrow> (string \<Rightarrow> string) \<Rightarrow> string \<Rightarrow> payload \<Rightarrow> gerror + http_request" where
  "newJSONPost url_error json_errmsg url p = (case find (\<lambda>r. \<not> json_valid r) (payload_raws p) of
      Some r \<Rightarrow> Inl (ErrWrap ''marshal request: '' (ErrMsg (json_errmsg r)) [])
    | None \<Rightarrow> (case url_error url of
          Some m \<Rightarrow> Inl (ErrWrap ''build request: '' (ErrMsg m) [])
        | None \<Rightarrow> Inr \<lparr>hr_url = url, hr_headers = [(''content-type'', ''application/json'')], hr_payload = p\<rparr>))"

definition set_header :: "string \<Rightarrow> string \<Rightarrow> http_request \<Rightarrow> http_request" where
  "set_header k v r = r\<lparr>hr_headers := alist_put k v (hr_headers r)\<rparr>"

definition EncodeRequest :: "(string \<Rightarrow> string option) \<Rightarrow> (string \<Rightarrow> string) \<Rightarrow> codec \<Rightarrow> resolved_model \<Rightarrow> string \<Rightarrow> model_request \<Rightarrow> gerror + http_request" where
  "EncodeRequest url_error json_errmsg c resolved model req = (case c of
      OpenAICompatCodec \<Rightarrow>
        (case newJSONPost url_error json_errmsg (trim_right (CHR ''/'') (rm_url resolved) @ ''/chat/completions'')
               (OpenAIPayload (OpenAI_EncodeRequest resolved model req)) of
           Inl e \<Rightarrow> Inl e
         | Inr r \<Rightarrow> Inr (set_header ''Authorization'' (''Bearer '' @ rm_token resolved) r))
    | AnthropicCodec \<Rightarrow>
        (let token = (if rm_kind resolved = ModelKindRemote then rm_token resolved else ''dummy'')
         in case newJSONPost url_error json_errmsg (trim_right (CHR ''/'') (rm_url resolved) @ ''/v1/messages'')
               (AnthropicPayload (Anthropic_EncodeRequest resolved model req)) of
           Inl e \<Rightarrow> Inl e
         | Inr r \<Rightarrow> Inr (set_header ''x-api-key'' token (set_header ''anthropic-version'' ''2023-06-01'' r))))"

definition DecodeResponse :: "(string \<Rightarrow> string) \<Rightarrow> codec \<Rightarrow> string \<Rightarrow> gerror + model_reply" where
  "DecodeResponse json_errmsg c resp = (case c of
      OpenAICompatCodec \<Rightarrow> OpenAI_DecodeResponse json_errmsg resp
    | AnthropicCodec \<Rightarrow> Anthropic_DecodeResponse json_errmsg resp)"

text \<open>What the network answers: no response, a response whose body cannot be read, or a
  status and a body.\<close>

datatype http_outcome = HttpFail string | HttpBodyFail string | HttpOk int string

definition RoundTrip :: "(string \<Rightarrow> string option) \<Rightarrow> (string \<Rightarrow> string) \<Rightarrow> (http_request \<Rightarrow> 'w \<Rightarrow> http_outcome \<times> 'w) \<Rightarrow>
    codec \<Rightarrow> resolved_model \<Rightarrow> string \<Rightarrow> model_request \<Rightarrow> ('w, model_reply) op" where
  "RoundTrip url_error json_errmsg http_do c resolved model req w =
     (case EncodeRequest url_error json_errmsg c resolved model req of
        Inl e \<Rightarrow> (Inl e, w)
      | Inr r \<Rightarrow>
          (case http_do r w of (outcome, w') \<Rightarrow>
             (case outcome of
                HttpFail m \<Rightarrow> Inl (ErrWrap (''request to '' @ hr_url r @ '': '') (ErrMsg m) [])
              | HttpBodyFail m \<Rightarrow> Inl (ErrWrap (''reading response body from '' @ hr_url r @ '': '') (ErrMsg m) [])
              | HttpOk status resp \<Rightarrow>
                  if status < 200 \<or> status \<ge> 300
                  then Inl (ErrMsg (hr_url r @ '' returned status '' @ itoa status @ '': '' @ resp))
                  else (case DecodeResponse json_errmsg c resp of
                          Inl e \<Rightarrow> Inl (ErrWrap (''parsing response from '' @ hr_url r @ '': '') e [])
                        | Inr reply \<Rightarrow> Inr reply), w')))"

section \<open>The contract of a codec\<close>

definition wire_call :: "tool_call \<Rightarrow> string \<times> string \<times> string" where
  "wire_call c = (tc_call_id c, tc_name c, argsOrEmptyObject (tc_args c))"

definition wire_result :: "tool_result \<Rightarrow> string \<times> string" where
  "wire_result r = (tr_call_id r, toolResultText r)"

text \<open>
  \<open>enc\<close> is the message encoder, \<open>calls\<close> and \<open>results\<close> read the tool calls and tool
  results off one wire message. The laws: the encoder loses, repeats and reorders
  neither. The loop's side of the bargain is \<open>paired\<close> (every call answered, in order),
  which the client lemma carries to the wire, where the providers require it.
\<close>

definition paired :: "turn list \<Rightarrow> bool" where
  "paired ts \<longleftrightarrow> map tc_call_id (calls_of ts) = map tr_call_id (results_of ts)"

locale wire_codec =
  fixes enc :: "turn list \<Rightarrow> 'm list"
    and calls :: "'m \<Rightarrow> (string \<times> string \<times> string) list"
    and results :: "'m \<Rightarrow> (string \<times> string) list"
  assumes enc_calls: "concat (map calls (enc ts)) = map wire_call (calls_of ts)"
    and enc_results: "concat (map results (enc ts)) = map wire_result (results_of ts)"
begin

lemma paired_on_wire:
  "paired ts \<Longrightarrow> map fst (concat (map calls (enc ts))) = map fst (concat (map results (enc ts)))"
  by (simp add: enc_calls enc_results paired_def wire_call_def wire_result_def comp_def)

lemma terminal_never_sent:
  "t_body t = TerminalBody r \<Longrightarrow> concat (map calls (enc (ts @ [t]))) = concat (map calls (enc ts))
     \<and> concat (map results (enc (ts @ [t]))) = concat (map results (enc ts))"
  by (simp add: enc_calls enc_results)

end

subsection \<open>Anthropic\<close>

text \<open>The blocks of a request in order, each with its message's role.\<close>

definition flat_blocks :: "anthropic_message list \<Rightarrow> (string \<times> anthropic_block) list" where
  "flat_blocks msgs = concat (map (\<lambda>m. map (Pair (am_role m)) (am_content m)) msgs)"

text \<open>The specification: the block one turn stands for, if any.\<close>

definition wire_block :: "string \<Rightarrow> turn \<Rightarrow> (string \<times> anthropic_block) list" where
  "wire_block agent t = (case t_body t of
      TextBody s \<Rightarrow> if s = [] then []
                    else [(if t_sender t = agent then ''assistant'' else ''user'', zero_block\<lparr>ab_type := ''text'', ab_text := s\<rparr>)]
    | ToolCallBody c \<Rightarrow> [(''assistant'', zero_block\<lparr>ab_type := ''tool_use'', ab_id := tc_call_id c, ab_name := tc_name c,
                                                  ab_input := argsOrEmptyObject (tc_args c)\<rparr>)]
    | ToolResultBody r \<Rightarrow> [(''user'', zero_block\<lparr>ab_type := ''tool_result'', ab_tool_use_id := tr_call_id r,
                                                ab_content := toolResultText r, ab_is_error := \<not> tr_ok r\<rparr>)]
    | TerminalBody _ \<Rightarrow> [])"

lemma flat_blocks_append [simp]: "flat_blocks (a @ b) = flat_blocks a @ flat_blocks b"
  by (simp add: flat_blocks_def)

lemma flat_blocks_Nil [simp]: "flat_blocks [] = []"
  by (simp add: flat_blocks_def)

lemma flat_appendBlock: "flat_blocks (appendBlock role b msgs) = flat_blocks msgs @ [(role, b)]"
  by (cases msgs rule: rev_cases) (auto simp: appendBlock_def update_last_def flat_blocks_def)

lemma flat_anthropic_turn: "flat_blocks (anthropic_turn agent t msgs) = flat_blocks msgs @ wire_block agent t"
  by (auto simp: anthropic_turn_def wire_block_def classifyTurn_def body_text_def flat_appendBlock split: body.splits)

lemma flat_encodeAnthropic:
  "flat_blocks (encodeAnthropicMessages agent ts) = concat (map (wire_block agent) ts)"
  by (induction ts rule: rev_induct) (simp_all add: encodeAnthropicMessages_def flat_anthropic_turn)

definition alternating :: "anthropic_message list \<Rightarrow> bool" where
  "alternating msgs \<longleftrightarrow> successively (\<lambda>a b. am_role a \<noteq> am_role b) msgs \<and> (\<forall>m \<in> set msgs. am_content m \<noteq> [])"

lemma alternating_appendBlock: "alternating msgs \<Longrightarrow> alternating (appendBlock role b msgs)"
  by (cases msgs rule: rev_cases)
     (auto simp: alternating_def appendBlock_def update_last_def successively_append_iff)

lemma alternating_turn: "alternating msgs \<Longrightarrow> alternating (anthropic_turn agent t msgs)"
  by (auto simp: anthropic_turn_def alternating_appendBlock split: wire_role.split body.split)

lemma alternating_encodeAnthropic: "alternating (encodeAnthropicMessages agent ts)"
  by (induction ts rule: rev_induct)
     (simp_all add: encodeAnthropicMessages_def alternating_turn, simp add: alternating_def)

definition block_calls :: "anthropic_block \<Rightarrow> (string \<times> string \<times> string) list" where
  "block_calls b = (if ab_type b = ''tool_use'' then [(ab_id b, ab_name b, ab_input b)] else [])"

definition block_results :: "anthropic_block \<Rightarrow> (string \<times> string) list" where
  "block_results b = (if ab_type b = ''tool_result'' then [(ab_tool_use_id b, ab_content b)] else [])"

lemma concat_blocks: "concat (map (\<lambda>m. concat (map f (am_content m))) msgs) = concat (map (\<lambda>(_, b). f b) (flat_blocks msgs))"
  by (induction msgs) (simp_all add: flat_blocks_def comp_def)

lemma anthropic_calls:
  "concat (map (\<lambda>m. concat (map block_calls (am_content m))) (encodeAnthropicMessages agent ts)) = map wire_call (calls_of ts)"
  unfolding concat_blocks flat_encodeAnthropic
  by (induction ts) (auto simp: wire_block_def block_calls_def wire_call_def zero_block_def split: body.split)

lemma anthropic_results:
  "concat (map (\<lambda>m. concat (map block_results (am_content m))) (encodeAnthropicMessages agent ts)) = map wire_result (results_of ts)"
  unfolding concat_blocks flat_encodeAnthropic
  by (induction ts) (auto simp: wire_block_def block_results_def wire_result_def zero_block_def split: body.split)

interpretation anthropic: wire_codec "encodeAnthropicMessages agent"
  "\<lambda>m. concat (map block_calls (am_content m))" "\<lambda>m. concat (map block_results (am_content m))"
  by unfold_locales (rule anthropic_calls anthropic_results)+

subsection \<open>OpenAI-compatible\<close>

definition message_calls :: "openai_message \<Rightarrow> (string \<times> string \<times> string) list" where
  "message_calls m = map (\<lambda>c. (oc_id c, oc_name c, oc_arguments c)) (om_tool_calls m)"

definition message_results :: "openai_message \<Rightarrow> (string \<times> string) list" where
  "message_results m = (if om_role m = ''tool'' then [(om_tool_call_id m, case om_content m of Some s \<Rightarrow> s | None \<Rightarrow> [])] else [])"

text \<open>The state of the encoder: an open assistant message is the last one.\<close>

definition openai_inv :: "openai_message list \<times> bool \<Rightarrow> bool" where
  "openai_inv st \<longleftrightarrow> (snd st \<longrightarrow> fst st \<noteq> [] \<and> om_role (last (fst st)) = ''assistant'')"

lemma openai_turn_inv: "openai_inv st \<Longrightarrow> openai_inv (openai_turn agent t st)"
  by (cases st; cases "fst st" rule: rev_cases)
     (auto simp: openai_inv_def openai_turn_def update_last_def add_agent_turn_def Let_def openai_msg_def
       split: wire_role.split body.split)

lemma openai_turn_calls:
  "openai_inv st \<Longrightarrow> concat (map message_calls (fst (openai_turn agent t st))) =
     concat (map message_calls (fst st)) @ map wire_call (call_of (t_body t))"
  by (cases st; cases "fst st" rule: rev_cases)
     (auto simp: openai_inv_def openai_turn_def update_last_def butlast_append add_agent_turn_def Let_def openai_msg_def classifyTurn_def
       message_calls_def wire_call_def split: body.split)

lemma openai_turn_results:
  "openai_inv st \<Longrightarrow> concat (map message_results (fst (openai_turn agent t st))) =
     concat (map message_results (fst st)) @ map wire_result (result_of (t_body t))"
  by (cases st; cases "fst st" rule: rev_cases)
     (auto simp: openai_inv_def openai_turn_def update_last_def butlast_append add_agent_turn_def Let_def openai_msg_def classifyTurn_def
       message_results_def wire_result_def split: body.split)

definition openai_start :: "string \<Rightarrow> openai_message list \<times> bool" where
  "openai_start system = (if system \<noteq> [] then [openai_msg ''system'' (Some system)] else [], False)"

lemma openai_start_inv: "openai_inv (openai_start system)"
  by (simp add: openai_inv_def openai_start_def)

lemma encodeOpenAI_start: "encodeOpenAIMessages system agent ts = fst (fold (openai_turn agent) ts (openai_start system))"
  by (simp add: encodeOpenAIMessages_def openai_start_def)

lemma openai_fold_inv: "openai_inv st \<Longrightarrow> openai_inv (fold (openai_turn agent) ts st)"
  by (induction ts arbitrary: st) (auto simp: openai_turn_inv)

lemma openai_fold_calls:
  "openai_inv st \<Longrightarrow> concat (map message_calls (fst (fold (openai_turn agent) ts st))) =
     concat (map message_calls (fst st)) @ map wire_call (calls_of ts)"
  by (induction ts arbitrary: st) (auto simp: openai_turn_inv openai_turn_calls)

lemma openai_fold_results:
  "openai_inv st \<Longrightarrow> concat (map message_results (fst (fold (openai_turn agent) ts st))) =
     concat (map message_results (fst st)) @ map wire_result (results_of ts)"
  by (induction ts arbitrary: st) (auto simp: openai_turn_inv openai_turn_results)

interpretation openai: wire_codec "encodeOpenAIMessages system agent" message_calls message_results
proof unfold_locales
  fix ts
  show "concat (map message_calls (encodeOpenAIMessages system agent ts)) = map wire_call (calls_of ts)"
    unfolding encodeOpenAI_start openai_fold_calls [OF openai_start_inv]
    by (simp add: openai_start_def message_calls_def openai_msg_def)
  show "concat (map message_results (encodeOpenAIMessages system agent ts)) = map wire_result (results_of ts)"
    unfolding encodeOpenAI_start openai_fold_results [OF openai_start_inv]
    by (simp add: openai_start_def message_results_def openai_msg_def)
qed

lemma decoded_arguments_valid: "json_valid (decodeOpenAIArguments arguments)"
proof -
  have "json_valid [CHR 0x7B, CHR 0x7D]"
    by (simp add: json_valid_def json_parse_def json_fuel_def skip_ws_def is_json_space_def numeral_eq_Suc)
  then show ?thesis by (simp add: decodeOpenAIArguments_def)
qed

end
