(* ===== verification/Loop.thy ===== *)
theory Loop
  imports Loop_Codec
begin

text \<open>
  The tool-use loop itself (\<open>loop.go\<close>): the configuration and its defaults, one model
  round trip with its tool calls (\<open>loop_step\<close>), the loop (\<open>loop\<close>, bounded by
  \<open>MaxSteps\<close>) and \<open>Run\<close>. Everything outside the package (clock, network, tool
  executor, context, callbacks) is a field of the configuration acting on an abstract
  world \<open>'w\<close>. \<open>rs_traffic\<close> records what was handed to \<open>OnTraffic\<close>, in order.
\<close>

section \<open>Configuration\<close>

text \<open>A tool call's outcome: a transport failure, or content with the tool's own error flag.\<close>

datatype exec_outcome = ExecErr string | ExecOk string bool

record 'w config =
  cf_codec :: "codec option"
  cf_resolved :: resolved_model
  cf_model :: string
  cf_system_prompt :: string
  cf_task :: string
  cf_tools :: "tool_spec list"
  cf_exec :: "(string \<Rightarrow> string \<Rightarrow> 'w \<Rightarrow> exec_outcome \<times> 'w) option"
  cf_max_steps :: int
  cf_wall_clock :: int
  cf_max_tokens :: int
  cf_principal :: string
  cf_brief_turn_id :: string
  cf_on_turn :: "(turn \<Rightarrow> 'w \<Rightarrow> 'w) option"
  cf_on_traffic :: "(traffic_record \<Rightarrow> 'w \<Rightarrow> 'w) option"
  cf_uri_extractor :: "(string \<Rightarrow> string \<Rightarrow> string list option) option"
  cf_stop_when :: "(ledger \<Rightarrow> 'w \<Rightarrow> (gerror + bool) \<times> 'w) option"
  cf_new_turn_id :: "'w \<Rightarrow> string \<times> 'w"
  cf_now :: "'w \<Rightarrow> int \<times> 'w"
  cf_http_do :: "http_request \<Rightarrow> 'w \<Rightarrow> http_outcome \<times> 'w"
  cf_ctx_err :: "int \<Rightarrow> 'w \<Rightarrow> bool \<times> 'w"   \<comment> \<open>has the context with this timeout ended?\<close>
  cf_parent_err :: "'w \<Rightarrow> bool \<times> 'w"        \<comment> \<open>has the caller's own context ended?\<close>
  cf_url_error :: "string \<Rightarrow> string option"
  cf_json_errmsg :: "string \<Rightarrow> string"
  cf_sha :: "string \<Rightarrow> string"

definition DefaultMaxSteps :: int where "DefaultMaxSteps = 12"
definition DefaultWallClock :: int where "DefaultWallClock = 120000000000"
definition DefaultMaxTokens :: int where "DefaultMaxTokens = 4096"

definition CannotCompleteTool :: string where
  "CannotCompleteTool = ''cannot_complete''"

definition CannotCompleteSpec :: tool_spec where
  "CannotCompleteSpec = \<lparr>ts_name = CannotCompleteTool,
     ts_description = ''Call this when you cannot complete the task. It ends the run; explain why in reason.'',
     ts_input_schema =
       map (\<lambda>c. if c = CHR ''~'' then CHR 0x22 else c)
         ''{~type~:~object~,~properties~:{~reason~:{~type~:~string~,~description~:~Why the task cannot be completed.~}},~required~:[~reason~]}'', ts_kind = []\<rparr>"

definition withDefaults :: "'w config \<Rightarrow> gerror + 'w config" where
  "withDefaults c =
     (if cf_principal c = [] then Inl (ErrMsg ''jugglerloop: Principal is required'')
      else if Option.is_none (cf_exec c) then Inl (ErrMsg ''jugglerloop: Exec is required'')
      else case (case cf_codec c of Some k \<Rightarrow> Inr k
                 | None \<Rightarrow> (case CodecFor (cf_resolved c) of
                       Inl e \<Rightarrow> Inl (ErrWrap ''jugglerloop: '' e [])
                     | Inr k \<Rightarrow> Inr k)) of
        Inl e \<Rightarrow> Inl e
      | Inr k \<Rightarrow> Inr (c\<lparr>cf_codec := Some k,
          cf_max_steps := (if cf_max_steps c \<le> 0 then DefaultMaxSteps else cf_max_steps c),
          cf_wall_clock := (if cf_wall_clock c \<le> 0 then DefaultWallClock else cf_wall_clock c),
          cf_max_tokens := (if cf_max_tokens c \<le> 0 then DefaultMaxTokens else cf_max_tokens c),
          cf_uri_extractor := (case cf_uri_extractor c of Some f \<Rightarrow> Some f
             | None \<Rightarrow> Some (\<lambda>tool content. Some (ExtractURIsFromTopLevelFields tool content)))\<rparr>))"

definition toolsWithCannotComplete :: "tool_spec list \<Rightarrow> tool_spec list" where
  "toolsWithCannotComplete tools = filter (\<lambda>t. ts_name t \<noteq> CannotCompleteTool) tools @ [CannotCompleteSpec]"

text \<open>\<open>r.kinds\<close>: the declared kind of each tool; a later tool of the same name overrides
  only when it declares one. \<open>r.offered\<close>: the names sent to the model.\<close>

definition kinds :: "tool_spec list \<Rightarrow> string \<Rightarrow> string option" where
  "kinds tools name = fold (\<lambda>t acc. if ts_name t = name \<and> ts_kind t \<noteq> [] then Some (ts_kind t) else acc) tools None"

definition offered :: "tool_spec list \<Rightarrow> string \<Rightarrow> bool" where
  "offered tools name \<longleftrightarrow> name \<in> ts_name ` set tools"

section \<open>The state of a run\<close>

record 'w run_state =
  rs_turns :: "turn list"
  rs_ledger :: ledger
  rs_last :: string
  rs_world :: 'w
  rs_traffic :: "traffic_record list"

definition append_turn :: "'w config \<Rightarrow> body \<Rightarrow> string \<Rightarrow> 'w run_state \<Rightarrow> turn \<times> 'w run_state" where
  "append_turn cfg b parent s =
     (case cf_new_turn_id cfg (rs_world s) of (i, w1) \<Rightarrow>
      case cf_now cfg w1 of (at, w2) \<Rightarrow>
        (let t = \<lparr>t_id = i, t_sender = cf_principal cfg, t_parent = parent, t_signature = [], t_at = at, t_body = b\<rparr>;
             w3 = (case cf_on_turn cfg of Some f \<Rightarrow> f t w2 | None \<Rightarrow> w2)
         in (t, s\<lparr>rs_turns := rs_turns s @ [t], rs_last := i, rs_world := w3\<rparr>)))"

text \<open>The conversation sent to the model: the task as the opening user turn, then the
  transcript.\<close>

definition wireTurns :: "'w config \<Rightarrow> 'w run_state \<Rightarrow> turn list" where
  "wireTurns cfg s =
     \<lparr>t_id = cf_brief_turn_id cfg, t_sender = [], t_parent = [], t_signature = [], t_at = 0, t_body = TextBody (cf_task cfg)\<rparr>
     # rs_turns s"

text \<open>\<open>None\<close> when the arguments can be a tool call's; else the reason.\<close>

definition validateToolArgs :: "(string \<Rightarrow> string) \<Rightarrow> string \<Rightarrow> string option" where
  "validateToolArgs json_errmsg args = (case un_object args of
      UErr \<Rightarrow>
        (case (case un_string args of UErr \<Rightarrow> None | UNull \<Rightarrow> Some [] | UVal text \<Rightarrow> Some text) of
           None \<Rightarrow> Some ''arguments must be a JSON object''
         | Some text \<Rightarrow> (case un_object text of
               UErr \<Rightarrow> Some (json_errmsg text)
             | _ \<Rightarrow> Some ''arguments must be a JSON object''))
    | _ \<Rightarrow> None)"

definition error_content :: "string \<Rightarrow> string" where
  "error_content msg = [CHR 0x7B] @ json_quote True ''error'' @ '':'' @ json_quote True msg @ [CHR 0x7D]"

definition send_traffic :: "'w config \<Rightarrow> ledger_call \<Rightarrow> string \<Rightarrow> int \<Rightarrow> bool \<Rightarrow> int \<Rightarrow> 'w run_state \<Rightarrow> 'w run_state" where
  "send_traffic cfg entry args n ok ts s = (case cf_on_traffic cfg of
      None \<Rightarrow> s
    | Some f \<Rightarrow>
        (let rec = \<lparr>tf_step = l_steps (rs_ledger s), tf_job = [], tf_tool = lc_tool entry, tf_args = args,
                    tf_args_digest = lc_args_digest entry, tf_result_size = n, tf_ok = ok, tf_ts = ts\<rparr>
         in s\<lparr>rs_world := f rec (rs_world s), rs_traffic := rs_traffic s @ [rec]\<rparr>))"

text \<open>The tail every outcome of a call shares: the ledger entry, the result turn under
  the call's turn, the traffic record.\<close>

definition add_call :: "ledger_call \<Rightarrow> 'w run_state \<Rightarrow> 'w run_state" where
  "add_call entry s = s\<lparr>rs_ledger := (rs_ledger s)\<lparr>l_calls := l_calls (rs_ledger s) @ [entry]\<rparr>\<rparr>"

definition finish_call :: "'w config \<Rightarrow> turn \<Rightarrow> string \<Rightarrow> ledger_call \<Rightarrow> tool_result \<Rightarrow> int \<Rightarrow> bool \<Rightarrow> 'w run_state \<Rightarrow> 'w run_state" where
  "finish_call cfg callTurn args entry result n ok s =
     (case append_turn cfg (ToolResultBody result) (t_id callTurn) (add_call entry s) of
        (t, s1) \<Rightarrow> send_traffic cfg entry args n ok (t_at t) s1)"

definition milliseconds :: "int \<Rightarrow> int" where
  "milliseconds d = (if d < 0 then - ((- d) div 1000000) else d div 1000000)"

definition stopNow :: "'w config \<Rightarrow> int \<Rightarrow> 'w run_state \<Rightarrow> bool \<times> 'w run_state" where
  "stopNow cfg start s = (case cf_stop_when cfg of
      None \<Rightarrow> (False, s)
    | Some f \<Rightarrow>
        (case cf_now cfg (rs_world s) of (now, w1) \<Rightarrow>
         case f ((rs_ledger s)\<lparr>l_elapsed_ms := milliseconds (now - start)\<rparr>) w1 of
           (Inr stop, w2) \<Rightarrow> (stop, s\<lparr>rs_world := w2\<rparr>)
         | (Inl e, w2) \<Rightarrow> (False, s\<lparr>rs_world := w2, rs_ledger := (rs_ledger s)\<lparr>l_notes := l_notes (rs_ledger s) @
               [''stop_on_pass check after call '' @ itoa (int (length (l_calls (rs_ledger s)))) @ '' errored: '' @ err_text e]\<rparr>\<rparr>)))"

definition poll_ctx :: "'w config \<Rightarrow> 'w run_state \<Rightarrow> bool \<times> 'w run_state" where
  "poll_ctx cfg s = (case cf_ctx_err cfg (cf_wall_clock cfg) (rs_world s) of (b, w) \<Rightarrow> (b, s\<lparr>rs_world := w\<rparr>))"

definition cannot_complete_reason :: "string \<Rightarrow> string" where
  "cannot_complete_reason args = (case un_object args of
      UVal ms \<Rightarrow> dec_lax dec_string (field_texts ''reason'' ms) []
    | _ \<Rightarrow> [])"

text \<open>One tool call: \<open>Some end\<close> when the run ends here.\<close>

definition execute :: "'w config \<Rightarrow> tool_spec list \<Rightarrow> int \<Rightarrow> turn \<Rightarrow> tool_call \<Rightarrow> 'w run_state \<Rightarrow> end_reason option \<times> 'w run_state" where
  "execute cfg tools start callTurn call s =
     (if tc_name call = CannotCompleteTool then
        (Some EndCannotComplete,
         s\<lparr>rs_ledger := (rs_ledger s)\<lparr>l_cannot_complete := Some (cannot_complete_reason (tc_args call))\<rparr>\<rparr>)
      else
        let entry = \<lparr>lc_tool = tc_name call, lc_kind = kinds tools (tc_name call), lc_ok = False, lc_uris = [],
                     lc_error = [], lc_args_digest = ArgsDigest (cf_sha cfg) (tc_args call)\<rparr>
        in if \<not> offered tools (tc_name call) then
          (let content = error_content ''tool not offered to the model'';
               result = \<lparr>tr_call_id = tc_call_id call, tr_ok = False, tr_content = content, tr_error = []\<rparr>
           in (None, finish_call cfg callTurn (tc_args call) (entry\<lparr>lc_error := toolResultText result\<rparr>) result
                       (int (length content)) False s))
        else case validateToolArgs (cf_json_errmsg cfg) (tc_args call) of
          Some reason \<Rightarrow>
            (let content = error_content (''invalid tool arguments: '' @ reason);
                 result = \<lparr>tr_call_id = tc_call_id call, tr_ok = False, tr_content = content, tr_error = []\<rparr>
             in (None, finish_call cfg callTurn (tc_args call) (entry\<lparr>lc_error := toolResultText result\<rparr>) result
                         (int (length content)) False s))
        | None \<Rightarrow>
          (case (case cf_exec cfg of Some f \<Rightarrow> f (tc_name call) (tc_args call) (rs_world s)
                 | None \<Rightarrow> (ExecErr [], rs_world s)) of
             (ExecErr m, w) \<Rightarrow>
               (let s1 = finish_call cfg callTurn (tc_args call) (entry\<lparr>lc_error := m\<rparr>)
                           \<lparr>tr_call_id = tc_call_id call, tr_ok = False, tr_content = [], tr_error = m\<rparr> 0 False (s\<lparr>rs_world := w\<rparr>)
                in case poll_ctx cfg s1 of (ended, s2) \<Rightarrow> (Some (if ended then EndTimeout else EndToolError), s2))
           | (ExecOk content isError, w) \<Rightarrow>
               (let result = \<lparr>tr_call_id = tc_call_id call, tr_ok = \<not> isError, tr_content = content, tr_error = []\<rparr>;
                    entry1 = (if isError then entry\<lparr>lc_error := toolResultText result\<rparr>
                              else entry\<lparr>lc_ok := True,
                                         lc_uris := (if KindProducesArtifacts (case kinds tools (tc_name call) of Some k \<Rightarrow> k | None \<Rightarrow> [])
                                            then (case cf_uri_extractor cfg of
                                                    Some f \<Rightarrow> (case f (tc_name call) content of Some uris \<Rightarrow> uris | None \<Rightarrow> [])
                                                  | None \<Rightarrow> [])
                                            else [])\<rparr>);
                    s1 = finish_call cfg callTurn (tc_args call) entry1 result (int (length content)) (lc_ok entry1) (s\<lparr>rs_world := w\<rparr>)
                in if lc_ok entry1 then
                     (case stopNow cfg start s1 of (stop, s2) \<Rightarrow> (if stop then Some EndEvaluatorPass else None, s2))
                   else (None, s1))))"

text \<open>The reply's turns, appended in order; the tool calls among them.\<close>

fun append_reply :: "'w config \<Rightarrow> body list \<Rightarrow> 'w run_state \<Rightarrow> (turn \<times> tool_call) list \<times> 'w run_state" where
  "append_reply cfg [] s = ([], s)"
| "append_reply cfg (b # bs) s =
     (case append_turn cfg b (rs_last s) s of (t, s1) \<Rightarrow>
      case append_reply cfg bs s1 of (calls, s2) \<Rightarrow>
        ((case b of ToolCallBody c \<Rightarrow> [(t, c)] | _ \<Rightarrow> []) @ calls, s2))"

fun execute_all :: "'w config \<Rightarrow> tool_spec list \<Rightarrow> int \<Rightarrow> (turn \<times> tool_call) list \<Rightarrow> 'w run_state \<Rightarrow> end_reason option \<times> 'w run_state" where
  "execute_all cfg tools start [] s = (None, s)"
| "execute_all cfg tools start ((t, c) # calls) s =
     (case execute cfg tools start t c s of
        (Some end, s1) \<Rightarrow> (Some end, s1)
      | (None, s1) \<Rightarrow> execute_all cfg tools start calls s1)"

definition the_codec :: "'w config \<Rightarrow> codec" where
  "the_codec cfg = (case cf_codec cfg of Some k \<Rightarrow> k | None \<Rightarrow> AnthropicCodec)"

definition the_request :: "'w config \<Rightarrow> tool_spec list \<Rightarrow> 'w run_state \<Rightarrow> model_request" where
  "the_request cfg tools s = \<lparr>mr_system = cf_system_prompt cfg, mr_agent = cf_principal cfg,
     mr_turns = wireTurns cfg s, mr_tools = tools, mr_max_tokens = cf_max_tokens cfg\<rparr>"

definition round_trip :: "'w config \<Rightarrow> tool_spec list \<Rightarrow> 'w run_state \<Rightarrow> (gerror + model_reply) \<times> 'w run_state" where
  "round_trip cfg tools s =
     (case RoundTrip (cf_url_error cfg) (cf_json_errmsg cfg) (cf_http_do cfg) (the_codec cfg) (cf_resolved cfg) (cf_model cfg)
             (the_request cfg tools s) (rs_world s) of
        (r, w) \<Rightarrow> (r, s\<lparr>rs_world := w\<rparr>))"

definition count_step :: "'w run_state \<Rightarrow> 'w run_state" where
  "count_step s = s\<lparr>rs_ledger := (rs_ledger s)\<lparr>l_steps := l_steps (rs_ledger s) + 1\<rparr>\<rparr>"

text \<open>One pass of the \<open>for\<close>: \<open>None\<close> to go round again.\<close>

definition loop_step :: "'w config \<Rightarrow> tool_spec list \<Rightarrow> int \<Rightarrow> 'w run_state \<Rightarrow> (end_reason \<times> gerror option) option \<times> 'w run_state" where
  "loop_step cfg tools start s =
     (case poll_ctx cfg s of (ended, s0) \<Rightarrow>
      if ended then (Some (EndTimeout, None), s0)
      else if l_steps (rs_ledger s0) \<ge> cf_max_steps cfg then (Some (EndStepCap, None), s0)
      else case round_trip cfg tools (count_step s0) of
        (Inl e, s1) \<Rightarrow> (case poll_ctx cfg s1 of (ended, s2) \<Rightarrow>
            (Some (if ended then (EndTimeout, None) else (EndModelError, Some e)), s2))
      | (Inr reply, s1) \<Rightarrow>
          (case append_reply cfg (rp_bodies reply) s1 of (calls, s2) \<Rightarrow>
             if calls = [] then
               (Some (if rp_stop reply = StopMaxTokens then EndMaxTokens else EndTurn, None), s2)
             else (case execute_all cfg tools start calls s2 of
                     (Some end, s3) \<Rightarrow> (Some (end, None), s3)
                   | (None, s3) \<Rightarrow> (None, s3))))"

subsection \<open>Frame facts, and termination of the loop\<close>

lemma steps_append_turn [frame]: "append_turn cfg b p s = (t, s') \<Longrightarrow> rs_ledger s' = rs_ledger s"
  by (auto simp: append_turn_def Let_def split: prod.splits)

lemma steps_append_reply [frame]: "append_reply cfg bs s = (calls, s') \<Longrightarrow> rs_ledger s' = rs_ledger s"
proof (induction bs arbitrary: s calls s')
  case (Cons b bs)
  then show ?case by (fastforce split: prod.splits dest: steps_append_turn)
qed simp

lemma steps_send_traffic [simp]: "rs_ledger (send_traffic cfg e a n ok ts s) = rs_ledger s"
  by (simp add: send_traffic_def Let_def split: option.split)

lemma ledger_finish_call [simp]:
  "rs_ledger (finish_call cfg t a e r n ok s) = (rs_ledger s)\<lparr>l_calls := l_calls (rs_ledger s) @ [e]\<rparr>"
  by (auto simp: finish_call_def add_call_def split: prod.split dest!: steps_append_turn)

lemma steps_poll_ctx [frame]: "poll_ctx cfg s = (b, s') \<Longrightarrow> rs_ledger s' = rs_ledger s"
  by (auto simp: poll_ctx_def split: prod.splits)

lemma steps_stopNow: "stopNow cfg start s = (b, s') \<Longrightarrow> l_steps (rs_ledger s') = l_steps (rs_ledger s)"
  by (auto simp: stopNow_def split: prod.splits option.splits sum.splits)

lemma steps_execute: "execute cfg tools start t c s = (r, s') \<Longrightarrow> l_steps (rs_ledger s') = l_steps (rs_ledger s)"
  by (auto simp: execute_def Let_def split: if_splits option.splits prod.splits exec_outcome.splits
      dest!: steps_poll_ctx steps_stopNow)

lemma steps_execute_all: "execute_all cfg tools start calls s = (r, s') \<Longrightarrow> l_steps (rs_ledger s') = l_steps (rs_ledger s)"
proof (induction calls arbitrary: s)
  case (Cons p calls)
  then show ?case by (cases p) (auto split: prod.splits option.splits dest!: steps_execute)
qed simp

lemma steps_round_trip [frame]: "round_trip cfg tools s = (r, s') \<Longrightarrow> rs_ledger s' = rs_ledger s"
  by (auto simp: round_trip_def split: prod.splits)

lemma loop_step_more:
  assumes "loop_step cfg tools start s = (None, s')"
  shows "l_steps (rs_ledger s') = l_steps (rs_ledger s) + 1 \<and> l_steps (rs_ledger s) < cf_max_steps cfg"
  using assms
  by (auto simp: loop_step_def count_step_def split: prod.splits if_splits sum.splits option.splits
      dest!: steps_poll_ctx steps_round_trip steps_append_reply steps_execute_all)

function loop :: "'w config \<Rightarrow> tool_spec list \<Rightarrow> int \<Rightarrow> 'w run_state \<Rightarrow> (end_reason \<times> gerror option) \<times> 'w run_state" where
  "loop cfg tools start s = (case loop_step cfg tools start s of
      (Some r, s1) \<Rightarrow> (r, s1)
    | (None, s1) \<Rightarrow> loop cfg tools start s1)"
  by pat_completeness auto
termination
  by (relation "measure (\<lambda>(cfg, tools, start, s). nat (cf_max_steps cfg - l_steps (rs_ledger s)))")
     (auto dest!: loop_step_more [OF sym])

declare loop.simps [simp del]

section \<open>Run\<close>

record loop_result =
  res_turns :: "turn list"
  res_ledger :: ledger
  res_end :: end_reason

definition start_state :: "'w config \<Rightarrow> 'w \<Rightarrow> 'w run_state" where
  "start_state cfg w = \<lparr>rs_turns = [], rs_ledger = newLedger, rs_last = cf_brief_turn_id cfg, rs_world = w, rs_traffic = []\<rparr>"

text \<open>The loop and the terminal turn, on a configuration with its defaults filled in.\<close>

definition run_loop :: "'w config \<Rightarrow> 'w \<Rightarrow> (end_reason \<times> gerror option) \<times> 'w run_state" where
  "run_loop cfg w =
     (case cf_now cfg w of (start, w1) \<Rightarrow>
      case loop cfg (toolsWithCannotComplete (cf_tools cfg)) start (start_state cfg w1) of ((end, runErr), s1) \<Rightarrow>
      case (if end = EndTimeout
            then (case cf_parent_err cfg (rs_world s1) of (b, w2) \<Rightarrow> (if b then Some ErrCanceled else runErr, s1\<lparr>rs_world := w2\<rparr>))
            else (runErr, s1)) of (runErr1, s2) \<Rightarrow>
      case append_turn cfg (TerminalBody end) (rs_last s2) s2 of (_, s3) \<Rightarrow>
      case cf_now cfg (rs_world s3) of (stop, w3) \<Rightarrow>
        ((end, runErr1),
         s3\<lparr>rs_world := w3, rs_ledger := (rs_ledger s3)\<lparr>l_end := end, l_elapsed_ms := milliseconds (stop - start)\<rparr>\<rparr>))"

definition Run :: "'w config \<Rightarrow> 'w \<Rightarrow> (gerror + loop_result \<times> gerror option) \<times> 'w" where
  "Run cfg0 w = (case withDefaults cfg0 of
      Inl e \<Rightarrow> (Inl e, w)
    | Inr cfg \<Rightarrow> (case run_loop cfg w of ((end, runErr), s) \<Rightarrow>
        (Inr (\<lparr>res_turns = rs_turns s, res_ledger = rs_ledger s, res_end = end\<rparr>, runErr), rs_world s)))"

end
