(* ===== verification/Loop_Facts.thy ===== *)
theory Loop_Facts
  imports Loop
begin

text \<open>
  What the loop keeps. \<open>run_invariant\<close> is the contract of an invariant of a run: it
  survives the few ways the loop changes its state (a turn of the reply is appended, a
  call is answered, a step is counted, a note is added, the world moves). A client of the
  contract gets it for whole runs; \<open>log_inv\<close> (transcript, ledger and traffic tell one
  story) and \<open>link_inv\<close> (provenance of turns) are its two interpretations. The last
  section compares runs under two executors.
\<close>

section \<open>The contract\<close>

fun is_reply_body :: "body \<Rightarrow> bool" where
  "is_reply_body (TextBody _) = True"
| "is_reply_body (ToolCallBody _) = True"
| "is_reply_body _ = False"

definition pending :: "turn \<Rightarrow> body \<Rightarrow> (turn \<times> tool_call) list" where
  "pending t b = (case b of ToolCallBody c \<Rightarrow> [(t, c)] | _ \<Rightarrow> [])"

text \<open>The three outcomes \<open>execute\<close> records for a call, as one relation.\<close>

definition call_outcome :: "'w config \<Rightarrow> tool_spec list \<Rightarrow> tool_call \<Rightarrow> ledger_call \<Rightarrow> tool_result \<Rightarrow> bool" where
  "call_outcome cfg tools c entry result \<longleftrightarrow>
     tc_name c \<noteq> CannotCompleteTool \<and>
     lc_tool entry = tc_name c \<and> lc_kind entry = kinds tools (tc_name c) \<and>
     lc_args_digest entry = ArgsDigest (cf_sha cfg) (tc_args c) \<and>
     tr_call_id result = tc_call_id c \<and> tr_ok result = lc_ok entry \<and>
     (lc_ok entry \<longrightarrow> offered tools (tc_name c) \<and> validateToolArgs (cf_json_errmsg cfg) (tc_args c) = None) \<and>
     (lc_uris entry \<noteq> [] \<longrightarrow> lc_ok entry \<and> KindProducesArtifacts (case lc_kind entry of Some k \<Rightarrow> k | None \<Rightarrow> []))"

lemma openai_reply_bodies: "openai_reply_calls tcs = Inr bs \<Longrightarrow> list_all is_reply_body bs"
  by (induction tcs arbitrary: bs) (auto split: if_splits sum.splits)

lemma anthropic_reply_bodies: "anthropic_reply_blocks bl = Inr bs \<Longrightarrow> list_all is_reply_body bs"
  by (induction bl arbitrary: bs) (auto split: if_splits sum.splits)

lemma decoded_bodies: "DecodeResponse em c resp = Inr reply \<Longrightarrow> list_all is_reply_body (rp_bodies reply)"
  by (auto simp: DecodeResponse_def OpenAI_DecodeResponse_def Anthropic_DecodeResponse_def
      dest: openai_reply_bodies anthropic_reply_bodies
      split: codec.splits option.splits list.splits sum.splits prod.splits if_splits)

lemma round_trip_bodies:
  "round_trip cfg tools s = (Inr reply, s') \<Longrightarrow> list_all is_reply_body (rp_bodies reply)"
  by (auto simp: round_trip_def RoundTrip_def dest: decoded_bodies
      split: prod.splits sum.splits http_outcome.splits if_splits)

text \<open>The ways one pass of the loop goes.\<close>

lemma loop_step_cases:
  assumes "loop_step cfg tools start s = (r, s')"
  obtains (late) "poll_ctx cfg s = (True, s')" and "r = Some (EndTimeout, None)"
  | (cap) "poll_ctx cfg s = (False, s')" and "l_steps (rs_ledger s') \<ge> cf_max_steps cfg" and "r = Some (EndStepCap, None)"
  | (failed) s0 s1 e b where "poll_ctx cfg s = (False, s0)" and "l_steps (rs_ledger s0) < cf_max_steps cfg"
      and "round_trip cfg tools (count_step s0) = (Inl e, s1)" and "poll_ctx cfg s1 = (b, s')"
      and "r = Some (if b then (EndTimeout, None) else (EndModelError, Some e))"
  | (silent) s0 s1 m where "poll_ctx cfg s = (False, s0)" and "l_steps (rs_ledger s0) < cf_max_steps cfg"
      and "round_trip cfg tools (count_step s0) = (Inr m, s1)" and "append_reply cfg (rp_bodies m) s1 = ([], s')"
      and "r = Some (if rp_stop m = StopMaxTokens then EndMaxTokens else EndTurn, None)"
  | (called) s0 s1 m calls s2 r3 where "poll_ctx cfg s = (False, s0)" and "l_steps (rs_ledger s0) < cf_max_steps cfg"
      and "round_trip cfg tools (count_step s0) = (Inr m, s1)" and "append_reply cfg (rp_bodies m) s1 = (calls, s2)"
      and "execute_all cfg tools start calls s2 = (r3, s')" and "r = map_option (\<lambda>e. (e, None)) r3"
proof -
  obtain b0 s0 where 0: "poll_ctx cfg s = (b0, s0)" by fastforce
  obtain m s1 where 1: "round_trip cfg tools (count_step s0) = (m, s1)" by fastforce
  obtain calls s2 where 2: "append_reply cfg (rp_bodies (projr m)) s1 = (calls, s2)" by fastforce
  obtain r3 s3 where 3: "execute_all cfg tools start calls s2 = (r3, s3)" by fastforce
  obtain b4 s4 where 4: "poll_ctx cfg s1 = (b4, s4)" by fastforce
  show thesis
  proof (cases "b0 \<or> cf_max_steps cfg \<le> l_steps (rs_ledger s0)")
    case True
    with assms 0 late cap show ?thesis by (auto simp: loop_step_def split: if_splits)
  next
    case False
    show ?thesis
    proof (cases m)
      case (Inl e)
      with assms 0 1 4 False failed show ?thesis by (auto simp: loop_step_def)
    next
      case (Inr m')
      show ?thesis
      proof (cases "calls = []")
        case True
        with assms 0 1 2 False Inr silent show ?thesis by (auto simp: loop_step_def)
      next
        case calls: False
        with assms 0 1 2 3 False Inr show ?thesis
          by (intro called [of s0 m' s1 calls s2 r3]) (auto simp: loop_step_def split: option.splits)
      qed
    qed
  qed
qed

text \<open>The loop's result is that of its last step, taken from a state that has every property
  the steps before it keep.\<close>

lemma loop_last:
  assumes "loop cfg tools start s = (r, s')" and "P s"
    and "\<And>s s'. P s \<Longrightarrow> loop_step cfg tools start s = (None, s') \<Longrightarrow> P s'"
  obtains s0 where "P s0" and "loop_step cfg tools start s0 = (Some r, s')"
proof -
  from assms(1,2) have "\<exists>s0. P s0 \<and> loop_step cfg tools start s0 = (Some r, s')"
  proof (induction s rule: measure_induct_rule [of "\<lambda>s. nat (cf_max_steps cfg - l_steps (rs_ledger s))"])
    case (less s)
    obtain r1 s1 where 1: "loop_step cfg tools start s = (r1, s1)" by fastforce
    show ?case
    proof (cases r1)
      case None
      with less.prems 1 assms(3) [OF less.prems(2)] loop_step_more [of cfg tools start s s1] show ?thesis
        by (intro less.IH [of s1]) (auto simp: loop.simps [of cfg tools start s])
    qed (use less.prems 1 in \<open>auto simp: loop.simps [of cfg tools start s]\<close>)
  qed
  with that show thesis by blast
qed

text \<open>The ends after which no call of the last reply is left unanswered.\<close>

definition settled :: "end_reason \<Rightarrow> bool" where
  "settled e \<longleftrightarrow> e = EndTurn \<or> e = EndMaxTokens \<or> e = EndStepCap \<or> e = EndModelError"

lemma execute_ends: "execute cfg tools start t c s = (Some e, s') \<Longrightarrow> \<not> settled e"
  by (auto simp: execute_def Let_def settled_def split: if_splits option.splits prod.splits exec_outcome.splits)

lemma execute_all_ends: "execute_all cfg tools start calls s = (Some e, s') \<Longrightarrow> \<not> settled e"
proof (induction calls arbitrary: s)
  case (Cons p calls)
  then show ?case using execute_ends by (cases p) (fastforce split: prod.splits option.splits)
qed simp

locale run_invariant =
  fixes cfg :: "'w config" and tools :: "tool_spec list"
    and I :: "(turn \<times> tool_call) list \<Rightarrow> 'w run_state \<Rightarrow> bool"
  assumes moved: "I ps s \<Longrightarrow> I ps (s\<lparr>rs_world := w\<rparr>)"
    and noted: "I ps s \<Longrightarrow> I ps (s\<lparr>rs_ledger := (rs_ledger s)\<lparr>l_notes := ns\<rparr>\<rparr>)"
    and give_up: "I ps s \<Longrightarrow> I ps (s\<lparr>rs_ledger := (rs_ledger s)\<lparr>l_cannot_complete := r\<rparr>\<rparr>)"
    and stepped: "I [] s \<Longrightarrow> l_steps (rs_ledger s) < cf_max_steps cfg \<Longrightarrow> I [] (count_step s)"
    and replied: "I ps s \<Longrightarrow> 1 \<le> l_steps (rs_ledger s) \<Longrightarrow> is_reply_body b \<Longrightarrow>
      append_turn cfg b (rs_last s) s = (t, s') \<Longrightarrow> I (ps @ pending t b) s'"
    and answered: "I ((t, c) # ps) s \<Longrightarrow> call_outcome cfg tools c entry result \<Longrightarrow>
      I ps (finish_call cfg t (tc_args c) entry result n (lc_ok entry) s)"
begin

lemma reply_turns:
  assumes "append_reply cfg bs s = (calls, s')" and "I ps s" and "1 \<le> l_steps (rs_ledger s)"
    and "list_all is_reply_body bs"
  shows "I (ps @ calls) s'"
  using assms
proof (induction bs arbitrary: ps s calls)
  case (Cons b bs)
  obtain t s1 where 1: "append_turn cfg b (rs_last s) s = (t, s1)" by fastforce
  obtain calls1 where 2: "append_reply cfg bs s1 = (calls1, s')" and 3: "calls = pending t b @ calls1"
    using Cons.prems(1) 1 by (auto simp: pending_def split: prod.splits)
  have "I (ps @ pending t b) s1" using replied [OF Cons.prems(2,3) _ 1] Cons.prems(4) by simp
  with Cons.IH [OF 2, of "ps @ pending t b"] Cons.prems(3,4) steps_append_turn [OF 1] 3 show ?case by simp
qed simp

lemma polled: "poll_ctx cfg s = (b, s') \<Longrightarrow> I ps s \<Longrightarrow> I ps s'"
  by (auto simp: poll_ctx_def moved split: prod.splits)

lemma moved_noted:
  assumes "I ps s"
  shows "I ps (s\<lparr>rs_world := w, rs_ledger := (rs_ledger s)\<lparr>l_notes := ns\<rparr>\<rparr>)"
  using noted [OF moved [OF assms, of w], of ns] by simp

lemma stopped: "stopNow cfg start s = (b, s') \<Longrightarrow> I ps s \<Longrightarrow> I ps s'"
  by (auto simp: stopNow_def intro: moved moved_noted split: prod.splits option.splits sum.splits)

lemma executed:
  assumes "execute cfg tools start t c s = (r, s')" and "I ((t, c) # ps) s"
  shows "I (if tc_name c = CannotCompleteTool then (t, c) # ps else ps) s'"
proof -
  have outcome: "tc_name c \<noteq> CannotCompleteTool \<Longrightarrow> call_outcome cfg tools c entry result \<Longrightarrow> ok = lc_ok entry \<Longrightarrow>
      I ps (finish_call cfg t (tc_args c) entry result n ok (s\<lparr>rs_world := w\<rparr>))"
    for entry result n w ok using answered [OF moved [OF assms(2)]] by simp
  have outcome0: "tc_name c \<noteq> CannotCompleteTool \<Longrightarrow> call_outcome cfg tools c entry result \<Longrightarrow> ok = lc_ok entry \<Longrightarrow>
      I ps (finish_call cfg t (tc_args c) entry result n ok s)"
    for entry result n w ok using answered [OF assms(2)] by simp
  from assms show ?thesis
    by (auto simp: execute_def Let_def call_outcome_def intro!: give_up outcome outcome0 elim!: polled stopped
        split: if_splits option.splits prod.splits exec_outcome.splits)
qed

lemma executed_all:
  "execute_all cfg tools start calls s = (r, s') \<Longrightarrow> I calls s \<Longrightarrow> \<exists>ps. I ps s' \<and> (r = None \<longrightarrow> ps = [])"
proof (induction calls arbitrary: s)
  case (Cons p calls)
  obtain t c where [simp]: "p = (t, c)" by fastforce
  obtain r1 s1 where 1: "execute cfg tools start t c s = (r1, s1)" by fastforce
  note 2 = executed [OF 1, of calls]
  show ?case
  proof (cases r1)
    case None
    then have "tc_name c \<noteq> CannotCompleteTool" using 1 by (auto simp: execute_def)
    with Cons 1 2 None show ?thesis by simp
  qed (use Cons 1 2 in auto)
qed auto

lemma tripped: "round_trip cfg tools s = (r, s') \<Longrightarrow> I ps s \<Longrightarrow> I ps s'"
  by (auto simp: round_trip_def moved split: prod.splits)

lemma loop_stepped:
  assumes "loop_step cfg tools start s = (r, s')" and "I [] s" and "0 \<le> l_steps (rs_ledger s)"
  shows "\<exists>ps. I ps s' \<and> (r = None \<or> (\<exists>e err. r = Some (e, err) \<and> settled e) \<longrightarrow> ps = []) \<and> l_steps (rs_ledger s) \<le> l_steps (rs_ledger s')"
  using assms(1)
proof (cases rule: loop_step_cases)
  case late
  with assms polled steps_poll_ctx show ?thesis by (metis eq_refl)
next
  case cap
  with assms polled steps_poll_ctx show ?thesis by (metis eq_refl)
next
  case (failed s0 s1 e b)
  have "I [] s'" using polled [OF failed(4) tripped [OF failed(3) stepped [OF polled [OF failed(1) assms(2)] failed(2)]]] .
  with steps_poll_ctx [OF failed(1)] steps_round_trip [OF failed(3)] steps_poll_ctx [OF failed(4)] show ?thesis
    by (auto simp: count_step_def)
next
  case (silent s0 s1 m)
  note L = steps_poll_ctx [OF silent(1)] steps_round_trip [OF silent(3)] steps_append_reply [OF silent(4)]
  have "I [] s'"
    using reply_turns [OF silent(4) tripped [OF silent(3) stepped [OF polled [OF silent(1) assms(2)] silent(2)]] _ round_trip_bodies [OF silent(3)]]
      L assms(3) by (simp add: count_step_def)
  with L show ?thesis by (auto simp: count_step_def)
next
  case (called s0 s1 m calls s2 r3)
  note L = steps_poll_ctx [OF called(1)] steps_round_trip [OF called(3)] steps_append_reply [OF called(4)]
    steps_execute_all [OF called(5)]
  have "I calls s2"
    using reply_turns [OF called(4) tripped [OF called(3) stepped [OF polled [OF called(1) assms(2)] called(2)]] _ round_trip_bodies [OF called(3)]]
      L assms(3) by (simp add: count_step_def)
  from executed_all [OF called(5) this] execute_all_ends [of cfg tools start calls s2 _ s'] called(5,6) L show ?thesis
    by (auto simp: count_step_def)
qed

lemma looped:
  assumes "loop cfg tools start s = ((e, err), s')" and "I [] s" and "0 \<le> l_steps (rs_ledger s)"
  obtains ps where "I ps s'" and "settled e \<Longrightarrow> ps = []"
proof -
  obtain s0 where s0: "I [] s0 \<and> 0 \<le> l_steps (rs_ledger s0)" and "loop_step cfg tools start s0 = (Some (e, err), s')"
    using loop_last [OF assms(1), of "\<lambda>s. I [] s \<and> 0 \<le> l_steps (rs_ledger s)"] assms(2,3) loop_stepped
    by (smt (verit, best))
  from loop_stepped [OF this(2)] s0 that show thesis by blast
qed

end

section \<open>One story in three places\<close>

lemma append_turn_shape:
  assumes "append_turn cfg b p s = (t, s')"
  shows "t_body t = b \<and> t_parent t = p \<and> t_sender t = cf_principal cfg \<and>
    (\<exists>w. s' = s\<lparr>rs_turns := rs_turns s @ [t], rs_last := t_id t, rs_world := w\<rparr>)"
  using assms by (auto simp: append_turn_def Let_def split: prod.splits)

text \<open>Every outcome of a call adds one ledger entry, one result turn under the call's turn
  and, when somebody listens, one traffic record.\<close>

lemma finish_call_shape:
  obtains t w where "t_body t = ToolResultBody result" and "t_parent t = t_id callTurn" and "t_sender t = cf_principal cfg"
    and "finish_call cfg callTurn args entry result n ok s =
      s\<lparr>rs_turns := rs_turns s @ [t], rs_last := t_id t, rs_world := w,
        rs_ledger := (rs_ledger s)\<lparr>l_calls := l_calls (rs_ledger s) @ [entry]\<rparr>,
        rs_traffic := rs_traffic s @ (if cf_on_traffic cfg = None then [] else
          [\<lparr>tf_step = l_steps (rs_ledger s), tf_job = [], tf_tool = lc_tool entry, tf_args = args,
            tf_args_digest = lc_args_digest entry, tf_result_size = n, tf_ok = ok, tf_ts = t_at t\<rparr>])\<rparr>"
proof -
  obtain t s1 where 1: "append_turn cfg (ToolResultBody result) (t_id callTurn) (add_call entry s) = (t, s1)" by fastforce
  from append_turn_shape [OF 1] obtain w where
    "s1 = (add_call entry s)\<lparr>rs_turns := rs_turns s @ [t], rs_last := t_id t, rs_world := w\<rparr>"
    by (auto simp: add_call_def)
  note s1 = this and facts = append_turn_shape [OF 1]
  have "\<exists>w. finish_call cfg callTurn args entry result n ok s =
      s\<lparr>rs_turns := rs_turns s @ [t], rs_last := t_id t, rs_world := w,
        rs_ledger := (rs_ledger s)\<lparr>l_calls := l_calls (rs_ledger s) @ [entry]\<rparr>,
        rs_traffic := rs_traffic s @ (if cf_on_traffic cfg = None then [] else
          [\<lparr>tf_step = l_steps (rs_ledger s), tf_job = [], tf_tool = lc_tool entry, tf_args = args,
            tf_args_digest = lc_args_digest entry, tf_result_size = n, tf_ok = ok, tf_ts = t_at t\<rparr>])\<rparr>"
  proof (cases "cf_on_traffic cfg")
    case None
    then show ?thesis
      by (intro exI [of _ w]) (simp add: finish_call_def 1, simp add: send_traffic_def s1 add_call_def)
  next
    case (Some f)
    then show ?thesis
      by (intro exI [of _ "f \<lparr>tf_step = l_steps (rs_ledger s), tf_job = [], tf_tool = lc_tool entry, tf_args = args,
            tf_args_digest = lc_args_digest entry, tf_result_size = n, tf_ok = ok, tf_ts = t_at t\<rparr> w"])
         (simp add: finish_call_def 1, simp add: send_traffic_def s1 add_call_def Let_def)
  qed
  with facts show thesis by (auto intro: that)
qed

text \<open>
  \<open>log_inv\<close>: the ledger lists the calls the model made, in order, with their digests;
  calls and results of the transcript match one to one, in order, with the ledger's
  success flags; a call that succeeded was offered, had usable arguments; only such a
  call of an artifact-producing kind has URIs; the traffic lists the same calls. What is
  still owed is \<open>ps\<close>, the calls of the reply not yet executed.
\<close>

definition log_inv :: "'w config \<Rightarrow> tool_spec list \<Rightarrow> (turn \<times> tool_call) list \<Rightarrow> 'w run_state \<Rightarrow> bool" where
  "log_inv cfg tools ps s \<longleftrightarrow>
     (let L = l_calls (rs_ledger s); T = rs_turns s in
      map tc_call_id (calls_of T) = map tr_call_id (results_of T) @ map (tc_call_id \<circ> snd) ps \<and>
      map (\<lambda>c. (tc_name c, ArgsDigest (cf_sha cfg) (tc_args c))) (calls_of T) =
        map (\<lambda>e. (lc_tool e, lc_args_digest e)) L @ map (\<lambda>(t, c). (tc_name c, ArgsDigest (cf_sha cfg) (tc_args c))) ps \<and>
      map lc_ok L = map tr_ok (results_of T) \<and>
      (\<forall>e \<in> set L. lc_kind e = kinds tools (lc_tool e) \<and> lc_tool e \<noteq> CannotCompleteTool \<and>
         (lc_ok e \<longrightarrow> offered tools (lc_tool e)) \<and>
         (lc_uris e \<noteq> [] \<longrightarrow> lc_ok e \<and> KindProducesArtifacts (case lc_kind e of Some k \<Rightarrow> k | None \<Rightarrow> []))) \<and>
      (\<forall>t \<in> set T. t_sender t = cf_principal cfg \<and> (\<forall>r. t_body t \<noteq> TerminalBody r)) \<and>
      (cf_on_traffic cfg \<noteq> None \<longrightarrow>
         map (\<lambda>r. (tf_tool r, tf_args_digest r, tf_ok r)) (rs_traffic s) = map (\<lambda>e. (lc_tool e, lc_args_digest e, lc_ok e)) L) \<and>
      (\<forall>r \<in> set (rs_traffic s). tf_args_digest r = ArgsDigest (cf_sha cfg) (tf_args r) \<and> tf_step r \<le> l_steps (rs_ledger s)) \<and>
      0 \<le> l_steps (rs_ledger s) \<and> l_steps (rs_ledger s) \<le> cf_max_steps cfg)"

interpretation story: run_invariant cfg tools "log_inv cfg tools"
proof unfold_locales
  fix ps and s :: "'a run_state" and b t s'
  assume "log_inv cfg tools ps s" "1 \<le> l_steps (rs_ledger s)" "is_reply_body b" "append_turn cfg b (rs_last s) s = (t, s')"
  then show "log_inv cfg tools (ps @ pending t b) s'"
    by (cases b) (auto simp: log_inv_def Let_def pending_def dest!: append_turn_shape)
next
  fix t c ps entry result n and s :: "'a run_state"
  assume "log_inv cfg tools ((t, c) # ps) s" "call_outcome cfg tools c entry result"
  then show "log_inv cfg tools ps (finish_call cfg t (tc_args c) entry result n (lc_ok entry) s)"
    by (cases rule: finish_call_shape [of result t cfg "tc_args c" entry n "lc_ok entry" s])
       (auto simp: log_inv_def Let_def call_outcome_def split: if_splits)
qed (auto simp: log_inv_def Let_def count_step_def)

section \<open>Provenance\<close>

text \<open>\<open>linked ids ts\<close>: each turn's parent is one of \<open>ids\<close> or an earlier turn of \<open>ts\<close>.
  \<open>answered us ts\<close>: each result's parent is an earlier turn that made the call it answers.\<close>

fun linked :: "string list \<Rightarrow> turn list \<Rightarrow> bool" where
  "linked ids [] = True"
| "linked ids (t # ts) = (t_parent t \<in> set ids \<and> linked (t_id t # ids) ts)"

definition answers :: "turn \<Rightarrow> turn \<Rightarrow> bool" where
  "answers t u \<longleftrightarrow> (case t_body t of ToolResultBody r \<Rightarrow>
       (case t_body u of ToolCallBody c \<Rightarrow> t_parent t = t_id u \<and> tr_call_id r = tc_call_id c | _ \<Rightarrow> False)
     | _ \<Rightarrow> True)"

fun answered :: "turn list \<Rightarrow> turn list \<Rightarrow> bool" where
  "answered us [] = True"
| "answered us (t # ts) = ((result_of (t_body t) = [] \<or> (\<exists>u \<in> set us. answers t u)) \<and> answered (t # us) ts)"

lemma linked_snoc [simp]:
  "linked ids (ts @ [t]) \<longleftrightarrow> linked ids ts \<and> t_parent t \<in> set ids \<union> t_id ` set ts"
  by (induction ts arbitrary: ids) auto

lemma answered_snoc [simp]:
  "answered us (ts @ [t]) \<longleftrightarrow> answered us ts \<and> (result_of (t_body t) = [] \<or> (\<exists>u \<in> set us \<union> set ts. answers t u))"
  by (induction ts arbitrary: us) auto

definition link_inv :: "'w config \<Rightarrow> (turn \<times> tool_call) list \<Rightarrow> 'w run_state \<Rightarrow> bool" where
  "link_inv cfg ps s \<longleftrightarrow>
     linked [cf_brief_turn_id cfg] (rs_turns s) \<and> answered [] (rs_turns s) \<and>
     rs_last s \<in> insert (cf_brief_turn_id cfg) (t_id ` set (rs_turns s)) \<and>
     (\<forall>(t, c) \<in> set ps. t \<in> set (rs_turns s) \<and> t_body t = ToolCallBody c)"

interpretation provenance: run_invariant cfg tools "link_inv cfg"
proof unfold_locales
  fix ps and s :: "'a run_state" and b t s'
  assume "link_inv cfg ps s" "is_reply_body b" "append_turn cfg b (rs_last s) s = (t, s')"
  then show "link_inv cfg (ps @ pending t b) s'"
    by (cases b) (auto simp: link_inv_def pending_def dest!: append_turn_shape)
next
  fix t c ps entry result n and s :: "'a run_state"
  assume 1: "link_inv cfg ((t, c) # ps) s" and 2: "call_outcome cfg tools c entry result"
  obtain u w where u: "t_body u = ToolResultBody result" "t_parent u = t_id t"
      and "finish_call cfg t (tc_args c) entry result n (lc_ok entry) s =
        s\<lparr>rs_turns := rs_turns s @ [u], rs_last := t_id u, rs_world := w,
          rs_ledger := (rs_ledger s)\<lparr>l_calls := l_calls (rs_ledger s) @ [entry]\<rparr>,
          rs_traffic := rs_traffic s @ (if cf_on_traffic cfg = None then [] else
            [\<lparr>tf_step = l_steps (rs_ledger s), tf_job = [], tf_tool = lc_tool entry, tf_args = tc_args c,
              tf_args_digest = lc_args_digest entry, tf_result_size = n, tf_ok = lc_ok entry, tf_ts = t_at u\<rparr>])\<rparr>"
    by (cases rule: finish_call_shape [of result t cfg "tc_args c" entry n "lc_ok entry" s])
  moreover from 1 2 u have "answers u t" by (simp add: link_inv_def answers_def call_outcome_def)
  ultimately show "link_inv cfg ps (finish_call cfg t (tc_args c) entry result n (lc_ok entry) s)"
    using 1 by (auto simp: link_inv_def)
qed (auto simp: link_inv_def count_step_def)

section \<open>Whole runs\<close>

text \<open>A finished run is a finished loop and one terminal turn.\<close>

lemma withDefaults_same:
  "withDefaults c = Inr c' \<Longrightarrow>
     cf_principal c' = cf_principal c \<and> cf_brief_turn_id c' = cf_brief_turn_id c \<and> cf_sha c' = cf_sha c \<and>
     cf_tools c' = cf_tools c \<and> cf_on_traffic c' = cf_on_traffic c \<and> cf_json_errmsg c' = cf_json_errmsg c \<and>
     cf_max_steps c' = (if cf_max_steps c \<le> 0 then DefaultMaxSteps else cf_max_steps c)"
  by (auto simp: withDefaults_def Let_def split: if_splits option.splits sum.splits)

lemma run_loop_cases:
  assumes "run_loop cfg w = ((e, err), s)"
  obtains start w0 s1 runErr t where
    "loop cfg (toolsWithCannotComplete (cf_tools cfg)) start (start_state cfg w0) = ((e, runErr), s1)"
    and "err = runErr \<or> e = EndTimeout \<and> err = Some ErrCanceled"
    and "rs_turns s = rs_turns s1 @ [t]" and "t_body t = TerminalBody e"
    and "t_parent t = rs_last s1" and "t_sender t = cf_principal cfg"
    and "rs_traffic s = rs_traffic s1"
    and "\<exists>ms. rs_ledger s = (rs_ledger s1)\<lparr>l_end := e, l_elapsed_ms := ms\<rparr>"
proof -
  obtain start w1 where 1: "cf_now cfg w = (start, w1)" by fastforce
  obtain e1 runErr s1 where 2:
    "loop cfg (toolsWithCannotComplete (cf_tools cfg)) start (start_state cfg w1) = ((e1, runErr), s1)"
    by (metis prod.collapse)
  obtain err1 w2 where 3: "(if e1 = EndTimeout
            then (case cf_parent_err cfg (rs_world s1) of (b, w2) \<Rightarrow> (if b then Some ErrCanceled else runErr, s1\<lparr>rs_world := w2\<rparr>))
            else (runErr, s1)) = (err1, s1\<lparr>rs_world := w2\<rparr>)" "err1 = runErr \<or> e1 = EndTimeout \<and> err1 = Some ErrCanceled"
  proof (cases "e1 = EndTimeout")
    case True
    obtain b w2 where "cf_parent_err cfg (rs_world s1) = (b, w2)" by fastforce
    with True show ?thesis by (intro that [of "if b then Some ErrCanceled else runErr" w2]) auto
  qed (intro that [of runErr "rs_world s1"], auto)
  obtain t s3 where 4: "append_turn cfg (TerminalBody e1) (rs_last s1) (s1\<lparr>rs_world := w2\<rparr>) = (t, s3)" by fastforce
  obtain stop w3 where 5: "cf_now cfg (rs_world s3) = (stop, w3)" by fastforce
  have r: "e = e1" "err = err1"
    "s = s3\<lparr>rs_world := w3, rs_ledger := (rs_ledger s3)\<lparr>l_end := e1, l_elapsed_ms := milliseconds (stop - start)\<rparr>\<rparr>"
    using assms by (auto simp: run_loop_def 1 2 3 4 5)
  from append_turn_shape [OF 4] show thesis
    by (intro that [of start w1 runErr s1 t]) (use 2 3(2) r in auto)
qed

lemma run_cases:
  assumes "Run cfg0 w = (Inr (res, err), w')"
  obtains cfg s where "withDefaults cfg0 = Inr cfg" and "run_loop cfg w = ((res_end res, err), s)"
    and "res_turns res = rs_turns s" and "res_ledger res = rs_ledger s" and "w' = rs_world s"
  using assms by (auto simp: Run_def split: sum.splits prod.splits)

lemma start_log: "0 < cf_max_steps cfg \<Longrightarrow> log_inv cfg tools [] (start_state cfg w)"
  by (simp add: log_inv_def start_state_def newLedger_def)

lemma start_link: "link_inv cfg [] (start_state cfg w)"
  by (simp add: link_inv_def start_state_def)

lemma start_steps [simp]: "l_steps (rs_ledger (start_state cfg w)) = 0"
  by (simp add: start_state_def newLedger_def)

lemma defaults_positive: "withDefaults c = Inr c' \<Longrightarrow> 0 < cf_max_steps c'"
  by (auto simp: withDefaults_def Let_def DefaultMaxSteps_def split: if_splits option.splits sum.splits)

text \<open>The invariants at the end of a run, with the terminal turn put back.\<close>

lemma run_loop_log:
  assumes "run_loop cfg w = ((e, err), s)" and "0 < cf_max_steps cfg"
  obtains ps t s1 where "log_inv cfg (toolsWithCannotComplete (cf_tools cfg)) ps s1" and "settled e \<Longrightarrow> ps = []"
    and "rs_turns s = rs_turns s1 @ [t]" and "t_body t = TerminalBody e" and "t_sender t = cf_principal cfg"
    and "rs_traffic s = rs_traffic s1" and "l_calls (rs_ledger s) = l_calls (rs_ledger s1)"
    and "l_steps (rs_ledger s) = l_steps (rs_ledger s1)" and "l_end (rs_ledger s) = e"
proof -
  from assms(1) show thesis
  proof (cases rule: run_loop_cases)
    case (1 start w0 s1 runErr t)
    obtain ps where "log_inv cfg (toolsWithCannotComplete (cf_tools cfg)) ps s1" "settled e \<Longrightarrow> ps = []"
      using story.looped [OF 1(1) start_log [OF assms(2)]] by auto
    with 1 that show thesis by auto
  qed
qed

lemma run_loop_link:
  assumes "run_loop cfg w = ((e, err), s)"
  shows "linked [cf_brief_turn_id cfg] (rs_turns s) \<and> answered [] (rs_turns s)"
  using assms
proof (cases rule: run_loop_cases)
  case (1 start w0 s1 runErr t)
  obtain ps where "link_inv cfg ps s1" using provenance.looped [OF 1(1) start_link] by auto
  with 1 show ?thesis by (auto simp: link_inv_def)
qed

text \<open>What the last step says about its end.\<close>

definition end_agrees :: "'w config \<Rightarrow> end_reason \<Rightarrow> gerror option \<Rightarrow> 'w run_state \<Rightarrow> bool" where
  "end_agrees cfg e err s \<longleftrightarrow>
     (err \<noteq> None \<longleftrightarrow> e = EndModelError) \<and>
     (e = EndCannotComplete \<longleftrightarrow> l_cannot_complete (rs_ledger s) \<noteq> None) \<and>
     (e = EndStepCap \<longrightarrow> l_steps (rs_ledger s) \<ge> cf_max_steps cfg) \<and>
     (e = EndEvaluatorPass \<longrightarrow> l_calls (rs_ledger s) \<noteq> [] \<and> lc_ok (last (l_calls (rs_ledger s)))) \<and>
     (e = EndToolError \<longrightarrow> l_calls (rs_ledger s) \<noteq> [] \<and> \<not> lc_ok (last (l_calls (rs_ledger s))))"

lemma cc_stopNow:
  "stopNow cfg start s = (b, s') \<Longrightarrow> l_cannot_complete (rs_ledger s') = l_cannot_complete (rs_ledger s) \<and>
     l_calls (rs_ledger s') = l_calls (rs_ledger s)"
  by (auto simp: stopNow_def split: prod.splits option.splits sum.splits)

lemma execute_agrees:
  "execute cfg tools start t c s = (r, s') \<Longrightarrow> l_cannot_complete (rs_ledger s) = None \<Longrightarrow>
     (case r of None \<Rightarrow> l_cannot_complete (rs_ledger s') = None | Some e \<Rightarrow> end_agrees cfg e None s')"
  by (auto simp: execute_def Let_def end_agrees_def split: if_splits option.splits prod.splits exec_outcome.splits
      dest!: steps_poll_ctx cc_stopNow)

lemma execute_all_agrees:
  "execute_all cfg tools start calls s = (r, s') \<Longrightarrow> l_cannot_complete (rs_ledger s) = None \<Longrightarrow>
     (case r of None \<Rightarrow> l_cannot_complete (rs_ledger s') = None | Some e \<Rightarrow> end_agrees cfg e None s')"
proof (induction calls arbitrary: s)
  case (Cons p calls)
  obtain t c where [simp]: "p = (t, c)" by fastforce
  obtain r1 s1 where 1: "execute cfg tools start t c s = (r1, s1)" by fastforce
  from execute_agrees [OF 1 Cons.prems(2)] Cons 1 show ?case by (auto split: option.splits)
qed simp

lemma loop_step_agrees:
  assumes "loop_step cfg tools start s = (r, s')" and "l_cannot_complete (rs_ledger s) = None"
  shows "case r of None \<Rightarrow> l_cannot_complete (rs_ledger s') = None | Some (e, err) \<Rightarrow> end_agrees cfg e err s'"
  using assms(1)
proof (cases rule: loop_step_cases)
  case (failed s0 s1 e b)
  with assms(2) steps_poll_ctx [OF failed(1)] steps_round_trip [OF failed(3)] steps_poll_ctx [OF failed(4)] show ?thesis
    by (simp add: end_agrees_def count_step_def)
next
  case (silent s0 s1 m)
  with assms(2) steps_poll_ctx [OF silent(1)] steps_round_trip [OF silent(3)] steps_append_reply [OF silent(4)] show ?thesis
    by (simp add: end_agrees_def count_step_def)
next
  case (called s0 s1 m calls s2 r3)
  have "l_cannot_complete (rs_ledger s2) = None"
    using assms(2) steps_poll_ctx [OF called(1)] steps_round_trip [OF called(3)] steps_append_reply [OF called(4)]
    by (simp add: count_step_def)
  from execute_all_agrees [OF called(5) this] called(6) show ?thesis by (simp split: option.splits)
qed (use assms(2) steps_poll_ctx [of cfg s True s'] steps_poll_ctx [of cfg s False s'] in \<open>auto simp: end_agrees_def\<close>)

lemma run_loop_agrees:
  assumes "run_loop cfg w = ((e, err), s)"
  obtains runErr where "end_agrees cfg e runErr s" and "err = runErr \<or> e = EndTimeout \<and> err = Some ErrCanceled"
proof -
  from assms show thesis
  proof (cases rule: run_loop_cases)
    case (1 start w0 s1 runErr t)
    have start: "l_cannot_complete (rs_ledger (start_state cfg w0)) = None"
      by (simp add: start_state_def newLedger_def)
    have kept: "l_cannot_complete (rs_ledger s') = None"
      if "l_cannot_complete (rs_ledger s) = None" "loop_step cfg (toolsWithCannotComplete (cf_tools cfg)) start s = (None, s')"
      for s s' using loop_step_agrees [OF that(2,1)] by simp
    obtain s0 where "l_cannot_complete (rs_ledger s0) = None"
        "loop_step cfg (toolsWithCannotComplete (cf_tools cfg)) start s0 = (Some (e, runErr), s1)"
      by (rule loop_last [where P = "\<lambda>s. l_cannot_complete (rs_ledger s) = None", OF 1(1) start kept])
    from loop_step_agrees [OF this(2,1)] 1 that [of runErr] show thesis by (auto simp: end_agrees_def)
  qed
qed

section \<open>Two executors\<close>

text \<open>Nothing but \<open>execute\<close> looks at the executor, and only after the call passed both
  guards.\<close>

lemma exec_irrelevant [simp]:
  "append_turn (cfg\<lparr>cf_exec := x\<rparr>) = append_turn cfg"
  "send_traffic (cfg\<lparr>cf_exec := x\<rparr>) = send_traffic cfg"
  "stopNow (cfg\<lparr>cf_exec := x\<rparr>) = stopNow cfg"
  "poll_ctx (cfg\<lparr>cf_exec := x\<rparr>) = poll_ctx cfg"
  "round_trip (cfg\<lparr>cf_exec := x\<rparr>) = round_trip cfg"
  by (simp_all add: fun_eq_iff append_turn_def send_traffic_def stopNow_def poll_ctx_def round_trip_def
      the_request_def wireTurns_def the_codec_def cong: option.case_cong prod.case_cong sum.case_cong)

lemma exec_irrelevant_finish [simp]: "finish_call (cfg\<lparr>cf_exec := x\<rparr>) = finish_call cfg"
  by (simp add: fun_eq_iff finish_call_def)

lemma exec_irrelevant_reply [simp]: "append_reply (cfg\<lparr>cf_exec := x\<rparr>) bs s = append_reply cfg bs s"
  by (induction bs arbitrary: s) (auto split: prod.split)

definition agree_on :: "(string \<Rightarrow> string) \<Rightarrow> tool_spec list \<Rightarrow>
    (string \<Rightarrow> string \<Rightarrow> 'w \<Rightarrow> exec_outcome \<times> 'w) \<Rightarrow> (string \<Rightarrow> string \<Rightarrow> 'w \<Rightarrow> exec_outcome \<times> 'w) \<Rightarrow> bool" where
  "agree_on em tools f g \<longleftrightarrow> (\<forall>name args w.
     offered tools name \<and> name \<noteq> CannotCompleteTool \<and> validateToolArgs em args = None \<longrightarrow> f name args w = g name args w)"

lemma execute_agree:
  "cf_exec cfg = Some f \<Longrightarrow> agree_on (cf_json_errmsg cfg) tools f g \<Longrightarrow>
     execute (cfg\<lparr>cf_exec := Some g\<rparr>) tools start t c s = execute cfg tools start t c s"
  by (auto simp: execute_def agree_on_def Let_def cong: option.case_cong prod.case_cong exec_outcome.case_cong if_cong
      split: option.split)

lemma execute_all_agree:
  "cf_exec cfg = Some f \<Longrightarrow> agree_on (cf_json_errmsg cfg) tools f g \<Longrightarrow>
     execute_all (cfg\<lparr>cf_exec := Some g\<rparr>) tools start calls s = execute_all cfg tools start calls s"
proof (induction calls arbitrary: s)
  case (Cons p calls)
  then show ?case by (cases p) (simp add: execute_agree split: prod.split option.split)
qed simp

lemma loop_step_agree:
  "cf_exec cfg = Some f \<Longrightarrow> agree_on (cf_json_errmsg cfg) tools f g \<Longrightarrow>
     loop_step (cfg\<lparr>cf_exec := Some g\<rparr>) tools start s = loop_step cfg tools start s"
  by (simp add: loop_step_def execute_all_agree cong: sum.case_cong prod.case_cong if_cong)

lemma loop_agree:
  assumes "cf_exec cfg = Some f" and "agree_on (cf_json_errmsg cfg) tools f g"
  shows "loop (cfg\<lparr>cf_exec := Some g\<rparr>) tools start s = loop cfg tools start s"
proof (induction s rule: measure_induct_rule [of "\<lambda>s. nat (cf_max_steps cfg - l_steps (rs_ledger s))"])
  case (less s)
  show ?case
    unfolding loop.simps [of _ tools start s] loop_step_agree [OF assms]
    using loop_step_more [of cfg tools start s] less by (auto split: prod.split option.split)
qed

lemma run_loop_agree:
  "cf_exec cfg = Some f \<Longrightarrow> agree_on (cf_json_errmsg cfg) (toolsWithCannotComplete (cf_tools cfg)) f g \<Longrightarrow>
     run_loop (cfg\<lparr>cf_exec := Some g\<rparr>) w = run_loop cfg w"
  by (simp add: run_loop_def loop_agree start_state_def cong: prod.case_cong if_cong)

lemma withDefaults_exec:
  "cf_exec cfg = Some f \<Longrightarrow> withDefaults (cfg\<lparr>cf_exec := Some g\<rparr>) = map_sum id (\<lambda>c. c\<lparr>cf_exec := Some g\<rparr>) (withDefaults cfg)"
  by (auto simp: withDefaults_def Let_def split: option.split sum.split)

lemma withDefaults_keeps_exec: "withDefaults cfg = Inr c \<Longrightarrow> cf_exec c = cf_exec cfg"
  by (auto simp: withDefaults_def Let_def split: if_splits option.splits sum.splits)

section \<open>The heads of the loop\<close>

text \<open>The states in which the loop may send a request: its start, and after each step that
  goes round again.\<close>

inductive loop_head :: "'w config \<Rightarrow> 'w \<Rightarrow> 'w run_state \<Rightarrow> bool" for cfg w where
  head_start: "loop_head cfg w (start_state cfg w)"
| head_again: "loop_head cfg w s \<Longrightarrow> loop_step cfg (toolsWithCannotComplete (cf_tools cfg)) start s = (None, s') \<Longrightarrow>
    loop_head cfg w s'"

lemma loop_head_log:
  assumes "loop_head cfg w s" and "0 < cf_max_steps cfg"
  shows "log_inv cfg (toolsWithCannotComplete (cf_tools cfg)) [] s"
  using assms
proof (induction rule: loop_head.induct)
  case (head_again s start s')
  then have "0 \<le> l_steps (rs_ledger s)" by (simp add: log_inv_def Let_def)
  with story.loop_stepped [OF head_again.hyps(2)] head_again show ?case by blast
qed (rule start_log)

lemma loop_head_paired:
  "loop_head cfg w s \<Longrightarrow> 0 < cf_max_steps cfg \<Longrightarrow> paired (wireTurns cfg s)"
  by (drule loop_head_log, assumption) (simp add: log_inv_def Let_def paired_def wireTurns_def)

end
