(* ===== verification/Loop_Wire.thy ===== *)
theory Loop_Wire
  imports Loop_Facts
begin

text \<open>
  What the providers insist on: the tool calls of a message are all answered, in order, before
  anything else is said. \<open>answered_at_once\<close> says it of a request, seen as the call ids and result
  ids of each message; \<open>talk\<close> is the same discipline on the turns of a transcript; and both
  encoders carry one to the other.
\<close>

section \<open>The discipline on the wire\<close>

text \<open>One message, with the ids still to be answered before it.\<close>

definition hear :: "string list \<times> string list \<Rightarrow> string list option \<Rightarrow> string list option" where
  "hear m st = (case m of (cs, rs) \<Rightarrow> Option.bind st (\<lambda>owed.
     if rs \<noteq> [] then (if cs = [] \<and> prefix rs owed then Some (drop (length rs) owed) else None)
     else if owed = [] then Some cs else None))"

definition heard :: "(string list \<times> string list) list \<Rightarrow> string list option" where
  "heard ms = fold hear ms (Some [])"

definition answered_at_once :: "(string list \<times> string list) list \<Rightarrow> bool" where
  "answered_at_once ms \<longleftrightarrow> heard ms = Some []"

lemma heard_simps [simp]: "heard [] = Some []" "heard (ms @ [m]) = hear m (heard ms)"
  by (simp_all add: heard_def)

lemma hear_simps [simp]:
  "hear ([], []) (Some []) = Some []" "hear (cs, []) (Some []) = Some cs" "hear m None = None"
  "hear ([], [i]) (Some (i # owed)) = Some owed"
  by (simp_all add: hear_def prefix_def split: prod.split)

text \<open>A message that is added to: another call, another result.\<close>

lemma hear_more_calls: "hear (cs, []) st = Some owed \<Longrightarrow> hear (cs @ c, []) st = Some (owed @ c)"
  by (auto simp: hear_def split: Option.bind_splits if_splits)

lemma hear_more_results:
  assumes "hear ([], rs) st = Some (i # owed)"
  shows "hear ([], rs @ [i]) st = Some owed"
  using assms by (auto simp: hear_def prefix_def split: Option.bind_splits if_splits)

section \<open>The discipline of a transcript\<close>

text \<open>The ids still to be answered, and whether the last turn was not the agent's own.\<close>

type_synonym talk_state = "string list \<times> bool"

definition talk :: "string \<Rightarrow> turn \<Rightarrow> talk_state option \<Rightarrow> talk_state option" where
  "talk agent t st = Option.bind st (\<lambda>(owed, other).
     case t_body t of
       TextBody _ \<Rightarrow> if t_sender t = agent then (if other \<and> owed \<noteq> [] then None else Some (owed, False))
                     else (if owed = [] then Some ([], True) else None)
     | ToolCallBody c \<Rightarrow> (if other \<and> owed \<noteq> [] then None else Some (owed @ [tc_call_id c], False))
     | ToolResultBody r \<Rightarrow> (case owed of i # rest \<Rightarrow> if i = tr_call_id r then Some (rest, True) else None | [] \<Rightarrow> None)
     | TerminalBody _ \<Rightarrow> Some (owed, other))"

definition talked :: "string \<Rightarrow> turn list \<Rightarrow> talk_state option" where
  "talked agent ts = fold (talk agent) ts (Some ([], True))"

lemma talked_simps [simp]: "talked agent [] = Some ([], True)" "talked agent (ts @ [t]) = talk agent t (talked agent ts)"
  by (simp_all add: talked_def)

lemma talk_None [simp]: "talk agent t None = None"
  by (simp add: talk_def)

subsection \<open>OpenAI\<close>

abbreviation openai_ids :: "openai_message \<Rightarrow> string list \<times> string list" where
  "openai_ids m \<equiv> (map fst (message_calls m), map fst (message_results m))"

lemma openai_ids_msg [simp]:
  "openai_ids (openai_msg ''user'' c) = ([], [])" "openai_ids (openai_msg ''assistant'' c) = ([], [])" "openai_ids (openai_msg ''system'' c) = ([], [])"
  "openai_ids ((openai_msg ''tool'' c)\<lparr>om_tool_call_id := i\<rparr>) = ([], [i])"
  by (simp_all add: message_calls_def message_results_def openai_msg_def)

text \<open>The open message is the assistant's and last, and nothing is owed before it.\<close>

definition openai_talk :: "openai_message list \<times> bool \<Rightarrow> talk_state \<Rightarrow> bool" where
  "openai_talk st o' \<longleftrightarrow> (case st of (msgs, mine) \<Rightarrow> case o' of (owed, other) \<Rightarrow>
     heard (map openai_ids msgs) = Some owed \<and> (mine \<longleftrightarrow> \<not> other)
     \<and> (mine \<longrightarrow> msgs \<noteq> [] \<and> om_role (last msgs) = ''assistant'')
     \<and> (\<forall>m \<in> set msgs. om_tool_calls m \<noteq> [] \<longrightarrow> om_role m = ''assistant''))"

lemma add_agent_ids:
  "om_role m = ''assistant'' \<Longrightarrow> openai_ids (add_agent_turn t m) = (map fst (message_calls m) @ map tc_call_id (call_of (t_body t)), [])
     \<and> om_role (add_agent_turn t m) = ''assistant''"
  by (auto simp: add_agent_turn_def message_calls_def message_results_def split: body.split)

lemma add_agent_ids':
  "om_role m = ''assistant'' \<Longrightarrow> map fst (message_calls (add_agent_turn t m)) = map fst (message_calls m) @ map tc_call_id (call_of (t_body t))
     \<and> map fst (message_results (add_agent_turn t m)) = [] \<and> map fst (message_results m) = []"
  using add_agent_ids [of m t] by (simp add: message_results_def)

text \<open>An agent turn adds to the open message, or opens one.\<close>

lemma openai_agent_turn:
  assumes "openai_talk (msgs, mine) (owed, other)" and "other \<longrightarrow> owed = []" and "classifyTurn t agent = RoleAssistant"
  shows "openai_talk (openai_turn agent t (msgs, mine)) (owed @ map tc_call_id (call_of (t_body t)), False)"
proof (cases mine)
  case True
  with assms(1) obtain ms m where msgs: "msgs = ms @ [m]" and role: "om_role m = ''assistant''"
    by (cases msgs rule: rev_cases) (auto simp: openai_talk_def)
  with assms(1) True have "hear (map fst (message_calls m), []) (heard (map openai_ids ms)) = Some owed"
    by (simp add: openai_talk_def add_agent_ids')
  from hear_more_calls [OF this] assms(1,3) True msgs role show ?thesis
    by (auto simp: openai_talk_def openai_turn_def update_last_def add_agent_ids' add_agent_ids)
next
  case False
  with assms have "owed = []" by (simp add: openai_talk_def)
  with assms(1,3) False show ?thesis
    using add_agent_ids [of "openai_msg ''assistant'' None" t]
    by (auto simp: openai_talk_def openai_turn_def update_last_def openai_msg_def message_calls_def)
qed

lemma openai_talk_turn:
  assumes "openai_talk st o0" and "talk agent t (Some o0) = Some o1"
  shows "openai_talk (openai_turn agent t st) o1"
proof -
  obtain msgs mine owed other where [simp]: "st = (msgs, mine)" "o0 = (owed, other)" by fastforce
  show ?thesis
  proof (cases "classifyTurn t agent")
    case RoleAssistant
    with assms(2) have "other \<longrightarrow> owed = []" and "o1 = (owed @ map tc_call_id (call_of (t_body t)), False)"
      by (auto simp: talk_def classifyTurn_def split: body.splits if_splits)
    with openai_agent_turn [of msgs mine owed other t agent] assms(1) RoleAssistant show ?thesis by simp
  qed (use assms in \<open>auto simp: openai_talk_def openai_turn_def talk_def classifyTurn_def openai_msg_def message_calls_def
      message_results_def split: body.splits if_splits list.splits\<close>)
qed

lemma openai_talked:
  "talked agent ts = Some o' \<Longrightarrow> openai_talk (fold (openai_turn agent) ts (openai_start system)) o'"
proof (induction ts arbitrary: o' rule: rev_induct)
  case Nil
  have "heard [([], [])] = Some []" using heard_simps(2) [of "[]" "([], [])"] by simp
  with Nil show ?case by (auto simp: openai_talk_def openai_start_def openai_msg_def message_calls_def message_results_def)
next
  case (snoc t ts)
  then obtain o0 where o0: "talked agent ts = Some o0" by (cases "talked agent ts") auto
  with snoc openai_talk_turn [OF snoc.IH [OF o0]] show ?case by simp
qed

subsection \<open>Anthropic\<close>

definition anthropic_calls_of :: "anthropic_message \<Rightarrow> (string \<times> string \<times> string) list" where
  "anthropic_calls_of m = concat (map block_calls (am_content m))"

definition anthropic_results_of :: "anthropic_message \<Rightarrow> (string \<times> string) list" where
  "anthropic_results_of m = concat (map block_results (am_content m))"

lemma anthropic_parts [simp]:
  "anthropic_calls_of \<lparr>am_role = r, am_content = [b]\<rparr> = block_calls b"
  "anthropic_results_of \<lparr>am_role = r, am_content = [b]\<rparr> = block_results b"
  "anthropic_calls_of (m\<lparr>am_content := am_content m @ [b]\<rparr>) = anthropic_calls_of m @ block_calls b"
  "anthropic_results_of (m\<lparr>am_content := am_content m @ [b]\<rparr>) = anthropic_results_of m @ block_results b"
  by (simp_all add: anthropic_calls_of_def anthropic_results_of_def)

abbreviation anthropic_ids :: "anthropic_message \<Rightarrow> string list \<times> string list" where
  "anthropic_ids m \<equiv> (map fst (anthropic_calls_of m), map fst (anthropic_results_of m))"

text \<open>Calls are the assistant's, results the user's; while calls are owed and none is
  answered yet, the last message is the one that makes them.\<close>

definition anthropic_talk :: "anthropic_message list \<Rightarrow> talk_state \<Rightarrow> bool" where
  "anthropic_talk msgs o' \<longleftrightarrow> (case o' of (owed, other) \<Rightarrow>
     heard (map anthropic_ids msgs) = Some owed
     \<and> (\<not> other \<and> owed \<noteq> [] \<longrightarrow> am_role (last msgs) = ''assistant'')
     \<and> (\<forall>m \<in> set msgs. (anthropic_calls_of m \<noteq> [] \<longrightarrow> am_role m = ''assistant'') \<and> (anthropic_results_of m \<noteq> [] \<longrightarrow> am_role m = ''user'')))"

lemma block_ids [simp]:
  "ab_type b = ''text'' \<Longrightarrow> block_calls b = []" "ab_type b = ''text'' \<Longrightarrow> block_results b = []"
  "ab_type b = ''tool_use'' \<Longrightarrow> block_calls b = [(ab_id b, ab_name b, ab_input b)]" "ab_type b = ''tool_use'' \<Longrightarrow> block_results b = []"
  "ab_type b = ''tool_result'' \<Longrightarrow> block_calls b = []" "ab_type b = ''tool_result'' \<Longrightarrow> block_results b = [(ab_tool_use_id b, ab_content b)]"
  by (simp_all add: block_calls_def block_results_def)

lemma append_assistant:
  assumes "anthropic_talk msgs (owed, other)" and "other \<longrightarrow> owed = []" and "block_results b = []"
  shows "anthropic_talk (appendBlock ''assistant'' b msgs) (owed @ map fst (block_calls b), False)"
proof (cases "msgs \<noteq> [] \<and> am_role (last msgs) = ''assistant''")
  case True
  then obtain ms m where msgs: "msgs = ms @ [m]" and role: "am_role m = ''assistant''" by (cases msgs rule: rev_cases) auto
  with assms(1) have res: "anthropic_results_of m = []" by (auto simp: anthropic_talk_def)
  with assms(1) msgs have "hear (map fst (anthropic_calls_of m), []) (heard (map anthropic_ids ms)) = Some owed"
    by (simp add: anthropic_talk_def)
  from hear_more_calls [OF this, of "map fst (block_calls b)"] assms(1,3) msgs role res show ?thesis
    by (auto simp: anthropic_talk_def appendBlock_def update_last_def)
next
  case False
  with assms have "owed = []" by (cases msgs) (auto simp: anthropic_talk_def)
  with assms False show ?thesis by (auto simp: anthropic_talk_def appendBlock_def)
qed

lemma append_user:
  assumes "anthropic_talk msgs (owed, other)" and "block_calls b = []"
    and "block_results b = [] \<and> owed = [] \<and> owed' = [] \<or> block_results b = [(i, c)] \<and> owed = i # owed'"
  shows "anthropic_talk (appendBlock ''user'' b msgs) (owed', True)"
proof (cases "msgs \<noteq> [] \<and> am_role (last msgs) = ''user''")
  case True
  then obtain ms m where msgs: "msgs = ms @ [m]" and role: "am_role m = ''user''" by (cases msgs rule: rev_cases) auto
  with assms(1) have calls: "anthropic_calls_of m = []" by (auto simp: anthropic_talk_def)
  with assms(1) msgs have "hear ([], map fst (anthropic_results_of m)) (heard (map anthropic_ids ms)) = Some owed"
    by (simp add: anthropic_talk_def)
  with hear_more_results [of "map fst (anthropic_results_of m)" "heard (map anthropic_ids ms)" i owed'] assms msgs role calls show ?thesis
    by (auto simp: anthropic_talk_def appendBlock_def update_last_def)
qed (use assms in \<open>auto simp: anthropic_talk_def appendBlock_def\<close>)

lemma anthropic_talk_turn:
  assumes "anthropic_talk msgs o0" and "talk agent t (Some o0) = Some o1"
  shows "anthropic_talk (anthropic_turn agent t msgs) o1"
proof -
  obtain owed other where [simp]: "o0 = (owed, other)" by fastforce
  have keep: "anthropic_talk msgs ([], other')" if "owed = []" for other'
    using assms(1) that by (simp add: anthropic_talk_def)
  have same: "anthropic_talk msgs (owed, False)" if "\<not> other \<or> owed = []"
    using assms(1) that by (auto simp: anthropic_talk_def)
  have mine: "anthropic_talk (appendBlock ''assistant'' b msgs) (owed @ map fst (block_calls b), False)"
    if "other \<longrightarrow> owed = []" "block_results b = []" for b
    using append_assistant assms(1) that by simp
  show ?thesis
  proof (cases "t_body t")
    case (TextBody s)
    with assms keep same mine [of "zero_block\<lparr>ab_type := ''text'', ab_text := s\<rparr>"]
      append_user [of msgs owed other "zero_block\<lparr>ab_type := ''text'', ab_text := s\<rparr>" "[]"] show ?thesis
      by (auto simp: anthropic_turn_def talk_def classifyTurn_def body_text_def split: if_splits)
  next
    case (ToolCallBody c)
    with assms mine [of "zero_block\<lparr>ab_type := ''tool_use'', ab_id := tc_call_id c, ab_name := tc_name c, ab_input := argsOrEmptyObject (tc_args c)\<rparr>"]
    show ?thesis by (auto simp: anthropic_turn_def talk_def classifyTurn_def split: if_splits)
  next
    case (ToolResultBody r)
    with assms append_user [of msgs owed other "zero_block\<lparr>ab_type := ''tool_result'', ab_tool_use_id := tr_call_id r,
        ab_content := toolResultText r, ab_is_error := \<not> tr_ok r\<rparr>"] show ?thesis
      by (auto simp: anthropic_turn_def talk_def classifyTurn_def split: list.splits if_splits)
  next
    case (TerminalBody r)
    with assms show ?thesis by (auto simp: anthropic_turn_def talk_def classifyTurn_def)
  qed
qed

lemma anthropic_talked: "talked agent ts = Some o' \<Longrightarrow> anthropic_talk (encodeAnthropicMessages agent ts) o'"
  unfolding encodeAnthropicMessages_def
proof (induction ts arbitrary: o' rule: rev_induct)
  case (snoc t ts)
  then obtain o0 where o0: "talked agent ts = Some o0" by (cases "talked agent ts") auto
  with snoc anthropic_talk_turn [OF snoc.IH [OF o0]] show ?case by simp
qed (auto simp: anthropic_talk_def)

section \<open>The loop keeps it\<close>

lemma append_reply_talked:
  assumes "append_reply cfg bs s = (calls, s')" and "list_all is_reply_body bs"
    and "talked (cf_principal cfg) (pre @ rs_turns s) = Some (owed, other)" and "other \<longrightarrow> owed = []"
  shows "\<exists>other'. talked (cf_principal cfg) (pre @ rs_turns s') = Some (owed @ map (tc_call_id \<circ> snd) calls, other')
    \<and> (other' \<longrightarrow> owed = [] \<and> calls = [])"
  using assms
proof (induction bs arbitrary: s calls owed other)
  case (Cons b bs)
  obtain t s1 where 1: "append_turn cfg b (rs_last s) s = (t, s1)" by fastforce
  obtain calls1 where 2: "append_reply cfg bs s1 = (calls1, s')" and 3: "calls = pending t b @ calls1"
    using Cons.prems(1) 1 by (auto simp: pending_def split: prod.splits)
  from append_turn_shape [OF 1] have turns: "rs_turns s1 = rs_turns s @ [t]" "t_body t = b" "t_sender t = cf_principal cfg" by auto
  with Cons.prems have "talked (cf_principal cfg) (pre @ rs_turns s1) = Some (owed @ map (tc_call_id \<circ> snd) (pending t b), False)"
    by (cases b) (auto simp: talk_def pending_def append_assoc [symmetric] simp del: append_assoc)
  from Cons.IH [OF 2 _ this] Cons.prems(2) 3 show ?case by auto
qed auto

lemma turns_stopNow: "stopNow cfg start s = (b, s') \<Longrightarrow> rs_turns s' = rs_turns s"
  by (auto simp: stopNow_def split: prod.splits option.splits sum.splits)

lemma turns_poll_ctx: "poll_ctx cfg s = (b, s') \<Longrightarrow> rs_turns s' = rs_turns s"
  by (auto simp: poll_ctx_def split: prod.splits)

lemma turns_round_trip: "round_trip cfg tools s = (r, s') \<Longrightarrow> rs_turns s' = rs_turns s"
  by (auto simp: round_trip_def split: prod.splits)

text \<open>A call that does not end the run adds its result and nothing else.\<close>

definition adds_result :: "tool_call \<Rightarrow> 'w run_state \<Rightarrow> 'w run_state \<Rightarrow> bool" where
  "adds_result c s s' \<longleftrightarrow> (\<exists>u r. rs_turns s' = rs_turns s @ [u] \<and> t_body u = ToolResultBody r \<and> tr_call_id r = tc_call_id c)"

lemma finish_adds:
  assumes "tr_call_id result = tc_call_id c" and "rs_turns s0 = rs_turns s"
  shows "adds_result c s (finish_call cfg t a e result n ok s0)"
  unfolding adds_result_def by (rule finish_call_shape [of result t cfg a e n ok s0]) (use assms in auto)

lemma finish_adds_same:
  "rs_turns s' = rs_turns (finish_call cfg t a e result n ok s0) \<Longrightarrow> tr_call_id result = tc_call_id c \<Longrightarrow> rs_turns s0 = rs_turns s \<Longrightarrow>
     adds_result c s s'"
  unfolding adds_result_def by (metis finish_adds adds_result_def)

lemma execute_turns: "execute cfg tools start t c s = (None, s') \<Longrightarrow> adds_result c s s'"
  by (auto simp: execute_def Let_def dest!: turns_stopNow intro!: finish_adds elim!: finish_adds_same
      split: if_splits option.splits prod.splits exec_outcome.splits)

lemma execute_all_talked:
  assumes "execute_all cfg tools start calls s = (None, s')"
    and "talked agent (pre @ rs_turns s) = Some (map (tc_call_id \<circ> snd) calls @ owed, other)"
  shows "\<exists>other'. talked agent (pre @ rs_turns s') = Some (owed, other')"
  using assms
proof (induction calls arbitrary: s other)
  case (Cons p calls)
  obtain t c where [simp]: "p = (t, c)" by fastforce
  obtain s1 where 1: "execute cfg tools start t c s = (None, s1)" and 2: "execute_all cfg tools start calls s1 = (None, s')"
    using Cons.prems(1) by (auto split: prod.splits option.splits)
  obtain u r where "rs_turns s1 = rs_turns s @ [u]" "t_body u = ToolResultBody r" "tr_call_id r = tc_call_id c"
    using execute_turns [OF 1] unfolding adds_result_def by blast
  then have "talked agent (pre @ rs_turns s1) = Some (map (tc_call_id \<circ> snd) calls @ owed, True)"
    using Cons.prems(2) by (simp add: talk_def append_assoc [symmetric] del: append_assoc)
  with Cons.IH [OF 2] show ?case by blast
qed auto

lemma loop_step_talked:
  assumes "loop_step cfg tools start s = (None, s')" and "talked (cf_principal cfg) (pre @ rs_turns s) = Some ([], other)"
  shows "\<exists>other'. talked (cf_principal cfg) (pre @ rs_turns s') = Some ([], other')"
  using assms(1)
proof (cases rule: loop_step_cases)
  case (called s0 s1 m calls s2 r3)
  have "rs_turns s1 = rs_turns s"
    using turns_poll_ctx [OF called(1)] turns_round_trip [OF called(3)] by (simp add: count_step_def)
  with append_reply_talked [OF called(4) round_trip_bodies [OF called(3)], of pre "[]" other] assms(2)
  obtain other' where "talked (cf_principal cfg) (pre @ rs_turns s2) = Some (map (tc_call_id \<circ> snd) calls @ [], other')" by auto
  moreover have "execute_all cfg tools start calls s2 = (None, s')" using called(5,6) by simp
  ultimately show ?thesis using execute_all_talked by blast
qed auto

lemma loop_head_talked: "loop_head cfg w s \<Longrightarrow> \<exists>other. talked (cf_principal cfg) (wireTurns cfg s) = Some ([], other)"
proof (induction rule: loop_head.induct)
  case head_start
  show ?case
    by (rule exI [of _ "[] \<noteq> cf_principal cfg"]) (simp add: wireTurns_def start_state_def talked_def talk_def)
next
  case (head_again s start s')
  then show ?case using loop_step_talked [of cfg _ start s s' "[hd (wireTurns cfg s)]"] by (auto simp: wireTurns_def)
qed

section \<open>What a request carries\<close>

text \<open>Every call and every result of the turns, in order, each on a message of the role the
  provider expects it from, the results right after the message that makes the calls.\<close>

definition carries :: "('m \<Rightarrow> string) \<Rightarrow> ('m \<Rightarrow> (string \<times> string \<times> string) list) \<Rightarrow> ('m \<Rightarrow> (string \<times> string) list) \<Rightarrow> string \<Rightarrow>
    turn list \<Rightarrow> 'm list \<Rightarrow> bool" where
  "carries role calls results answerer ts ms \<longleftrightarrow>
     concat (map calls ms) = map (\<lambda>c. (tc_call_id c, tc_name c, argsOrEmptyObject (tc_args c))) (calls_of ts)
     \<and> concat (map results ms) = map (\<lambda>r. (tr_call_id r, toolResultText r)) (results_of ts)
     \<and> answered_at_once (map (\<lambda>m. (map fst (calls m), map fst (results m))) ms)
     \<and> (\<forall>m \<in> set ms. (calls m \<noteq> [] \<longrightarrow> role m = ''assistant'') \<and> (results m \<noteq> [] \<longrightarrow> role m = answerer))"

lemma wire_fun: "wire_call = (\<lambda>c. (tc_call_id c, tc_name c, argsOrEmptyObject (tc_args c)))" "wire_result = (\<lambda>r. (tr_call_id r, toolResultText r))"
  by (simp_all add: fun_eq_iff wire_call_def wire_result_def)

lemma anthropic_carries:
  assumes "talked agent ts = Some ([], other)"
  shows "carries am_role anthropic_calls_of anthropic_results_of ''user'' ts (encodeAnthropicMessages agent ts)"
  using anthropic_talked [OF assms] anthropic_calls [of agent ts] anthropic_results [of agent ts]
  by (simp add: carries_def anthropic_talk_def answered_at_once_def wire_fun anthropic_calls_of_def [abs_def] anthropic_results_of_def [abs_def])

lemma openai_carries:
  assumes "talked agent ts = Some ([], other)"
  shows "carries om_role message_calls message_results ''tool'' ts (encodeOpenAIMessages system agent ts)"
  using openai_talked [OF assms, of system] openai.enc_calls [of system agent ts] openai.enc_results [of system agent ts]
  by (auto simp: carries_def openai_talk_def answered_at_once_def wire_fun encodeOpenAI_start message_calls_def message_results_def split: prod.splits)

end
