(* ===== verification/Loop_Claims.thy ===== *)
theory Loop_Claims
  imports Loop_Wire
begin

text \<open>
  The properties of the tool-use loop and its codecs, with the concrete runs that
  witness them. \<open>demo_cfg\<close> is a run against a scripted network: the model first speaks,
  calls an offered tool and a tool it was never offered, then ends its turn.
\<close>

section \<open>A scripted run\<close>

text \<open>Test data is written with \<open>~\<close> for the double quote.\<close>

definition dq :: "string \<Rightarrow> string" where
  "dq s = map (\<lambda>c. if c = CHR ''~'' then CHR 0x22 else c) s"

type_synonym demo_world = "nat \<times> string list"

definition demo_cfg :: "demo_world config" where
  "demo_cfg = \<lparr>cf_codec = Some AnthropicCodec,
     cf_resolved = \<lparr>rm_kind = ''local'', rm_url = ''http://m/'', rm_token = [], rm_style = [], rm_model_id = []\<rparr>,
     cf_model = ''q'', cf_system_prompt = ''s'', cf_task = ''t'',
     cf_tools = [\<lparr>ts_name = ''p'', ts_description = [], ts_input_schema = [], ts_kind = ''c''\<rparr>],
     cf_exec = Some (\<lambda>name args (n, rs). (ExecOk (dq ''{~uri~:~u~}'') False, (n, rs))),
     cf_max_steps = 3, cf_wall_clock = 9, cf_max_tokens = 9,
     cf_principal = ''a'', cf_brief_turn_id = ''b'',
     cf_on_turn = None, cf_on_traffic = Some (\<lambda>r w. w), cf_uri_extractor = Some (\<lambda>tool content. Some (ExtractURIsFromTopLevelFields tool content)), cf_stop_when = None,
     cf_new_turn_id = (\<lambda>(n, rs). (nat_str n, (n + 1, rs))),
     cf_now = (\<lambda>(n, rs). (int n, (n, rs))),
     cf_http_do = (\<lambda>req (n, rs). case rs of [] \<Rightarrow> (HttpFail ''x'', (n, rs)) | r # rs' \<Rightarrow> (HttpOk 200 r, (n, rs'))),
     cf_ctx_err = (\<lambda>limit w. (False, w)), cf_parent_err = (\<lambda>w. (False, w)),
     cf_url_error = (\<lambda>_. None), cf_json_errmsg = (\<lambda>_. ''bad''), cf_sha = (\<lambda>s. s)\<rparr>"

definition demo_world :: demo_world where
  "demo_world = (0, [dq ''{~content~:[{~type~:~tool_use~,~name~:~p~}]}'', ''{}''])"

lemma demo_run_checked:
  "case run_loop demo_cfg demo_world of
     ((e, err), s) \<Rightarrow> e = EndTurn \<and> err = None \<and> map lc_ok (l_calls (rs_ledger s)) = [True]
        \<and> map lc_uris (l_calls (rs_ledger s)) = [[''u'']] \<and> length (rs_turns s) = 3"
  by code_simp

definition demo_state :: "demo_world run_state" where
  "demo_state = snd (run_loop demo_cfg demo_world)"

lemma demo_run_loop: "run_loop demo_cfg demo_world = ((EndTurn, None), demo_state)"
  using demo_run_checked by (auto simp: demo_state_def split: prod.splits)

lemma demo_state_checked:
  "map lc_ok (l_calls (rs_ledger demo_state)) = [True]" "map lc_uris (l_calls (rs_ledger demo_state)) = [[''u'']]"
  "length (rs_turns demo_state) = 3"
  using demo_run_checked by (simp_all add: demo_run_loop)

lemma demo_defaults: "withDefaults demo_cfg = Inr demo_cfg"
  by (simp add: withDefaults_def demo_cfg_def)

lemma demo_run:
  "Run demo_cfg demo_world =
     (Inr (\<lparr>res_turns = rs_turns demo_state, res_ledger = rs_ledger demo_state, res_end = EndTurn\<rparr>, None), rs_world demo_state)"
  by (simp add: Run_def demo_defaults demo_run_loop)

section \<open>What a run records\<close>

text \<open>C28. Transcript and ledger of a run tell one story: the ledger lists, in order, the calls
  the model made with the digests of their arguments; the results answer the calls in order
  and carry the ledger's success flags; after an end that is settled (end of turn, token limit,
  step cap, model error) no call is left unanswered.\<close>

theorem run_story:
  assumes "Run cfg w = (Inr (res, err), w')"
  shows "prefix (map tr_call_id (results_of (res_turns res))) (map tc_call_id (calls_of (res_turns res)))
    \<and> prefix (map (\<lambda>e. (lc_tool e, lc_args_digest e)) (l_calls (res_ledger res)))
        (map (\<lambda>c. (tc_name c, ArgsDigest (cf_sha cfg) (tc_args c))) (calls_of (res_turns res)))
    \<and> map lc_ok (l_calls (res_ledger res)) = map tr_ok (results_of (res_turns res))
    \<and> (settled (res_end res) \<longrightarrow> length (results_of (res_turns res)) = length (calls_of (res_turns res)))"
  using assms
proof (cases rule: run_cases)
  case (1 c s)
  from 1(2) defaults_positive [OF 1(1)] show ?thesis
  proof (cases rule: run_loop_log)
    case (1 ps t s1)
    have "length (results_of (rs_turns s1)) = length (calls_of (rs_turns s1))" if "ps = []"
    proof -
      have "map tc_call_id (calls_of (rs_turns s1)) = map tr_call_id (results_of (rs_turns s1))"
        using 1(1) that by (simp add: log_inv_def Let_def)
      then show ?thesis by (metis length_map)
    qed
    with 1 \<open>res_turns res = rs_turns s\<close> \<open>res_ledger res = rs_ledger s\<close> withDefaults_same [OF \<open>withDefaults cfg = Inr c\<close>]
    show ?thesis by (simp add: log_inv_def Let_def)
  qed
qed

theorem run_story_witness:
  "prefix (map tr_call_id (results_of (rs_turns demo_state))) (map tc_call_id (calls_of (rs_turns demo_state)))
    \<and> length (l_calls (rs_ledger demo_state)) = 1"
  using run_story [OF demo_run] demo_state_checked(1) by (auto simp: map_eq_Cons_conv)

text \<open>C29. A run's transcript is the loop's turns and then exactly one terminal turn, which
  names the end the result and the ledger name; every turn is sent by the run's principal.\<close>

theorem run_terminal:
  assumes "Run cfg w = (Inr (res, err), w')"
  shows "\<exists>T t. res_turns res = T @ [t] \<and> t_body t = TerminalBody (res_end res) \<and> l_end (res_ledger res) = res_end res
    \<and> (\<forall>u \<in> set T. \<forall>r. t_body u \<noteq> TerminalBody r) \<and> (\<forall>u \<in> set (res_turns res). t_sender u = cf_principal cfg)"
  using assms
proof (cases rule: run_cases)
  case (1 c s)
  from 1(2) defaults_positive [OF 1(1)] show ?thesis
  proof (cases rule: run_loop_log)
    case (1 ps t s1)
    with \<open>res_turns res = rs_turns s\<close> \<open>res_ledger res = rs_ledger s\<close> withDefaults_same [OF \<open>withDefaults cfg = Inr c\<close>]
    show ?thesis by (auto simp: log_inv_def Let_def)
  qed
qed

theorem run_terminal_witness:
  "\<exists>T t. rs_turns demo_state = T @ [t] \<and> t_body t = TerminalBody EndTurn \<and> length T = 2"
  using run_terminal [OF demo_run] demo_state_checked(3) by auto

text \<open>C30. Whatever the model asks for, the executor decides nothing outside the offer: two
  executors that agree on calls of offered tools with usable arguments give the same run,
  world included.\<close>

theorem executor_confined:
  assumes "cf_exec cfg = Some f"
    and "agree_on (cf_json_errmsg cfg) (toolsWithCannotComplete (cf_tools cfg)) f g"
  shows "Run (cfg\<lparr>cf_exec := Some g\<rparr>) w = Run cfg w"
proof (cases "withDefaults cfg")
  case (Inl e)
  then show ?thesis by (simp add: Run_def withDefaults_exec [OF assms(1)])
next
  case (Inr c)
  have "run_loop (c\<lparr>cf_exec := Some g\<rparr>) w = run_loop c w"
    using run_loop_agree [of c f g w] assms withDefaults_keeps_exec [OF Inr] withDefaults_same [OF Inr] by simp
  with Inr show ?thesis by (simp add: Run_def withDefaults_exec [OF assms(1)])
qed

theorem executor_confined_witness:
  "Run (demo_cfg\<lparr>cf_exec := Some (\<lambda>name args (n, rs). if name = ''rm'' then (ExecErr ''boom'', (n + 1, rs))
      else (ExecOk (dq ''{~uri~:~u~}'') False, (n, rs)))\<rparr>) demo_world = Run demo_cfg demo_world"
  by (rule executor_confined [where f = "\<lambda>name args (n, rs). (ExecOk (dq ''{~uri~:~u~}'') False, (n, rs))"])
     (auto simp: demo_cfg_def agree_on_def offered_def toolsWithCannotComplete_def CannotCompleteSpec_def CannotCompleteTool_def)

text \<open>The ledger never credits a tool that was not offered: a call recorded as
  successful is of an offered tool, never of cannot_complete, and only a successful call of a
  tool whose declared kind is not read-only (or undeclared) contributes artifact URIs.\<close>

theorem ledger_credits:
  assumes "Run cfg w = (Inr (res, err), w')"
  shows "\<forall>e \<in> set (l_calls (res_ledger res)).
    lc_kind e = kinds (toolsWithCannotComplete (cf_tools cfg)) (lc_tool e) \<and> lc_tool e \<noteq> CannotCompleteTool
    \<and> (lc_ok e \<longrightarrow> offered (toolsWithCannotComplete (cf_tools cfg)) (lc_tool e))
    \<and> (lc_uris e \<noteq> [] \<longrightarrow> lc_ok e \<and> KindProducesArtifacts (case lc_kind e of Some k \<Rightarrow> k | None \<Rightarrow> []))"
  using assms
proof (cases rule: run_cases)
  case (1 c s)
  from 1(2) defaults_positive [OF 1(1)] show ?thesis
  proof (cases rule: run_loop_log)
    case (1 ps t s1)
    with \<open>res_ledger res = rs_ledger s\<close> withDefaults_same [OF \<open>withDefaults cfg = Inr c\<close>]
    show ?thesis by (auto simp: log_inv_def Let_def)
  qed
qed

theorem ledger_credits_witness:
  "\<exists>e \<in> set (l_calls (rs_ledger demo_state)). lc_ok e \<and> offered (toolsWithCannotComplete (cf_tools demo_cfg)) (lc_tool e)"
  using ledger_credits [OF demo_run] demo_state_checked(1) by (auto simp: map_eq_Cons_conv)

text \<open>C31. The step budget: a run makes at least none and at most MaxSteps model round trips (12
  when MaxSteps is not positive), and ends with step_cap only when all were used.\<close>

theorem run_step_bound:
  assumes "Run cfg w = (Inr (res, err), w')"
  shows "0 \<le> l_steps (res_ledger res)
    \<and> l_steps (res_ledger res) \<le> (if cf_max_steps cfg \<le> 0 then 12 else cf_max_steps cfg)
    \<and> (res_end res = EndStepCap \<longrightarrow> l_steps (res_ledger res) = (if cf_max_steps cfg \<le> 0 then 12 else cf_max_steps cfg))"
  using assms
proof (cases rule: run_cases)
  case (1 c s)
  obtain runErr where agrees: "end_agrees c (res_end res) runErr s" using run_loop_agrees [OF 1(2)] by blast
  from 1(2) defaults_positive [OF 1(1)] show ?thesis
  proof (cases rule: run_loop_log)
    case (1 ps t s1)
    have "0 \<le> l_steps (rs_ledger s)" "l_steps (rs_ledger s) \<le> cf_max_steps c"
      using 1(1,8) by (simp_all add: log_inv_def Let_def)
    moreover have "res_end res = EndStepCap \<Longrightarrow> cf_max_steps c \<le> l_steps (rs_ledger s)"
      using agrees by (simp add: end_agrees_def)
    moreover have "cf_max_steps c = (if cf_max_steps cfg \<le> 0 then 12 else cf_max_steps cfg)"
      using withDefaults_same [OF \<open>withDefaults cfg = Inr c\<close>] by (simp add: DefaultMaxSteps_def)
    ultimately show ?thesis using \<open>res_ledger res = rs_ledger s\<close> by force
  qed
qed

theorem run_step_bound_witness:
  "0 \<le> l_steps (rs_ledger demo_state) \<and> l_steps (rs_ledger demo_state) \<le> 3"
  using run_step_bound [OF demo_run] by (simp add: demo_cfg_def)

text \<open>Provenance: every turn of the transcript, the terminal one included, has as parent the
  brief's turn or an earlier turn, and every tool result's parent is an earlier turn that made
  the call it answers.\<close>

theorem run_provenance:
  assumes "Run cfg w = (Inr (res, err), w')"
  shows "linked [cf_brief_turn_id cfg] (res_turns res) \<and> answered [] (res_turns res)"
  using assms
proof (cases rule: run_cases)
  case (1 c s)
  with run_loop_link [OF 1(2)] withDefaults_same [OF 1(1)] show ?thesis by simp
qed

theorem run_provenance_witness: "linked [''b''] (rs_turns demo_state) \<and> answered [] (rs_turns demo_state)"
  using run_provenance [OF demo_run] by (simp add: demo_cfg_def)

text \<open>What the end of a run means: an error comes back exactly with model_error, or with
  timeout when the caller's own context ended; cannot_complete is the end exactly when the
  ledger has its reason; evaluator_pass follows a successful call and tool_error a failed one.\<close>

theorem run_ends:
  assumes "Run cfg w = (Inr (res, err), w')"
  shows "(res_end res = EndModelError \<longrightarrow> err \<noteq> None)
    \<and> (err \<noteq> None \<longrightarrow> res_end res = EndModelError \<or> res_end res = EndTimeout \<and> err = Some ErrCanceled)
    \<and> (res_end res = EndCannotComplete \<longleftrightarrow> l_cannot_complete (res_ledger res) \<noteq> None)
    \<and> (res_end res = EndEvaluatorPass \<longrightarrow> l_calls (res_ledger res) \<noteq> [] \<and> lc_ok (last (l_calls (res_ledger res))))
    \<and> (res_end res = EndToolError \<longrightarrow> l_calls (res_ledger res) \<noteq> [] \<and> \<not> lc_ok (last (l_calls (res_ledger res))))"
  using assms
proof (cases rule: run_cases)
  case (1 c s)
  obtain runErr where "end_agrees c (res_end res) runErr s"
      and "err = runErr \<or> res_end res = EndTimeout \<and> err = Some ErrCanceled"
    using run_loop_agrees [OF 1(2)] by blast
  with 1(4) show ?thesis by (auto simp: end_agrees_def)
qed

theorem run_ends_witness: "l_cannot_complete (rs_ledger demo_state) = None"
  using run_ends [OF demo_run] by simp

text \<open>C32. Traffic and ledger are joinable by position: with OnTraffic set, a run hands over one
  record per ledger call, in the same order, with the same tool, digest and outcome; the digest
  is that of the arguments the record carries, and no record names a step beyond those made.\<close>

theorem traffic_joins_ledger:
  assumes "run_loop cfg w = ((e, err), s)" and "0 < cf_max_steps cfg" and "cf_on_traffic cfg \<noteq> None"
  shows "map (\<lambda>r. (tf_tool r, tf_args_digest r, tf_ok r)) (rs_traffic s)
      = map (\<lambda>c. (lc_tool c, lc_args_digest c, lc_ok c)) (l_calls (rs_ledger s))
    \<and> (\<forall>r \<in> set (rs_traffic s). tf_args_digest r = ArgsDigest (cf_sha cfg) (tf_args r) \<and> tf_step r \<le> l_steps (rs_ledger s))"
  using assms(1,2)
proof (cases rule: run_loop_log)
  case (1 ps t s1)
  with assms(3) show ?thesis by (simp add: log_inv_def Let_def)
qed

theorem traffic_joins_ledger_witness:
  "map tf_ok (rs_traffic demo_state) = [True]"
proof -
  have "map (\<lambda>r. (tf_tool r, tf_args_digest r, tf_ok r)) (rs_traffic demo_state)
      = map (\<lambda>c. (lc_tool c, lc_args_digest c, lc_ok c)) (l_calls (rs_ledger demo_state))"
    using traffic_joins_ledger [OF demo_run_loop] by (simp add: demo_cfg_def)
  then have "map (snd \<circ> snd) (map (\<lambda>r. (tf_tool r, tf_args_digest r, tf_ok r)) (rs_traffic demo_state))
      = map (snd \<circ> snd) (map (\<lambda>c. (lc_tool c, lc_args_digest c, lc_ok c)) (l_calls (rs_ledger demo_state)))"
    by simp
  then show ?thesis using demo_state_checked(1) by (simp add: comp_def)
qed

text \<open>Run refuses to start, without touching the world, exactly on a configuration without
  a principal, without an executor, or without a codec for the resolved model.\<close>

theorem run_refuses:
  "(\<exists>e. Run cfg w = (Inl e, w)) \<longleftrightarrow>
     cf_principal cfg = [] \<or> cf_exec cfg = None \<or>
     (cf_codec cfg = None \<and> rm_kind (cf_resolved cfg) \<noteq> ''local'' \<and>
      rm_style (cf_resolved cfg) \<noteq> ''anthropic'' \<and> rm_style (cf_resolved cfg) \<noteq> ''openai-compat'')"
  by (auto simp: Run_def withDefaults_def CodecFor_def ModelKindLocal_def StyleAnthropic_def StyleOpenAICompat_def
      Option.is_none_def Let_def split: prod.splits option.splits)

section \<open>What a run sends\<close>

text \<open>At every head of the loop the ids of the calls sent and of the results sent are the same list.\<close>

lemma request_ids_agree:
  assumes "loop_head cfg w s" and "0 < cf_max_steps cfg"
  shows "map fst (concat (map message_calls (encodeOpenAIMessages (cf_system_prompt cfg) (cf_principal cfg) (wireTurns cfg s))))
       = map fst (concat (map message_results (encodeOpenAIMessages (cf_system_prompt cfg) (cf_principal cfg) (wireTurns cfg s))))"
  using openai.paired_on_wire [OF loop_head_paired [OF assms]] by blast

text \<open>C33. Whenever the loop asks the model again, the request carries, in both wire formats, every tool call of
  the transcript (id, name and arguments) and every tool result (id and text), each exactly once and in
  order; the calls stand on messages of the assistant, the results on the messages the provider takes
  them from (\<open>user\<close> for Anthropic, \<open>tool\<close> for OpenAI); and the calls of a message are all answered, in
  their order, by what follows it before anything else is said, which is what the providers insist on.\<close>

theorem requests_are_paired:
  assumes "loop_head cfg w s"
  shows "carries am_role anthropic_calls_of anthropic_results_of ''user'' (rs_turns s)
      (encodeAnthropicMessages (cf_principal cfg) (wireTurns cfg s))
    \<and> carries om_role message_calls message_results ''tool'' (rs_turns s)
      (encodeOpenAIMessages (cf_system_prompt cfg) (cf_principal cfg) (wireTurns cfg s))"
proof -
  obtain other where "talked (cf_principal cfg) (wireTurns cfg s) = Some ([], other)" using loop_head_talked [OF assms] by blast
  from anthropic_carries [OF this] openai_carries [OF this, of "cf_system_prompt cfg"] show ?thesis
    by (simp add: carries_def wireTurns_def)
qed

lemma demo_step_checked: "fst (loop_step demo_cfg (toolsWithCannotComplete (cf_tools demo_cfg)) 0 (start_state demo_cfg demo_world)) = None"
  by code_simp

theorem requests_are_paired_witness:
  "\<exists>s. loop_head demo_cfg demo_world s \<and> l_steps (rs_ledger s) = 1 \<and>
     carries om_role message_calls message_results ''tool'' (rs_turns s) (encodeOpenAIMessages ''s'' ''a'' (wireTurns demo_cfg s))"
proof -
  obtain s where s: "loop_step demo_cfg (toolsWithCannotComplete (cf_tools demo_cfg)) 0 (start_state demo_cfg demo_world) = (None, s)"
    using demo_step_checked by (metis prod.collapse)
  then have "loop_head demo_cfg demo_world s" by (rule head_again [OF head_start])
  moreover have "l_steps (rs_ledger s) = 1" using loop_step_more [OF s] by simp
  moreover have "cf_system_prompt demo_cfg = ''s''" "cf_principal demo_cfg = ''a''"
    by (simp_all add: demo_cfg_def)
  ultimately show ?thesis using requests_are_paired by metis
qed

text \<open>C34. The Anthropic encoding is exactly one block per turn that has one, in transcript
  order, in messages whose roles alternate and which are never empty.\<close>

theorem anthropic_encoding:
  "flat_blocks (encodeAnthropicMessages agent ts) = concat (map (wire_block agent) ts)
    \<and> alternating (encodeAnthropicMessages agent ts)"
  using flat_encodeAnthropic alternating_encodeAnthropic by blast

lemma openai_calls_wf:
  "openai_reply_calls tcs = Inr bs \<Longrightarrow>
     list_all (\<lambda>b. case b of ToolCallBody c \<Rightarrow> tc_name c \<noteq> [] \<and> json_valid (tc_args c) | _ \<Rightarrow> False) bs"
  by (induction tcs arbitrary: bs) (auto simp: decoded_arguments_valid split: if_splits sum.splits)

text \<open>A reply the OpenAI-compatible codec accepts holds only non-empty texts and calls that
  name a tool and carry a JSON document as arguments, however broken the provider's text.\<close>

theorem openai_reply_wf:
  assumes "OpenAI_DecodeResponse em resp = Inr reply"
  shows "list_all (\<lambda>b. case b of TextBody s \<Rightarrow> s \<noteq> [] | ToolCallBody c \<Rightarrow> tc_name c \<noteq> [] \<and> json_valid (tc_args c) | _ \<Rightarrow> False)
    (rp_bodies reply)"
proof -
  have weaken: "list_all (\<lambda>b. case b of TextBody s \<Rightarrow> s \<noteq> [] | ToolCallBody c \<Rightarrow> tc_name c \<noteq> [] \<and> json_valid (tc_args c) | _ \<Rightarrow> False) bs"
    if "openai_reply_calls tcs = Inr bs" for tcs bs
    using openai_calls_wf [OF that] by (rule list.pred_mono_strong) (auto split: body.splits)
  from assms show ?thesis
    by (auto simp: OpenAI_DecodeResponse_def weaken split: option.splits list.splits prod.splits sum.splits)
qed

definition demo_openai :: string where
  "demo_openai = dq ''{~choices~:[{~message~:{~content~:~c~}}]}''"

theorem openai_reply_wf_witness:
  "case OpenAI_DecodeResponse (\<lambda>_. []) demo_openai of
     Inr reply \<Rightarrow> rp_bodies reply = [TextBody ''c''] \<and> (\<forall>b \<in> set (rp_bodies reply). b \<noteq> TextBody [])
   | Inl _ \<Rightarrow> False"
proof -
  have checked: "case OpenAI_DecodeResponse (\<lambda>_. []) demo_openai of Inr reply \<Rightarrow> rp_bodies reply = [TextBody ''c''] | Inl _ \<Rightarrow> False"
    by code_simp
  then obtain reply where "OpenAI_DecodeResponse (\<lambda>_. []) demo_openai = Inr reply" by (auto split: sum.splits)
  with openai_reply_wf [OF this] checked show ?thesis by (auto simp: list_all_iff)
qed

text \<open>Argument text a provider sent that is not JSON survives the codec as a JSON string,
  and \<open>validateToolArgs\<close> then reports the parse error of the original text.\<close>

theorem broken_arguments_reported:
  assumes "\<not> json_valid text" and "trim_space text \<noteq> []" and "valid_utf8 text"
  shows "validateToolArgs em (decodeOpenAIArguments text) = Some (em text)"
proof -
  have "un_object text = UErr" using assms(1) by (simp add: un_object_def json_valid_def)
  then show ?thesis
    using assms by (simp add: validateToolArgs_def decodeOpenAIArguments_def un_object_def un_string_def)
qed

theorem broken_arguments_reported_witness:
  "validateToolArgs (\<lambda>t. ''bad '' @ t) (decodeOpenAIArguments ''{a'') = Some ''bad {a''"
proof -
  have "\<not> json_valid ''{a''" and "trim_space ''{a'' \<noteq> []" and "valid_utf8 ''{a''" by code_simp+
  from broken_arguments_reported [OF \<open>\<not> json_valid ''{a''\<close> \<open>trim_space ''{a'' \<noteq> []\<close> \<open>valid_utf8 ''{a''\<close>, of "\<lambda>t. ''bad '' @ t"]
  show ?thesis by simp
qed

end
