(* ===== verification/Run_Handles.thy ===== *)
theory Run_Handles
  imports Run_States
begin

text \<open>
  Handles on a job (\<open>handles.go\<close>): the holder table, its journal mirror, its merge and
  the recipients of an exit wake. The time format of the JSON mirror (RFC 3339) is a
  parameter pair \<open>fmt\<close>, \<open>parse\<close>.
\<close>

section \<open>Holders\<close>

text \<open>\<open>HandleStatus\<close> is a string with three named values.\<close>

definition HandlePending :: string where "HandlePending = ''pending''"
definition HandleAccepted :: string where "HandleAccepted = ''accepted''"
definition HandleReleased :: string where "HandleReleased = ''released''"

definition DefaultRights :: string where "DefaultRights = ''observe,close''"

record holder =
  h_principal :: string
  h_rights :: string
  h_status :: string
  h_granted_by :: string
  h_granted_at :: int

definition FirstHolder :: "string \<Rightarrow> int \<Rightarrow> holder" where
  "FirstHolder p now = \<lparr>h_principal = p, h_rights = DefaultRights, h_status = HandleAccepted,
     h_granted_by = p, h_granted_at = now\<rparr>"

definition ReleaseHolder :: "holder list \<Rightarrow> string \<Rightarrow> holder list" where
  "ReleaseHolder holders caller = filter (\<lambda>h. h_principal h \<noteq> caller) holders"

text \<open>The loop over the holders with the set of those seen.\<close>

fun wake_recipients :: "string list \<Rightarrow> holder list \<Rightarrow> string list" where
  "wake_recipients seen [] = []"
| "wake_recipients seen (h # hs) =
     (if h_status h \<noteq> HandleAccepted \<or> h_principal h = [] \<or> h_principal h \<in> set seen
      then wake_recipients seen hs
      else h_principal h # wake_recipients (h_principal h # seen) hs)"

definition WakeRecipients :: "holder list \<Rightarrow> string list" where
  "WakeRecipients holders = wake_recipients [] holders"

section \<open>The journal mirror\<close>

definition holderRecordPrefix :: string where "holderRecordPrefix = ''juggler-holder ''"

text \<open>\<open>json.Marshal\<close> of a struct whose fields are all written as strings.\<close>

definition string_member :: "string \<times> string \<Rightarrow> string" where
  "string_member m = json_quote True (fst m) @ '':'' @ json_quote True (snd m)"

definition string_object :: "(string \<times> string) list \<Rightarrow> string" where
  "string_object ms = [CHR 0x7B] @ join '','' (map string_member ms) @ [CHR 0x7D]"

text \<open>A holder's fields (\<open>granted_by\<close> is omitted when empty).\<close>

definition holder_members :: "(int \<Rightarrow> string) \<Rightarrow> holder \<Rightarrow> (string \<times> string) list" where
  "holder_members fmt h =
     [(''holder'', h_principal h), (''rights'', h_rights h), (''status'', h_status h)]
     @ (if h_granted_by h = [] then [] else [(''granted_by'', h_granted_by h)])
     @ [(''granted_at'', fmt (h_granted_at h))]"

definition holder_json :: "(int \<Rightarrow> string) \<Rightarrow> holder \<Rightarrow> string" where
  "holder_json fmt h = string_object (holder_members fmt h)"

definition HolderProgressMessage :: "(int \<Rightarrow> string) \<Rightarrow> holder \<Rightarrow> string" where
  "HolderProgressMessage fmt h = holderRecordPrefix @ holder_json fmt h"

definition zero_holder :: holder where
  "zero_holder = \<lparr>h_principal = [], h_rights = [], h_status = [], h_granted_by = [], h_granted_at = 0\<rparr>"

text \<open>\<open>json.Unmarshal\<close> into a holder.\<close>

definition dec_holder :: "(string \<Rightarrow> int option) \<Rightarrow> holder decoder" where
  "dec_holder parse = dec_struct (\<lambda>ms old.
     case dec_texts dec_string (field_texts ''holder'' ms) (h_principal old) of None \<Rightarrow> None | Some p \<Rightarrow>
     case dec_texts dec_string (field_texts ''rights'' ms) (h_rights old) of None \<Rightarrow> None | Some r \<Rightarrow>
     case dec_texts dec_string (field_texts ''status'' ms) (h_status old) of None \<Rightarrow> None | Some st \<Rightarrow>
     case dec_texts dec_string (field_texts ''granted_by'' ms) (h_granted_by old) of None \<Rightarrow> None | Some g \<Rightarrow>
     case dec_texts (dec_time parse) (field_texts ''granted_at'' ms) (h_granted_at old) of None \<Rightarrow> None | Some at \<Rightarrow>
     Some \<lparr>h_principal = p, h_rights = r, h_status = st, h_granted_by = g, h_granted_at = at\<rparr>)"

text \<open>The holder a journal record mirrors, if it does.\<close>

definition mirrored_holder :: "(string \<Rightarrow> int option) \<Rightarrow> job_record \<Rightarrow> holder option" where
  "mirrored_holder parse r =
     (if jr_type r \<noteq> ''progress'' \<or> \<not> has_prefix (jr_message r) holderRecordPrefix then None
      else case dec_holder parse (trim_prefix (jr_message r) holderRecordPrefix) zero_holder of
             None \<Rightarrow> None
           | Some h \<Rightarrow> if h_principal h = [] then None else Some h)"

definition put_holder :: "holder \<Rightarrow> (string \<times> holder) list \<Rightarrow> (string \<times> holder) list" where
  "put_holder h = alist_put (h_principal h) h"

definition HoldersFromRecords :: "(string \<Rightarrow> int option) \<Rightarrow> job_record list \<Rightarrow> holder list" where
  "HoldersFromRecords parse recs =
     filter (\<lambda>h. h_status h \<noteq> HandleReleased)
       (map snd (fold (\<lambda>r t. case mirrored_holder parse r of Some h \<Rightarrow> put_holder h t | None \<Rightarrow> t) recs []))"

definition MergeHolders :: "holder list list \<Rightarrow> holder list" where
  "MergeHolders tables = map snd (fold put_holder (concat tables) [])"

section \<open>Reading back an object of strings\<close>

lemma not_space [simp]:
  "\<not> is_json_space (CHR 0x22)" "\<not> is_json_space (CHR '':'')" "\<not> is_json_space (CHR '','')"
  "\<not> is_json_space (CHR 0x7B)" "\<not> is_json_space (CHR 0x7D)"
  by (simp_all add: is_json_space_def)

lemma json_quote_Cons: "json_quote html s @ r = CHR 0x22 # quote_body html s @ CHR 0x22 # r"
  by (simp add: json_quote_def)

lemma json_fuel_Suc: "\<exists>n. json_fuel s = Suc n"
  by (simp add: json_fuel_def)

lemma raw_value_quote [simp]: "raw_value (json_quote html s @ r) = Some (json_quote html s, r)"
proof -
  obtain n where "json_fuel (json_quote html s @ r) = Suc n" using json_fuel_Suc by blast
  then show ?thesis by (simp add: raw_value_def json_value_quote del: json_value.simps)
qed

definition json_member :: "string \<times> string \<Rightarrow> string \<times> json" where
  "json_member m = (fst m, JStr (snd m))"

definition raw_member :: "string \<times> string \<Rightarrow> string \<times> string" where
  "raw_member m = (fst m, json_quote True (snd m))"

definition utf8_members :: "(string \<times> string) list \<Rightarrow> bool" where
  "utf8_members ms \<longleftrightarrow> (\<forall>(k, v) \<in> set ms. valid_utf8 k \<and> valid_utf8 v)"

lemma string_member_text: "string_member (k, v) @ r =
    CHR 0x22 # quote_body True k @ CHR 0x22 # CHR '':'' # json_quote True v @ r"
  by (simp add: string_member_def json_quote_Cons json_quote_def)

text \<open>One member read, by the reader and by the splitter.\<close>

lemma members_read:
  assumes "valid_utf8 k" and "valid_utf8 v"
  shows "json_members (Suc (Suc n)) (string_member (k, v) @ CHR 0x7D # r) = Some ([(k, JStr v)], r)"
    and "json_members (Suc (Suc n)) (string_member (k, v) @ CHR '','' # r) =
      map_option (\<lambda>(ms, r'). ((k, JStr v) # ms, r')) (json_members (Suc n) r)"
    and "raw_members (Suc n) (string_member (k, v) @ CHR 0x7D # r) = Some [(k, json_quote True v)]"
    and "raw_members (Suc n) (string_member (k, v) @ CHR '','' # r) =
      map_option (\<lambda>ms. (k, json_quote True v) # ms) (raw_members n r)"
  by (subst json_members.simps raw_members.simps;
      simp add: string_member_text scan_lit_quote_body json_value_quote unquote_quote_body assms
        del: json_value.simps json_members.simps raw_members.simps cong: if_cong)+

lemma string_members_Cons:
  "join '','' (map string_member (m # ms)) =
     string_member m @ (if ms = [] then [] else CHR '','' # join '','' (map string_member ms))"
  by (cases ms) simp_all

lemma json_members_strings:
  "ms \<noteq> [] \<Longrightarrow> utf8_members ms \<Longrightarrow> length ms < n \<Longrightarrow>
     json_members n (join '','' (map string_member ms) @ CHR 0x7D # r) = Some (map json_member ms, r)"
proof (induction ms arbitrary: n)
  case (Cons m ms)
  obtain k v where m: "m = (k, v)" and kv: "valid_utf8 k" "valid_utf8 v" using Cons.prems by (cases m) (auto simp: utf8_members_def)
  obtain n' where n: "n = Suc (Suc n')" using Cons.prems(3) by (cases n; cases "n - 1") auto
  show ?case
  proof (cases "ms = []")
    case True
    then show ?thesis by (simp add: members_read [OF kv] m n json_member_def del: json_members.simps)
  next
    case False
    then have "json_members (Suc n') (join '','' (map string_member ms) @ CHR 0x7D # r) = Some (map json_member ms, r)"
      using Cons.prems n False by (intro Cons.IH) (auto simp: utf8_members_def)
    with False show ?thesis
      unfolding string_members_Cons by (simp add: members_read [OF kv] m n json_member_def del: json_members.simps)
  qed
qed simp

lemma raw_members_strings:
  "ms \<noteq> [] \<Longrightarrow> utf8_members ms \<Longrightarrow> length ms \<le> n \<Longrightarrow>
     raw_members n (join '','' (map string_member ms) @ CHR 0x7D # r) = Some (map raw_member ms)"
proof (induction ms arbitrary: n)
  case (Cons m ms)
  obtain k v where m: "m = (k, v)" and kv: "valid_utf8 k" "valid_utf8 v" using Cons.prems by (cases m) (auto simp: utf8_members_def)
  obtain n' where n: "n = Suc n'" using Cons.prems(3) by (cases n) auto
  show ?case
  proof (cases "ms = []")
    case True
    then show ?thesis by (simp add: members_read [OF kv] m n raw_member_def del: raw_members.simps)
  next
    case False
    then have "raw_members n' (join '','' (map string_member ms) @ CHR 0x7D # r) = Some (map raw_member ms)"
      using Cons.prems n False by (intro Cons.IH) (auto simp: utf8_members_def)
    with False show ?thesis
      unfolding string_members_Cons by (simp add: members_read [OF kv] m n raw_member_def del: raw_members.simps)
  qed
qed simp

lemma members_length: "length ms \<le> length (join '','' (map string_member ms))"
proof (induction ms)
  case (Cons m ms)
  have "1 \<le> length (string_member m)" by (simp add: string_member_def)
  with Cons show ?case unfolding string_members_Cons by (cases "ms = []") auto
qed simp

theorem un_object_strings:
  assumes "ms \<noteq> []" and "utf8_members ms"
  shows "un_object (string_object ms) = UVal (map raw_member ms)"
proof -
  let ?t = "join '','' (map string_member ms)"
  obtain m ms' where ms: "ms = m # ms'" using assms(1) by (cases ms) auto
  obtain t where t: "?t @ [CHR 0x7D] = CHR 0x22 # t"
    unfolding ms string_members_Cons by (cases m) (simp add: string_member_text)
  obtain N where N: "N = 2 * length ?t + 4" by blast
  have fuel: "json_fuel (string_object ms) = Suc (Suc N)"
    by (simp add: json_fuel_def string_object_def N)
  have "json_members (Suc N) (?t @ CHR 0x7D # []) = Some (map json_member ms, [])"
    by (rule json_members_strings [OF assms]) (use members_length [of ms] N in simp)
  then have read: "json_value (json_fuel (string_object ms)) (string_object ms) = Some (JObj (map json_member ms), [])"
    unfolding fuel using t by (simp add: string_object_def del: json_members.simps json_value.simps(1))
  have "raw_members (length (string_object ms)) (?t @ CHR 0x7D # []) = Some (map raw_member ms)"
    by (rule raw_members_strings [OF assms]) (use members_length [of ms] in \<open>simp add: string_object_def\<close>)
  moreover have "skip_ws (string_object ms) = string_object ms" by (simp add: string_object_def)
  ultimately show ?thesis
    using read ms by (simp add: un_object_def json_parse_def string_object_def del: json_members.simps json_value.simps raw_members.simps)
qed

section \<open>Facts about holders\<close>

lemma holder_texts:
  "field_texts ''holder'' (map raw_member (holder_members fmt h)) = [json_quote True (h_principal h)]"
  "field_texts ''rights'' (map raw_member (holder_members fmt h)) = [json_quote True (h_rights h)]"
  "field_texts ''status'' (map raw_member (holder_members fmt h)) = [json_quote True (h_status h)]"
  "field_texts ''granted_by'' (map raw_member (holder_members fmt h)) =
     (if h_granted_by h = [] then [] else [json_quote True (h_granted_by h)])"
  "field_texts ''granted_at'' (map raw_member (holder_members fmt h)) = [json_quote True (fmt (h_granted_at h))]"
  by (simp_all add: holder_members_def field_texts_def raw_member_def name_eval)

definition utf8_holder :: "(int \<Rightarrow> string) \<Rightarrow> holder \<Rightarrow> bool" where
  "utf8_holder fmt h \<longleftrightarrow> valid_utf8 (h_principal h) \<and> valid_utf8 (h_rights h) \<and> valid_utf8 (h_status h)
     \<and> valid_utf8 (h_granted_by h) \<and> valid_utf8 (fmt (h_granted_at h))"

lemma names_utf8: "valid_utf8 ''holder''" "valid_utf8 ''rights''" "valid_utf8 ''status''" "valid_utf8 ''granted_by''" "valid_utf8 ''granted_at''"
  by code_simp+

lemma holder_members_utf8: "utf8_holder fmt h \<Longrightarrow> utf8_members (holder_members fmt h)"
  by (auto simp: utf8_members_def holder_members_def utf8_holder_def names_utf8)

lemma dec_holder_json:
  assumes "utf8_holder fmt h" and "parse (fmt (h_granted_at h)) = Some (h_granted_at h)"
  shows "dec_holder parse (holder_json fmt h) zero_holder = Some h"
proof -
  have "un_object (holder_json fmt h) = UVal (map raw_member (holder_members fmt h))"
    unfolding holder_json_def
    by (rule un_object_strings [OF _ holder_members_utf8 [OF assms(1)]]) (simp add: holder_members_def)
  then show ?thesis
    using assms by (simp add: dec_holder_def dec_struct_def holder_texts utf8_holder_def zero_holder_def)
qed

text \<open>A record that mirrors \<open>h\<close>, and one that mirrors none.\<close>

definition mirrors :: "(int \<Rightarrow> string) \<Rightarrow> job_record \<Rightarrow> holder \<Rightarrow> bool" where
  "mirrors fmt r h \<longleftrightarrow> jr_type r = ''progress'' \<and> jr_message r = HolderProgressMessage fmt h"

lemma mirrored_back:
  assumes "mirrors fmt r h" and "utf8_holder fmt h" and "parse (fmt (h_granted_at h)) = Some (h_granted_at h)"
    and "h_principal h \<noteq> []"
  shows "mirrored_holder parse r = Some h"
  using assms dec_holder_json [of fmt h parse] by (simp add: mirrored_holder_def mirrors_def HolderProgressMessage_def)

lemma mirrored_none: "jr_type r \<noteq> ''progress'' \<or> \<not> has_prefix (jr_message r) holderRecordPrefix \<Longrightarrow> mirrored_holder parse r = None"
  by (auto simp: mirrored_holder_def)

lemma HoldersFromRecords_mirrors:
  "HoldersFromRecords parse recs = filter (\<lambda>h. h_status h \<noteq> HandleReleased)
     (MergeHolders [concat (map (\<lambda>r. case mirrored_holder parse r of Some h \<Rightarrow> [h] | None \<Rightarrow> []) recs)])"
proof -
  have "fold (\<lambda>r t. case mirrored_holder parse r of Some h \<Rightarrow> put_holder h t | None \<Rightarrow> t) recs t0
      = fold put_holder (concat (map (\<lambda>r. case mirrored_holder parse r of Some h \<Rightarrow> [h] | None \<Rightarrow> []) recs)) t0" for t0
    by (induction recs arbitrary: t0) (auto split: option.split)
  then show ?thesis by (simp add: HoldersFromRecords_def MergeHolders_def)
qed

text \<open>The table keyed by principal.\<close>

definition keyed :: "(string \<times> holder) list \<Rightarrow> bool" where
  "keyed t \<longleftrightarrow> distinct (map fst t) \<and> (\<forall>(k, h) \<in> set t. k = h_principal h)"

lemma set_alist_put: "p \<in> set (alist_put k v xs) \<Longrightarrow> p = (k, v) \<or> p \<in> set xs"
  by (induction xs) (auto split: if_splits)

lemma keyed_fold: "keyed t \<Longrightarrow> keyed (fold put_holder hs t)"
proof (induction hs arbitrary: t)
  case (Cons h hs)
  have "keyed (put_holder h t)"
    using Cons.prems by (auto simp: keyed_def put_holder_def dest!: set_alist_put)
  with Cons.IH show ?case by simp
qed simp

lemma keys_of_keyed: "keyed t \<Longrightarrow> map h_principal (map snd t) = map fst t"
  by (auto simp: keyed_def)

lemma merge_keyed: "keyed (fold put_holder (concat tables) [])"
  by (rule keyed_fold) (simp add: keyed_def)

lemma distinct_MergeHolders: "distinct (map h_principal (MergeHolders tables))"
  using merge_keyed [of tables] by (simp add: MergeHolders_def keys_of_keyed [OF merge_keyed, unfolded map_map] keyed_def)

lemma map_of_put_holders: "map_of (fold put_holder hs t) = map_of t ++ map_of (map (\<lambda>h. (h_principal h, h)) (rev hs))"
proof (induction hs arbitrary: t)
  case (Cons h hs)
  then show ?case by (simp add: put_holder_def map_add_def fun_eq_iff split: option.split)
qed simp

text \<open>The last entry of a principal is the one kept.\<close>

lemma MergeHolders_last:
  "h \<in> set (MergeHolders tables) \<longleftrightarrow> map_of (map (\<lambda>h. (h_principal h, h)) (rev (concat tables))) (h_principal h) = Some h"
proof -
  let ?t = "fold put_holder (concat tables) []"
  have "h \<in> set (MergeHolders tables) \<longleftrightarrow> (h_principal h, h) \<in> set ?t"
    using merge_keyed [of tables] by (force simp: MergeHolders_def keyed_def)
  also have "\<dots> \<longleftrightarrow> map_of ?t (h_principal h) = Some h"
    using merge_keyed [of tables] by (auto simp: keyed_def)
  finally show ?thesis by (simp add: map_of_put_holders)
qed

lemma wake_recipients_facts:
  "distinct (wake_recipients seen hs) \<and>
     set (wake_recipients seen hs) = {h_principal h |h. h \<in> set hs \<and> h_status h = HandleAccepted \<and> h_principal h \<noteq> []} - set seen"
  by (induction seen hs rule: wake_recipients.induct) (auto split: if_splits)

end
