(* ===== verification/Run_Store.thy ===== *)
theory Run_Store
  imports Run_Handles
begin

text \<open>
  juggler's lifecycle state directory (\<open>store.go\<close>) and the records kept in it: run and
  child records, the run ledger and its entries (\<open>ledger.go\<close>). A file holds a typed
  document (\<open>content\<close>), so the JSON text of the records is not modelled; a file that does
  not parse is \<open>CorruptFile\<close>. Every file operation may fail: \<open>w_faults\<close> says, operation
  by operation, which do and with what message. Result spools are ringmaster's own files
  and are kept apart (\<open>w_spools\<close>). A held lock changes nothing the model shows; a call
  that takes one runs without interference from the calls that take the same one.
\<close>

section \<open>Records\<close>

text \<open>The bits of a float64: juggler's run ledger only passes them through.\<close>

type_synonym float64 = nat

record artifact =
  af_tool :: string
  af_kind :: "string option"
  af_uris :: "string list"

record violation =
  vi_key :: string
  vi_subject :: string
  vi_message :: string

record resolution =
  rz_state :: string
  rz_reason :: string
  rz_at :: int

record run_entry =
  re_tool :: string
  re_kind :: string
  re_ok :: bool
  re_uris :: "string list"
  re_reason :: string
  re_ran :: "bool option"
  re_artifacts :: "artifact list"
  re_job :: string
  re_principal :: string
  re_stopped_by_resolve :: bool
  re_violations :: "violation list"
  re_violations_missing :: bool
  re_moxy_bin :: string
  re_parent_moxyfile_digest :: string
  re_state :: string
  re_detail :: string
  re_jid :: string
  re_choice :: string
  re_confidence :: "float64 option"
  re_top_probability :: "float64 option"
  re_threshold :: "float64 option"
  re_verdict :: string
  re_stanza_id :: string

record run_ledger =
  rl_schema :: int
  rl_run_key :: string
  rl_calls :: "run_entry list"
  rl_resolved :: "resolution option"

record run_record =
  rr_schema :: int
  rr_run_key :: string
  rr_issuer :: string
  rr_root_principal :: string
  rr_root_jid :: string
  rr_root_credential_ref :: string
  rr_room :: string
  rr_room_created :: bool
  rr_operator_jid :: string
  rr_root_stanza :: string
  rr_run_job :: string
  rr_holders :: "holder list"
  rr_created_at :: int
  rr_resolved :: "resolution option"
  rr_pending :: bool
  rr_pending_since :: int   \<comment> \<open>0: the zero time, an old record\<close>
  rr_torn_down :: bool
  rr_reaped :: bool
  rr_reaped_at :: "int option"

record child_record =
  cr_schema :: int
  cr_run_key :: string
  cr_brief_digest :: string
  cr_principal :: string
  cr_jid :: string
  cr_credential_ref :: string
  cr_parent :: string
  cr_room :: string
  cr_job :: string
  cr_brief_stanza :: string
  cr_brief_path :: string
  cr_unit :: string
  cr_wall_clock :: string
  cr_moxin_path :: string
  cr_parent_moxyfile :: string
  cr_parent_moxyfile_digest :: string
  cr_moxy_bin :: string
  cr_holders :: "holder list"
  cr_created_at :: int

definition RecordSchema :: int where "RecordSchema = 1"
definition RunLedgerSchema :: int where "RunLedgerSchema = 1"

section \<open>Ledger entries\<close>

definition zero_entry :: run_entry where
  "zero_entry = \<lparr>re_tool = [], re_kind = [], re_ok = False, re_uris = [], re_reason = [], re_ran = None,
     re_artifacts = [], re_job = [], re_principal = [], re_stopped_by_resolve = False, re_violations = [],
     re_violations_missing = False, re_moxy_bin = [], re_parent_moxyfile_digest = [], re_state = [],
     re_detail = [], re_jid = [], re_choice = [], re_confidence = None, re_top_probability = None,
     re_threshold = None, re_verdict = [], re_stanza_id = []\<rparr>"

definition entry_of :: "string \<Rightarrow> string \<Rightarrow> bool \<Rightarrow> string \<Rightarrow> run_entry" where
  "entry_of tool kind ok reason = zero_entry\<lparr>re_tool := tool, re_kind := kind, re_ok := ok, re_reason := reason\<rparr>"

definition ArtifactsFromLedger :: "ledger \<Rightarrow> artifact list" where
  "ArtifactsFromLedger l = map (\<lambda>c. \<lparr>af_tool = lc_tool c, af_kind = lc_kind c, af_uris = lc_uris c\<rparr>)
     (filter (\<lambda>c. lc_ok c \<and> lc_uris c \<noteq> []) (l_calls l))"

record route_decision =
  rd_choice :: string
  rd_confidence :: float64
  rd_top_probability :: "float64 option"
  rd_threshold :: float64
  rd_verdict :: string
  rd_reason :: string
  rd_stanza_id :: string

definition RouteEntry :: "route_decision \<Rightarrow> run_entry" where
  "RouteEntry d = (entry_of ''route'' ''route'' (rd_verdict d = ''usable'') (rd_reason d))
     \<lparr>re_choice := rd_choice d, re_confidence := Some (rd_confidence d), re_top_probability := rd_top_probability d,
      re_threshold := Some (rd_threshold d), re_verdict := rd_verdict d, re_stanza_id := rd_stanza_id d\<rparr>"

definition ChildStopEntry :: "child_record \<Rightarrow> bool \<Rightarrow> run_entry" where
  "ChildStopEntry child terminalized =
     (entry_of ''subagent_stop'' ''subagent'' terminalized
        (if terminalized then ''stopped by resolve'' else ''still running after the stop grace''))
     \<lparr>re_job := cr_job child, re_principal := cr_principal child, re_stopped_by_resolve := True\<rparr>"

definition ChildStopFailureEntry :: "child_record \<Rightarrow> gerror \<Rightarrow> run_entry" where
  "ChildStopFailureEntry child e =
     (entry_of ''subagent_stop'' ''subagent'' False (''journal unreadable: '' @ err_text e))
     \<lparr>re_job := cr_job child, re_principal := cr_principal child, re_stopped_by_resolve := True\<rparr>"

definition CanaryTool :: string where "CanaryTool = ''canary''"
definition TeardownTool :: string where "TeardownTool = ''teardown''"

definition CanaryEntry :: "string \<Rightarrow> string \<Rightarrow> gerror option \<Rightarrow> run_entry" where
  "CanaryEntry room stanza err =
     (entry_of CanaryTool ''note'' (err = None)
        (case err of None \<Rightarrow> ''posted to '' @ room
         | Some e \<Rightarrow> ''posting to '' @ room @ '' failed: '' @ err_text e))
     \<lparr>re_stanza_id := stanza\<rparr>"

definition TeardownEntry :: "string \<Rightarrow> string \<Rightarrow> bool \<Rightarrow> string \<Rightarrow> run_entry" where
  "TeardownEntry p jid ok reason = (entry_of TeardownTool ''account'' ok reason)\<lparr>re_principal := p, re_jid := jid\<rparr>"

definition FallbackEntry :: "string \<Rightarrow> string \<Rightarrow> artifact list \<Rightarrow> run_entry" where
  "FallbackEntry state reason artifacts =
     (let ran = (state = StateFailed); uris = concat (map af_uris artifacts)
      in (entry_of ''fallback'' ''fallback'' (\<not> ran \<or> uris \<noteq> []) reason)
           \<lparr>re_uris := uris, re_ran := Some ran, re_artifacts := artifacts\<rparr>)"

section \<open>Keys and paths\<close>

definition id_start :: "char \<Rightarrow> bool" where
  "id_start c \<longleftrightarrow> is_alnum c"

definition id_char :: "char \<Rightarrow> bool" where
  "id_char c \<longleftrightarrow> is_alnum c \<or> c = CHR ''.'' \<or> c = CHR ''_'' \<or> c = CHR ''-''"

text \<open>\<open>idPattern\<close>: \<open>^[A-Za-z0-9][A-Za-z0-9._-]{0,127}$\<close>.\<close>

definition idPattern :: "string \<Rightarrow> bool" where
  "idPattern s = (case s of [] \<Rightarrow> False | c # cs \<Rightarrow> id_start c \<and> list_all id_char cs \<and> length cs \<le> 127)"

definition idPattern_text :: string where
  "idPattern_text = ''^[A-Za-z0-9][A-Za-z0-9._-]{0,127}$''"

definition ValidRunKey :: "string \<Rightarrow> gerror option" where
  "ValidRunKey key = (if idPattern key then None
     else Some (ErrMsg (''run key '' @ quoted key @ '' must match '' @ idPattern_text)))"

definition validJobID :: "string \<Rightarrow> gerror option" where
  "validJobID job = (if idPattern job then None
     else Some (ErrMsg (''job id '' @ quoted job @ '' is not a valid ringmaster job id'')))"

text \<open>\<open>filepath.Join\<close> on parts that are clean already: the root, and names that are single
  path segments.\<close>

definition path_join :: "string \<Rightarrow> string \<Rightarrow> string" where
  "path_join a b = a @ ''/'' @ b"

definition digestFileName :: "string \<Rightarrow> string" where
  "digestFileName digest = map (\<lambda>c. if c = CHR '':'' then CHR ''-'' else c) digest"

definition runsDir :: "string \<Rightarrow> string" where "runsDir root = path_join root ''runs''"
definition runPath :: "string \<Rightarrow> string \<Rightarrow> string" where "runPath root key = path_join (runsDir root) (key @ ''.json'')"
definition runDir :: "string \<Rightarrow> string \<Rightarrow> string" where "runDir root key = path_join (runsDir root) key"
definition RunLedgerPath :: "string \<Rightarrow> string \<Rightarrow> string" where "RunLedgerPath root key = path_join (runDir root key) ''ledger.json''"
definition childrenDir :: "string \<Rightarrow> string \<Rightarrow> string" where "childrenDir root key = path_join (runDir root key) ''children''"
definition childPath :: "string \<Rightarrow> string \<Rightarrow> string \<Rightarrow> string" where
  "childPath root key digest = path_join (childrenDir root key) (digestFileName digest @ ''.json'')"
definition stagedBriefPath :: "string \<Rightarrow> string \<Rightarrow> string \<Rightarrow> string" where
  "stagedBriefPath root key digest = path_join (childrenDir root key) (digestFileName digest @ ''.brief.toml'')"
definition stagedParentMoxyfilePath :: "string \<Rightarrow> string \<Rightarrow> string \<Rightarrow> string" where
  "stagedParentMoxyfilePath root key digest = path_join (childrenDir root key) (digestFileName digest @ ''.parent-moxyfile.toml'')"
definition stagedChildMoxyfilePath :: "string \<Rightarrow> string \<Rightarrow> string \<Rightarrow> string" where
  "stagedChildMoxyfilePath root key digest = path_join (childrenDir root key) (digestFileName digest @ ''.moxyfile.toml'')"
definition wakeMarkerPath :: "string \<Rightarrow> string \<Rightarrow> string" where
  "wakeMarkerPath root job = path_join (path_join root ''exit-wakes'') job"
definition canaryMarkerPath :: "string \<Rightarrow> string \<Rightarrow> string" where
  "canaryMarkerPath root key = path_join (runDir root key) ''canary-posted''"
definition AgentStateDir :: "string \<Rightarrow> string \<Rightarrow> string" where
  "AgentStateDir root p = path_join (path_join root ''agents'') p"

definition TrafficPath :: "string \<Rightarrow> string \<Rightarrow> string \<Rightarrow> string" where
  "TrafficPath root p job =
     (if \<not> idPattern p \<or> \<not> idPattern job then []
      else path_join (path_join (path_join root ''traffic'') p) (job @ ''.jsonl''))"

section \<open>Files\<close>

datatype content =
    RunFile run_record
  | LedgerFile run_ledger
  | ChildFile child_record
  | TextFile string
  | CorruptFile string

datatype spool = RunSpool run_ledger | AgentSpool ledger | EmptySpool | BadSpool string

record 'e world =
  w_files :: "(string \<times> content) list"
  w_spools :: "(string \<times> spool) list"
  w_faults :: "string option list"
  w_ext :: 'e

text \<open>The next file operation's fate.\<close>

definition may_fail :: "('e world, unit) op" where
  "may_fail w = (case w_faults w of
      [] \<Rightarrow> (Inr (), w)
    | f # fs \<Rightarrow> (case f of None \<Rightarrow> Inr () | Some m \<Rightarrow> Inl (ErrMsg m), w\<lparr>w_faults := fs\<rparr>))"

definition not_exist :: "string \<Rightarrow> string \<Rightarrow> gerror" where
  "not_exist verb path = ErrNotExist (verb @ '' '' @ path @ '': no such file or directory'')"

definition is_not_exist :: "gerror \<Rightarrow> bool" where
  "is_not_exist e \<longleftrightarrow> err_as (\<lambda>x. case x of ErrNotExist _ \<Rightarrow> Some () | _ \<Rightarrow> None) e \<noteq> None"

definition lock :: "string \<Rightarrow> ('e world, unit) op" where
  "lock path = may_fail"

definition read_file :: "string \<Rightarrow> ('e world, content) op" where
  "read_file path = attempt may_fail (\<lambda>_ w. (case map_of (w_files w) path of
      None \<Rightarrow> Inl (not_exist ''open'' path) | Some c \<Rightarrow> Inr c, w))"

definition writeFileAtomic :: "string \<Rightarrow> content \<Rightarrow> ('e world, unit) op" where
  "writeFileAtomic path c = attempt may_fail (\<lambda>_ w. (Inr (), w\<lparr>w_files := alist_put path c (w_files w)\<rparr>))"

definition remove_path :: "string \<Rightarrow> (string \<times> content) list \<Rightarrow> (string \<times> content) list" where
  "remove_path path fs = filter (\<lambda>(p, _). p \<noteq> path) fs"

definition remove_file :: "string \<Rightarrow> ('e world, unit) op" where
  "remove_file path = attempt may_fail (\<lambda>_ w. (case map_of (w_files w) path of
      None \<Rightarrow> (Inl (not_exist ''remove'' path), w)
    | Some _ \<Rightarrow> (Inr (), w\<lparr>w_files := remove_path path (w_files w)\<rparr>)))"

definition removeIfExists :: "string \<Rightarrow> ('e world, unit) op" where
  "removeIfExists path = attempt_or (remove_file path) (\<lambda>e. if is_not_exist e then ret () else fail e) ret"

definition stat_file :: "string \<Rightarrow> ('e world, unit) op" where
  "stat_file path = attempt may_fail (\<lambda>_ w. (case map_of (w_files w) path of
      None \<Rightarrow> Inl (not_exist ''stat'' path) | Some _ \<Rightarrow> Inr (), w))"

text \<open>\<open>readJSONFile\<close> into a target of one type; \<open>None\<close> when there is no file.\<close>

definition readJSONFile :: "(content \<Rightarrow> 'a option) \<Rightarrow> string \<Rightarrow> ('e world, 'a option) op" where
  "readJSONFile sel path = attempt_or (read_file path)
     (\<lambda>e. if is_not_exist e then ret None else fail e)
     (\<lambda>c. case sel c of Some v \<Rightarrow> ret (Some v)
        | None \<Rightarrow> fail (ErrWrap (''parsing '' @ path @ '': '') (ErrMsg (case c of CorruptFile m \<Rightarrow> m | _ \<Rightarrow> ''unexpected document'')) []))"

definition as_run :: "content \<Rightarrow> run_record option" where
  "as_run c = (case c of RunFile r \<Rightarrow> Some r | _ \<Rightarrow> None)"

definition as_ledger :: "content \<Rightarrow> run_ledger option" where
  "as_ledger c = (case c of LedgerFile l \<Rightarrow> Some l | _ \<Rightarrow> None)"

definition as_child :: "content \<Rightarrow> child_record option" where
  "as_child c = (case c of ChildFile r \<Rightarrow> Some r | _ \<Rightarrow> None)"

definition LoadRun :: "string \<Rightarrow> string \<Rightarrow> ('e world, run_record option) op" where
  "LoadRun root key = readJSONFile as_run (runPath root key)"

definition SaveRun :: "string \<Rightarrow> run_record \<Rightarrow> ('e world, unit) op" where
  "SaveRun root rec = writeFileAtomic (runPath root (rr_run_key rec)) (RunFile rec)"

definition LoadChild :: "string \<Rightarrow> string \<Rightarrow> string \<Rightarrow> ('e world, child_record option) op" where
  "LoadChild root key digest = readJSONFile as_child (childPath root key digest)"

definition SaveChild :: "string \<Rightarrow> child_record \<Rightarrow> ('e world, unit) op" where
  "SaveChild root rec = writeFileAtomic (childPath root (cr_run_key rec) (cr_brief_digest rec)) (ChildFile rec)"

text \<open>\<open>filepath.Glob\<close> of \<open>*.json\<close> in one directory.\<close>

definition json_name :: "string \<Rightarrow> bool" where
  "json_name n \<longleftrightarrow> suffix ''.json'' n \<and> CHR ''/'' \<notin> set n"

definition glob_json :: "string \<Rightarrow> (string \<times> content) list \<Rightarrow> string list" where
  "glob_json dir fs = sort_strings (filter (\<lambda>p. has_prefix p (dir @ ''/'') \<and> json_name (trim_prefix p (dir @ ''/''))) (map fst fs))"

text \<open>The loop over the globbed paths: an unreadable file fails it, a vanished one is passed
  over.\<close>

fun load_each :: "(content \<Rightarrow> 'a option) \<Rightarrow> string list \<Rightarrow> ('e world, 'a list) op" where
  "load_each sel [] = ret []"
| "load_each sel (p # ps) = attempt (readJSONFile sel p) (\<lambda>x. attempt (load_each sel ps)
     (\<lambda>xs. ret (case x of Some r \<Rightarrow> r # xs | None \<Rightarrow> xs)))"

definition store_runs :: "string \<Rightarrow> ('e world, run_record list) op" where
  "store_runs root w = load_each as_run (glob_json (runsDir root) (w_files w)) w"

definition runChildren :: "string \<Rightarrow> string \<Rightarrow> ('e world, child_record list) op" where
  "runChildren root key w = load_each as_child (glob_json (childrenDir root key) (w_files w)) w"

definition findRun :: "string \<Rightarrow> (run_record \<Rightarrow> bool) \<Rightarrow> ('e world, run_record option) op" where
  "findRun root match = attempt (store_runs root) (\<lambda>runs. ret (find match runs))"

definition FindRunByRoom :: "string \<Rightarrow> string \<Rightarrow> ('e world, run_record option) op" where
  "FindRunByRoom root room = findRun root (\<lambda>r. rr_room r = room)"

definition FindRunByJob :: "string \<Rightarrow> string \<Rightarrow> ('e world, run_record option) op" where
  "FindRunByJob root job = findRun root (\<lambda>r. rr_run_job r = job)"

text \<open>The pattern \<open>runs/*/children/*.json\<close>.\<close>

definition is_child_path :: "string \<Rightarrow> string \<Rightarrow> bool" where
  "is_child_path root p = (has_prefix p (runsDir root @ ''/'') \<and>
     (case split_on (CHR ''/'') (trim_prefix p (runsDir root @ ''/'')) of
        [key, dir, name] \<Rightarrow> dir = ''children'' \<and> json_name name
      | _ \<Rightarrow> False))"

fun first_child :: "string \<Rightarrow> string list \<Rightarrow> ('e world, child_record option) op" where
  "first_child job [] = ret None"
| "first_child job (p # ps) = attempt (readJSONFile as_child p) (\<lambda>x. case x of
     Some r \<Rightarrow> if cr_job r = job then ret (Some r) else first_child job ps
   | None \<Rightarrow> first_child job ps)"

definition FindChildByJob :: "string \<Rightarrow> string \<Rightarrow> ('e world, child_record option) op" where
  "FindChildByJob root job w = first_child job (sort_strings (filter (is_child_path root) (map fst (w_files w)))) w"

definition CredentialPath :: "string \<Rightarrow> string \<Rightarrow> string \<Rightarrow> ('e world, string) op" where
  "CredentialPath root key p = attempt may_fail (\<lambda>_. ret (path_join (runDir root key) (p @ ''.pw'')))"

section \<open>The run ledger\<close>

definition new_run_ledger :: "string \<Rightarrow> run_ledger" where
  "new_run_ledger key = \<lparr>rl_schema = RunLedgerSchema, rl_run_key = key, rl_calls = [], rl_resolved = None\<rparr>"

definition loadRunLedger :: "string \<Rightarrow> string \<Rightarrow> ('e world, run_ledger) op" where
  "loadRunLedger root key = attempt (readJSONFile as_ledger (RunLedgerPath root key))
     (\<lambda>x. ret (case x of Some l \<Rightarrow> l | None \<Rightarrow> new_run_ledger key))"

definition writeRunLedger :: "string \<Rightarrow> string \<Rightarrow> run_ledger \<Rightarrow> ('e world, unit) op" where
  "writeRunLedger root key l = writeFileAtomic (RunLedgerPath root key) (LedgerFile l)"

text \<open>\<open>CheckOpen\<close>; \<open>fmt\<close> prints a time.\<close>

definition CheckOpen :: "(int \<Rightarrow> string) \<Rightarrow> run_record \<Rightarrow> gerror option" where
  "CheckOpen fmt r =
     (case rr_resolved r of
        Some z \<Rightarrow> Some (ErrMsg (''run '' @ rr_run_key r @ '' is already resolved ('' @ rz_state z @ '')''))
      | None \<Rightarrow>
        if rr_reaped r then Some (ErrMsg (''run key '' @ quoted (rr_run_key r) @ '' was reaped by juggler clean at ''
             @ (case rr_reaped_at r of Some t \<Rightarrow> fmt t | None \<Rightarrow> []) @ ''; choose a new key''))
        else if rr_pending r then Some (ErrMsg (''run '' @ rr_run_key r
             @ '' is pending: its spawn --new-run failed; retry it with the same --run-key''))
        else None)"

definition fail_if :: "gerror option \<Rightarrow> ('s, unit) op" where
  "fail_if e = (case e of Some x \<Rightarrow> fail x | None \<Rightarrow> ret ())"

definition append_entries :: "run_entry list \<Rightarrow> run_ledger \<Rightarrow> run_ledger" where
  "append_entries es l = l\<lparr>rl_calls := rl_calls l @ es\<rparr>"

definition AppendRunLedgerEntry :: "string \<Rightarrow> (int \<Rightarrow> string) \<Rightarrow> string \<Rightarrow> run_entry \<Rightarrow> ('e world, unit) op" where
  "AppendRunLedgerEntry root fmt key e =
     attempt (fail_if (ValidRunKey key)) (\<lambda>_.
     attempt (lock (runPath root key @ ''.lock'')) (\<lambda>_.
     attempt (LoadRun root key) (\<lambda>found. case found of
       None \<Rightarrow> fail (ErrMsg (''no run with key '' @ quoted key))
     | Some run \<Rightarrow>
       if rr_pending run \<or> rr_reaped run then fail_if (CheckOpen fmt run)
       else attempt (loadRunLedger root key) (\<lambda>l.
         if rl_resolved l \<noteq> None \<or> rr_resolved run \<noteq> None
         then fail (ErrMsg (''run '' @ key @ '' is already resolved; its ledger is closed''))
         else writeRunLedger root key (append_entries [e] l)))))"

text \<open>\<open>appendRunLedgerLocked\<close>: the caller holds the lock.\<close>

definition appendRunLedgerLocked :: "string \<Rightarrow> string \<Rightarrow> run_entry \<Rightarrow> ('e world, unit) op" where
  "appendRunLedgerLocked root key e = attempt (loadRunLedger root key)
     (\<lambda>l. writeRunLedger root key (append_entries [e] l))"

end
