(* ===== verification/Run_Services.thy ===== *)
theory Run_Services
  imports Run_Store
begin

text \<open>
  The collaborators of the lifecycle verbs (\<open>LifecycleDeps\<close> in \<open>exitwake.go\<close>): ringmaster,
  troupe, the room provisioner, moxy, systemd and the clock, as functions on an abstract
  outside world \<open>'e\<close>; and the helpers juggler builds on them: credentials and identities
  (\<open>troupe.go\<close>), stopping a job (\<open>ringmaster.go\<close>), the systemd precondition
  (\<open>systemdready.go\<close>) and result spools (\<open>ledger.go\<close>).
\<close>

section \<open>Credentials and identities\<close>

record credential =
  cd_jid :: string
  cd_password_file :: string

definition Localpart :: "credential \<Rightarrow> string" where
  "Localpart c = fst (cut (CHR ''@'') (cd_jid c))"

definition Domain :: "credential \<Rightarrow> string" where
  "Domain c = fst (cut (CHR ''/'') (fst (snd (cut (CHR ''@'') (cd_jid c)))))"

record identity =
  id_session_key :: string
  id_user :: string
  id_password_file :: string
  id_domain :: string

definition ambient :: identity where
  "ambient = \<lparr>id_session_key = [], id_user = [], id_password_file = [], id_domain = []\<rparr>"

definition IdentityFor :: "string \<Rightarrow> credential \<Rightarrow> identity" where
  "IdentityFor sessionKey c = \<lparr>id_session_key = sessionKey, id_user = Localpart c,
     id_password_file = cd_password_file c, id_domain = Domain c\<rparr>"

definition rootIdentity :: "run_record \<Rightarrow> identity" where
  "rootIdentity r = IdentityFor (rr_root_principal r)
     \<lparr>cd_jid = rr_root_jid r, cd_password_file = rr_root_credential_ref r\<rparr>"

record wake =
  wk_target :: string
  wk_from :: string
  wk_source :: string
  wk_message :: string
  wk_result_ref :: string

record room_info =
  ri_room :: string
  ri_created :: bool
  ri_owners :: "string list"
  ri_members :: "string list"

definition AffiliationOwner :: string where "AffiliationOwner = ''owner''"
definition AffiliationMember :: string where "AffiliationMember = ''member''"
definition AffiliationNone :: string where "AffiliationNone = ''none''"

definition loginFailureMarkers :: "string list" where
  "loginFailureMarkers = [''xmpp: negotiate: not-authorized'',
     ''xmpp: negotiate: Unable to authorize you with the authentication credentials'',
     ''sasl: not-authorized'']"

definition IsLoginFailure :: "gerror \<Rightarrow> bool" where
  "IsLoginFailure e = (case err_as is_command e of
      None \<Rightarrow> False
    | Some (code, stderr) \<Rightarrow> code = 1 \<and> list_ex (\<lambda>m. has_sub stderr m) loginFailureMarkers)"

section \<open>The collaborators\<close>

record systemd_readiness =
  sd_state :: string
  sd_detail :: string

record narrows_result =
  nr_widens :: bool
  nr_lines :: "string list"
  nr_violations :: "violation list"
  nr_violations_parsed :: bool
  nr_moxy_bin :: string
  nr_parent_moxyfile_digest :: string

record transient_unit =
  tu_name :: string
  tu_runtime_max :: int
  tu_exec_stop_post :: "string list"
  tu_env :: "(string \<times> string) list"
  tu_exec :: "string list"

text \<open>
  \<open>sv_mint\<close> also says what it left in the password file; \<open>sv_root_principal\<close>, \<open>sv_sha\<close>
  and the time formats are functions. \<open>sv_retry_wait\<close> is \<open>WaitBeforeDoneRetry\<close>: true when
  the retries must end. \<open>sv_clock\<close> is \<open>time.Now\<close>, \<open>sv_now\<close> the injected clock.
\<close>

record 'e deps =
  d_root :: string
  sv_now :: "'e \<Rightarrow> int \<times> 'e"
  sv_clock :: "'e \<Rightarrow> int \<times> 'e"
  sv_fmt :: "int \<Rightarrow> string"
  sv_parse_time :: "string \<Rightarrow> int option"
  sv_new_principal :: "'e \<Rightarrow> string \<times> 'e"
  sv_root_principal :: "string \<Rightarrow> string"
  sv_sha :: "string \<Rightarrow> string"
  sv_start :: "string \<Rightarrow> string \<Rightarrow> string \<Rightarrow> ('e, string) op"
  sv_progress :: "string \<Rightarrow> string \<Rightarrow> string \<Rightarrow> ('e, unit) op"
  sv_done :: "string \<Rightarrow> string \<Rightarrow> done_record \<Rightarrow> ('e, unit) op"
  sv_records :: "string \<Rightarrow> string \<Rightarrow> ('e, job_record list) op"
  sv_spool_path :: "string \<Rightarrow> string \<Rightarrow> ('e, string) op"
  sv_wait_terminal :: "string \<Rightarrow> string \<Rightarrow> int \<Rightarrow> ('e, unit) op"
  sv_cancel :: "string \<Rightarrow> string \<Rightarrow> string \<Rightarrow> ('e, unit) op"
  sv_retry_wait :: "'e \<Rightarrow> bool \<times> 'e"
  sv_mint :: "string \<Rightarrow> string \<Rightarrow> 'e \<Rightarrow> ((gerror + credential) \<times> string option) \<times> 'e"
  sv_revoke :: "string \<Rightarrow> string \<Rightarrow> ('e, unit) op"
  sv_post :: "identity \<Rightarrow> string \<Rightarrow> string \<Rightarrow> string \<Rightarrow> ('e, string) op"
  sv_wake :: "wake \<Rightarrow> ('e, unit) op"
  sv_create_room :: "identity \<Rightarrow> string \<Rightarrow> string list \<Rightarrow> ('e, room_info) op"
  sv_affiliate :: "identity \<Rightarrow> string \<Rightarrow> string \<Rightarrow> string \<Rightarrow> ('e, unit) op"
  sv_systemd :: "('e, systemd_readiness) op"
  sv_launch :: "transient_unit \<Rightarrow> ('e, unit) op"
  sv_moxy_path :: string
  sv_moxy_show :: "string list \<Rightarrow> string \<Rightarrow> ('e, string) op"
  sv_moxy_narrows :: "string list \<Rightarrow> string \<Rightarrow> string \<Rightarrow> ('e, narrows_result) op"
  sv_moxy_resolve :: "string list \<Rightarrow> string \<Rightarrow> string \<Rightarrow> ('e, string \<times> string) op"

text \<open>A collaborator never touches juggler's own files.\<close>

definition ext :: "('e \<Rightarrow> 'r \<times> 'e) \<Rightarrow> 'e world \<Rightarrow> 'r \<times> 'e world" where
  "ext f w = (case f (w_ext w) of (r, e) \<Rightarrow> (r, w\<lparr>w_ext := e\<rparr>))"

definition with_now :: "'e deps \<Rightarrow> (int \<Rightarrow> 'e world \<Rightarrow> 'r) \<Rightarrow> 'e world \<Rightarrow> 'r" where
  "with_now d k w = (case ext (sv_now d) w of (t, w') \<Rightarrow> k t w')"

text \<open>The mint writes the password file.\<close>

definition mint :: "'e deps \<Rightarrow> string \<Rightarrow> string \<Rightarrow> ('e world, credential) op" where
  "mint d key pw w = (case ext (sv_mint d key pw) w of
      ((r, None), w') \<Rightarrow> (r, w')
    | ((r, Some secret), w') \<Rightarrow> (r, w'\<lparr>w_files := alist_put pw (TextFile secret) (w_files w')\<rparr>))"

section \<open>Stopping a job\<close>

definition DefaultStopGrace :: int where "DefaultStopGrace = 30000000000"

definition requestStop :: "'e deps \<Rightarrow> string \<Rightarrow> string \<Rightarrow> string \<Rightarrow> int \<Rightarrow> ('e world, job_record list \<times> bool) op" where
  "requestStop d target job message grace =
     observe (ext (sv_cancel d target job message)) (\<lambda>_.
     observe (ext (sv_wait_terminal d target job (if grace \<le> 0 then DefaultStopGrace else grace))) (\<lambda>_.
     attempt_or (ext (sv_records d target job))
       (\<lambda>e. fail (ErrWrap (''reading '' @ job @ '': '') e []))
       (\<lambda>recs. ret (recs, TerminalRecord recs \<noteq> None))))"

section \<open>Systemd\<close>

definition AcceptableSystemdStates :: "string list" where
  "AcceptableSystemdStates = [''running'', ''degraded'']"

definition not_ready :: "string \<Rightarrow> string \<Rightarrow> gerror" where
  "not_ready state detail = ErrSystemdNotReady state detail
     (if detail \<noteq> [] then ''systemd is not ready to start units: is-system-running reported no state ('' @ detail @ '')''
      else ''systemd is not ready to start units: is-system-running reported '' @ quoted state)"

definition CheckSystemdReady :: "'e deps \<Rightarrow> ('e world, unit) op" where
  "CheckSystemdReady d = attempt_or (ext (sv_systemd d))
     (\<lambda>e. fail (ErrWrap ''checking systemd is ready to start units: '' e []))
     (\<lambda>r. let state = (if sd_state r = [] then ''unknown'' else sd_state r)
          in if state \<in> set AcceptableSystemdStates then ret () else fail (not_ready state (sd_detail r)))"

definition SystemdRefusalEntry :: "string \<Rightarrow> string \<Rightarrow> run_entry" where
  "SystemdRefusalEntry state detail =
     (entry_of ''systemd'' ''refusal'' False ''systemd is not ready to start units'')
     \<lparr>re_state := state, re_detail := detail\<rparr>"

section \<open>Result spools\<close>

definition writeSpool :: "'e deps \<Rightarrow> string \<Rightarrow> string \<Rightarrow> spool \<Rightarrow> ('e world, string) op" where
  "writeSpool d target job doc = attempt_or (ext (sv_spool_path d target job))
     (\<lambda>e. fail (ErrWrap ''ringmaster spool-path: '' e []))
     (\<lambda>path. if path = [] then ret []
             else attempt_or may_fail
               (\<lambda>e. fail (ErrWrap (''writing ledger to spool '' @ path @ '': '') e []))
               (\<lambda>_ w. (Inr path, w\<lparr>w_spools := alist_put path doc (w_spools w)\<rparr>)))"

definition readAgentLedger :: "string \<Rightarrow> ('e world, ledger option) op" where
  "readAgentLedger path =
     (if path = [] then ret None
      else attempt may_fail (\<lambda>_ w. (case map_of (w_spools w) path of
          None \<Rightarrow> Inr None
        | Some EmptySpool \<Rightarrow> Inr None
        | Some (AgentSpool l) \<Rightarrow> Inr (Some l)
        | Some (RunSpool _) \<Rightarrow> Inl (ErrWrap (''parsing ledger '' @ path @ '': '') (ErrMsg ''unexpected document'') [])
        | Some (BadSpool m) \<Rightarrow> Inl (ErrWrap (''parsing ledger '' @ path @ '': '') (ErrMsg m) []), w)))"

section \<open>Facts\<close>

text \<open>What the store's files keep when an operation only talks to the outside.\<close>

lemma keeps_Pair [keeps_intros]: "keeps I (Pair r)"
  by (simp add: keeps_def)

lemma ext_files: "ext f w = (r, w') \<Longrightarrow> w_files w' = w_files w"
  by (auto simp: ext_def split: prod.splits)

lemma may_fail_files: "may_fail w = (r, w') \<Longrightarrow> w_files w' = w_files w"
  by (auto simp: may_fail_def split: list.splits option.splits)

text \<open>A property of the files alone.\<close>

definition on_files :: "((string \<times> content) list \<Rightarrow> bool) \<Rightarrow> 'e world \<Rightarrow> bool" where
  "on_files P w = P (w_files w)"

lemma keeps_ext [keeps_intros]: "keeps (on_files P) (ext f)"
  by (simp add: keeps_def on_files_def ext_def split: prod.split)

lemma keeps_may_fail [keeps_intros]: "keeps (on_files P) may_fail"
  by (simp add: keeps_def on_files_def may_fail_def split: list.split option.split)

lemma keeps_lock [keeps_intros]: "keeps (on_files P) (lock path)"
  by (simp add: lock_def keeps_may_fail)

lemma keeps_read_file [keeps_intros]: "keeps (on_files P) (read_file path)"
  unfolding read_file_def by (intro keeps_attempt keeps_may_fail) (simp add: keeps_def)

lemma keeps_stat_file [keeps_intros]: "keeps (on_files P) (stat_file path)"
  unfolding stat_file_def by (intro keeps_attempt keeps_may_fail) (simp add: keeps_def)

lemma keeps_readJSONFile [keeps_intros]: "keeps (on_files P) (readJSONFile sel path)"
  unfolding readJSONFile_def by (intro keeps_intros)

lemma keeps_load_each [keeps_intros]: "keeps (on_files P) (load_each sel ps)"
  by (induction ps) (auto intro!: keeps_intros)

lemma keeps_store_runs [keeps_intros]: "keeps (on_files P) (store_runs root)"
  using keeps_load_each by (fastforce simp: keeps_def store_runs_def)

lemma keeps_runChildren [keeps_intros]: "keeps (on_files P) (runChildren root key)"
  using keeps_load_each by (fastforce simp: keeps_def runChildren_def)

lemma keeps_findRun [keeps_intros]: "keeps (on_files P) (findRun root match)"
  unfolding findRun_def by (intro keeps_intros)

lemma keeps_LoadRun [keeps_intros]: "keeps (on_files P) (LoadRun root key)"
  unfolding LoadRun_def by (rule keeps_readJSONFile)

lemma keeps_LoadChild [keeps_intros]: "keeps (on_files P) (LoadChild root key digest)"
  unfolding LoadChild_def by (rule keeps_readJSONFile)

lemma keeps_loadRunLedger [keeps_intros]: "keeps (on_files P) (loadRunLedger root key)"
  unfolding loadRunLedger_def by (intro keeps_attempt keeps_readJSONFile keeps_ret)

lemma keeps_FindRunByJob [keeps_intros]: "keeps (on_files P) (FindRunByJob root job)"
  unfolding FindRunByJob_def by (rule keeps_findRun)

lemma keeps_FindRunByRoom [keeps_intros]: "keeps (on_files P) (FindRunByRoom root room)"
  unfolding FindRunByRoom_def by (rule keeps_findRun)

lemma keeps_CredentialPath [keeps_intros]: "keeps (on_files P) (CredentialPath root key p)"
  unfolding CredentialPath_def by (intro keeps_attempt keeps_may_fail keeps_ret)

lemma keeps_requestStop [keeps_intros]: "keeps (on_files P) (requestStop d target job message grace)"
  unfolding requestStop_def by (intro keeps_intros)

lemma keeps_systemd [keeps_intros]: "keeps (on_files P) (CheckSystemdReady d)"
  unfolding CheckSystemdReady_def by (intro keeps_intros)

lemma keeps_writeSpool [keeps_intros]: "keeps (on_files P) (writeSpool d target job doc)"
  unfolding writeSpool_def by (intro keeps_intros) (simp add: keeps_def on_files_def)

lemma keeps_write [keeps_intros]:
  "(\<And>fs. P fs \<Longrightarrow> P (alist_put path c fs)) \<Longrightarrow> keeps (on_files P) (writeFileAtomic path c)"
  unfolding writeFileAtomic_def by (intro keeps_intros) (simp add: keeps_def on_files_def)

lemma keeps_remove [keeps_intros]:
  "(\<And>fs. P fs \<Longrightarrow> P (remove_path path fs)) \<Longrightarrow> keeps (on_files P) (remove_file path)"
  unfolding remove_file_def by (intro keeps_intros) (simp add: keeps_def on_files_def split: option.split)

lemma keeps_removeIfExists [keeps_intros]:
  "(\<And>fs. P fs \<Longrightarrow> P (remove_path path fs)) \<Longrightarrow> keeps (on_files P) (removeIfExists path)"
  unfolding removeIfExists_def by (intro keeps_intros) auto

lemma keeps_mint [keeps_intros]:
  "(\<And>fs s. P fs \<Longrightarrow> P (alist_put pw (TextFile s) fs)) \<Longrightarrow> keeps (on_files P) (mint d key pw)"
  by (auto simp: keeps_def mint_def on_files_def split: prod.splits option.splits dest!: ext_files)

end
