(* ===== verification/Run_ExitWake.thy ===== *)
theory Run_ExitWake
  imports Run_Services "HOL-Library.Monad_Syntax"
begin

text \<open>
  The unit's post-stop hook (\<open>exitwake.go\<close>): it makes sure the job has a terminal record
  and wakes the holders once. \<open>doneWithRetry\<close> retries for as long as its clock lets it, so
  it is a \<open>partial_function\<close>: \<open>None\<close> is a hook that never returns. The deadline the hook
  keeps in reserve is part of the clock (\<open>sv_retry_wait\<close>).
\<close>

section \<open>Sending the wakes\<close>

record exit_wake_batch =
  eb_job :: string
  eb_from :: string
  eb_source :: string
  eb_state :: string
  eb_reason :: string
  eb_message :: string
  eb_result_ref :: string
  eb_recipients :: "string list"

text \<open>The loop over the recipients: those woken, and the errors of the others.\<close>

fun send_each :: "'e deps \<Rightarrow> exit_wake_batch \<Rightarrow> string \<Rightarrow> string list \<Rightarrow> 'e world \<Rightarrow> (string list \<times> gerror list) \<times> 'e world" where
  "send_each d b text [] w = (([], []), w)"
| "send_each d b text (h # hs) w =
     (case ext (sv_wake d \<lparr>wk_target = h, wk_from = eb_from b, wk_source = eb_source b, wk_message = text,
                          wk_result_ref = eb_result_ref b\<rparr>) w of
        (Inl e, w1) \<Rightarrow> (case send_each d b text hs w1 of ((woken, errs), w2) \<Rightarrow>
            ((woken, ErrWrap (''exit wake to '' @ h @ '': '') e [] # errs), w2))
      | (Inr _, w1) \<Rightarrow> (case send_each d b text hs w1 of ((woken, errs), w2) \<Rightarrow> ((h # woken, errs), w2)))"

text \<open>The result: the principals woken, whether they had been before, the error.\<close>

definition sendExitWakes :: "'e deps \<Rightarrow> exit_wake_batch \<Rightarrow> 'e world \<Rightarrow> (string list \<times> bool \<times> gerror option) \<times> 'e world" where
  "sendExitWakes d b =
     (let marker = wakeMarkerPath (d_root d) (eb_job b) in
      attempt_or (lock (marker @ ''.lock'')) (\<lambda>e w. (([], False, Some e), w)) (\<lambda>_.
      attempt_or (stat_file marker)
        (\<lambda>e. if \<not> is_not_exist e then (\<lambda>w. (([], False, Some e), w)) else
          (\<lambda>w. (case send_each d b (ExitWakeText (eb_job b) (eb_state b) (eb_reason b) (eb_message b)) (eb_recipients b) w of
             ((woken, errs), w1) \<Rightarrow>
               if errs \<noteq> [] then ((woken, False, Some (ErrJoin errs)), w1)
               else with_now d (\<lambda>t. attempt_or (writeFileAtomic marker (TextFile (sv_fmt d t @ [CHR 0x0A])))
                      (\<lambda>e w. ((woken, False, Some (ErrWrap ''writing exit-wake marker: '' e [])), w))
                      (\<lambda>_ w. ((woken, False, None), w))) w1)))
        (\<lambda>_ w. (([], True, None), w))))"

section \<open>The terminal record\<close>

record exit_wake_request =
  xr_job :: string
  xr_target :: string
  xr_from :: string
  xr_ledger_ref :: string
  xr_service :: service_result

record exit_wake_outcome =
  xo_job :: string
  xo_state :: string
  xo_reason :: string
  xo_message :: string
  xo_wrote_terminal :: bool
  xo_woken :: "string list"
  xo_already_woken :: bool

definition hook_record :: "string \<Rightarrow> string \<Rightarrow> string \<Rightarrow> job_record" where
  "hook_record state message ref = no_record\<lparr>jr_type := state, jr_message := message, jr_result_ref := ref\<rparr>"

text \<open>One attempt: \<open>Inl\<close> the final answer, \<open>Inr e\<close> to wait and go again.\<close>

definition done_attempt :: "'e deps \<Rightarrow> exit_wake_request \<Rightarrow> string \<Rightarrow> string \<Rightarrow>
    'e world \<Rightarrow> (job_record \<times> bool + gerror) \<times> 'e world" where
  "done_attempt d req state message =
     attempt_or (ext (sv_done d (xr_target req) (xr_job req)
         \<lparr>dr_state = state, dr_message = message, dr_result_ref = xr_ledger_ref req\<rparr>))
       (\<lambda>doneErr. attempt_or (ext (sv_records d (xr_target req) (xr_job req)))
          (\<lambda>_ w. (Inr doneErr, w))
          (\<lambda>recs w. (case TerminalRecord recs of Some t \<Rightarrow> Inl (t, False) | None \<Rightarrow> Inr doneErr, w)))
       (\<lambda>_ w. (Inl (hook_record state message (xr_ledger_ref req), True), w))"

partial_function (option) doneWithRetry :: "'e deps \<Rightarrow> exit_wake_request \<Rightarrow> string \<Rightarrow> string \<Rightarrow> 'e world \<Rightarrow>
    ((gerror + job_record \<times> bool) \<times> 'e world) option" where
  "doneWithRetry d req state message w =
     (case done_attempt d req state message w of
        (Inl r, w1) \<Rightarrow> Some (Inr r, w1)
      | (Inr doneErr, w1) \<Rightarrow>
          (case ext (sv_retry_wait d) w1 of (stop, w2) \<Rightarrow>
             if stop then Some (Inl (ErrWrap (''ringmaster done '' @ xr_job req @ '': giving up after repeated failures: '') doneErr []), w2)
             else doneWithRetry d req state message w2))"

declare doneWithRetry.simps [code]

definition empty_outcome :: "string \<Rightarrow> exit_wake_outcome" where
  "empty_outcome job = \<lparr>xo_job = job, xo_state = [], xo_reason = [], xo_message = [], xo_wrote_terminal = False,
     xo_woken = [], xo_already_woken = False\<rparr>"

definition ExitWakeSource :: string where "ExitWakeSource = ''juggler-exit-wake''"

text \<open>The relay of a terminal record, found or just written.\<close>

definition relay :: "'e deps \<Rightarrow> exit_wake_request \<Rightarrow> job_record list \<Rightarrow> job_record \<Rightarrow> bool \<Rightarrow>
    'e world \<Rightarrow> (exit_wake_outcome \<times> gerror option) \<times> 'e world" where
  "relay d req recs term wrote w =
     (let reason = ExitReasonFor (jr_type term) (jr_message term) in
      case sendExitWakes d \<lparr>eb_job = xr_job req, eb_from = xr_from req, eb_source = ExitWakeSource,
             eb_state = jr_type term, eb_reason = reason, eb_message = jr_message term, eb_result_ref = jr_result_ref term,
             eb_recipients = WakeRecipients (HoldersFromRecords (sv_parse_time d) recs)\<rparr> w of
        ((woken, already, err), w1) \<Rightarrow>
          ((\<lparr>xo_job = xr_job req, xo_state = jr_type term, xo_reason = reason, xo_message = jr_message term,
             xo_wrote_terminal = wrote, xo_woken = woken, xo_already_woken = already\<rparr>, err), w1))"

definition ExitWake :: "'e deps \<Rightarrow> exit_wake_request \<Rightarrow> 'e world \<Rightarrow> ((exit_wake_outcome \<times> gerror option) \<times> 'e world) option" where
  "ExitWake d req w =
     (case ext (sv_records d (xr_target req) (xr_job req)) w of
        (Inl e, w1) \<Rightarrow> Some ((empty_outcome (xr_job req), Some (ErrWrap (''reading '' @ xr_job req @ '': '') e [])), w1)
      | (Inr [], w1) \<Rightarrow> Some ((empty_outcome (xr_job req),
            Some (ErrMsg (''job '' @ xr_job req @ '' has no journal on '' @ xr_target req @ [CHR 0x27] @ ''s channel''))), w1)
      | (Inr recs, w1) \<Rightarrow> (case TerminalRecord recs of
            Some term \<Rightarrow> Some (relay d req recs term False w1)
          | None \<Rightarrow> (case HookTerminal (xr_service req) of (state, message) \<Rightarrow>
              (case doneWithRetry d req state message w1 of
                 None \<Rightarrow> None
               | Some (Inl e, w2) \<Rightarrow> Some ((empty_outcome (xr_job req), Some e), w2)
               | Some (Inr (term, wrote), w2) \<Rightarrow> Some (relay d req recs term wrote w2)))))"

end
