(* ===== verification/Run_Resolve.thy ===== *)
theory Run_Resolve
  imports Run_ExitWake
begin

text \<open>
  \<open>juggler resolve\<close> (\<open>resolve.go\<close>): the canary line, the stop of live children, the run
  ledger, the terminal record, the exit wake and the teardown of the run's accounts. A
  function that returns a value and an error in Go returns both here. The goroutines that
  stop the children interleave call by call: \<open>sched\<close> says whose call comes next.
\<close>

record resolve_request =
  rq_run_job :: string
  rq_state :: string
  rq_reason :: string
  rq_fallback_artifacts :: "artifact list"
  rq_stop_grace :: int
  rq_result_line :: string
  rq_canary_room :: string
  rq_keep_accounts :: bool

record canary_outcome =
  co_room :: string
  co_posted :: bool
  co_stanza :: string

record resolve_outcome =
  ro_run_key :: string
  ro_run_job :: string
  ro_state :: string
  ro_reason :: string
  ro_ledger :: string
  ro_woken :: "string list"
  ro_already_resolved :: bool
  ro_canary :: "canary_outcome option"
  ro_torn_down :: bool
  ro_teardown :: "run_entry list"

definition zero_outcome :: resolve_outcome where
  "zero_outcome = \<lparr>ro_run_key = [], ro_run_job = [], ro_state = [], ro_reason = [], ro_ledger = [], ro_woken = [],
     ro_already_resolved = False, ro_canary = None, ro_torn_down = False, ro_teardown = []\<rparr>"

definition ResolveSource :: string where "ResolveSource = ''juggler-resolve''"

section \<open>Ledger and canary\<close>

definition persistLedger :: "'e deps \<Rightarrow> run_record \<Rightarrow> run_ledger \<Rightarrow> ('e world, string) op" where
  "persistLedger d run l = attempt_or (writeRunLedger (d_root d) (rr_run_key run) l)
     (\<lambda>e. fail (ErrWrap ''writing the run ledger: '' e []))
     (\<lambda>_. attempt_or (writeSpool d (rr_issuer run) (rr_run_job run) (RunSpool l)) (\<lambda>_. ret []) ret)"

definition recordedCanary :: "string \<Rightarrow> string \<Rightarrow> string \<Rightarrow> 'e world \<Rightarrow> (canary_outcome \<times> gerror option) \<times> 'e world" where
  "recordedCanary root key room = attempt_or (read_file (canaryMarkerPath root key))
     (\<lambda>e w. ((\<lparr>co_room = room, co_posted = False, co_stanza = []\<rparr>, if is_not_exist e then None else Some e), w))
     (\<lambda>c w. ((\<lparr>co_room = room, co_posted = True, co_stanza = trim_space (case c of TextFile s \<Rightarrow> s | _ \<Rightarrow> [])\<rparr>, None), w))"

definition note_canary :: "'e deps \<Rightarrow> run_record \<Rightarrow> canary_outcome \<Rightarrow> string \<Rightarrow> gerror option \<Rightarrow>
    'e world \<Rightarrow> (canary_outcome \<times> gerror option) \<times> 'e world" where
  "note_canary d run out stanza postErr =
     attempt_or (loadRunLedger (d_root d) (rr_run_key run)) (\<lambda>e w. ((out, Some e), w)) (\<lambda>l.
     attempt_or (writeRunLedger (d_root d) (rr_run_key run) (append_entries [CanaryEntry (co_room out) stanza postErr] l))
       (\<lambda>e w. ((out, Some (ErrWrap ''writing the run ledger: '' e [])), w))
       (\<lambda>_ w. ((out, None), w)))"

definition postCanaryOnce :: "'e deps \<Rightarrow> run_record \<Rightarrow> string \<Rightarrow> string \<Rightarrow> 'e world \<Rightarrow> (canary_outcome \<times> gerror option) \<times> 'e world" where
  "postCanaryOnce d run room line w =
     (case recordedCanary (d_root d) (rr_run_key run) room w of
        ((prior, Some e), w1) \<Rightarrow> ((prior, Some e), w1)
      | ((prior, None), w1) \<Rightarrow>
          if co_posted prior then ((prior, None), w1)
          else attempt_or (ext (sv_post d (rootIdentity run) room ResolveSource line))
            (\<lambda>postErr. note_canary d run \<lparr>co_room = room, co_posted = False, co_stanza = []\<rparr> [] (Some postErr))
            (\<lambda>i. let out = \<lparr>co_room = room, co_posted = True, co_stanza = i\<rparr> in
               attempt_or (writeFileAtomic (canaryMarkerPath (d_root d) (rr_run_key run)) (TextFile (i @ [CHR 0x0A])))
                 (\<lambda>e w. ((out, Some (ErrWrap (''writing the canary marker (the line was posted as '' @ i @ ''): '') e [])), w))
                 (\<lambda>_. note_canary d run out i None))
            w1)"

section \<open>Stopping the children\<close>

text \<open>A goroutine of \<open>stopLiveChildren\<close>, between two calls.\<close>

datatype stopper =
    StopStart child_record
  | StopUnread child_record gerror
  | StopCancel child_record
  | StopWait child_record
  | StopRead child_record
  | StopDone "run_entry option"

definition stop_step :: "'e deps \<Rightarrow> int \<Rightarrow> stopper \<Rightarrow> 'e world \<Rightarrow> stopper \<times> 'e world" where
  "stop_step d grace g w = (case g of
      StopStart c \<Rightarrow> attempt_or (ext (sv_records d (cr_parent c) (cr_job c)))
        (\<lambda>e w. (StopUnread c e, w))
        (\<lambda>recs w. (if TerminalRecord recs \<noteq> None \<or> recs = [] then StopDone None else StopCancel c, w)) w
    | StopUnread c e \<Rightarrow> observe (ext (sv_cancel d (cr_parent c) (cr_job c) ''run resolved''))
        (\<lambda>_ w. (StopDone (Some (ChildStopFailureEntry c e)), w)) w
    | StopCancel c \<Rightarrow> observe (ext (sv_cancel d (cr_parent c) (cr_job c) ''run resolved'')) (\<lambda>_ w. (StopWait c, w)) w
    | StopWait c \<Rightarrow> observe (ext (sv_wait_terminal d (cr_parent c) (cr_job c) (if grace \<le> 0 then DefaultStopGrace else grace)))
        (\<lambda>_ w. (StopRead c, w)) w
    | StopRead c \<Rightarrow> attempt_or (ext (sv_records d (cr_parent c) (cr_job c)))
        (\<lambda>e w. (StopDone (Some (ChildStopFailureEntry c (ErrWrap (''reading '' @ cr_job c @ '': '') e []))), w))
        (\<lambda>recs w. (StopDone (Some (ChildStopEntry c (TerminalRecord recs \<noteq> None))), w)) w
    | StopDone r \<Rightarrow> (StopDone r, w))"

fun run_schedule :: "'e deps \<Rightarrow> int \<Rightarrow> nat list \<Rightarrow> stopper list \<Rightarrow> 'e world \<Rightarrow> stopper list \<times> 'e world" where
  "run_schedule d grace [] gs w = (gs, w)"
| "run_schedule d grace (i # sched) gs w =
     (if i < length gs
      then (case stop_step d grace (gs ! i) w of (g, w1) \<Rightarrow> run_schedule d grace sched (gs[i := g]) w1)
      else run_schedule d grace sched gs w)"

text \<open>\<open>wg.Wait\<close>: what the schedule left is run to its end; a goroutine makes at most four
  calls.\<close>

fun finish_each :: "'e deps \<Rightarrow> int \<Rightarrow> stopper list \<Rightarrow> 'e world \<Rightarrow> run_entry option list \<times> 'e world" where
  "finish_each d grace [] w = ([], w)"
| "finish_each d grace (g # gs) w =
     (case stop_step d grace g w of (g1, w1) \<Rightarrow>
      case stop_step d grace g1 w1 of (g2, w2) \<Rightarrow>
      case stop_step d grace g2 w2 of (g3, w3) \<Rightarrow>
      case stop_step d grace g3 w3 of (g4, w4) \<Rightarrow>
      case finish_each d grace gs w4 of (es, w5) \<Rightarrow> ((case g4 of StopDone r \<Rightarrow> r | _ \<Rightarrow> None) # es, w5))"

definition stopLiveChildren :: "'e deps \<Rightarrow> nat list \<Rightarrow> string \<Rightarrow> int \<Rightarrow> ('e world, run_entry list) op" where
  "stopLiveChildren d sched key grace = attempt (runChildren (d_root d) key) (\<lambda>children w.
     case run_schedule d grace sched (map StopStart children) w of (gs, w1) \<Rightarrow>
     case finish_each d grace gs w1 of (es, w2) \<Rightarrow> (Inr (concat (map (\<lambda>e. case e of Some x \<Rightarrow> [x] | None \<Rightarrow> []) es)), w2))"

section \<open>Accounts\<close>

definition joinNotes :: "string \<Rightarrow> string list \<Rightarrow> string" where
  "joinNotes reason notes = (if notes = [] then reason else reason @ ''; '' @ join ''; '' notes)"

definition delete_password :: "string \<Rightarrow> string \<Rightarrow> 'e world \<Rightarrow> (bool \<times> string) \<times> 'e world" where
  "delete_password pw reason = attempt_or (removeIfExists pw)
     (\<lambda>e w. ((False, reason @ '', but deleting the password file failed: '' @ err_text e), w))
     (\<lambda>_ w. ((True, reason), w))"

definition revokeAccount :: "'e deps \<Rightarrow> string \<Rightarrow> string \<Rightarrow> 'e world \<Rightarrow> (bool \<times> string) \<times> 'e world" where
  "revokeAccount d p pw =
     (if pw = [] then (\<lambda>w. ((False, ''kept: no credential reference recorded''), w))
      else observe (stat_file pw) (\<lambda>r.
        if (case r of Some e \<Rightarrow> is_not_exist e | None \<Rightarrow> False)
        then (\<lambda>w. ((True, ''already gone: no password file''), w))
        else attempt_or (ext (sv_revoke d p pw))
          (\<lambda>e. if \<not> IsLoginFailure e then (\<lambda>w. ((False, ''kept: mint-revoke failed: '' @ err_text e), w))
               else delete_password pw ''already gone: login failed'')
          (\<lambda>_. delete_password pw ''revoked'')))"

text \<open>An affiliation call whose failure is only noted.\<close>

definition try_affiliate :: "'e deps \<Rightarrow> run_record \<Rightarrow> identity \<Rightarrow> string \<Rightarrow> string \<Rightarrow> 'e world \<Rightarrow> string list \<times> 'e world" where
  "try_affiliate d run root jid note = attempt_or (ext (sv_affiliate d root (rr_room run) AffiliationNone jid))
     (\<lambda>e w. ([note @ err_text e], w)) (\<lambda>_ w. ([], w))"

definition revoke_with :: "'e deps \<Rightarrow> string \<Rightarrow> string \<Rightarrow> string \<Rightarrow> string list \<Rightarrow> 'e world \<Rightarrow> run_entry \<times> 'e world" where
  "revoke_with d p jid pw notes w = (case revokeAccount d p pw w of
     ((ok, reason), w') \<Rightarrow> (TeardownEntry p jid ok (joinNotes reason notes), w'))"

definition teardownChild :: "'e deps \<Rightarrow> run_record \<Rightarrow> identity \<Rightarrow> child_record \<Rightarrow> 'e world \<Rightarrow> run_entry \<times> 'e world" where
  "teardownChild d run root child =
     attempt_or (ext (sv_records d (cr_parent child) (cr_job child)))
       (\<lambda>e w. (TeardownEntry (cr_principal child) (cr_jid child) False (''kept: journal unreadable: '' @ err_text e), w))
       (\<lambda>recs. if TerminalRecord recs = None \<and> recs \<noteq> []
          then (\<lambda>w. (TeardownEntry (cr_principal child) (cr_jid child) False ''still running'', w))
          else (\<lambda>w. case (if rr_room_created run
                          then try_affiliate d run root (cr_jid child) ''room affiliation not removed: '' w
                          else ([], w)) of
                 (notes, w1) \<Rightarrow> revoke_with d (cr_principal child) (cr_jid child) (cr_credential_ref child) notes w1))"

definition teardownRoot :: "'e deps \<Rightarrow> run_record \<Rightarrow> identity \<Rightarrow> 'e world \<Rightarrow> run_entry \<times> 'e world" where
  "teardownRoot d run root w =
     (case (if \<not> rr_room_created run then ([''root affiliation kept: the room was not provisioned by juggler''], w)
            else if rr_operator_jid run = [] then ([''root affiliation kept: the room has no operator owner''], w)
            else try_affiliate d run root (rr_root_jid run) ''root affiliation not removed: '' w) of
        (notes, w1) \<Rightarrow> revoke_with d (rr_root_principal run) (rr_root_jid run) (rr_root_credential_ref run) notes w1)"

definition gone_principals :: "run_ledger \<Rightarrow> string list" where
  "gone_principals l = map re_principal (filter (\<lambda>e. re_tool e = TeardownTool \<and> re_ok e) (rl_calls l))"

text \<open>The loop over the children: the entries made, and whether no child account remains.\<close>

fun teardown_children :: "'e deps \<Rightarrow> run_record \<Rightarrow> identity \<Rightarrow> string list \<Rightarrow> child_record list \<Rightarrow> 'e world \<Rightarrow> (run_entry list \<times> bool) \<times> 'e world" where
  "teardown_children d run root gone [] w = (([], True), w)"
| "teardown_children d run root gone (c # cs) w =
     (if cr_principal c \<in> set gone then teardown_children d run root gone cs w
      else case teardownChild d run root c w of (e, w1) \<Rightarrow>
           case teardown_children d run root gone cs w1 of ((es, allGone), w2) \<Rightarrow> ((e # es, re_ok e \<and> allGone), w2))"

definition root_entry :: "'e deps \<Rightarrow> run_record \<Rightarrow> identity \<Rightarrow> bool \<Rightarrow> 'e world \<Rightarrow> run_entry \<times> 'e world" where
  "root_entry d run root childrenGone w =
     (if childrenGone then teardownRoot d run root w
      else (TeardownEntry (rr_root_principal run) (rr_root_jid run) False ''kept: a child account of the run remains'', w))"

text \<open>Go passes the run by reference; here its new value is returned.\<close>

definition save_torn_down :: "'e deps \<Rightarrow> run_record \<Rightarrow> run_entry list \<Rightarrow> bool \<Rightarrow>
    'e world \<Rightarrow> (run_entry list \<times> run_record \<times> gerror option) \<times> 'e world" where
  "save_torn_down d run entries torn =
     (let run1 = run\<lparr>rr_torn_down := torn\<rparr> in
      attempt_or (SaveRun (d_root d) run1)
        (\<lambda>e w. ((entries, run1, Some (ErrWrap ''saving the run record: '' e [])), w))
        (\<lambda>_ w. ((entries, run1, None), w)))"

definition teardownAccounts :: "'e deps \<Rightarrow> run_record \<Rightarrow> 'e world \<Rightarrow> (run_entry list \<times> run_record \<times> gerror option) \<times> 'e world" where
  "teardownAccounts d run =
     attempt_or (loadRunLedger (d_root d) (rr_run_key run)) (\<lambda>e w. (([], run, Some e), w)) (\<lambda>l.
     attempt_or (runChildren (d_root d) (rr_run_key run)) (\<lambda>e w. (([], run, Some e), w)) (\<lambda>children w.
       let gone = gone_principals l; root = rootIdentity run in
       case teardown_children d run root gone children w of ((es, childrenGone), w1) \<Rightarrow>
       case (if rr_root_principal run \<in> set gone then (([], True), w1)
             else case root_entry d run root childrenGone w1 of (e, w2) \<Rightarrow> (([e], re_ok e), w2)) of
         ((roots, rootGone), w2) \<Rightarrow>
           (let entries = es @ roots; torn = (childrenGone \<and> rootGone) in
            if entries = [] then save_torn_down d run entries torn w2
            else attempt_or (persistLedger d run (append_entries entries l))
                   (\<lambda>e w. ((entries, run, Some e), w))
                   (\<lambda>_. save_torn_down d run entries torn) w2)))"

definition finishTeardown :: "'e deps \<Rightarrow> run_record \<Rightarrow> bool \<Rightarrow> resolve_outcome \<Rightarrow> 'e world \<Rightarrow> (resolve_outcome \<times> gerror option) \<times> 'e world" where
  "finishTeardown d run keep out w =
     (if \<not> keep \<and> \<not> rr_torn_down run
      then (case teardownAccounts d run w of
              ((entries, run1, Some e), w1) \<Rightarrow> ((out\<lparr>ro_teardown := entries\<rparr>, Some e), w1)
            | ((entries, run1, None), w1) \<Rightarrow> ((out\<lparr>ro_teardown := entries, ro_torn_down := rr_torn_down run1\<rparr>, None), w1))
      else ((out\<lparr>ro_torn_down := rr_torn_down run\<rparr>, None), w))"

section \<open>Resolve\<close>

text \<open>The ledger as resolve closes it: unchanged when an earlier attempt closed it.\<close>

definition closeLedger :: "'e deps \<Rightarrow> nat list \<Rightarrow> run_record \<Rightarrow> resolve_request \<Rightarrow> ('e world, run_ledger) op" where
  "closeLedger d sched run req = attempt (loadRunLedger (d_root d) (rr_run_key run)) (\<lambda>l.
     if rl_resolved l \<noteq> None then ret l
     else attempt (stopLiveChildren d sched (rr_run_key run) (rq_stop_grace req)) (\<lambda>stops.
       with_now d (\<lambda>now. ret ((append_entries (stops @ [FallbackEntry (rq_state req) (rq_reason req) (rq_fallback_artifacts req)]) l)
          \<lparr>rl_resolved := Some \<lparr>rz_state = rq_state req, rz_reason = rq_reason req, rz_at = now\<rparr>\<rparr>))))"

text \<open>The run job's terminal record: written, or the one found; and the journal.\<close>

definition terminal_of_run :: "'e deps \<Rightarrow> run_record \<Rightarrow> string \<Rightarrow> string \<Rightarrow> string \<Rightarrow> ('e world, job_record \<times> job_record list) op" where
  "terminal_of_run d run state message resultRef =
     observe (ext (sv_done d (rr_issuer run) (rr_run_job run) \<lparr>dr_state = state, dr_message = message, dr_result_ref = resultRef\<rparr>))
       (\<lambda>doneErr. attempt_or (ext (sv_records d (rr_issuer run) (rr_run_job run)))
          (\<lambda>e. fail (ErrWrap (''reading '' @ rr_run_job run @ '': '') e []))
          (\<lambda>recs. case TerminalRecord recs of
             None \<Rightarrow> fail (ErrWrap (''ringmaster done '' @ rr_run_job run @ '': '')
                 (ErrJoin ((case doneErr of Some e \<Rightarrow> [e] | None \<Rightarrow> []) @ [ErrMsg ''no terminal record''])) [])
           | Some term \<Rightarrow> ret (term, recs)))"

definition ledger_resolution :: "run_ledger \<Rightarrow> resolution" where
  "ledger_resolution l = (case rl_resolved l of Some z \<Rightarrow> z | None \<Rightarrow> \<lparr>rz_state = [], rz_reason = [], rz_at = 0\<rparr>)"

text \<open>From a closed ledger to a resolved run.\<close>

definition announce :: "'e deps \<Rightarrow> run_record \<Rightarrow> run_ledger \<Rightarrow> resolve_outcome \<Rightarrow> job_record \<Rightarrow> job_record list \<Rightarrow>
    'e world \<Rightarrow> (resolve_outcome \<times> (run_record + gerror)) \<times> 'e world" where
  "announce d run l out term recs w =
     (let reason = ExitReasonFor (jr_type term) (jr_message term) in
      case sendExitWakes d \<lparr>eb_job = rr_run_job run, eb_from = rr_root_principal run, eb_source = ResolveSource,
             eb_state = jr_type term, eb_reason = reason, eb_message = jr_message term, eb_result_ref = jr_result_ref term,
             eb_recipients = WakeRecipients (MergeHolders [rr_holders run, HoldersFromRecords (sv_parse_time d) recs])\<rparr> w of
        ((woken, already, err), w1) \<Rightarrow>
          (let out1 = out\<lparr>ro_state := jr_type term, ro_reason := reason, ro_woken := woken\<rparr> in
           case err of
             Some e \<Rightarrow> ((out1, Inr e), w1)
           | None \<Rightarrow> (let run1 = run\<lparr>rr_resolved := rl_resolved l\<rparr> in
               attempt_or (SaveRun (d_root d) run1)
                 (\<lambda>e w. ((out1, Inr (ErrWrap ''saving the run record: '' e [])), w))
                 (\<lambda>_ w. ((out1, Inl run1), w)) w1)))"

definition resolve_open :: "'e deps \<Rightarrow> nat list \<Rightarrow> resolve_request \<Rightarrow> run_record \<Rightarrow> resolve_outcome \<Rightarrow>
    'e world \<Rightarrow> (resolve_outcome \<times> gerror option) \<times> 'e world" where
  "resolve_open d sched req run out =
     attempt_or (closeLedger d sched run req) (\<lambda>e w. ((out, Some e), w)) (\<lambda>l.
     attempt_or (persistLedger d run l) (\<lambda>e w. ((out, Some e), w)) (\<lambda>spool.
     let z = ledger_resolution l; ref = (if spool \<noteq> [] then spool else ro_ledger out) in
     attempt_or (terminal_of_run d run (rz_state z) (rz_reason z) ref) (\<lambda>e w. ((out, Some e), w)) (\<lambda>(term, recs) w.
       case announce d run l out term recs w of
         ((out1, Inr e), w1) \<Rightarrow> ((out1, Some e), w1)
       | ((out1, Inl run1), w1) \<Rightarrow> finishTeardown d run1 (rq_keep_accounts req) out1 w1)))"

definition resolve_again :: "'e deps \<Rightarrow> resolve_request \<Rightarrow> run_record \<Rightarrow> resolution \<Rightarrow> resolve_outcome \<Rightarrow>
    'e world \<Rightarrow> (resolve_outcome \<times> gerror option) \<times> 'e world" where
  "resolve_again d req run z out w =
     (let out1 = out\<lparr>ro_state := rz_state z, ro_reason := ExitReasonFor (rz_state z) [], ro_already_resolved := True\<rparr> in
      if rq_canary_room req = [] then finishTeardown d run (rq_keep_accounts req) out1 w
      else case recordedCanary (d_root d) (rr_run_key run) (rq_canary_room req) w of
             ((c, Some e), w1) \<Rightarrow> ((out1, Some e), w1)
           | ((c, None), w1) \<Rightarrow> finishTeardown d run (rq_keep_accounts req) (out1\<lparr>ro_canary := Some c\<rparr>) w1)"

definition resolve_run :: "'e deps \<Rightarrow> nat list \<Rightarrow> resolve_request \<Rightarrow> run_record \<Rightarrow> 'e world \<Rightarrow> (resolve_outcome \<times> gerror option) \<times> 'e world" where
  "resolve_run d sched req run w =
     (let out = zero_outcome\<lparr>ro_run_key := rr_run_key run, ro_run_job := rr_run_job run,
                             ro_ledger := RunLedgerPath (d_root d) (rr_run_key run)\<rparr> in
      case rr_resolved run of
        Some z \<Rightarrow> resolve_again d req run z out w
      | None \<Rightarrow>
          if rq_canary_room req = [] then resolve_open d sched req run out w
          else case postCanaryOnce d run (rq_canary_room req) (rq_result_line req) w of
                 ((c, Some e), w1) \<Rightarrow> ((out, Some e), w1)
               | ((c, None), w1) \<Rightarrow> resolve_open d sched req run (out\<lparr>ro_canary := Some c\<rparr>) w1)"

definition Resolve :: "'e deps \<Rightarrow> nat list \<Rightarrow> resolve_request \<Rightarrow> 'e world \<Rightarrow> (resolve_outcome \<times> gerror option) \<times> 'e world" where
  "Resolve d sched req =
     (if rq_state req \<noteq> StateSucceeded \<and> rq_state req \<noteq> StateFailed
      then (\<lambda>w. ((zero_outcome, Some (ErrMsg (''--state must be '' @ StateSucceeded @ '' or '' @ StateFailed
                    @ '', got '' @ quoted (rq_state req)))), w))
      else attempt_or (FindRunByJob (d_root d) (rq_run_job req)) (\<lambda>e w. ((zero_outcome, Some e), w)) (\<lambda>found. case found of
        None \<Rightarrow> (\<lambda>w. ((zero_outcome, Some (ErrMsg (''no run record has run job '' @ quoted (rq_run_job req)))), w))
      | Some run \<Rightarrow> attempt_or (lock (runPath (d_root d) (rr_run_key run) @ ''.lock''))
          (\<lambda>e w. ((zero_outcome, Some e), w))
          (\<lambda>_. resolve_run d sched req run)))"

section \<open>Reading a job back\<close>

text \<open>\<open>lookupJob\<close>: the run whose job it is, else the subagent whose job it is.\<close>

definition lookupJob :: "string \<Rightarrow> string \<Rightarrow> ('e world, run_record option \<times> child_record option) op" where
  "lookupJob root job =
     attempt (fail_if (validJobID job)) (\<lambda>_.
     attempt (FindRunByJob root job) (\<lambda>run. case run of
       Some r \<Rightarrow> ret (Some r, None)
     | None \<Rightarrow> attempt (FindChildByJob root job) (\<lambda>child. ret (None, child))))"

definition unknown_job :: "string \<Rightarrow> gerror" where
  "unknown_job job = ErrMsg (''job '' @ job @ '' is not a known juggler job; pass --target <channel principal>'')"

definition JobHandles :: "'e deps \<Rightarrow> string \<Rightarrow> string \<Rightarrow> ('e world, holder list) op" where
  "JobHandles d job target = attempt (lookupJob (d_root d) job) (\<lambda>(run, child).
     case run of Some r \<Rightarrow> ret (rr_holders r)
     | None \<Rightarrow> (case child of Some c \<Rightarrow> ret (cr_holders c)
       | None \<Rightarrow> if target = [] then fail (unknown_job job)
                 else attempt (ext (sv_records d target job)) (\<lambda>recs. ret (HoldersFromRecords (sv_parse_time d) recs))))"

text \<open>A job's ledger document: the run ledger's file, or the agent job's spool.\<close>

datatype ledger_document = StoreDocument content | SpoolDocument spool

definition spool_document :: "'e deps \<Rightarrow> string \<Rightarrow> string \<Rightarrow> ('e world, ledger_document) op" where
  "spool_document d job target =
     (if target = [] then fail (unknown_job job)
      else attempt (ext (sv_spool_path d target job)) (\<lambda>path. attempt may_fail (\<lambda>_ w.
        (case map_of (w_spools w) path of
           None \<Rightarrow> Inl (ErrMsg (''job '' @ job @ '' has no ledger yet (spool '' @ path @ '' is empty)''))
         | Some EmptySpool \<Rightarrow> Inl (ErrMsg (''job '' @ job @ '' has no ledger yet (spool '' @ path @ '' is empty)''))
         | Some doc \<Rightarrow> Inr (SpoolDocument doc), w))))"

definition JobLedger :: "'e deps \<Rightarrow> string \<Rightarrow> string \<Rightarrow> ('e world, ledger_document) op" where
  "JobLedger d job target = attempt (lookupJob (d_root d) job) (\<lambda>(run, child).
     case run of Some r \<Rightarrow> attempt (read_file (RunLedgerPath (d_root d) (rr_run_key r))) (\<lambda>c. ret (StoreDocument c))
     | None \<Rightarrow> spool_document d job (case child of Some c \<Rightarrow> cr_parent c | None \<Rightarrow> target))"

end
