(* ===== verification/Run_Clean.thy ===== *)
theory Run_Clean
  imports Run_Resolve
begin

text \<open>
  \<open>juggler clean\<close> (\<open>clean.go\<close>): the sweep that reaps pending runs whose retry never came
  (the root account goes, the run key is tombstoned) and, on request, the staged and
  traffic files of resolved runs. Durations are printed as Go prints them.
\<close>

section \<open>Durations\<close>

definition Second :: int where "Second = 1000000000"

text \<open>\<open>fmtFrac\<close> and \<open>Duration.String\<close>; nanoseconds.\<close>

fun frac_digits :: "nat \<Rightarrow> int \<Rightarrow> string" where
  "frac_digits 0 v = []"
| "frac_digits (Suc n) v = frac_digits n (v div 10) @ [digit_char (nat (v mod 10))]"

definition frac :: "nat \<Rightarrow> int \<Rightarrow> string" where
  "frac prec v = (let ds = trim_right (CHR ''0'') (frac_digits prec v) in if ds = [] then [] else ''.'' @ ds)"

definition small_duration :: "int \<Rightarrow> string" where
  "small_duration u =
     (if u = 0 then ''0s''
      else if u < 1000 then itoa u @ ''ns''
      else if u < 1000000 then itoa (u div 1000) @ frac 3 u @ [CHR 0xC2, CHR 0xB5] @ ''s''
      else itoa (u div 1000000) @ frac 6 u @ ''ms'')"

definition large_duration :: "int \<Rightarrow> string" where
  "large_duration u =
     (let s = u div Second; m = s div 60; h = m div 60
      in (if h > 0 then itoa h @ ''h'' else []) @ (if m > 0 then itoa (m mod 60) @ ''m'' else [])
           @ itoa (s mod 60) @ frac 9 u @ ''s'')"

definition duration_str :: "int \<Rightarrow> string" where
  "duration_str d =
     (let t = (if abs d < Second then small_duration (abs d) else large_duration (abs d))
      in if d < 0 then ''-'' @ t else t)"

text \<open>\<open>Round\<close> to a positive unit: half away from zero.\<close>

definition round_to :: "int \<Rightarrow> int \<Rightarrow> int" where
  "round_to m d = (if d < 0 then - ((- d + m div 2) div m * m) else (d + m div 2) div m * m)"

definition age_str :: "int \<Rightarrow> string" where
  "age_str age = duration_str (round_to Second age)"

section \<open>Requests and results\<close>

record clean_request =
  cq_older_than :: int
  cq_resolved :: bool
  cq_resolved_older_than :: int
  cq_act :: bool

record clean_result =
  cs_run_key :: string
  cs_kind :: string
  cs_age :: string
  cs_reaped :: bool
  cs_skipped :: bool
  cs_detail :: string
  cs_error :: string

record clean_outcome =
  cc_dry_run :: bool
  cc_older_than :: string
  cc_resolved :: bool
  cc_resolved_older_than :: string
  cc_runs :: "clean_result list"

definition DefaultCleanOlderThan :: int where "DefaultCleanOlderThan = 3600 * Second"
definition DefaultResolvedOlderThan :: int where "DefaultResolvedOlderThan = 30 * 24 * 3600 * Second"

definition pendingSince :: "run_record \<Rightarrow> int" where
  "pendingSince run = (if rr_pending_since run = 0 then rr_created_at run else rr_pending_since run)"

definition new_result :: "run_record \<Rightarrow> string \<Rightarrow> int \<Rightarrow> clean_result" where
  "new_result run kind age = \<lparr>cs_run_key = rr_run_key run, cs_kind = kind, cs_age = age_str age, cs_reaped = False,
     cs_skipped = False, cs_detail = [], cs_error = []\<rparr>"

section \<open>Pending runs\<close>

text \<open>The teardown in the run's ledger, past the guard of \<open>AppendRunLedgerEntry\<close>.\<close>

definition record_reap :: "'e deps \<Rightarrow> run_record \<Rightarrow> run_entry \<Rightarrow> clean_result \<Rightarrow> 'e world \<Rightarrow> clean_result \<times> 'e world" where
  "record_reap d fresh entry res =
     attempt_or (appendRunLedgerLocked (d_root d) (rr_run_key fresh) entry)
       (\<lambda>e w. (res\<lparr>cs_error := ''recording the teardown in the ledger: '' @ err_text e\<rparr>, w))
       (\<lambda>_ w. (res, w))"

definition tombstone :: "int \<Rightarrow> run_record \<Rightarrow> run_record" where
  "tombstone now r = r\<lparr>rr_pending := False, rr_reaped := True, rr_reaped_at := Some now\<rparr>"

definition reap :: "'e deps \<Rightarrow> run_record \<Rightarrow> clean_result \<Rightarrow> 'e world \<Rightarrow> clean_result \<times> 'e world" where
  "reap d fresh res w =
     (case teardownRoot d fresh (rootIdentity fresh) w of (entry, w1) \<Rightarrow>
        (let res1 = res\<lparr>cs_reaped := re_ok entry, cs_detail := re_reason entry\<rparr> in
         if re_ok entry then
           with_now d (\<lambda>now. attempt_or (SaveRun (d_root d) (tombstone now fresh))
             (\<lambda>e w. (res1\<lparr>cs_reaped := False, cs_error := ''account reaped but tombstoning the record failed: '' @ err_text e\<rparr>, w))
             (\<lambda>_. record_reap d (tombstone now fresh) entry
                (res1\<lparr>cs_detail := re_reason entry @ ''; run key tombstoned (retired, never resumable)''\<rparr>))) w1
         else record_reap d fresh entry res1 w1))"

definition cleanPendingRun :: "'e deps \<Rightarrow> run_record \<Rightarrow> bool \<Rightarrow> int \<Rightarrow> int \<Rightarrow> 'e world \<Rightarrow> clean_result \<times> 'e world" where
  "cleanPendingRun d run act olderThan now =
     (let res = new_result run ''pending'' (now - pendingSince run) in
      if \<not> act then (\<lambda>w. (res\<lparr>cs_detail := ''would revoke the root account and tombstone the run key''\<rparr>, w))
      else attempt_or (lock (runPath (d_root d) (rr_run_key run) @ ''.lock'')) (\<lambda>e w. (res\<lparr>cs_error := err_text e\<rparr>, w)) (\<lambda>_.
           attempt_or (LoadRun (d_root d) (rr_run_key run)) (\<lambda>e w. (res\<lparr>cs_error := err_text e\<rparr>, w)) (\<lambda>found. case found of
             None \<Rightarrow> (\<lambda>w. (res\<lparr>cs_skipped := True,
                 cs_detail := ''skipped: no longer pending (retried, or already cleaned, since the sweep listed it)''\<rparr>, w))
           | Some fresh \<Rightarrow>
               if \<not> rr_pending fresh then (\<lambda>w. (res\<lparr>cs_skipped := True,
                 cs_detail := ''skipped: no longer pending (retried, or already cleaned, since the sweep listed it)''\<rparr>, w))
               else if now - pendingSince fresh < olderThan then
                 (\<lambda>w. (res\<lparr>cs_age := age_str (now - pendingSince fresh), cs_skipped := True,
                   cs_detail := ''skipped: no longer past the age guard (a retry refreshed PendingSince since the sweep listed it)''\<rparr>, w))
               else reap d fresh res)))"

section \<open>Resolved runs\<close>

definition stillRunning :: "'e deps \<Rightarrow> child_record \<Rightarrow> ('e world, bool) op" where
  "stillRunning d child = attempt_or (ext (sv_records d (cr_parent child) (cr_job child)))
     (\<lambda>e. fail (ErrWrap ''journal unreadable: '' e []))
     (\<lambda>recs. ret (TerminalRecord recs = None \<and> recs \<noteq> []))"

record sweep =
  sw_found :: nat
  sw_removed :: nat
  sw_skipped :: nat
  sw_notes :: "string list"

definition sweep_file :: "bool \<Rightarrow> string \<Rightarrow> sweep \<Rightarrow> 'e world \<Rightarrow> sweep \<times> 'e world" where
  "sweep_file act p s =
     (if p = [] then (\<lambda>w. (s, w))
      else attempt_or (stat_file p) (\<lambda>e w. (s, w)) (\<lambda>_.
        let s1 = s\<lparr>sw_found := sw_found s + 1\<rparr> in
        if \<not> act then (\<lambda>w. (s1, w))
        else attempt_or (removeIfExists p)
          (\<lambda>e w. (s1\<lparr>sw_notes := sw_notes s1 @ [p @ '': '' @ err_text e]\<rparr>, w))
          (\<lambda>_ w. (s1\<lparr>sw_removed := sw_removed s1 + 1\<rparr>, w))))"

text \<open>The removal of the empty traffic directory, whose failure is ignored.\<close>

definition drop_directory :: "'e world \<Rightarrow> 'e world" where
  "drop_directory w = snd (may_fail w)"

definition sweep_child :: "'e deps \<Rightarrow> string \<Rightarrow> bool \<Rightarrow> child_record \<Rightarrow> sweep \<Rightarrow> 'e world \<Rightarrow> sweep \<times> 'e world" where
  "sweep_child d key act c s =
     attempt_or (stillRunning d c)
       (\<lambda>e w. (s\<lparr>sw_skipped := sw_skipped s + 1,
                sw_notes := sw_notes s @ [''child '' @ cr_principal c @ '' (job '' @ cr_job c @ ''): '' @ err_text e]\<rparr>, w))
       (\<lambda>running w. if running then (s\<lparr>sw_skipped := sw_skipped s + 1\<rparr>, w)
          else case sweep_file act (stagedBriefPath (d_root d) key (cr_brief_digest c)) s w of (s1, w1) \<Rightarrow>
               case sweep_file act (stagedChildMoxyfilePath (d_root d) key (cr_brief_digest c)) s1 w1 of (s2, w2) \<Rightarrow>
               case sweep_file act (stagedParentMoxyfilePath (d_root d) key (cr_brief_digest c)) s2 w2 of (s3, w3) \<Rightarrow>
               case sweep_file act (TrafficPath (d_root d) (cr_principal c) (cr_job c)) s3 w3 of (s4, w4) \<Rightarrow>
                 (s4, if act \<and> sw_removed s4 > sw_removed s3 then drop_directory w4 else w4))"

fun sweep_children :: "'e deps \<Rightarrow> string \<Rightarrow> bool \<Rightarrow> child_record list \<Rightarrow> sweep \<Rightarrow> 'e world \<Rightarrow> sweep \<times> 'e world" where
  "sweep_children d key act [] s w = (s, w)"
| "sweep_children d key act (c # cs) s w =
     (case sweep_child d key act c s w of (s1, w1) \<Rightarrow> sweep_children d key act cs s1 w1)"

definition sweep_report :: "bool \<Rightarrow> sweep \<Rightarrow> clean_result \<Rightarrow> clean_result option" where
  "sweep_report act s res =
     (let detail = (if act then ''removed '' @ nat_str (sw_removed s) @ '' of '' @ nat_str (sw_found s) @ '' staged/traffic file(s)''
                    else ''would remove '' @ nat_str (sw_found s) @ '' staged/traffic file(s)'');
          detail1 = (if sw_skipped s > 0 then detail @ '' ('' @ nat_str (sw_skipped s) @ '' still-running or unreadable child skipped)'' else detail);
          err = (case sw_notes s of [] \<Rightarrow> [] | n # ns \<Rightarrow> joinNotes n ns)
      in if sw_found s = 0 \<and> sw_skipped s = 0 \<and> err = [] then None
         else Some (res\<lparr>cs_reaped := act \<and> sw_removed s = sw_found s \<and> sw_skipped s = 0,
                        cs_detail := detail1, cs_error := err\<rparr>))"

definition cleanResolvedRun :: "'e deps \<Rightarrow> run_record \<Rightarrow> bool \<Rightarrow> int \<Rightarrow> 'e world \<Rightarrow> clean_result option \<times> 'e world" where
  "cleanResolvedRun d run act age =
     (let res = new_result run ''resolved'' age in
      attempt_or (runChildren (d_root d) (rr_run_key run))
        (\<lambda>e w. (Some (res\<lparr>cs_error := ''listing children: '' @ err_text e\<rparr>), w))
        (\<lambda>children w. case sweep_children d (rr_run_key run) act children
              \<lparr>sw_found = 0, sw_removed = 0, sw_skipped = 0, sw_notes = []\<rparr> w of
           (s, w1) \<Rightarrow> (sweep_report act s res, w1)))"

section \<open>Clean\<close>

definition clean_one :: "'e deps \<Rightarrow> clean_request \<Rightarrow> int \<Rightarrow> run_record \<Rightarrow> 'e world \<Rightarrow> clean_result list \<times> 'e world" where
  "clean_one d req now run w =
     (if rr_pending run then
        (if now - pendingSince run \<ge> cq_older_than req
         then (case cleanPendingRun d run (cq_act req) (cq_older_than req) now w of (r, w1) \<Rightarrow> ([r], w1))
         else ([], w))
      else case rr_resolved run of
        Some z \<Rightarrow>
          if cq_resolved req \<and> now - rz_at z \<ge> cq_resolved_older_than req
          then (case cleanResolvedRun d run (cq_act req) (now - rz_at z) w of
                  (Some r, w1) \<Rightarrow> ([r], w1) | (None, w1) \<Rightarrow> ([], w1))
          else ([], w)
      | None \<Rightarrow> ([], w))"

fun clean_each :: "'e deps \<Rightarrow> clean_request \<Rightarrow> int \<Rightarrow> run_record list \<Rightarrow> 'e world \<Rightarrow> clean_result list \<times> 'e world" where
  "clean_each d req now [] w = ([], w)"
| "clean_each d req now (r # rs) w =
     (case clean_one d req now r w of (xs, w1) \<Rightarrow>
      case clean_each d req now rs w1 of (ys, w2) \<Rightarrow> (xs @ ys, w2))"

definition Clean :: "'e deps \<Rightarrow> clean_request \<Rightarrow> ('e world, clean_outcome) op" where
  "Clean d req =
     attempt_or (store_runs (d_root d)) (\<lambda>e. fail (ErrWrap ''listing runs: '' e [])) (\<lambda>runs.
     with_now d (\<lambda>now w. case clean_each d req now runs w of (rs, w1) \<Rightarrow>
       (Inr \<lparr>cc_dry_run = \<not> cq_act req, cc_older_than = duration_str (cq_older_than req), cc_resolved = cq_resolved req,
             cc_resolved_older_than = (if cq_resolved req then duration_str (cq_resolved_older_than req) else []),
             cc_runs = rs\<rparr>, w1)))"

end
