(* ===== verification/Brief.thy ===== *)
theory Brief
  imports Go_Base
begin

text \<open>
  The agent brief (\<open>internal/alfa/jugglerbrief/brief.go\<close>): its fields, defaults and
  validation, with the environment keys and tool names a brief may not use. TOML is read
  and written by a third-party package, the record \<open>toml\<close> here; so is nothing else.
  \<open>time.ParseDuration\<close> is the parameter \<open>tm_duration\<close> (its fractions are floating point).
  A map is the list of its entries in the order Go happens to iterate it.
\<close>

section \<open>The brief\<close>

record evaluator =
  ev_kind :: string
  ev_program :: string
  ev_stop_on_pass :: bool

record limits =
  lm_steps :: int
  lm_wall_clock :: string
  lm_sandbox :: "string option"   \<comment> \<open>reserved, opaque\<close>

record brief =
  b_schema :: int
  b_principal :: string
  b_parent :: string
  b_room :: string
  b_model :: string
  b_system :: string
  b_task :: string
  b_moxyfile :: string
  b_budget_key_ref :: string
  b_tools :: "string list"
  b_env :: "(string \<times> string) list"
  b_evaluator :: evaluator
  b_limits :: limits

datatype toml_value = TomlString string | TomlArray "toml_value list" | TomlOther

text \<open>
  \<open>tm_decode\<close> decodes a brief and lists the keys it did not use, each with its
  printed form; \<open>tm_encode\<close> prints one.
  Of a moxyfile, \<open>tm_lists\<close> decodes the two tool lists, \<open>tm_allow\<close> the raw value of
  \<open>allow-tools\<close>, and \<open>tm_with_allow\<close> re-encodes the document with that key replaced.
\<close>

record toml =
  tm_decode :: "string \<Rightarrow> gerror + brief \<times> (string list \<times> string) list"
  tm_encode :: "brief \<Rightarrow> gerror + string"
  tm_lists :: "string \<Rightarrow> gerror + string list option \<times> string list option"
  tm_allow :: "string \<Rightarrow> gerror + toml_value option"
  tm_with_allow :: "string \<Rightarrow> string list \<Rightarrow> gerror + string"
  tm_duration :: "string \<Rightarrow> gerror + int"

definition SchemaVersion :: int where "SchemaVersion = 1"
definition DefaultSteps :: int where "DefaultSteps = 12"
definition BriefDefaultWallClock :: string where "BriefDefaultWallClock = ''2m''"
definition EvaluatorKindJQ :: string where "EvaluatorKindJQ = ''jq''"

definition TemplateFields :: "string list" where
  "TemplateFields = [''principal'', ''parent'', ''room'', ''task'']"

definition isTemplateField :: "string \<Rightarrow> bool" where
  "isTemplateField f \<longleftrightarrow> f \<in> set TemplateFields"

section \<open>Environment keys\<close>

definition IsPrincipalEnvKey :: "string \<Rightarrow> bool" where
  "IsPrincipalEnvKey key \<longleftrightarrow> key = ''CLOWN_SESSION_ID'' \<or> has_prefix key ''TROUPE_XMPP_'' \<or> has_prefix key ''TROUPE_MINT_''"

definition IsMoxinIdentityEnvKey :: "string \<Rightarrow> bool" where
  "IsMoxinIdentityEnvKey key \<longleftrightarrow> key = ''MOXIN_PATH'' \<or> has_prefix key ''MOXY_''"

definition LauncherOwnedEnv :: "(string \<times> string) list" where
  "LauncherOwnedEnv =
    [(''PATH'', ''resolves bare-name server commands''),
     (''HOME'', ''anchors ~/ paths and moxy'' @ [CHR 0x27] @ ''s moxyfile hierarchy''),
     (''PWD'', ''anchors relative paths''),
     (''OLDPWD'', ''anchors relative paths''),
     (''SHELL'', ''selects the interpreter tools shell out to''),
     (''USER'', ''names the account tools act as''),
     (''LOGNAME'', ''names the account tools act as''),
     (''TMPDIR'', ''places temporary files tools create''),
     (''TMP'', ''places temporary files tools create''),
     (''TEMP'', ''places temporary files tools create''),
     (''XDG_*'', ''anchors config, data, state and runtime paths''),
     (''NIX_*'', ''reconfigures nix (substituters, paths, profiles)''),
     (''LD_*'', ''injects code into every dynamically linked process''),
     (''DYLD_*'', ''injects code into every dynamically linked process''),
     (''SSH_*'', ''carries SSH credentials (SSH_AUTH_SOCK) and options''),
     (''GIT_*'', ''redirects git'' @ [CHR 0x27] @ ''s repository, config and commands'')]"

definition pattern_matches :: "string \<Rightarrow> string \<Rightarrow> bool" where
  "pattern_matches pat key \<longleftrightarrow>
     (if pat \<noteq> [] \<and> last pat = CHR ''*'' then has_prefix key (butlast pat) else key = pat)"

definition LauncherOwnedEnvReason :: "string \<Rightarrow> string option" where
  "LauncherOwnedEnvReason key = map_option snd (find (\<lambda>(pat, _). pattern_matches pat key) LauncherOwnedEnv)"

definition IsLauncherOwnedEnvKey :: "string \<Rightarrow> bool" where
  "IsLauncherOwnedEnvKey key \<longleftrightarrow> LauncherOwnedEnvReason key \<noteq> None"

definition ReservedEnvKey :: "string \<Rightarrow> bool" where
  "ReservedEnvKey key \<longleftrightarrow> IsPrincipalEnvKey key \<or> IsMoxinIdentityEnvKey key \<or> has_prefix key ''JUGGLER_'' \<or> IsLauncherOwnedEnvKey key"

text \<open>The section sign, in UTF-8.\<close>

definition section_sign :: string where
  "section_sign = [CHR 0xC2, CHR 0xA7]"

definition reservedEnvKeyError :: "string \<Rightarrow> gerror" where
  "reservedEnvKeyError key = (case LauncherOwnedEnvReason key of
      Some why \<Rightarrow> ErrMsg (''jugglerbrief: env: '' @ quoted key @ '' is launcher-owned and may not appear in a brief: it ''
        @ why @ '', so the launcher'' @ [CHR 0x27] @ ''s value is the one moxy and its tool servers see (FDR 0019 '' @ section_sign @ ''3)'')
    | None \<Rightarrow> ErrMsg (''jugglerbrief: env: '' @ quoted key @ '' is set by juggler spawn and may not appear in a brief''))"

section \<open>Tools\<close>

definition reservedMetaTools :: "string list" where
  "reservedMetaTools = [''restart'', ''batch'', ''async'', ''async-result'', ''async-cancel'', ''status'']"

definition brief_error :: "string \<Rightarrow> gerror option" where
  "brief_error m = Some (ErrMsg (''jugglerbrief: '' @ m))"

definition bad_moxyfile :: "gerror \<Rightarrow> gerror option" where
  "bad_moxyfile e = Some (ErrWrap ''jugglerbrief: moxyfile: not valid TOML: '' e [])"

definition meta_in_list :: "string \<Rightarrow> string list option \<Rightarrow> gerror option" where
  "meta_in_list key entries = (case entries of None \<Rightarrow> None
     | Some es \<Rightarrow> (case find (\<lambda>a. a \<in> set reservedMetaTools) es of
         Some a \<Rightarrow> brief_error (''moxyfile: '' @ key @ '': '' @ quoted a @ '' is a moxy builtin meta tool and must not be listed (clown#261)'')
       | None \<Rightarrow> None))"

definition checkNoReservedMetaTools :: "toml \<Rightarrow> string list \<Rightarrow> string \<Rightarrow> gerror option" where
  "checkNoReservedMetaTools tm tools moxyfile = (case find (\<lambda>t. t \<in> set reservedMetaTools) tools of
      Some t \<Rightarrow> brief_error (''tools: '' @ quoted t @ '' is a moxy builtin meta tool and must not be listed (clown#261)'')
    | None \<Rightarrow>
      if trim_space moxyfile = [] then None
      else (case tm_lists tm moxyfile of
          Inl e \<Rightarrow> bad_moxyfile e
        | Inr (allow, pass) \<Rightarrow> (case meta_in_list ''allow-tools'' allow of
              Some e \<Rightarrow> Some e | None \<Rightarrow> meta_in_list ''pass-tools'' pass)))"

definition toolCoveredByEntry :: "string \<Rightarrow> string \<Rightarrow> bool" where
  "toolCoveredByEntry t entry = (case cut (CHR ''.'') entry of
      (server, tool, True) \<Rightarrow> t = server @ ''_'' @ tool
    | (_, _, False) \<Rightarrow> t = entry \<or> has_prefix t (entry @ ''_''))"

text \<open>\<open>%q\<close> of a string slice.\<close>

definition quoted_list :: "string list \<Rightarrow> string" where
  "quoted_list ss = ''['' @ join '' '' (map quoted ss) @ '']''"

definition checkToolsCoveredByAllowTools :: "toml \<Rightarrow> string list \<Rightarrow> string \<Rightarrow> gerror option" where
  "checkToolsCoveredByAllowTools tm tools moxyfile =
     (if trim_space moxyfile = [] then None
      else case tm_lists tm moxyfile of
          Inl e \<Rightarrow> bad_moxyfile e
        | Inr (None, _) \<Rightarrow> None
        | Inr (Some allow, _) \<Rightarrow> (case find (\<lambda>t. \<not> list_ex (toolCoveredByEntry t) allow) tools of
              None \<Rightarrow> None
            | Some t \<Rightarrow> brief_error (''tools: '' @ quoted t @ '' is not covered by the moxyfile's allow-tools '' @ quoted_list allow)))"

definition pass_clash :: "string list \<Rightarrow> string \<Rightarrow> bool" where
  "pass_clash tools p = (case cut (CHR ''.'') p of
      (server, tool, True) \<Rightarrow> server @ ''_'' @ tool \<in> set tools
    | (_, _, False) \<Rightarrow> False)"

definition pass_tool :: "string \<Rightarrow> string" where
  "pass_tool p = (case cut (CHR ''.'') p of (server, tool, _) \<Rightarrow> server @ ''_'' @ tool)"

definition checkPassToolsDoNotCoverTools :: "toml \<Rightarrow> string list \<Rightarrow> string \<Rightarrow> gerror option" where
  "checkPassToolsDoNotCoverTools tm tools moxyfile =
     (if trim_space moxyfile = [] then None
      else case tm_lists tm moxyfile of
          Inl e \<Rightarrow> bad_moxyfile e
        | Inr (_, None) \<Rightarrow> None
        | Inr (_, Some pass) \<Rightarrow> (case find (pass_clash tools) pass of
              None \<Rightarrow> None
            | Some p \<Rightarrow> brief_error (''moxyfile: pass-tools: '' @ quoted p @ '' also covers tools entry '' @ quoted (pass_tool p)
                @ ''; a tool is held at one level, use or pass'')))"

section \<open>Validation\<close>

text \<open>The loop over the tools with the set of those seen.\<close>

fun check_tool_names :: "string list \<Rightarrow> string list \<Rightarrow> gerror option" where
  "check_tool_names seen [] = None"
| "check_tool_names seen (t # ts) =
     (if trim_space t = [] then brief_error ''tools: tool names must not be empty''
      else if t \<in> set seen then brief_error (''tools: '' @ quoted t @ '' is listed twice'')
      else check_tool_names (t # seen) ts)"

definition check_required :: "bool \<Rightarrow> (string \<times> string) list \<Rightarrow> gerror option" where
  "check_required template fvs =
     (case find (\<lambda>(f, v). \<not> (template \<and> isTemplateField f) \<and> trim_space v = []) fvs of
        Some (f, _) \<Rightarrow> brief_error (f @ '': must not be empty'') | None \<Rightarrow> None)"

definition check_env :: "(string \<times> string) list \<Rightarrow> gerror option" where
  "check_env env = (case find (\<lambda>(k, _). k = [] \<or> CHR ''='' \<in> set k \<or> ReservedEnvKey k) env of
      None \<Rightarrow> None
    | Some (k, _) \<Rightarrow> if k = [] \<or> CHR ''='' \<in> set k then brief_error (''env: invalid key '' @ quoted k)
                    else Some (reservedEnvKeyError k))"

definition check_evaluator :: "evaluator \<Rightarrow> gerror option" where
  "check_evaluator e =
     (if ev_kind e = EvaluatorKindJQ then
        (if trim_space (ev_program e) = [] then brief_error ''evaluator.program: must not be empty'' else None)
      else if ev_kind e = ''predicate'' \<or> ev_kind e = ''agent'' then
        brief_error (''evaluator.kind: '' @ quoted (ev_kind e) @ '' is reserved and not yet supported (only '' @ quoted EvaluatorKindJQ @ '')'')
      else if ev_kind e = [] then
        brief_error (''evaluator.kind: must not be empty (only '' @ quoted EvaluatorKindJQ @ '' is supported)'')
      else brief_error (''evaluator.kind: unknown kind '' @ quoted (ev_kind e) @ '' (only '' @ quoted EvaluatorKindJQ @ '' is supported)''))"

definition check_limits :: "toml \<Rightarrow> limits \<Rightarrow> gerror option" where
  "check_limits tm l =
     (if lm_steps l < 1 then brief_error (''limits.steps: must be >= 1, got '' @ itoa (lm_steps l))
      else case tm_duration tm (lm_wall_clock l) of
          Inl e \<Rightarrow> Some (ErrWrap (''jugglerbrief: limits.wall_clock: invalid duration '' @ quoted (lm_wall_clock l) @ '': '') e [])
        | Inr d \<Rightarrow> if d \<le> 0 then brief_error (''limits.wall_clock: must be positive, got '' @ quoted (lm_wall_clock l)) else None)"

definition validate :: "toml \<Rightarrow> bool \<Rightarrow> brief \<Rightarrow> gerror option" where
  "validate tm template b = first_error
    [if b_schema b \<noteq> SchemaVersion then brief_error (''schema: must be '' @ itoa SchemaVersion @ '', got '' @ itoa (b_schema b)) else None,
     check_required template [(''principal'', b_principal b), (''parent'', b_parent b), (''room'', b_room b),
       (''model'', b_model b), (''system'', b_system b), (''task'', b_task b)],
     if b_tools b = [] then brief_error ''tools: must list at least one tool name'' else None,
     check_tool_names [] (b_tools b),
     checkNoReservedMetaTools tm (b_tools b) (b_moxyfile b),
     checkToolsCoveredByAllowTools tm (b_tools b) (b_moxyfile b),
     checkPassToolsDoNotCoverTools tm (b_tools b) (b_moxyfile b),
     check_env (b_env b),
     check_evaluator (b_evaluator b),
     check_limits tm (b_limits b)]"

definition Validate :: "toml \<Rightarrow> brief \<Rightarrow> gerror option" where
  "Validate tm b = validate tm False b"

definition ValidateTemplate :: "toml \<Rightarrow> brief \<Rightarrow> gerror option" where
  "ValidateTemplate tm b = validate tm True b"

definition applyDefaults :: "brief \<Rightarrow> brief" where
  "applyDefaults b = b\<lparr>b_limits := (b_limits b)
     \<lparr>lm_steps := (if lm_steps (b_limits b) = 0 then DefaultSteps else lm_steps (b_limits b)),
      lm_wall_clock := (if lm_wall_clock (b_limits b) = [] then BriefDefaultWallClock else lm_wall_clock (b_limits b))\<rparr>\<rparr>"

definition sandbox_key :: "string list \<Rightarrow> bool" where
  "sandbox_key k \<longleftrightarrow> (case k of a # b # _ # _ \<Rightarrow> a = ''limits'' \<and> b = ''sandbox'' | _ \<Rightarrow> False)"

definition decode :: "toml \<Rightarrow> string \<Rightarrow> gerror + brief" where
  "decode tm data = (case tm_decode tm data of
      Inl e \<Rightarrow> Inl (ErrWrap ''jugglerbrief: decoding TOML: '' e [])
    | Inr (b, undecoded) \<Rightarrow>
        (case filter (\<lambda>(k, _). \<not> sandbox_key k) undecoded of
           [] \<Rightarrow> Inr (applyDefaults b)
         | unknown \<Rightarrow> Inl (ErrMsg (''jugglerbrief: unknown field(s): '' @ join '', '' (map snd unknown)))))"

definition parse_with :: "toml \<Rightarrow> bool \<Rightarrow> string \<Rightarrow> gerror + brief" where
  "parse_with tm template data = (case decode tm data of
      Inl e \<Rightarrow> Inl e
    | Inr b \<Rightarrow> (case validate tm template b of Some e \<Rightarrow> Inl e | None \<Rightarrow> Inr b))"

definition Parse :: "toml \<Rightarrow> string \<Rightarrow> gerror + brief" where
  "Parse tm data = parse_with tm False data"

definition ParseTemplate :: "toml \<Rightarrow> string \<Rightarrow> gerror + brief" where
  "ParseTemplate tm data = parse_with tm True data"

definition Marshal :: "toml \<Rightarrow> brief \<Rightarrow> gerror + string" where
  "Marshal tm b = (case Validate tm b of
      Some e \<Rightarrow> Inl e
    | None \<Rightarrow> (case tm_encode tm b of
          Inl e \<Rightarrow> Inl (ErrWrap ''jugglerbrief: encoding TOML: '' e []) | Inr s \<Rightarrow> Inr s))"

section \<open>Facts\<close>

lemma brief_error_not_None [simp]: "brief_error m \<noteq> None" "None \<noteq> brief_error m"
  by (simp_all add: brief_error_def)

lemma bad_moxyfile_not_None [simp]: "bad_moxyfile e \<noteq> None"
  by (simp add: bad_moxyfile_def)

lemma check_tool_names_None:
  "check_tool_names seen ts = None \<longleftrightarrow> distinct ts \<and> set ts \<inter> set seen = {} \<and> (\<forall>t \<in> set ts. trim_space t \<noteq> [])"
  by (induction seen ts rule: check_tool_names.induct) auto

lemma check_env_None:
  "check_env env = None \<longleftrightarrow> (\<forall>(k, v) \<in> set env. k \<noteq> [] \<and> CHR ''='' \<notin> set k \<and> \<not> ReservedEnvKey k)"
proof (cases "find (\<lambda>(k, _). k = [] \<or> CHR ''='' \<in> set k \<or> ReservedEnvKey k) env")
  case None
  moreover from None have "\<forall>(k, v) \<in> set env. k \<noteq> [] \<and> CHR ''='' \<notin> set k \<and> \<not> ReservedEnvKey k"
    by (auto simp: find_None_iff)
  ultimately show ?thesis by (simp add: check_env_def)
next
  case (Some p)
  obtain k v where "p = (k, v)" "(k, v) \<in> set env" "k = [] \<or> CHR ''='' \<in> set k \<or> ReservedEnvKey k"
    using find_SomeD [OF Some] by (cases p) auto
  with Some show ?thesis by (auto simp: check_env_def)
qed

lemma validate_None:
  "validate tm template b = None \<longleftrightarrow>
     b_schema b = SchemaVersion \<and>
     check_required template [(''principal'', b_principal b), (''parent'', b_parent b), (''room'', b_room b),
       (''model'', b_model b), (''system'', b_system b), (''task'', b_task b)] = None \<and>
     b_tools b \<noteq> [] \<and> check_tool_names [] (b_tools b) = None \<and>
     checkNoReservedMetaTools tm (b_tools b) (b_moxyfile b) = None \<and>
     checkToolsCoveredByAllowTools tm (b_tools b) (b_moxyfile b) = None \<and>
     checkPassToolsDoNotCoverTools tm (b_tools b) (b_moxyfile b) = None \<and>
     check_env (b_env b) = None \<and> check_evaluator (b_evaluator b) = None \<and> check_limits tm (b_limits b) = None"
  unfolding validate_def first_error_None by simp

end
