(* ===== verification/Run_Spawn.thy ===== *)
theory Run_Spawn
  imports Run_Resolve Brief
begin

text \<open>
  \<open>juggler spawn\<close> (\<open>spawn.go\<close>, \<open>agentmoxyfile.go\<close>, \<open>narrows.go\<close>, \<open>exec.go\<close>): new runs, subagents and
  the wait for one. A multi-step spawn keeps a stack of compensations (\<open>undo\<close>, newest
  first); \<open>unwind\<close> runs them and joins their errors to the cause.
\<close>

section \<open>Compensations\<close>

type_synonym 'e undo = "(gerror \<Rightarrow> ('e world, unit) op) list"

fun run_undo :: "'e undo \<Rightarrow> gerror \<Rightarrow> 'e world \<Rightarrow> gerror list \<times> 'e world" where
  "run_undo [] cause w = ([], w)"
| "run_undo (f # fs) cause w =
     (case f cause w of (r, w1) \<Rightarrow>
      case run_undo fs cause w1 of (errs, w2) \<Rightarrow> ((case r of Inl e \<Rightarrow> [e] | Inr _ \<Rightarrow> []) @ errs, w2))"

definition unwind :: "'e undo \<Rightarrow> gerror \<Rightarrow> 'e world \<Rightarrow> gerror \<times> 'e world" where
  "unwind undo cause w = (case run_undo undo cause w of (errs, w1) \<Rightarrow>
     (if errs = [] then cause
      else ErrWrap [] cause ('' (cleanup also failed: '' @ err_text (ErrJoin errs) @ '')''), w1))"

definition fail_unwound :: "'e undo \<Rightarrow> gerror \<Rightarrow> ('e world, 'a) op" where
  "fail_unwound undo cause w = (case unwind undo cause w of (e, w1) \<Rightarrow> (Inl e, w1))"

definition withdrawalStanza :: "string \<Rightarrow> gerror \<Rightarrow> string" where
  "withdrawalStanza stanza cause =
     string_object [(''reason'', err_text cause), (''stanza'', stanza), (''type'', ''withdrawn'')]"

definition failJobUndo :: "'e deps \<Rightarrow> string \<Rightarrow> string \<Rightarrow> gerror \<Rightarrow> ('e world, unit) op" where
  "failJobUndo d target job cause = ext (sv_done d target job
     \<lparr>dr_state = StateFailed, dr_message = ''juggler spawn failed: '' @ err_text cause, dr_result_ref = []\<rparr>)"

definition withdraw :: "'e deps \<Rightarrow> identity \<Rightarrow> string \<Rightarrow> string \<Rightarrow> gerror \<Rightarrow> ('e world, unit) op" where
  "withdraw d who room stanza cause =
     attempt (ext (sv_post d who room ''juggler-spawn'' (withdrawalStanza stanza cause))) (\<lambda>_. ret ())"

section \<open>New runs\<close>

definition SpawnSource :: string where "SpawnSource = ''juggler-spawn''"
definition RunJobLabel :: string where "RunJobLabel = ''juggler-run''"
definition AgentJobLabel :: string where "AgentJobLabel = ''juggler-agent''"

record new_run_request =
  nq_run_key :: string
  nq_issuer :: string
  nq_input :: string
  nq_room :: string
  nq_room_domain :: string
  nq_operator_jid :: string

record new_run_result =
  nr_run_key :: string
  nr_root_principal :: string
  nr_root_credential_ref :: string
  nr_root_jid :: string
  nr_room :: string
  nr_root_stanza :: string
  nr_run_job :: string
  nr_operator_jid :: string
  nr_existing :: bool
  nr_resumed :: bool
  nr_resolved :: bool
  nr_torn_down :: bool

definition newRunResult :: "run_record \<Rightarrow> bool \<Rightarrow> new_run_result" where
  "newRunResult r existing = \<lparr>nr_run_key = rr_run_key r, nr_root_principal = rr_root_principal r,
     nr_root_credential_ref = rr_root_credential_ref r, nr_root_jid = rr_root_jid r, nr_room = rr_room r,
     nr_root_stanza = rr_root_stanza r, nr_run_job = rr_run_job r, nr_operator_jid = rr_operator_jid r,
     nr_existing = existing, nr_resumed = False, nr_resolved = (rr_resolved r \<noteq> None), nr_torn_down = rr_torn_down r\<rparr>"

definition inputAsJSON :: "string \<Rightarrow> string" where
  "inputAsJSON input = (let trimmed = trim_space input in if json_valid trimmed then trimmed else json_quote True input)"

definition run_input_stanza :: "run_record \<Rightarrow> string \<Rightarrow> string" where
  "run_input_stanza r input = [CHR 0x7B] @ join '',''
     (map string_member [(''type'', ''run_input''), (''run_key'', rr_run_key r), (''issuer'', rr_issuer r), (''root'', rr_root_principal r)]
      @ [json_quote True ''input'' @ '':'' @ json_compact False (inputAsJSON input)]) @ [CHR 0x7D]"

definition roomLocalpart :: "string \<Rightarrow> string" where
  "roomLocalpart key = map (\<lambda>c. if is_lower c \<or> is_digit c \<or> c = CHR ''-'' \<or> c = CHR ''.'' \<or> c = CHR ''_'' then c else CHR ''-'')
     (to_lower key)"

definition zero_run :: run_record where
  "zero_run = \<lparr>rr_schema = 0, rr_run_key = [], rr_issuer = [], rr_root_principal = [], rr_root_jid = [],
     rr_root_credential_ref = [], rr_room = [], rr_room_created = False, rr_operator_jid = [], rr_root_stanza = [],
     rr_run_job = [], rr_holders = [], rr_created_at = 0, rr_resolved = None, rr_pending = False,
     rr_pending_since = 0, rr_torn_down = False, rr_reaped = False, rr_reaped_at = None\<rparr>"

definition mirrorHolder :: "'e deps \<Rightarrow> string \<Rightarrow> string \<Rightarrow> holder \<Rightarrow> ('e world, unit) op" where
  "mirrorHolder d target job h = attempt_or (ext (sv_progress d target job (HolderProgressMessage (sv_fmt d) h)))
     (\<lambda>e. fail (ErrWrap (''mirroring holder '' @ h_principal h @ '' on '' @ job @ '': '') e [])) ret"

text \<open>The arguments refused before anything is touched.\<close>

definition new_run_usage :: "new_run_request \<Rightarrow> gerror option" where
  "new_run_usage req =
     (if nq_issuer req = [] then Some (ErrMsg ''an issuer principal is required'')
      else if (nq_room req = []) = (nq_room_domain req = []) then Some (ErrMsg ''exactly one of an existing room or a room domain is required'')
      else if nq_room_domain req \<noteq> [] \<and> nq_operator_jid req = [] then
        Some (ErrMsg (''creating the run's room requires an operator JID (--operator-jid): the run root must never be the room's only owner''))
      else if nq_operator_jid req \<noteq> [] \<and> CHR ''@'' \<notin> set (nq_operator_jid req) then
        Some (ErrMsg (''operator JID '' @ quoted (nq_operator_jid req) @ '' is not a bare JID (local@domain)''))
      else None)"

text \<open>\<open>failed\<close>: a failure after the mint. The undo runs, then the run is saved as pending.\<close>

definition save_pending :: "'e deps \<Rightarrow> run_record \<Rightarrow> 'e undo \<Rightarrow> gerror \<Rightarrow> ('e world, new_run_result) op" where
  "save_pending d rec undo cause w = (case unwind undo cause w of (e, w1) \<Rightarrow>
     with_now d (\<lambda>now.
       let pend = rec\<lparr>rr_pending := True, rr_root_stanza := [], rr_run_job := [], rr_holders := [], rr_pending_since := now\<rparr> in
       attempt_or (SaveRun (d_root d) pend)
         (\<lambda>saveErr. fail (ErrWrap [] e ('' (saving the pending run record also failed: '' @ err_text saveErr @ '')'')))
         (\<lambda>_. fail (ErrPendingRun (rr_run_key pend) (rr_root_principal pend) (rr_room pend) e))) w1)"

text \<open>From a room to a saved run: input posted, job started, holder mirrored.\<close>

definition start_run :: "'e deps \<Rightarrow> new_run_request \<Rightarrow> identity \<Rightarrow> bool \<Rightarrow> run_record \<Rightarrow> ('e world, new_run_result) op" where
  "start_run d req root resumed rec =
     attempt_or (ext (sv_post d root (rr_room rec) SpawnSource (run_input_stanza rec (nq_input req))))
       (\<lambda>e. save_pending d rec [] (ErrWrap (''posting the run input to '' @ rr_room rec @ '': '') e []))
       (\<lambda>stanza. let rec1 = rec\<lparr>rr_root_stanza := stanza\<rparr>; undo1 = [withdraw d root (rr_room rec) stanza] in
     attempt_or (ext (sv_start d (rr_issuer rec1) RunJobLabel SpawnSource))
       (\<lambda>e. save_pending d rec1 undo1 (ErrWrap (''starting the run job on '' @ rr_issuer rec1 @ '': '') e []))
       (\<lambda>job. let rec2 = rec1\<lparr>rr_run_job := job\<rparr>; undo2 = failJobUndo d (rr_issuer rec1) job # undo1 in
     with_now d (\<lambda>now. let holder = FirstHolder (rr_issuer rec2) now in
     attempt_or (mirrorHolder d (rr_issuer rec2) job holder)
       (\<lambda>e. save_pending d rec2 undo2 e)
       (\<lambda>_. let rec3 = rec2\<lparr>rr_holders := [holder]\<rparr> in
     attempt_or (SaveRun (d_root d) rec3)
       (\<lambda>e. save_pending d rec3 undo2 (ErrWrap ''saving the run record: '' e []))
       (\<lambda>_. ret ((newRunResult rec3 False)\<lparr>nr_resumed := resumed\<rparr>))))))"

text \<open>The run's room: the one named, or one the root creates with the operator as owner.\<close>

definition with_room :: "'e deps \<Rightarrow> new_run_request \<Rightarrow> identity \<Rightarrow> run_record \<Rightarrow>
    (run_record \<Rightarrow> ('e world, new_run_result) op) \<Rightarrow> ('e world, new_run_result) op" where
  "with_room d req root rec k =
     (if nq_room req \<noteq> [] then k (rec\<lparr>rr_room := nq_room req\<rparr>)
      else let room = roomLocalpart (nq_run_key req) @ ''@'' @ nq_room_domain req; rec1 = rec\<lparr>rr_room := room\<rparr> in
        attempt_or (ext (sv_create_room d root room [nq_operator_jid req]))
          (\<lambda>e. save_pending d rec1 [] (ErrWrap (''creating room '' @ room @ '' as the run root: '') e []))
          (\<lambda>info. k (rec1\<lparr>rr_room := (if ri_room info \<noteq> [] then ri_room info else room), rr_room_created := True\<rparr>)))"

definition fresh_run :: "new_run_request \<Rightarrow> string \<Rightarrow> int \<Rightarrow> run_record option \<Rightarrow> run_record" where
  "fresh_run req root now prior = zero_run\<lparr>rr_schema := RecordSchema, rr_run_key := nq_run_key req, rr_issuer := nq_issuer req,
     rr_operator_jid := nq_operator_jid req,
     rr_root_principal := (case prior of Some p \<Rightarrow> rr_root_principal p | None \<Rightarrow> root),
     rr_created_at := (case prior of Some p \<Rightarrow> rr_created_at p | None \<Rightarrow> now)\<rparr>"

definition mint_root :: "'e deps \<Rightarrow> new_run_request \<Rightarrow> run_record option \<Rightarrow> ('e world, new_run_result) op" where
  "mint_root d req prior =
     attempt (CheckSystemdReady d) (\<lambda>_.
     with_now d (\<lambda>now. let rec = fresh_run req (sv_root_principal d (nq_run_key req)) now prior in
     attempt_or (CredentialPath (d_root d) (nq_run_key req) (rr_root_principal rec))
       (\<lambda>e. fail (ErrWrap (''preparing the run root's credential file: '') e []))
       (\<lambda>pw. attempt_or (mint d (rr_root_principal rec) pw)
         (\<lambda>e. fail (ErrWrap ''minting the run root: '' e []))
         (\<lambda>cred. let rec1 = rec\<lparr>rr_root_jid := cd_jid cred, rr_root_credential_ref := cd_password_file cred\<rparr>;
                     root = IdentityFor (rr_root_principal rec) cred
                 in with_room d req root rec1 (start_run d req root (prior \<noteq> None))))))"

text \<open>A retry of a pending run stamps it before anything can fail.\<close>

definition new_run_locked :: "'e deps \<Rightarrow> new_run_request \<Rightarrow> ('e world, new_run_result) op" where
  "new_run_locked d req =
     attempt (LoadRun (d_root d) (nq_run_key req)) (\<lambda>prior. case prior of
       None \<Rightarrow> mint_root d req None
     | Some p \<Rightarrow>
         if rr_reaped p then
           (case CheckOpen (sv_fmt d) p of Some e \<Rightarrow> fail e | None \<Rightarrow> ret (newRunResult zero_run False))
         else if \<not> rr_pending p then ret (newRunResult p True)
         else with_now d (\<lambda>now. let refreshed = p\<lparr>rr_pending_since := now\<rparr> in
           attempt_or (SaveRun (d_root d) refreshed)
             (\<lambda>e. fail (ErrWrap (''refreshing the pending run's retry stamp: '') e []))
             (\<lambda>_. mint_root d req (Some refreshed))))"

definition new_run_keyed :: "'e deps \<Rightarrow> new_run_request \<Rightarrow> ('e world, new_run_result) op" where
  "new_run_keyed d req =
     attempt (fail_if (ValidRunKey (nq_run_key req))) (\<lambda>_.
     attempt (lock (runPath (d_root d) (nq_run_key req) @ ''.lock'')) (\<lambda>_. new_run_locked d req))"

definition NewRun :: "'e deps \<Rightarrow> new_run_request \<Rightarrow> ('e world, new_run_result) op" where
  "NewRun d req =
     attempt (fail_if (new_run_usage req)) (\<lambda>_.
       if nq_run_key req \<noteq> [] then new_run_keyed d req
       else (\<lambda>w. case ext (sv_new_principal d) w of (p, w1) \<Rightarrow> new_run_keyed d (req\<lparr>nq_run_key := ''run-'' @ p\<rparr>) w1))"

end
