(* ===== verification/Run_Child.thy ===== *)
theory Run_Child
  imports Run_Spawn
begin

text \<open>
  Subagents: \<open>juggler spawn --brief\<close> and \<open>--wait\<close> (\<open>spawn.go\<close>), the moxyfile an agent gets
  (\<open>agentmoxyfile.go\<close>, \<open>narrows.go\<close>) and the environment of its unit (\<open>exec.go\<close>). The spawner's
  own environment and working directory are fields of the request.
\<close>

section \<open>Environments\<close>

text \<open>An environment list entry's key: the text before the first equals sign.\<close>

definition env_key :: "string \<Rightarrow> string" where
  "env_key kv = fst (cut (CHR ''='') kv)"

definition EnvWith :: "string list \<Rightarrow> (string \<times> string) list \<Rightarrow> string list" where
  "EnvWith base overrides =
     filter (\<lambda>kv. env_key kv \<notin> fst ` set overrides) base
     @ map (\<lambda>k. k @ ''='' @ (case map_of overrides k of Some v \<Rightarrow> v | None \<Rightarrow> [])) (sort_strings (map fst overrides))"

definition StripPrincipalEnv :: "string list \<Rightarrow> string list" where
  "StripPrincipalEnv env = filter (\<lambda>kv. \<not> IsPrincipalEnvKey (env_key kv)) env"

definition MoxyLaunchEnv :: "string list \<Rightarrow> (string \<times> string) list \<Rightarrow> string list" where
  "MoxyLaunchEnv env briefEnv =
     filter (\<lambda>kv. \<not> (env_key kv \<in> fst ` set briefEnv \<and> ReservedEnvKey (env_key kv))) (StripPrincipalEnv env)"

definition UnitPassthroughEnvVars :: "string list" where
  "UnitPassthroughEnvVars = [''PATH'', ''HOME'', ''XDG_STATE_HOME'', ''XDG_RUNTIME_DIR'', ''JUGGLER_MODELS_PATH'',
     ''JUGGLER_RINGMASTER_BIN'', ''JUGGLER_TROUPE_BIN'', ''JUGGLER_MOXY_BIN'', ''TROUPE_TRANSPORT'', ''TROUPE_XMPP_HOST'',
     ''TROUPE_XMPP_PORT'', ''TROUPE_XMPP_INSECURE'']"

definition PassthroughUnitEnv :: "string list \<Rightarrow> (string \<times> string) list" where
  "PassthroughUnitEnv env = fold (\<lambda>kv out. case cut (CHR ''='') kv of
      (k, v, ok) \<Rightarrow> if ok \<and> k \<in> set UnitPassthroughEnvVars \<and> v \<noteq> [] then alist_put k v out else out) env []"

definition moxyEnv :: "string list \<Rightarrow> string \<Rightarrow> string list" where
  "moxyEnv env moxinPath =
     filter (\<lambda>kv. env_key kv \<noteq> ''MOXIN_PATH'' \<and> env_key kv \<noteq> ''MOXY_PARENT_MOXYFILE'') (StripPrincipalEnv env)
     @ (if moxinPath \<noteq> [] then [''MOXIN_PATH='' @ moxinPath] else [])"

section \<open>Requests\<close>

record spawn_request =
  sp_brief :: string
  sp_task :: string
  sp_run_key :: string
  sp_env_principal :: string
  sp_moxy_url :: string
  sp_juggler_bin :: string
  sp_stop_grace :: int
  sp_unit_env :: "(string \<times> string) list"
  sp_moxin_path :: string
  sp_spawner_dir :: string
  sp_environ :: "string list"
  sp_getwd :: "gerror + string"
  sp_look_path :: "string \<Rightarrow> string option"   \<comment> \<open>the absolute path of a command\<close>

definition BriefDigest :: "(string \<Rightarrow> string) \<Rightarrow> string \<Rightarrow> string \<Rightarrow> string" where
  "BriefDigest sha template task = ''sha256:'' @ sha (template @ [CHR 0x00] @ task)"

record template_fill =
  tf_principal :: string
  tf_parent :: string
  tf_room :: string
  tf_task :: string

definition FillTemplate :: "toml \<Rightarrow> string \<Rightarrow> template_fill \<Rightarrow> gerror + brief \<times> string" where
  "FillTemplate tm template fill = (case ParseTemplate tm template of
      Inl e \<Rightarrow> Inl e
    | Inr b \<Rightarrow>
      if b_principal b \<noteq> [] then Inl (ErrMsg ''brief template sets principal; the spawner mints it'')
      else if b_parent b \<noteq> [] \<and> b_parent b \<noteq> tf_parent fill then
        Inl (ErrMsg (''brief template parent '' @ quoted (b_parent b) @ '' is not the run root '' @ quoted (tf_parent fill)))
      else if b_room b \<noteq> [] \<and> b_room b \<noteq> tf_room fill then
        Inl (ErrMsg (''brief template room '' @ quoted (b_room b) @ '' is not the run's room '' @ quoted (tf_room fill)))
      else (let b1 = b\<lparr>b_principal := tf_principal fill, b_parent := tf_parent fill, b_room := tf_room fill,
                        b_task := (if tf_task fill \<noteq> [] then tf_task fill else b_task b)\<rparr>
            in case Marshal tm b1 of Inl e \<Rightarrow> Inl e | Inr canonical \<Rightarrow> Inr (b1, canonical)))"

definition checkBriefEnvOnlyAdds :: "(string \<times> string) list \<Rightarrow> (string \<times> string) list \<Rightarrow> gerror option" where
  "checkBriefEnvOnlyAdds briefEnv unitEnv =
     (case filter (\<lambda>k. k \<in> set UnitPassthroughEnvVars \<or> k \<in> fst ` set unitEnv) (map fst briefEnv) of
        [] \<Rightarrow> None
      | collisions \<Rightarrow> Some (ErrMsg (''brief env: '' @ join '', '' (sort_strings collisions)
          @ '': already set by the launcher in the agent's unit; a brief may only add new variables, never override the launcher's (FDR 0019 ''
          @ section_sign @ ''3)'')))"

definition findSpawnRun :: "string \<Rightarrow> string \<Rightarrow> string \<Rightarrow> string \<Rightarrow> ('e world, run_record) op" where
  "findSpawnRun root runKey room rootPrincipal =
     (if runKey = [] \<and> room = [] then
        (if rootPrincipal = [] then fail (ErrMsg ''cannot find the run: pass --run-key (the template names no room and CLOWN_SESSION_ID is unset)'')
         else attempt (findRun root (\<lambda>r. rr_root_principal r = rootPrincipal)) (\<lambda>found. case found of
            None \<Rightarrow> fail (ErrMsg (''no run has root principal '' @ quoted rootPrincipal @ '' (create it with juggler spawn --new-run)''))
          | Some r \<Rightarrow> ret r))
      else if runKey \<noteq> [] then
        attempt (fail_if (ValidRunKey runKey)) (\<lambda>_. attempt (LoadRun root runKey) (\<lambda>found. case found of
            None \<Rightarrow> fail (ErrMsg (''no run with key '' @ quoted runKey @ '' (create it with juggler spawn --new-run)''))
          | Some r \<Rightarrow> ret r))
      else attempt (FindRunByRoom root room) (\<lambda>found. case found of
            None \<Rightarrow> fail (ErrMsg (''no run owns room '' @ quoted room @ '' (create it with juggler spawn --new-run)''))
          | Some r \<Rightarrow> ret r))"

section \<open>The agent's moxyfile\<close>

definition MoxyNameTemplate :: string where
  "MoxyNameTemplate = [CHR 0x7B] @ ''server'' @ [CHR 0x7D] @ ''_'' @ [CHR 0x7B] @ ''tool'' @ [CHR 0x7D]"

definition moxyCoveredBy :: "string \<Rightarrow> string list \<Rightarrow> bool" where
  "moxyCoveredBy entry allowed = (entry \<in> set allowed \<or>
     (case cut (CHR ''.'') entry of (server, _, dotted) \<Rightarrow> dotted \<and> server \<in> set allowed))"

text \<open>The strings of a decoded \<open>allow-tools\<close>; \<open>None\<close> when the key is not set.\<close>

definition briefAllowSet :: "toml_value option \<Rightarrow> string list option" where
  "briefAllowSet v = (case v of None \<Rightarrow> None
     | Some (TomlArray vs) \<Rightarrow> Some (concat (map (\<lambda>x. case x of TomlString s \<Rightarrow> [s] | _ \<Rightarrow> []) vs))
     | Some _ \<Rightarrow> Some [])"

text \<open>The loop over the brief's tools; \<open>ctx_err\<close> is the context's error, if it ended.\<close>

fun resolve_tools :: "'e deps \<Rightarrow> gerror option \<Rightarrow> string list \<Rightarrow> string list option \<Rightarrow> string list \<Rightarrow> ('e world, string list) op" where
  "resolve_tools d ctx_err env allowed [] = ret []"
| "resolve_tools d ctx_err env allowed (t # ts) =
     (if t = CannotCompleteTool then resolve_tools d ctx_err env allowed ts
      else attempt_or (ext (sv_moxy_resolve d env MoxyNameTemplate t))
        (\<lambda>e. case ctx_err of Some c \<Rightarrow> fail c
           | None \<Rightarrow> (case err_as is_command e of
               Some (code, _) \<Rightarrow> if code = -1 then fail e else fail (ErrToolResolution t (err_text e))
             | None \<Rightarrow> fail (ErrToolResolution t (err_text e))))
        (\<lambda>(server, tool). let resolved = server @ ''.'' @ tool in
           if (case allowed of Some al \<Rightarrow> \<not> moxyCoveredBy resolved al | None \<Rightarrow> False)
           then fail (ErrToolCoverage t resolved)
           else attempt (resolve_tools d ctx_err env allowed ts) (\<lambda>rs. ret (resolved # rs))))"

definition DeriveAgentMoxyfile :: "'e deps \<Rightarrow> toml \<Rightarrow> gerror option \<Rightarrow> string list \<Rightarrow> brief \<Rightarrow> ('e world, string) op" where
  "DeriveAgentMoxyfile d tm ctx_err env b =
     (case (if trim_space (b_moxyfile b) = [] then Inr None else tm_allow tm (b_moxyfile b)) of
        Inl e \<Rightarrow> fail (ErrWrap ''jugglerrun: decoding the brief's moxyfile: '' e [])
      | Inr v \<Rightarrow> attempt (resolve_tools d ctx_err env (briefAllowSet v) (b_tools b)) (\<lambda>allow.
          case tm_with_allow tm (b_moxyfile b) (sort_strings allow) of
            Inl e \<Rightarrow> fail (ErrWrap ''jugglerrun: encoding the agent's derived moxyfile: '' e [])
          | Inr s \<Rightarrow> ret s))"

definition ToolRefusalEntry :: "gerror \<Rightarrow> run_entry" where
  "ToolRefusalEntry e = entry_of ''tool-resolve'' ''refusal'' False (err_text e)"

definition NarrowsRefusalEntry :: "narrows_result \<Rightarrow> run_entry" where
  "NarrowsRefusalEntry r = (entry_of ''narrows'' ''refusal'' False (''brief moxyfile widens the spawner's''))
     \<lparr>re_violations := nr_violations r, re_violations_missing := \<not> nr_violations_parsed r,
      re_moxy_bin := nr_moxy_bin r, re_parent_moxyfile_digest := nr_parent_moxyfile_digest r\<rparr>"

definition widens_error :: "narrows_result \<Rightarrow> gerror" where
  "widens_error r = ErrBriefWidens (''brief moxyfile widens the spawner's:'' @ [CHR 0x0A] @ join [CHR 0x0A] (nr_lines r)) (nr_lines r)"

text \<open>A refusal, recorded in the ledger; a failed recording is added to its text.\<close>

definition refuse_recorded :: "string \<Rightarrow> string \<Rightarrow> run_entry \<Rightarrow> gerror \<Rightarrow> 'e world \<Rightarrow> gerror \<times> 'e world" where
  "refuse_recorded root key entry e = attempt_or (appendRunLedgerLocked root key entry)
     (\<lambda>lerr w. (ErrWrap [] e ('' (recording the refusal also failed: '' @ err_text lerr @ '')''), w))
     (\<lambda>_ w. (e, w))"

definition remove_both :: "string \<Rightarrow> string \<Rightarrow> gerror \<Rightarrow> ('e world, unit) op" where
  "remove_both a b cause = observe (removeIfExists a) (\<lambda>e1. observe (removeIfExists b) (\<lambda>e2.
     case (case e1 of Some e \<Rightarrow> [e] | None \<Rightarrow> []) @ (case e2 of Some e \<Rightarrow> [e] | None \<Rightarrow> []) of
       [] \<Rightarrow> ret () | es \<Rightarrow> fail (ErrJoin es)))"

definition write_staged :: "string \<Rightarrow> string \<Rightarrow> ('e world, unit) op" where
  "write_staged path data = attempt_or (writeFileAtomic path (TextFile data))
     (\<lambda>e. fail (ErrWrap (''staging '' @ path @ '': '') e [])) ret"

text \<open>
  \<open>checkBriefNarrows\<close>. Go fills the record and pushes on the undo stack as it goes; here
  the continuation gets both, and an error comes with the stack it found.
\<close>

datatype 'e narrowing = Narrowed child_record "'e undo" | Refused gerror "narrows_result option" "'e undo"

definition pinned_moxy :: "spawn_request \<Rightarrow> string \<Rightarrow> string" where
  "pinned_moxy req bin =
     (if bin \<noteq> [] \<and> \<not> has_prefix bin ''/'' then (case sp_look_path req bin of Some p \<Rightarrow> p | None \<Rightarrow> bin) else bin)"

definition run_narrows :: "'e deps \<Rightarrow> string list \<Rightarrow> child_record \<Rightarrow> string \<Rightarrow> 'e undo \<Rightarrow> 'e world \<Rightarrow> 'e narrowing \<times> 'e world" where
  "run_narrows d env rec child undo =
     attempt_or (ext (sv_moxy_narrows d env (cr_parent_moxyfile rec) child))
       (\<lambda>e w. (Refused e None undo, w))
       (\<lambda>r w. (if nr_widens r
          then (let r1 = r\<lparr>nr_moxy_bin := cr_moxy_bin rec, nr_parent_moxyfile_digest := cr_parent_moxyfile_digest rec\<rparr>
                in Refused (widens_error r1) (Some r1) undo)
          else Narrowed rec undo, w))"

definition checkBriefNarrows :: "'e deps \<Rightarrow> spawn_request \<Rightarrow> child_record \<Rightarrow> string \<Rightarrow> 'e world \<Rightarrow> 'e narrowing \<times> 'e world" where
  "checkBriefNarrows d req rec moxyfile =
     (case (if sp_spawner_dir req \<noteq> [] then Inr (sp_spawner_dir req) else sp_getwd req) of
        Inl e \<Rightarrow> (\<lambda>w. (Refused (ErrWrap ''resolving the spawner's directory: '' e []) None [], w))
      | Inr dir \<Rightarrow>
          let env = moxyEnv (sp_environ req) (sp_moxin_path req) in
          attempt_or (ext (sv_moxy_show d env dir)) (\<lambda>e w. (Refused e None [], w)) (\<lambda>parent.
            let staged = stagedParentMoxyfilePath (d_root d) (cr_run_key rec) (cr_brief_digest rec);
                child = stagedChildMoxyfilePath (d_root d) (cr_run_key rec) (cr_brief_digest rec);
                rec1 = rec\<lparr>cr_moxy_bin := pinned_moxy req (sv_moxy_path d), cr_parent_moxyfile := staged,
                            cr_parent_moxyfile_digest := ''sha256:'' @ sv_sha d parent\<rparr>;
                undo = [remove_both staged child]
            in attempt_or (write_staged staged parent) (\<lambda>e w. (Refused e None undo, w)) (\<lambda>_.
               attempt_or (write_staged child moxyfile) (\<lambda>e w. (Refused e None undo, w)) (\<lambda>_.
               run_narrows d env rec1 child undo))))"

section \<open>The agent's unit\<close>

definition SessionIDEnv :: string where "SessionIDEnv = ''CLOWN_SESSION_ID''"
definition MoxyURLEnv :: string where "MoxyURLEnv = ''JUGGLER_MOXY_URL''"

text \<open>An entry with an empty value is not set.\<close>

definition env_if_set :: "string \<Rightarrow> string \<Rightarrow> (string \<times> string) list" where
  "env_if_set k v = (if v \<noteq> [] then [(k, v)] else [])"

definition launcher_env :: "child_record \<Rightarrow> credential \<Rightarrow> spawn_request \<Rightarrow> (string \<times> string) list" where
  "launcher_env rec cred req =
     env_if_set ''MOXIN_PATH'' (cr_moxin_path rec) @ env_if_set ''MOXY_PARENT_MOXYFILE'' (cr_parent_moxyfile rec)
     @ [(SessionIDEnv, cr_principal rec), (''TROUPE_XMPP_USER'', Localpart cred),
        (''TROUPE_XMPP_PASSWORD_FILE'', cd_password_file cred), (''TROUPE_XMPP_DOMAIN'', Domain cred)]
     @ env_if_set MoxyURLEnv (sp_moxy_url req)"

text \<open>The spawner's passthrough, the brief's additions, without moxin identity, then the launcher's.\<close>

definition brief_added :: "(string \<times> string) list \<Rightarrow> (string \<times> string) list \<Rightarrow> (string \<times> string) list" where
  "brief_added briefEnv env = fold (\<lambda>(k, v) e. if k \<notin> fst ` set e \<and> \<not> ReservedEnvKey k then alist_put k v e else e) briefEnv env"

definition agent_env :: "child_record \<Rightarrow> credential \<Rightarrow> spawn_request \<Rightarrow> (string \<times> string) list \<Rightarrow> (string \<times> string) list" where
  "agent_env rec cred req briefEnv =
     fold (\<lambda>(k, v). alist_put k v) (launcher_env rec cred req)
       (filter (\<lambda>(k, _). \<not> IsMoxinIdentityEnvKey k) (brief_added briefEnv (sp_unit_env req)))"

definition agentUnit :: "child_record \<Rightarrow> credential \<Rightarrow> spawn_request \<Rightarrow> (string \<times> string) list \<Rightarrow> int \<Rightarrow> transient_unit" where
  "agentUnit rec cred req briefEnv runtimeMax =
     \<lparr>tu_name = cr_unit rec, tu_runtime_max = runtimeMax,
      tu_exec_stop_post = [sp_juggler_bin req, ''exit-wake'', ''--job'', cr_job rec, ''--target'', cr_parent rec],
      tu_env = agent_env rec cred req briefEnv,
      tu_exec = [sp_juggler_bin req, ''run'', ''--brief'', cr_brief_path rec, ''--job'', cr_job rec,
                 ''--brief-stanza'', cr_brief_stanza rec]
                @ (if cr_moxy_bin rec \<noteq> [] then [''--moxy'', cr_moxy_bin rec] else [])\<rparr>"

section \<open>SpawnChild\<close>

text \<open>A \<open>time.Duration\<close> is an int64; its sums wrap.\<close>

definition dur :: "int \<Rightarrow> int" where
  "dur x = signed_take_bit 63 x"

definition stop_grace :: "int \<Rightarrow> int" where
  "stop_grace grace = (if grace \<le> 0 then DefaultStopGrace else grace)"

definition briefStanza :: "child_record \<Rightarrow> string \<Rightarrow> string" where
  "briefStanza rec canonical = string_object [(''type'', ''brief''), (''principal'', cr_principal rec), (''parent'', cr_parent rec),
     (''job'', cr_job rec), (''digest'', cr_brief_digest rec), (''brief'', canonical)]"

definition zero_child :: child_record where
  "zero_child = \<lparr>cr_schema = 0, cr_run_key = [], cr_brief_digest = [], cr_principal = [], cr_jid = [], cr_credential_ref = [],
     cr_parent = [], cr_room = [], cr_job = [], cr_brief_stanza = [], cr_brief_path = [], cr_unit = [], cr_wall_clock = [],
     cr_moxin_path = [], cr_parent_moxyfile = [], cr_parent_moxyfile_digest = [], cr_moxy_bin = [], cr_holders = [], cr_created_at = 0\<rparr>"

text \<open>What the stages below share: the services, the request, the run, the filled brief.\<close>

record 'e spawn =
  sn_deps :: "'e deps"
  sn_req :: spawn_request
  sn_run :: run_record
  sn_brief :: brief
  sn_canonical :: string
  sn_wall_clock :: int

text \<open>Saving the child and starting its unit.\<close>

definition spawn_launch :: "'e spawn \<Rightarrow> credential \<Rightarrow> 'e undo \<Rightarrow> child_record \<Rightarrow> ('e world, child_record \<times> bool) op" where
  "spawn_launch s cred undo rec0 =
     (let d = sn_deps s; rec = rec0\<lparr>cr_unit := ''juggler-agent-'' @ cr_principal rec0\<rparr> in
      attempt_or (SaveChild (d_root d) rec)
        (\<lambda>e. fail_unwound undo (ErrWrap ''saving the child record: '' e []))
        (\<lambda>_. let undo1 = (\<lambda>_. removeIfExists (childPath (d_root d) (cr_run_key rec) (cr_brief_digest rec))) # undo in
         attempt_or (ext (sv_launch d (agentUnit rec cred (sn_req s) (b_env (sn_brief s))
                                         (dur (sn_wall_clock s + stop_grace (sp_stop_grace (sn_req s)))))))
           (\<lambda>e. fail_unwound undo1 (ErrWrap (''starting transient unit '' @ cr_unit rec @ '': '') e []))
           (\<lambda>_. ret (rec, False))))"

text \<open>The job, its first holder, and the brief in the run's room.\<close>

definition spawn_job :: "'e spawn \<Rightarrow> credential \<Rightarrow> 'e undo \<Rightarrow> child_record \<Rightarrow> ('e world, child_record \<times> bool) op" where
  "spawn_job s cred undo rec =
     (let d = sn_deps s in
      attempt_or (ext (sv_start d (cr_parent rec) AgentJobLabel SpawnSource))
        (\<lambda>e. fail_unwound undo (ErrWrap (''starting the agent job on '' @ cr_parent rec @ '': '') e []))
        (\<lambda>job. let undo1 = failJobUndo d (cr_parent rec) job # undo in
      with_now d (\<lambda>now. let holder = FirstHolder (cr_parent rec) now in
      attempt_or (mirrorHolder d (cr_parent rec) job holder)
        (\<lambda>e. fail_unwound undo1 e)
        (\<lambda>_. let rec1 = rec\<lparr>cr_job := job, cr_holders := [holder]\<rparr> in
      attempt_or (ext (sv_post d ambient (cr_room rec1) SpawnSource (briefStanza rec1 (sn_canonical s))))
        (\<lambda>e. fail_unwound undo1 (ErrWrap (''posting the brief to '' @ cr_room rec1 @ '': '') e []))
        (\<lambda>stanza. spawn_launch s cred (withdraw d ambient (cr_room rec1) stanza # undo1) (rec1\<lparr>cr_brief_stanza := stanza\<rparr>))))))"

definition spawn_stage :: "'e spawn \<Rightarrow> credential \<Rightarrow> 'e undo \<Rightarrow> child_record \<Rightarrow> ('e world, child_record \<times> bool) op" where
  "spawn_stage s cred undo rec0 =
     (let d = sn_deps s; path = stagedBriefPath (d_root d) (rr_run_key (sn_run s)) (cr_brief_digest rec0);
          rec = rec0\<lparr>cr_brief_path := path\<rparr> in
      attempt_or (writeFileAtomic path (TextFile (sn_canonical s)))
        (\<lambda>e. fail_unwound undo (ErrWrap ''staging the brief: '' e []))
        (\<lambda>_. spawn_job s cred ((\<lambda>_. removeIfExists path) # undo) rec))"

text \<open>A room the run created admits the child before it can join.\<close>

definition spawn_affiliate :: "'e spawn \<Rightarrow> credential \<Rightarrow> 'e undo \<Rightarrow> child_record \<Rightarrow> ('e world, child_record \<times> bool) op" where
  "spawn_affiliate s cred undo rec =
     (if \<not> rr_room_created (sn_run s) then spawn_stage s cred undo rec
      else let d = sn_deps s; room = rr_room (sn_run s); root = rootIdentity (sn_run s) in
        attempt_or (ext (sv_affiliate d root room AffiliationMember (cr_jid rec)))
          (\<lambda>e. fail_unwound undo (ErrWrap (''affiliating '' @ cr_jid rec @ '' as a member of '' @ room @ '': '') e []))
          (\<lambda>_. spawn_stage s cred ((\<lambda>_. ext (sv_affiliate d root room AffiliationNone (cr_jid rec))) # undo) rec))"

definition spawn_mint :: "'e spawn \<Rightarrow> 'e undo \<Rightarrow> child_record \<Rightarrow> ('e world, child_record \<times> bool) op" where
  "spawn_mint s undo rec =
     (let d = sn_deps s in
      attempt_or (CredentialPath (d_root d) (rr_run_key (sn_run s)) (cr_principal rec))
        (\<lambda>e. fail_unwound undo (ErrWrap (''preparing the agent's credential file: '') e []))
        (\<lambda>pw. attempt_or (mint d (cr_principal rec) pw)
          (\<lambda>e. fail_unwound undo (ErrWrap ''minting the agent principal: '' e []))
          (\<lambda>cred. spawn_affiliate s cred ((\<lambda>_. ext (sv_revoke d (cr_principal rec) pw)) # undo)
                    (rec\<lparr>cr_jid := cd_jid cred, cr_credential_ref := cd_password_file cred\<rparr>))))"

definition is_tool_refusal :: "gerror \<Rightarrow> gerror option" where
  "is_tool_refusal e = (case e of ErrToolResolution _ _ \<Rightarrow> Some e | ErrToolCoverage _ _ \<Rightarrow> Some e | _ \<Rightarrow> None)"

definition is_not_ready :: "gerror \<Rightarrow> (string \<times> string) option" where
  "is_not_ready e = (case e of ErrSystemdNotReady state detail _ \<Rightarrow> Some (state, detail) | _ \<Rightarrow> None)"

text \<open>An error, after the entry its kind asks for went to the ledger.\<close>

definition recorded :: "'e deps \<Rightarrow> string \<Rightarrow> run_entry option \<Rightarrow> gerror \<Rightarrow> 'e world \<Rightarrow> gerror \<times> 'e world" where
  "recorded d key entry e = (case entry of None \<Rightarrow> Pair e | Some en \<Rightarrow> refuse_recorded (d_root d) key en e)"

definition fail_recorded :: "'e deps \<Rightarrow> string \<Rightarrow> run_entry option \<Rightarrow> gerror \<Rightarrow> ('e world, 'a) op" where
  "fail_recorded d key entry e w = (case recorded d key entry e w of (e1, w1) \<Rightarrow> (Inl e1, w1))"

text \<open>The child's tools resolved and its moxyfile checked against the spawner's, then the mint.\<close>

definition spawn_checked :: "'e spawn \<Rightarrow> toml \<Rightarrow> gerror option \<Rightarrow> child_record \<Rightarrow> ('e world, child_record \<times> bool) op" where
  "spawn_checked s tm ctx_err rec =
     (let d = sn_deps s; key = rr_run_key (sn_run s) in
      attempt_or (DeriveAgentMoxyfile d tm ctx_err (moxyEnv (sp_environ (sn_req s)) (sp_moxin_path (sn_req s))) (sn_brief s))
        (\<lambda>e. fail_recorded d key (map_option ToolRefusalEntry (err_as is_tool_refusal e)) e)
        (\<lambda>moxyfile w. case checkBriefNarrows d (sn_req s) rec moxyfile w of
            (Narrowed rec1 undo, w1) \<Rightarrow> spawn_mint s undo rec1 w1
          | (Refused e violations undo, w1) \<Rightarrow>
              (case recorded d key (map_option NarrowsRefusalEntry violations) e w1 of (e1, w2) \<Rightarrow> fail_unwound undo e1 w2)))"

definition run_fill :: "run_record \<Rightarrow> string \<Rightarrow> string \<Rightarrow> template_fill" where
  "run_fill run p task = \<lparr>tf_principal = p, tf_parent = rr_root_principal run, tf_room = rr_room run, tf_task = task\<rparr>"

text \<open>The new child's record and brief. \<open>probe\<close> is the brief filled before the lock was taken.\<close>

definition spawn_fresh :: "'e deps \<Rightarrow> toml \<Rightarrow> gerror option \<Rightarrow> spawn_request \<Rightarrow> run_record \<Rightarrow> run_record \<Rightarrow> brief \<Rightarrow>
    ('e world, child_record \<times> bool) op" where
  "spawn_fresh d tm ctx_err req found run probe =
     with_now d (\<lambda>now w. case ext (sv_new_principal d) w of (p, w1) \<Rightarrow>
       (case FillTemplate tm (sp_brief req) (run_fill found p (sp_task req)) of
          Inl e \<Rightarrow> fail e w1
        | Inr (b, canonical) \<Rightarrow>
            spawn_checked \<lparr>sn_deps = d, sn_req = req, sn_run = run, sn_brief = b, sn_canonical = canonical,
                sn_wall_clock = (case tm_duration tm (lm_wall_clock (b_limits b)) of Inr t \<Rightarrow> t | Inl _ \<Rightarrow> 0)\<rparr> tm ctx_err
              (zero_child\<lparr>cr_schema := RecordSchema, cr_run_key := rr_run_key run,
                 cr_brief_digest := BriefDigest (sv_sha d) (sp_brief req) (sp_task req), cr_parent := b_parent probe, cr_room := b_room probe,
                 cr_created_at := now, cr_principal := p, cr_wall_clock := lm_wall_clock (b_limits b), cr_moxin_path := sp_moxin_path req\<rparr>) w1))"

text \<open>Under the run lock: the run must still be open; a child with this digest is returned.\<close>

definition spawn_locked :: "'e deps \<Rightarrow> toml \<Rightarrow> gerror option \<Rightarrow> spawn_request \<Rightarrow> run_record \<Rightarrow> brief \<Rightarrow> ('e world, child_record \<times> bool) op" where
  "spawn_locked d tm ctx_err req found probe =
     attempt (LoadRun (d_root d) (rr_run_key found)) (\<lambda>again. case again of
       None \<Rightarrow> fail (ErrMsg ''the run record vanished'')
     | Some run \<Rightarrow>
       attempt (fail_if (CheckOpen (sv_fmt d) run)) (\<lambda>_.
       attempt (LoadChild (d_root d) (rr_run_key run) (BriefDigest (sv_sha d) (sp_brief req) (sp_task req))) (\<lambda>prior. case prior of
         Some c \<Rightarrow> ret (c, True)
       | None \<Rightarrow> attempt_or (CheckSystemdReady d)
           (\<lambda>e. fail_recorded d (rr_run_key run) (map_option (\<lambda>(st, detail). SystemdRefusalEntry st detail) (err_as is_not_ready e)) e)
           (\<lambda>_. spawn_fresh d tm ctx_err req found run probe))))"

definition SpawnChild :: "'e deps \<Rightarrow> toml \<Rightarrow> gerror option \<Rightarrow> spawn_request \<Rightarrow> ('e world, child_record \<times> bool) op" where
  "SpawnChild d tm ctx_err req =
     (if sp_juggler_bin req = [] then fail (ErrMsg ''the juggler binary path is required'')
      else case ParseTemplate tm (sp_brief req) of Inl e \<Rightarrow> fail e
      | Inr tmpl \<Rightarrow> attempt (findSpawnRun (d_root d) (sp_run_key req) (b_room tmpl) (sp_env_principal req)) (\<lambda>found.
          case FillTemplate tm (sp_brief req) (run_fill found ''unminted'' (sp_task req)) of Inl e \<Rightarrow> fail e
          | Inr (probe, _) \<Rightarrow>
              attempt (fail_if (checkBriefEnvOnlyAdds (b_env probe) (sp_unit_env req))) (\<lambda>_.
              attempt (lock (runPath (d_root d) (rr_run_key found) @ ''.lock'')) (\<lambda>_.
                spawn_locked d tm ctx_err req found probe))))"

end
