(* ===== verification/Go_Path.thy ===== *)
theory Go_Path
  imports Go_Base
begin

text \<open>
  Unix paths as Go's \<open>path/filepath\<close> handles them: \<open>Clean\<close>, \<open>Join\<close>, \<open>IsAbs\<close>, \<open>Dir\<close>,
  \<open>SplitList\<close>. The facts speak of a clean absolute path through its segments (\<open>segments\<close>): prefix
  tests on the text of such paths are prefix tests on their segments.
\<close>

section \<open>Paths\<close>

text \<open>\<open>filepath.Clean\<close> on Unix: the elements kept so far are a stack, the last first.\<close>

definition path_push :: "bool \<Rightarrow> string list \<Rightarrow> string \<Rightarrow> string list" where
  "path_push rooted out seg =
     (if seg = [] \<or> seg = ''.'' then out
      else if seg = ''..'' then
        (case out of
           [] \<Rightarrow> if rooted then [] else [''..'']
         | x # xs \<Rightarrow> if x = ''..'' then ''..'' # out else xs)
      else seg # out)"

definition clean_segments :: "bool \<Rightarrow> string list \<Rightarrow> string list" where
  "clean_segments rooted segs = rev (fold (\<lambda>seg out. path_push rooted out seg) segs [])"

definition path_clean :: "string \<Rightarrow> string" where
  "path_clean p =
     (let rooted = has_prefix p ''/''; body = join ''/'' (clean_segments rooted (split_on (CHR ''/'') p))
      in if rooted then CHR ''/'' # body else if body = [] then ''.'' else body)"

definition path_is_abs :: "string \<Rightarrow> bool" where
  "path_is_abs p = has_prefix p ''/''"

text \<open>\<open>filepath.Join\<close> of two elements and \<open>filepath.SplitList\<close>.\<close>

definition path_join_clean :: "string \<Rightarrow> string \<Rightarrow> string" where
  "path_join_clean a b =
     (if a = [] \<and> b = [] then [] else if a = [] then path_clean b
      else if b = [] then path_clean a else path_clean (a @ ''/'' @ b))"

definition split_list :: "string \<Rightarrow> string list" where
  "split_list p = (if p = [] then [] else split_on (CHR '':'') p)"

section \<open>Clean absolute paths\<close>

text \<open>A path segment that cleaning keeps.\<close>

definition plain_segment :: "string \<Rightarrow> bool" where
  "plain_segment s \<longleftrightarrow> s \<noteq> [] \<and> s \<noteq> ''.'' \<and> s \<noteq> ''..'' \<and> CHR ''/'' \<notin> set s"

lemma split_on_pieces: "\<forall>p \<in> set (split_on c s). c \<notin> set p \<and> set p \<subseteq> set s"
  by (induction s) (auto split: list.split)

lemma split_on_nonempty: "split_on c s \<noteq> []"
  by (induction s) (auto split: list.split)

lemma split_on_plain: "c \<notin> set p \<Longrightarrow> split_on c p = [p]"
  by (induction p) auto

lemma split_on_append: "c \<notin> set p \<Longrightarrow> split_on c (p @ c # s) = p # split_on c s"
  by (induction p) auto

lemma split_join: "ps \<noteq> [] \<Longrightarrow> \<forall>p \<in> set ps. c \<notin> set p \<Longrightarrow> split_on c (join [c] ps) = ps"
  by (induction "[c]" ps rule: join.induct) (simp_all add: split_on_plain split_on_append)

lemma join_split: "join [c] (split_on c s) = s"
proof (induction s)
  case (Cons a s)
  have "join [c] (p # ps) = p @ (if ps = [] then [] else c # join [c] ps)" for p ps by (cases ps) auto
  with Cons split_on_nonempty [of c s] show ?case by (auto split: list.split)
qed simp

lemma join_nonempty: "ps \<noteq> [] \<Longrightarrow> \<forall>p \<in> set ps. p \<noteq> [] \<Longrightarrow> join sep ps \<noteq> []"
  by (cases ps rule: list.exhaust; cases "tl ps") auto

lemma path_push_plain: "list_all plain_segment out \<Longrightarrow> CHR ''/'' \<notin> set seg \<Longrightarrow> list_all plain_segment (path_push True out seg)"
  by (auto simp: path_push_def plain_segment_def split: list.split)

lemma clean_segments_plain:
  assumes "\<forall>s \<in> set segs. CHR ''/'' \<notin> set s"
  shows "list_all plain_segment (clean_segments True segs)"
proof -
  have "list_all plain_segment out \<Longrightarrow> list_all plain_segment (fold (\<lambda>seg out. path_push True out seg) segs out)" for out
    using assms by (induction segs arbitrary: out) (auto simp: path_push_plain)
  from this [of "[]"] show ?thesis by (simp add: clean_segments_def list_all_rev)
qed

lemma clean_segments_id: "list_all plain_segment segs \<Longrightarrow> clean_segments True segs = segs"
proof -
  have "list_all plain_segment segs \<Longrightarrow> fold (\<lambda>seg out. path_push True out seg) segs out = rev segs @ out" for out
    by (induction segs arbitrary: out) (auto simp: path_push_def plain_segment_def)
  then show "list_all plain_segment segs \<Longrightarrow> ?thesis" by (simp add: clean_segments_def)
qed

text \<open>A rooted path as cleaning leaves it.\<close>

definition clean_abs :: "string \<Rightarrow> bool" where
  "clean_abs p \<longleftrightarrow> (\<exists>segs. list_all plain_segment segs \<and> p = CHR ''/'' # join ''/'' segs)"

lemma path_clean_abs:
  assumes "has_prefix p ''/''"
  shows "clean_abs (path_clean p) \<and> set (path_clean p) \<subseteq> set p"
proof -
  let ?segs = "clean_segments True (split_on (CHR ''/'') p)"
  have pieces: "\<forall>s \<in> set (split_on (CHR ''/'') p). CHR ''/'' \<notin> set s \<and> set s \<subseteq> set p" by (rule split_on_pieces)
  have clean: "path_clean p = CHR ''/'' # join ''/'' ?segs" using assms by (simp add: path_clean_def Let_def)
  have "set (fold (\<lambda>seg out. path_push True out seg) segs out) \<subseteq> set segs \<union> set out \<union> {''..''}" for segs out
    by (induction segs arbitrary: out) (fastforce simp: path_push_def split: list.splits if_splits)+
  from this [of "split_on (CHR ''/'') p" "[]"] have sub: "set ?segs \<subseteq> set (split_on (CHR ''/'') p) \<union> {''..''}"
    by (simp add: clean_segments_def)
  have plain: "list_all plain_segment ?segs" using pieces by (intro clean_segments_plain) blast
  then have "set ?segs \<subseteq> set (split_on (CHR ''/'') p)" using sub by (auto simp: list_all_iff plain_segment_def)
  then have "\<forall>s \<in> set ?segs. set s \<subseteq> set p" using pieces by blast
  moreover have "set (join ''/'' ss) \<subseteq> {CHR ''/''} \<union> \<Union> (set ` set ss)" for ss
    by (induction "''/''" ss rule: join.induct) auto
  moreover have "CHR ''/'' \<in> set p" using assms by (auto simp: has_prefix_def prefix_def)
  ultimately have "set (path_clean p) \<subseteq> set p" unfolding clean by fastforce
  with plain clean show ?thesis by (auto simp: clean_abs_def)
qed

lemma clean_abs_fixed:
  assumes "clean_abs p"
  shows "path_clean p = p" and "has_prefix p ''/''"
proof -
  obtain segs where segs: "list_all plain_segment segs" and p: "p = CHR ''/'' # join ''/'' segs" using assms by (auto simp: clean_abs_def)
  show abs: "has_prefix p ''/''" by (simp add: p has_prefix_def)
  have "clean_segments True (split_on (CHR ''/'') p) = segs"
  proof (cases "segs = []")
    case True
    then show ?thesis by (simp add: p clean_segments_def path_push_def)
  next
    case False
    moreover have "\<forall>s \<in> set segs. CHR ''/'' \<notin> set s" using segs by (auto simp: list_all_iff plain_segment_def)
    ultimately have "split_on (CHR ''/'') p = [] # segs" by (simp add: p split_join)
    moreover have "clean_segments True ([] # segs) = clean_segments True segs" by (simp add: clean_segments_def path_push_def)
    ultimately show ?thesis using clean_segments_id [OF segs] by simp
  qed
  with abs show "path_clean p = p" by (simp add: path_clean_def p)
qed

section \<open>Segments\<close>

text \<open>\<open>filepath.Dir\<close>.\<close>

definition path_dir :: "string \<Rightarrow> string" where
  "path_dir p = path_clean (rev (dropWhile (\<lambda>c. c \<noteq> CHR ''/'') (rev p)))"

text \<open>The segments of a clean absolute path; the root has none.\<close>

definition segments :: "string \<Rightarrow> string list" where
  "segments p = filter (\<lambda>s. s \<noteq> []) (split_on (CHR ''/'') p)"

definition of_segments :: "string list \<Rightarrow> string" where
  "of_segments segs = CHR ''/'' # join ''/'' segs"

lemma segments_of_segments [simp]:
  assumes "list_all plain_segment segs"
  shows "segments (of_segments segs) = segs"
proof (cases "segs = []")
  case True
  then show ?thesis by (simp add: segments_def of_segments_def)
next
  case False
  have "\<forall>s \<in> set segs. CHR ''/'' \<notin> set s \<and> s \<noteq> []" using assms by (auto simp: list_all_iff plain_segment_def)
  with False have "split_on (CHR ''/'') (of_segments segs) = [] # segs" by (simp add: of_segments_def split_join)
  then show ?thesis using assms by (auto simp: segments_def list_all_iff plain_segment_def intro: filter_True)
qed

lemma clean_abs_segments:
  assumes "clean_abs p"
  shows "list_all plain_segment (segments p)" and "p = of_segments (segments p)"
proof -
  obtain segs where segs: "list_all plain_segment segs" "p = of_segments segs"
    using assms by (auto simp: clean_abs_def of_segments_def)
  then show "list_all plain_segment (segments p)" "p = of_segments (segments p)" by simp_all
qed

lemma clean_abs_of_segments: "list_all plain_segment segs \<Longrightarrow> clean_abs (of_segments segs)"
  by (auto simp: clean_abs_def of_segments_def)

lemma join_snoc: "ps \<noteq> [] \<Longrightarrow> qs \<noteq> [] \<Longrightarrow> join sep (ps @ qs) = join sep ps @ sep @ join sep qs"
proof (induction sep ps rule: join.induct)
  case (2 sep s)
  then show ?case by (cases qs) auto
qed auto

text \<open>The text of \<open>q\<close> begins with that of \<open>p\<close> and a slash just when the segments of \<open>p\<close> are a
  proper prefix of those of \<open>q\<close>.\<close>

lemma slash_prefix_segments:
  assumes "list_all plain_segment ps" and "list_all plain_segment qs" and "ps \<noteq> []"
  shows "has_prefix (of_segments qs) (of_segments ps @ ''/'') \<longleftrightarrow> strict_prefix ps qs"
proof
  assume "has_prefix (of_segments qs) (of_segments ps @ ''/'')"
  then obtain t where t: "of_segments qs = of_segments ps @ ''/'' @ t" by (auto simp: has_prefix_def prefix_def)
  have "qs \<noteq> []" using t assms(3) by (cases ps) (auto simp: of_segments_def)
  have noslash: "\<forall>s \<in> set ps. CHR ''/'' \<notin> set s" "\<forall>s \<in> set qs. CHR ''/'' \<notin> set s"
    using assms by (auto simp: list_all_iff plain_segment_def)
  have "join ''/'' qs = join ''/'' (ps @ split_on (CHR ''/'') t)"
    using t assms(3) join_split [of "CHR ''/''" t] by (simp add: of_segments_def join_snoc split_on_nonempty)
  then have "split_on (CHR ''/'') (join ''/'' qs) = split_on (CHR ''/'') (join ''/'' (ps @ split_on (CHR ''/'') t))" by simp
  moreover have "\<forall>s \<in> set (ps @ split_on (CHR ''/'') t). CHR ''/'' \<notin> set s"
    using noslash(1) split_on_pieces [of "CHR ''/''" t] by auto
  ultimately have "qs = ps @ split_on (CHR ''/'') t"
    using split_join [of qs "CHR ''/''"] split_join [of "ps @ split_on (CHR ''/'') t" "CHR ''/''"] \<open>qs \<noteq> []\<close> assms(3) noslash(2) by simp
  then show "strict_prefix ps qs" using split_on_nonempty by (auto simp: strict_prefix_def)
next
  assume "strict_prefix ps qs"
  then obtain rs where "qs = ps @ rs" "rs \<noteq> []" by (auto simp: strict_prefix_def prefix_def)
  then show "has_prefix (of_segments qs) (of_segments ps @ ''/'')"
    using assms(3) by (auto simp: of_segments_def join_snoc has_prefix_def prefix_def)
qed

end
