(* ===== verification/Run_Wait.thy ===== *)
theory Run_Wait
  imports Run_Child Go_Path
begin

text \<open>
  What surrounds a subagent's spawn (\<open>spawn.go\<close>): the moxin path it inherits, the object
  \<open>spawn\<close> prints, and \<open>spawn --wait\<close>, which reads the agent's verdict back from the journal and
  its ledger from the result spool.
\<close>

section \<open>The moxin path\<close>

definition moxin_dir :: "string \<Rightarrow> string \<Rightarrow> string" where
  "moxin_dir cwd d = path_clean (if path_is_abs d then d else path_join_clean cwd d)"

definition SpawnerMoxinPath :: "string \<Rightarrow> string \<Rightarrow> string" where
  "SpawnerMoxinPath val cwd = join '':'' (map (moxin_dir cwd) (filter (\<lambda>d. d \<noteq> []) (split_list val)))"

section \<open>Launch\<close>

record launch_result =
  la_jid :: string
  la_job :: string
  la_room :: string
  la_moxin_path :: string
  la_parent_moxyfile_digest :: string

definition Launch :: "child_record \<Rightarrow> launch_result" where
  "Launch rec = \<lparr>la_jid = cr_jid rec, la_job = cr_job rec, la_room = cr_room rec, la_moxin_path = cr_moxin_path rec,
     la_parent_moxyfile_digest = cr_parent_moxyfile_digest rec\<rparr>"

section \<open>Waiting for a subagent\<close>

record wait_record =
  wr_jid :: string
  wr_job :: string
  wr_room :: string
  wr_state :: string
  wr_reason :: string
  wr_message :: string
  wr_ledger :: string
  wr_traffic :: string
  wr_artifacts :: "artifact list"
  wr_cannot_complete :: "string option"

definition WaitExitCode :: "wait_record \<Rightarrow> int" where
  "WaitExitCode r = (if \<not> IsTerminalState (wr_state r) then ExitWaitTimeout else ExitCodeForState (wr_state r))"

definition DefaultWaitTimeout :: "toml \<Rightarrow> child_record \<Rightarrow> int \<Rightarrow> int" where
  "DefaultWaitTimeout tm rec grace =
     (let wall = (case tm_duration tm (cr_wall_clock rec) of Inl _ \<Rightarrow> DefaultWallClock | Inr t \<Rightarrow> t)
      in dur (wall + dur (2 * stop_grace grace)))"

definition trafficPathIfExists :: "string \<Rightarrow> 'e world \<Rightarrow> string \<times> 'e world" where
  "trafficPathIfExists path =
     (if path = [] then Pair [] else attempt_or (stat_file path) (\<lambda>_ w. ([], w)) (\<lambda>_ w. (path, w)))"

definition waiting :: "child_record \<Rightarrow> wait_record" where
  "waiting rec = \<lparr>wr_jid = cr_jid rec, wr_job = cr_job rec, wr_room = cr_room rec, wr_state = [], wr_reason = [],
     wr_message = [], wr_ledger = [], wr_traffic = [], wr_artifacts = [], wr_cannot_complete = None\<rparr>"

text \<open>A terminal written by a hook names no ledger; the agent may have left one in the spool.\<close>

definition spool_ledger :: "'e deps \<Rightarrow> child_record \<Rightarrow> 'e world \<Rightarrow> (ledger \<times> string) option \<times> 'e world" where
  "spool_ledger d rec = attempt_or (ext (sv_spool_path d (cr_parent rec) (cr_job rec)))
     (\<lambda>_ w. (None, w))
     (\<lambda>path. attempt_or (readAgentLedger path) (\<lambda>_ w. (None, w))
        (\<lambda>l w. (map_option (\<lambda>x. (x, path)) l, w)))"

definition with_traffic :: "'e deps \<Rightarrow> child_record \<Rightarrow> ledger option \<Rightarrow> wait_record \<Rightarrow> 'e world \<Rightarrow> (wait_record \<times> gerror option) \<times> 'e world" where
  "with_traffic d rec l out w =
     (case trafficPathIfExists (TrafficPath (d_root d) (cr_principal rec) (cr_job rec)) w of (path, w1) \<Rightarrow>
        (let out1 = out\<lparr>wr_traffic := path\<rparr> in
         ((case l of None \<Rightarrow> out1
           | Some x \<Rightarrow> out1\<lparr>wr_artifacts := ArtifactsFromLedger x, wr_cannot_complete := l_cannot_complete x\<rparr>, None), w1)))"

definition read_verdict :: "'e deps \<Rightarrow> child_record \<Rightarrow> job_record \<Rightarrow> 'e world \<Rightarrow> (wait_record \<times> gerror option) \<times> 'e world" where
  "read_verdict d rec term =
     (let out = (waiting rec)\<lparr>wr_state := jr_type term, wr_message := jr_message term, wr_ledger := jr_result_ref term,
                   wr_reason := ExitReasonFor (jr_type term) (jr_message term)\<rparr> in
      attempt_or (readAgentLedger (wr_ledger out)) (\<lambda>e w. ((out, Some e), w)) (\<lambda>l w.
        if l = None \<and> wr_ledger out = [] then
          (case spool_ledger d rec w of
             (None, w1) \<Rightarrow> with_traffic d rec None out w1
           | (Some (x, path), w1) \<Rightarrow> with_traffic d rec (Some x) (out\<lparr>wr_ledger := path\<rparr>) w1)
        else with_traffic d rec l out w))"

text \<open>A job with no terminal after the wait: an error of the wait itself, or still running.\<close>

definition no_verdict :: "child_record \<Rightarrow> gerror option \<Rightarrow> bool \<Rightarrow> 'e world \<Rightarrow> (wait_record \<times> gerror option) \<times> 'e world" where
  "no_verdict rec waitErr timedOut = Pair (case waitErr of
      Some e \<Rightarrow> if timedOut then ((waiting rec)\<lparr>wr_state := StateRunning\<rparr>, None)
                else (waiting rec, Some (ErrWrap (''waiting for '' @ cr_job rec @ '': '') e []))
    | None \<Rightarrow> ((waiting rec)\<lparr>wr_state := StateRunning\<rparr>, None))"

text \<open>The journal after the wait; only a wait that used up its timeout cancels the job.\<close>

definition wait_journal :: "'e deps \<Rightarrow> child_record \<Rightarrow> int \<Rightarrow> gerror option \<Rightarrow> bool \<Rightarrow> job_record list \<Rightarrow>
    'e world \<Rightarrow> (wait_record \<times> gerror option) \<times> 'e world" where
  "wait_journal d rec grace waitErr timedOut recs =
     (if recs = [] then Pair (waiting rec,
          Some (ErrMsg (''job '' @ cr_job rec @ '' has no journal on '' @ cr_parent rec @ [CHR 0x27] @ ''s channel'')))
      else case TerminalRecord recs of
        Some term \<Rightarrow> read_verdict d rec term
      | None \<Rightarrow>
          if \<not> timedOut then no_verdict rec waitErr timedOut
          else attempt_or (requestStop d (cr_parent rec) (cr_job rec) ''juggler spawn --wait timed out'' grace)
            (\<lambda>e w. ((waiting rec, Some e), w))
            (\<lambda>(recs1, _). case TerminalRecord recs1 of
               Some term \<Rightarrow> read_verdict d rec term | None \<Rightarrow> no_verdict rec waitErr timedOut))"

definition WaitChild :: "'e deps \<Rightarrow> child_record \<Rightarrow> int \<Rightarrow> int \<Rightarrow> 'e world \<Rightarrow> (wait_record \<times> gerror option) \<times> 'e world" where
  "WaitChild d rec timeout grace w =
     (case ext (sv_clock d) w of (start, w1) \<Rightarrow>
      observe (ext (sv_wait_terminal d (cr_parent rec) (cr_job rec) timeout)) (\<lambda>waitErr w2.
        case ext (sv_clock d) w2 of (now, w3) \<Rightarrow>
          attempt_or (ext (sv_records d (cr_parent rec) (cr_job rec)))
            (\<lambda>e w. ((waiting rec, Some (ErrWrap (''reading '' @ cr_job rec @ '': '') e [])), w))
            (wait_journal d rec grace waitErr (timeout > 0 \<and> now - start \<ge> timeout)) w3) w1)"

end
