(* ===== verification/Run_Triples.thy ===== *)
theory Run_Triples
  imports Run_Clean Run_Wait
begin

text \<open>
  Triples over juggler's own files: \<open>runs P m Q\<close> says that \<open>m\<close>, started with files that
  satisfy \<open>P\<close>, ends with a result and files that satisfy \<open>Q\<close>, whatever the outside does. One
  rule per combinator (collection \<open>runs_intros\<close>), and what each file operation does.
\<close>

type_synonym files = "(string \<times> content) list"

definition runs :: "(files \<Rightarrow> bool) \<Rightarrow> ('e world \<Rightarrow> 'r \<times> 'e world) \<Rightarrow> ('r \<Rightarrow> files \<Rightarrow> bool) \<Rightarrow> bool" where
  "runs P m Q \<longleftrightarrow> (\<forall>w. P (w_files w) \<longrightarrow> Q (fst (m w)) (w_files (snd (m w))))"

text \<open>A postcondition for values and one for errors.\<close>

definition either :: "('a \<Rightarrow> files \<Rightarrow> bool) \<Rightarrow> (files \<Rightarrow> bool) \<Rightarrow> gerror + 'a \<Rightarrow> files \<Rightarrow> bool" where
  "either Q E r fs = (case r of Inl e \<Rightarrow> E fs | Inr x \<Rightarrow> Q x fs)"

lemma either_simps [simp]: "either Q E (Inl e) = E" "either Q E (Inr x) = Q x"
  by (simp_all add: either_def fun_eq_iff)

named_theorems runs_intros

section \<open>Rules\<close>

lemma runsD: "runs P m Q \<Longrightarrow> P (w_files w) \<Longrightarrow> m w = (r, w') \<Longrightarrow> Q r (w_files w')"
  by (metis runs_def fst_conv snd_conv)

lemma runsI: "(\<And>w r w'. P (w_files w) \<Longrightarrow> m w = (r, w') \<Longrightarrow> Q r (w_files w')) \<Longrightarrow> runs P m Q"
  by (metis runs_def prod.collapse)

lemma runs_weaken:
  "runs P m Q \<Longrightarrow> (\<And>r fs. Q r fs \<Longrightarrow> Q' r fs) \<Longrightarrow> runs P m Q'"
  by (auto simp: runs_def)

lemma runs_pre: "(\<And>fs. P' fs \<Longrightarrow> P fs) \<Longrightarrow> runs P m Q \<Longrightarrow> runs P' m Q"
  by (auto simp: runs_def)

lemma runs_conseq:
  "runs P m Q \<Longrightarrow> (\<And>fs. P' fs \<Longrightarrow> P fs) \<Longrightarrow> (\<And>r fs. Q r fs \<Longrightarrow> Q' r fs) \<Longrightarrow> runs P' m Q'"
  by (auto simp: runs_def)

lemma runs_ex: "(\<And>x. runs (P x) m Q) \<Longrightarrow> runs (\<lambda>fs. \<exists>x. P x fs) m Q"
  by (auto simp: runs_def)

lemma runs_assume: "(b \<Longrightarrow> runs P m Q) \<Longrightarrow> runs (\<lambda>fs. b \<and> P fs) m Q"
  by (auto simp: runs_def)

lemma runs_fail: "(\<And>fs. P fs \<Longrightarrow> Q (Inl e) fs) \<Longrightarrow> runs P (fail e) Q"
  by (simp add: runs_def)

lemma runs_ret: "(\<And>fs. P fs \<Longrightarrow> Q (Inr x) fs) \<Longrightarrow> runs P (ret x) Q"
  by (simp add: runs_def)

lemma runs_Pair: "(\<And>fs. P fs \<Longrightarrow> Q r fs) \<Longrightarrow> runs P (Pair r) Q"
  by (simp add: runs_def)

lemma runs_value: "(\<And>fs. P fs \<Longrightarrow> Q r fs) \<Longrightarrow> runs P (\<lambda>w. (r, w)) Q"
  by (simp add: runs_def)

lemmas runs_leaf [runs_intros] = runs_fail runs_ret runs_Pair runs_value

lemma runs_attempt_or [runs_intros]:
  assumes "runs P m (either R E)" and "\<And>e. runs E (h e) Q" and "\<And>x. runs (R x) (k x) Q"
  shows "runs P (attempt_or m h k) Q"
proof (rule runsI)
  fix w r w' assume w: "P (w_files w)" and run: "attempt_or m h k w = (r, w')"
  obtain x w1 where m: "m w = (x, w1)" by (cases "m w")
  with w assms(1) have "either R E x (w_files w1)" by (blast dest: runsD)
  with run m assms(2,3) show "Q r (w_files w')"
    by (cases x) (auto simp: attempt_or_def dest: runsD)
qed

lemma runs_attempt [runs_intros]:
  assumes "runs P m (either R (E :: files \<Rightarrow> bool))" and "\<And>e fs. E fs \<Longrightarrow> Q (Inl e) fs" and "\<And>x. runs (R x) (k x) Q"
  shows "runs P (attempt m k) Q"
  unfolding attempt_def by (rule runs_attempt_or [OF assms(1) _ assms(3)]) (simp add: runs_fail assms(2))

lemma runs_observe:
  assumes "runs P m (either (\<lambda>_. R) R)" and "\<And>r. runs R (k r) Q"
  shows "runs P (observe m k) Q"
proof (rule runsI)
  fix w r w' assume "P (w_files w)" and "observe m k w = (r, w')"
  with runsD [OF runs_attempt_or [OF assms(1), of "\<lambda>e. k (Some e)" Q "\<lambda>_. k None"]] assms(2)
  show "Q r (w_files w')" by (simp add: observe_def)
qed

text \<open>A \<open>case\<close> on a pair after a call.\<close>

lemma runs_bind:
  assumes "runs P m R" and "\<And>r. runs (R r) (\<lambda>w. k r w) Q"
  shows "runs P (\<lambda>w. case m w of (r, w1) \<Rightarrow> k r w1) Q"
  using assms by (auto simp: runs_def split: prod.split)

lemma runs_bind_pair:
  assumes "runs P m R" and "\<And>a b. runs (R (a, b)) (\<lambda>w. k a b w) Q"
  shows "runs P (\<lambda>w. case m w of ((a, b), w1) \<Rightarrow> k a b w1) Q"
  using assms by (fastforce simp: runs_def split: prod.split)

lemma runs_if [runs_intros]:
  "(b \<Longrightarrow> runs P m Q) \<Longrightarrow> (\<not> b \<Longrightarrow> runs P n Q) \<Longrightarrow> runs P (if b then m else n) Q"
  by simp

lemma runs_option [runs_intros]:
  "(x = None \<Longrightarrow> runs P m Q) \<Longrightarrow> (\<And>y. x = Some y \<Longrightarrow> runs P (f y) Q) \<Longrightarrow> runs P (case x of None \<Rightarrow> m | Some y \<Rightarrow> f y) Q"
  by (cases x) auto

lemma runs_sum [runs_intros]:
  "(\<And>e. x = Inl e \<Longrightarrow> runs P (f e) Q) \<Longrightarrow> (\<And>y. x = Inr y \<Longrightarrow> runs P (g y) Q) \<Longrightarrow> runs P (case x of Inl e \<Rightarrow> f e | Inr y \<Rightarrow> g y) Q"
  by (cases x) auto

lemma runs_prod [runs_intros]:
  "(\<And>a b. x = (a, b) \<Longrightarrow> runs P (f a b) Q) \<Longrightarrow> runs P (case x of (a, b) \<Rightarrow> f a b) Q"
  by (cases x) auto

lemma runs_Let [runs_intros]: "runs P (f a) Q \<Longrightarrow> runs P (Let a f) Q"
  by (simp add: Let_def)

text \<open>The same under the state.\<close>

lemma runs_state:
  "(b \<Longrightarrow> runs P m Q) \<Longrightarrow> (\<not> b \<Longrightarrow> runs P n Q) \<Longrightarrow> runs P (\<lambda>w. if b then m w else n w) Q"
  "(x = None \<Longrightarrow> runs P m Q) \<Longrightarrow> (\<And>y. x = Some y \<Longrightarrow> runs P (f y) Q) \<Longrightarrow> runs P (\<lambda>w. case x of None \<Rightarrow> m w | Some y \<Rightarrow> f y w) Q"
  "(\<And>e. z = Inl e \<Longrightarrow> runs P (g e) Q) \<Longrightarrow> (\<And>y. z = Inr y \<Longrightarrow> runs P (h y) Q) \<Longrightarrow> runs P (\<lambda>w. case z of Inl e \<Rightarrow> g e w | Inr y \<Rightarrow> h y w) Q"
  "(\<And>a c. p = (a, c) \<Longrightarrow> runs P (i a c) Q) \<Longrightarrow> runs P (\<lambda>w. case p of (a, c) \<Rightarrow> i a c w) Q"
  "runs P (j a) Q \<Longrightarrow> runs P (\<lambda>w. Let a (\<lambda>v. j v w)) Q"
  by (cases b; cases x; cases z; cases p; simp)+

lemma runs_with_now [runs_intros]: "(\<And>t. runs P (k t) Q) \<Longrightarrow> runs P (with_now d k) Q"
  by (fastforce simp: runs_def with_now_def ext_def split: prod.split)

text \<open>An operation that leaves the files alone keeps any property of them.\<close>

definition reads :: "('e world \<Rightarrow> 'r \<times> 'e world) \<Rightarrow> bool" where
  "reads m \<longleftrightarrow> (\<forall>P. keeps (on_files P) m)"

lemma reads_iff: "reads m \<longleftrightarrow> (\<forall>w. w_files (snd (m w)) = w_files w)"
proof
  assume m: "reads m"
  have "keeps (on_files (\<lambda>fs. fs = w_files w)) m" for w using m by (simp add: reads_def)
  then show "\<forall>w. w_files (snd (m w)) = w_files w" by (fastforce simp: keeps_def on_files_def)
qed (simp add: reads_def keeps_def on_files_def)

lemma reads_files: "reads m \<Longrightarrow> m w = (r, w') \<Longrightarrow> w_files w' = w_files w"
  by (metis reads_iff snd_conv)

lemma runs_reads: "reads m \<Longrightarrow> (\<And>r fs. P fs \<Longrightarrow> Q r fs) \<Longrightarrow> runs P m Q"
  by (simp add: runs_def reads_iff)

lemma reads_keeps: "(\<And>P. keeps (on_files P) m) \<Longrightarrow> reads m"
  by (simp add: reads_def)

lemmas reading = reads_keeps [OF keeps_ext] reads_keeps [OF keeps_may_fail] reads_keeps [OF keeps_lock] reads_keeps [OF keeps_read_file]
  reads_keeps [OF keeps_stat_file] reads_keeps [OF keeps_store_runs] reads_keeps [OF keeps_runChildren] reads_keeps [OF keeps_findRun]
  reads_keeps [OF keeps_LoadChild] reads_keeps [OF keeps_FindRunByJob] reads_keeps [OF keeps_FindRunByRoom]
  reads_keeps [OF keeps_CredentialPath] reads_keeps [OF keeps_requestStop] reads_keeps [OF keeps_systemd] reads_keeps [OF keeps_writeSpool]

lemma reads_or: "reads m \<Longrightarrow> (\<And>e. runs P (h e) Q) \<Longrightarrow> (\<And>x. runs P (k x) Q) \<Longrightarrow> runs P (attempt_or m h k) Q"
  by (rule runs_attempt_or [of P m "\<lambda>_. P" "P"]) (auto intro!: runs_reads simp: either_def split: sum.split)

lemma reads_attempt:
  "reads m \<Longrightarrow> (\<And>e fs. P fs \<Longrightarrow> Q (Inl e) fs) \<Longrightarrow> (\<And>x. runs P (k x) Q) \<Longrightarrow> runs P (attempt m k) Q"
  unfolding attempt_def by (rule reads_or) (auto intro: runs_fail)

lemma reads_observe: "reads m \<Longrightarrow> (\<And>r. runs P (k r) Q) \<Longrightarrow> runs P (observe m k) Q"
  by (rule runs_observe [of P m P]) (auto intro!: runs_reads simp: either_def split: sum.split)

lemma reads_bind: "reads m \<Longrightarrow> (\<And>r. runs P (\<lambda>w. k r w) Q) \<Longrightarrow> runs P (\<lambda>w. case m w of (r, w1) \<Rightarrow> k r w1) Q"
  by (rule runs_bind [of P m "\<lambda>_. P"]) (auto intro!: runs_reads)

text \<open>Reads before a continuation; the loads of records have rules of their own.\<close>

lemmas follow_reads = reading [THEN reads_or] reading [THEN reads_attempt] reading [THEN reads_observe]

text \<open>The shape of a read: any postcondition that follows from the precondition.\<close>

lemma runs_read_either: "reads m \<Longrightarrow> runs P m (either (\<lambda>_. P) P)"
  by (rule runs_reads) (auto simp: either_def split: sum.split)

section \<open>Files\<close>

lemma runs_write:
  "(\<And>fs. P fs \<Longrightarrow> R (alist_put path c fs)) \<Longrightarrow> (\<And>fs. P fs \<Longrightarrow> E fs) \<Longrightarrow>
     runs P (writeFileAtomic path c) (either (\<lambda>_. R) E)"
  by (auto simp: runs_def writeFileAtomic_def attempt_def attempt_or_def may_fail_def fail_def split: list.split option.split)

lemma runs_remove:
  "(\<And>fs. P fs \<Longrightarrow> R (remove_path path fs)) \<Longrightarrow> (\<And>fs. P fs \<Longrightarrow> R fs) \<Longrightarrow> runs P (removeIfExists path) (\<lambda>_. R)"
  by (auto simp: runs_def removeIfExists_def remove_file_def attempt_def attempt_or_def may_fail_def fail_def ret_def
      split: list.split option.split)

lemma runs_mint:
  "(\<And>r s e e' fs. sv_mint d key pw e = ((r, Some s), e') \<Longrightarrow> P fs \<Longrightarrow> Q r (alist_put pw (TextFile s) fs)) \<Longrightarrow>
   (\<And>r e e' fs. sv_mint d key pw e = ((r, None), e') \<Longrightarrow> P fs \<Longrightarrow> Q r fs) \<Longrightarrow> runs P (mint d key pw) Q"
  by (auto simp: runs_def mint_def ext_def split: prod.splits option.splits)

text \<open>What a load finds is what the files hold.\<close>

lemma runs_readJSONFile:
  "runs P (readJSONFile sel path) (either (\<lambda>x fs. P fs \<and>
     (case x of None \<Rightarrow> map_of fs path = None | Some v \<Rightarrow> \<exists>c. map_of fs path = Some c \<and> sel c = Some v)) P)"
  by (auto simp: runs_def readJSONFile_def read_file_def attempt_def attempt_or_def may_fail_def fail_def ret_def either_def
      is_not_exist_def not_exist_def split: list.split option.split)

end
