(* ===== verification/Run_Machine.thy ===== *)
theory Run_Machine
  imports Run_Triples
begin

text \<open>
  The life of one run key, seen from juggler's files: its run record and its ledger.
  \<open>run_step\<close> is the specification, one rule per write juggler may make to either file;
  \<open>tracks\<close> says that the files follow it. \<open>wf_store\<close> is what every write keeps of the store.
\<close>

section \<open>The abstract machine\<close>

type_synonym run_state = "run_record option \<times> run_ledger option"

definition ledger_of :: "string \<Rightarrow> run_ledger option \<Rightarrow> run_ledger" where
  "ledger_of key lo = (case lo of Some l \<Rightarrow> l | None \<Rightarrow> new_run_ledger key)"

definition open_run :: "run_record \<Rightarrow> bool" where
  "open_run r \<longleftrightarrow> rr_resolved r = None \<and> \<not> rr_pending r \<and> \<not> rr_reaped r"

definition unsettled :: "run_record \<Rightarrow> bool" where
  "unsettled r \<longleftrightarrow> rr_resolved r = None \<and> \<not> rr_reaped r \<and> \<not> rr_torn_down r"

inductive run_step :: "string \<Rightarrow> run_state \<Rightarrow> run_state \<Rightarrow> bool" for key where
  create: "rr_run_key r = key \<Longrightarrow> unsettled r \<Longrightarrow> run_step key (None, lo) (Some r, lo)"
| stamp: "rr_pending r \<Longrightarrow> \<not> rr_reaped r \<Longrightarrow> run_step key (Some r, lo) (Some (r\<lparr>rr_pending_since := t\<rparr>), lo)"
| retry: "rr_pending r \<Longrightarrow> \<not> rr_reaped r \<Longrightarrow> rr_run_key r' = key \<Longrightarrow> unsettled r' \<Longrightarrow>
    rr_root_principal r' = rr_root_principal r \<Longrightarrow> rr_created_at r' = rr_created_at r \<Longrightarrow>
    run_step key (Some r, lo) (Some r', lo)"
| log: "open_run r \<Longrightarrow> rl_resolved (ledger_of key lo) = None \<Longrightarrow>
    run_step key (Some r, lo) (Some r, Some (append_entries [e] (ledger_of key lo)))"
| refuse: "open_run r \<Longrightarrow> re_kind e = ''refusal'' \<Longrightarrow>
    run_step key (Some r, lo) (Some r, Some (append_entries [e] (ledger_of key lo)))"
| account: "\<forall>e \<in> set es. re_tool e = CanaryTool \<or> re_tool e = TeardownTool \<Longrightarrow>
    run_step key (Some r, lo) (Some r, Some (append_entries es (ledger_of key lo)))"
| close: "rr_resolved r = None \<Longrightarrow> rl_resolved (ledger_of key lo) = None \<Longrightarrow>
    rz_state z = StateSucceeded \<or> rz_state z = StateFailed \<Longrightarrow> \<forall>e \<in> set es. re_stopped_by_resolve e \<Longrightarrow>
    run_step key (Some r, lo) (Some r, Some
      ((append_entries (es @ [FallbackEntry (rz_state z) (rz_reason z) arts]) (ledger_of key lo))\<lparr>rl_resolved := Some z\<rparr>))"
| resolve: "rr_resolved r = None \<Longrightarrow> rl_resolved l = Some z \<Longrightarrow>
    run_step key (Some r, Some l) (Some (r\<lparr>rr_resolved := Some z\<rparr>), Some l)"
| tear: "rr_resolved r \<noteq> None \<Longrightarrow> \<not> rr_torn_down r \<Longrightarrow>
    b \<longrightarrow> rr_root_principal r \<in> set (gone_principals (ledger_of key lo)) \<Longrightarrow>
    run_step key (Some r, lo) (Some (r\<lparr>rr_torn_down := b\<rparr>), lo)"
| reap: "rr_pending r \<Longrightarrow> run_step key (Some r, lo) (Some (tombstone now r), lo)"

abbreviation run_steps :: "string \<Rightarrow> run_state \<Rightarrow> run_state \<Rightarrow> bool" where
  "run_steps key \<equiv> (run_step key)\<^sup>*\<^sup>*"

inductive_cases run_stepE: "run_step key (ro, lo) s'"

section \<open>The files of a run key\<close>

definition run_at :: "string \<Rightarrow> string \<Rightarrow> files \<Rightarrow> run_record option" where
  "run_at root k fs = Option.bind (map_of fs (runPath root k)) as_run"

definition ledger_at :: "string \<Rightarrow> string \<Rightarrow> files \<Rightarrow> run_ledger option" where
  "ledger_at root k fs = Option.bind (map_of fs (RunLedgerPath root k)) as_ledger"

definition run_state_at :: "string \<Rightarrow> string \<Rightarrow> files \<Rightarrow> run_state" where
  "run_state_at root k fs = (run_at root k fs, ledger_at root k fs)"

text \<open>Credential files are named \<open>*.pw\<close>, so no revoke ever deletes a record.\<close>

definition pw_ref :: "string \<Rightarrow> bool" where
  "pw_ref p \<longleftrightarrow> p = [] \<or> suffix ''.pw'' p"

definition wf_store :: "string \<Rightarrow> files \<Rightarrow> bool" where
  "wf_store root fs \<longleftrightarrow>
     (\<forall>p r. map_of fs p = Some (RunFile r) \<longrightarrow>
        p = runPath root (rr_run_key r) \<and> idPattern (rr_run_key r) \<and> pw_ref (rr_root_credential_ref r))
     \<and> (\<forall>p c. map_of fs p = Some (ChildFile c) \<longrightarrow> pw_ref (cr_credential_ref c))"

text \<open>What the files of the other components may not be called.\<close>

definition protected :: "string \<Rightarrow> string \<Rightarrow> bool" where
  "protected root p \<longleftrightarrow> (\<exists>k. idPattern k \<and> (p = runPath root k \<or> p = RunLedgerPath root k))"

lemmas path_defs = path_join_def runsDir_def runPath_def runDir_def RunLedgerPath_def childrenDir_def childPath_def
  stagedBriefPath_def stagedParentMoxyfilePath_def stagedChildMoxyfilePath_def wakeMarkerPath_def canaryMarkerPath_def TrafficPath_def

lemma id_no_slash: "idPattern k \<Longrightarrow> CHR ''/'' \<notin> set k"
proof
  assume k: "idPattern k" and "CHR ''/'' \<in> set k"
  then have "id_char (CHR ''/'') \<or> id_start (CHR ''/'')" by (auto simp: idPattern_def list_all_iff split: list.splits)
  then show False by (simp add: id_char_def id_start_def is_alnum_def is_upper_code is_lower_code is_digit_code)
qed

lemma protected_shape:
  assumes "protected root p"
  obtains q where "p = root @ ''/runs/'' @ q @ ''.json''" and "count_list q (CHR ''/'') \<le> 1"
proof -
  from assms obtain k where k: "idPattern k" and p: "p = runPath root k \<or> p = RunLedgerPath root k"
    by (auto simp: protected_def)
  have "count_list k (CHR ''/'') = 0" using id_no_slash [OF k] by (simp add: count_list_0_iff)
  then show ?thesis using p that [of k] that [of "k @ ''/ledger''"] by (auto simp: path_defs)
qed

text \<open>A protected path ends in \<open>.json\<close> and has at most one slash below the runs directory.\<close>

lemma not_protected_suffix: "last p \<noteq> CHR ''n'' \<Longrightarrow> \<not> protected root p"
  by (auto elim!: protected_shape)

lemma not_protected_outside: "\<not> has_prefix p (root @ ''/runs/'') \<Longrightarrow> \<not> protected root p"
  by (auto elim!: protected_shape simp: has_prefix_def)

lemma not_protected_deep: "1 < count_list q (CHR ''/'') \<Longrightarrow> \<not> protected root (root @ ''/runs/'' @ q)"
  by (auto elim!: protected_shape)

lemma pw_not_protected: "pw_ref p \<Longrightarrow> \<not> protected root p"
proof (cases "p = []")
  case True
  then show ?thesis by (auto elim!: protected_shape)
next
  case False
  moreover assume "pw_ref p"
  ultimately show ?thesis by (intro not_protected_suffix) (auto simp: pw_ref_def suffix_def)
qed

lemma not_protected_paths [simp]:
  "\<not> protected root (childPath root k digest)" "\<not> protected root (stagedBriefPath root k digest)"
  "\<not> protected root (stagedParentMoxyfilePath root k digest)" "\<not> protected root (stagedChildMoxyfilePath root k digest)"
  "\<not> protected root (wakeMarkerPath root job)" "\<not> protected root (TrafficPath root pr job)"
  "\<not> protected root (canaryMarkerPath root k)" "\<not> protected root (path_join (runDir root k) (pr @ ''.pw''))"
proof -
  have deep: "\<not> protected root (childrenDir root k @ ''/'' @ n)" for n
    using not_protected_deep [of "k @ ''/children/'' @ n" root] by (simp add: path_defs)
  show "\<not> protected root (childPath root k digest)" "\<not> protected root (stagedBriefPath root k digest)"
    "\<not> protected root (stagedParentMoxyfilePath root k digest)" "\<not> protected root (stagedChildMoxyfilePath root k digest)"
    using deep by (simp_all add: childPath_def stagedBriefPath_def stagedParentMoxyfilePath_def stagedChildMoxyfilePath_def path_join_def)
  show "\<not> protected root (wakeMarkerPath root job)" "\<not> protected root (TrafficPath root pr job)"
    by (rule not_protected_outside; simp add: path_defs has_prefix_def)+
  show "\<not> protected root (canaryMarkerPath root k)"
    by (rule not_protected_suffix) (simp add: path_defs)
  show "\<not> protected root (path_join (runDir root k) (pr @ ''.pw''))"
    by (rule pw_not_protected) (simp add: pw_ref_def path_join_def suffix_def)
qed

lemma protected_paths [simp]:
  "idPattern k \<Longrightarrow> protected root (runPath root k)" "idPattern k \<Longrightarrow> protected root (RunLedgerPath root k)"
  by (auto simp: protected_def)

lemma runPath_eq [simp]: "runPath root k = runPath root k' \<longleftrightarrow> k = k'"
  by (simp add: path_defs)

lemma ledgerPath_eq [simp]: "RunLedgerPath root k = RunLedgerPath root k' \<longleftrightarrow> k = k'"
  by (simp add: path_defs)

lemma run_not_ledger [simp]:
  assumes "idPattern k"
  shows "runPath root k \<noteq> RunLedgerPath root k'" and "RunLedgerPath root k' \<noteq> runPath root k"
proof -
  have "CHR ''/'' \<notin> set (k @ ''.json'')" and "CHR ''/'' \<in> set (k' @ ''/ledger.json'')"
    using id_no_slash [OF assms] by simp_all
  then have "k @ ''.json'' \<noteq> k' @ ''/ledger.json''" by force
  then show "runPath root k \<noteq> RunLedgerPath root k'" "RunLedgerPath root k' \<noteq> runPath root k" by (auto simp: path_defs)
qed

section \<open>Following the machine\<close>

text \<open>
  \<open>reached\<close>: the store is well formed and the files of key \<open>K\<close> are where the machine can be
  from \<open>s0\<close>; \<open>tracks\<close>: and the files of the key at hand, \<open>k\<close>, are in the state \<open>s\<close>.
\<close>

definition reached :: "string \<Rightarrow> string \<Rightarrow> run_state \<Rightarrow> files \<Rightarrow> bool" where
  "reached root K s0 fs \<longleftrightarrow> wf_store root fs \<and> run_steps K s0 (run_state_at root K fs)"

definition tracks :: "string \<Rightarrow> string \<Rightarrow> run_state \<Rightarrow> string \<Rightarrow> run_state \<Rightarrow> files \<Rightarrow> bool" where
  "tracks root K s0 k s fs \<longleftrightarrow> idPattern K \<and> idPattern k \<and> reached root K s0 fs \<and> run_state_at root k fs = s"

lemma tracks_reached: "tracks root K s0 k s fs \<Longrightarrow> reached root K s0 fs"
  by (simp add: tracks_def)

lemma as_content [simp]: "as_run (TextFile t) = None" "as_run (ChildFile c) = None" "as_run (RunFile r) = Some r"
  "as_ledger (LedgerFile l) = Some l"
  by (simp_all add: as_run_def as_ledger_def)

text \<open>A file that is not a record of a run.\<close>

definition plain :: "content \<Rightarrow> bool" where
  "plain c \<longleftrightarrow> (case c of TextFile _ \<Rightarrow> True | ChildFile x \<Rightarrow> pw_ref (cr_credential_ref x) | _ \<Rightarrow> False)"

lemma wf_put_plain: "wf_store root fs \<Longrightarrow> plain c \<Longrightarrow> wf_store root (alist_put p c fs)"
  by (auto simp: wf_store_def plain_def split: if_splits)

lemma map_of_remove: "map_of (remove_path p fs) q = (if q = p then None else map_of fs q)"
  by (induction fs) (auto simp: remove_path_def)

lemma wf_remove: "wf_store root fs \<Longrightarrow> wf_store root (remove_path p fs)"
  by (simp add: wf_store_def map_of_remove)

lemma state_unprotected:
  assumes "\<not> protected root p" and "idPattern k"
  shows "run_state_at root k (alist_put p c fs) = run_state_at root k fs"
    and "run_state_at root k (remove_path p fs) = run_state_at root k fs"
proof -
  have "runPath root k \<noteq> p" "RunLedgerPath root k \<noteq> p" using assms protected_paths by metis+
  then show "run_state_at root k (alist_put p c fs) = run_state_at root k fs"
    "run_state_at root k (remove_path p fs) = run_state_at root k fs"
    by (simp_all add: run_state_at_def run_at_def ledger_at_def map_of_remove)
qed

lemma tracks_put_plain: "tracks root K s0 k s fs \<Longrightarrow> \<not> protected root p \<Longrightarrow> plain c \<Longrightarrow> tracks root K s0 k s (alist_put p c fs)"
  by (simp add: tracks_def reached_def wf_put_plain state_unprotected)

lemma tracks_remove: "tracks root K s0 k s fs \<Longrightarrow> \<not> protected root p \<Longrightarrow> tracks root K s0 k s (remove_path p fs)"
  by (simp add: tracks_def reached_def wf_remove state_unprotected)

lemma reached_put_plain: "reached root K s0 fs \<Longrightarrow> idPattern K \<Longrightarrow> \<not> protected root p \<Longrightarrow> plain c \<Longrightarrow> reached root K s0 (alist_put p c fs)"
  by (simp add: reached_def wf_put_plain state_unprotected)

lemma reached_remove: "reached root K s0 fs \<Longrightarrow> idPattern K \<Longrightarrow> \<not> protected root p \<Longrightarrow> reached root K s0 (remove_path p fs)"
  by (simp add: reached_def wf_remove state_unprotected)

text \<open>The two writes the machine is about.\<close>

lemma tracks_put_run:
  assumes "tracks root K s0 k s fs" and "rr_run_key r = k" and "pw_ref (rr_root_credential_ref r)"
    and "run_steps k s (Some r, snd s)"
  shows "tracks root K s0 k (Some r, snd s) (alist_put (runPath root k) (RunFile r) fs)"
proof -
  let ?fs = "alist_put (runPath root k) (RunFile r) fs"
  have k: "idPattern k" and K: "idPattern K" and s: "run_state_at root k fs = s" and R: "reached root K s0 fs"
    using assms(1) by (simp_all add: tracks_def)
  have wf: "wf_store root ?fs"
    using R assms(2,3) k by (auto simp: reached_def wf_store_def split: if_splits)
  have at: "run_state_at root k ?fs = (Some r, snd s)"
    using s k by (auto simp: run_state_at_def run_at_def ledger_at_def)
  have "run_steps K s0 (run_state_at root K ?fs)"
  proof (cases "K = k")
    case True
    with R s assms(4) at show ?thesis by (auto simp: reached_def elim: rtranclp_trans)
  next
    case False
    then have "run_state_at root K ?fs = run_state_at root K fs"
      using k by (simp add: run_state_at_def run_at_def ledger_at_def)
    with R show ?thesis by (simp add: reached_def)
  qed
  with wf at k K show ?thesis by (simp add: tracks_def reached_def)
qed

lemma tracks_put_ledger:
  assumes "tracks root K s0 k s fs" and "run_steps k s (fst s, Some l)"
  shows "tracks root K s0 k (fst s, Some l) (alist_put (RunLedgerPath root k) (LedgerFile l) fs)"
proof -
  let ?fs = "alist_put (RunLedgerPath root k) (LedgerFile l) fs"
  have k: "idPattern k" and K: "idPattern K" and s: "run_state_at root k fs = s" and R: "reached root K s0 fs"
    using assms(1) by (simp_all add: tracks_def)
  have wf: "wf_store root ?fs"
    using R by (auto simp: reached_def wf_store_def split: if_splits)
  have at: "run_state_at root k ?fs = (fst s, Some l)"
    using s k by (auto simp: run_state_at_def run_at_def ledger_at_def)
  have "run_steps K s0 (run_state_at root K ?fs)"
  proof (cases "K = k")
    case True
    with R s assms(2) at show ?thesis by (auto simp: reached_def elim: rtranclp_trans)
  next
    case False
    then have "run_state_at root K ?fs = run_state_at root K fs"
      using K by (simp add: run_state_at_def run_at_def ledger_at_def)
    with R show ?thesis by (simp add: reached_def)
  qed
  with wf at k K show ?thesis by (simp add: tracks_def reached_def)
qed

end
