(* ===== verification/Run_Follow.thy ===== *)
theory Run_Follow
  imports Run_Machine
begin

text \<open>
  The verbs follow the machine, function by function: each lemma says in which state of the
  run key at hand a function leaves the files when it starts from a given one.
\<close>

section \<open>The store\<close>

lemma runs_SaveRun:
  assumes "rr_run_key r = k" and "pw_ref (rr_root_credential_ref r)" and "run_steps k s (Some r, snd s)"
  shows "runs (tracks root K s0 k s) (SaveRun root r) (either (\<lambda>_. tracks root K s0 k (Some r, snd s)) (tracks root K s0 k s))"
  unfolding SaveRun_def assms(1) by (rule runs_write) (simp_all add: tracks_put_run assms)

lemma runs_writeRunLedger:
  assumes "run_steps k s (fst s, Some l)"
  shows "runs (tracks root K s0 k s) (writeRunLedger root k l) (either (\<lambda>_. tracks root K s0 k (fst s, Some l)) (tracks root K s0 k s))"
  unfolding writeRunLedger_def by (rule runs_write) (simp_all add: tracks_put_ledger assms)

text \<open>The record a key's file holds.\<close>

definition sound_run :: "string \<Rightarrow> run_record \<Rightarrow> bool" where
  "sound_run k r \<longleftrightarrow> rr_run_key r = k \<and> idPattern k \<and> pw_ref (rr_root_credential_ref r)"

lemma wf_run: "wf_store root fs \<Longrightarrow> map_of fs (runPath root k) = Some (RunFile r) \<Longrightarrow> sound_run k r"
proof -
  assume "wf_store root fs" and "map_of fs (runPath root k) = Some (RunFile r)"
  then have "runPath root k = runPath root (rr_run_key r)" and "idPattern (rr_run_key r)" and "pw_ref (rr_root_credential_ref r)"
    unfolding wf_store_def by blast+
  then show ?thesis by (simp add: sound_run_def)
qed

lemma as_run_Some [simp]: "as_run c = Some r \<longleftrightarrow> c = RunFile r"
  by (cases c) (auto simp: as_run_def)

lemma as_ledger_Some [simp]: "as_ledger c = Some l \<longleftrightarrow> c = LedgerFile l"
  by (cases c) (auto simp: as_ledger_def)

lemma as_child_Some [simp]: "as_child c = Some l \<longleftrightarrow> c = ChildFile l"
  by (cases c) (auto simp: as_child_def)

lemma runs_LoadRun:
  "runs (tracks root K s0 k s) (LoadRun root k)
     (either (\<lambda>x fs. (x = fst s \<and> (\<forall>r. x = Some r \<longrightarrow> sound_run k r)) \<and> tracks root K s0 k s fs) (tracks root K s0 k s))"
  unfolding LoadRun_def
proof (rule runs_conseq [OF runs_readJSONFile], assumption)
  fix r and fs :: files
  let ?T = "tracks root K s0 k s"
  let ?R = "\<lambda>x fs. ?T fs \<and> (case x of None \<Rightarrow> map_of fs (runPath root k) = None
    | Some v \<Rightarrow> \<exists>c. map_of fs (runPath root k) = Some c \<and> as_run c = Some v)"
  assume "either ?R ?T r fs"
  then show "either (\<lambda>x fs. (x = fst s \<and> (\<forall>r. x = Some r \<longrightarrow> sound_run k r)) \<and> ?T fs) ?T r fs"
    by (cases r) (auto simp: tracks_def reached_def run_state_at_def run_at_def dest: wf_run split: option.splits)
qed

lemma runs_loadRunLedger:
  "runs (tracks root K s0 k s) (loadRunLedger root k)
     (either (\<lambda>l fs. l = ledger_of k (snd s) \<and> tracks root K s0 k s fs) (tracks root K s0 k s))"
  unfolding loadRunLedger_def
  by (rule runs_attempt [OF runs_readJSONFile])
     (auto intro!: runs_ret simp: tracks_def run_state_at_def ledger_at_def ledger_of_def split: option.splits)

lemma reached_tracks:
  "reached root K s0 fs \<Longrightarrow> idPattern K \<Longrightarrow> idPattern k \<Longrightarrow> tracks root K s0 k (run_state_at root k fs) fs"
  by (simp add: tracks_def)

text \<open>A list of records read by a glob.\<close>

lemma runs_load_each:
  "runs P (load_each sel ps) (either (\<lambda>xs fs. (\<forall>x \<in> set xs. \<exists>p c. map_of fs p = Some c \<and> sel c = Some x) \<and> P fs) P)"
proof (induction ps arbitrary: P)
  case Nil
  then show ?case by (simp add: runs_def)
next
  case (Cons p ps)
  show ?case
    unfolding load_each.simps
  proof (rule runs_attempt [OF runs_readJSONFile], goal_cases)
    case (2 x)
    show ?case by (rule runs_attempt [OF Cons.IH]) (auto simp: runs_def split: option.splits)
  qed simp
qed

lemma runs_runChildren:
  "runs (tracks root K s0 k s) (runChildren root' key)
     (either (\<lambda>cs fs. (\<forall>c \<in> set cs. pw_ref (cr_credential_ref c)) \<and> tracks root K s0 k s fs) (tracks root K s0 k s))"
proof (rule runsI)
  fix w r w'
  assume w: "tracks root K s0 k s (w_files w)" and run: "runChildren root' key w = (r, w')"
  have "either (\<lambda>xs fs. (\<forall>x \<in> set xs. \<exists>p c. map_of fs p = Some c \<and> as_child c = Some x) \<and> tracks root K s0 k s fs)
      (tracks root K s0 k s) r (w_files w')"
    by (rule runsD [OF runs_load_each [where P = "tracks root K s0 k s"] w])
       (use run in \<open>simp add: runChildren_def\<close>)
  then show "either (\<lambda>cs fs. (\<forall>c \<in> set cs. pw_ref (cr_credential_ref c)) \<and> tracks root K s0 k s fs) (tracks root K s0 k s) r (w_files w')"
    by (cases r) (fastforce simp: tracks_def reached_def wf_store_def)+
qed

text \<open>The runs listed, each where its key says.\<close>

lemma runs_store_runs:
  "runs (reached root K s0) (store_runs root)
     (either (\<lambda>rs fs. (\<forall>r \<in> set rs. sound_run (rr_run_key r) r \<and> run_at root (rr_run_key r) fs = Some r) \<and> reached root K s0 fs) (reached root K s0))"
proof (rule runsI)
  fix w r w'
  assume w: "reached root K s0 (w_files w)" and run: "store_runs root w = (r, w')"
  have "either (\<lambda>xs fs. (\<forall>x \<in> set xs. \<exists>p c. map_of fs p = Some c \<and> as_run c = Some x) \<and> reached root K s0 fs)
      (reached root K s0) r (w_files w')"
    by (rule runsD [OF runs_load_each [where P = "reached root K s0"] w])
       (use run in \<open>simp add: store_runs_def\<close>)
  then show "either (\<lambda>rs fs. (\<forall>r \<in> set rs. sound_run (rr_run_key r) r \<and> run_at root (rr_run_key r) fs = Some r) \<and> reached root K s0 fs)
      (reached root K s0) r (w_files w')"
  proof (cases r)
    case (Inr rs)
    have "sound_run (rr_run_key x) x \<and> run_at root (rr_run_key x) (w_files w') = Some x"
      if "reached root K s0 (w_files w')" and "map_of (w_files w') p = Some (RunFile x)" for x p
    proof -
      from that have wf: "wf_store root (w_files w')" by (simp add: reached_def)
      with that(2) have p: "p = runPath root (rr_run_key x)" unfolding wf_store_def by blast
      show ?thesis using wf_run [OF wf that(2) [unfolded p]] that(2) p by (simp add: run_at_def)
    qed
    then show ?thesis using \<open>either _ _ r _\<close> Inr by fastforce
  qed simp
qed

lemma runs_findRun:
  "runs (reached root K s0) (findRun root match)
     (either (\<lambda>x fs. (\<forall>r. x = Some r \<longrightarrow> sound_run (rr_run_key r) r \<and> match r) \<and> reached root K s0 fs
        \<and> (\<forall>r. x = Some r \<longrightarrow> run_at root (rr_run_key r) fs = Some r)) (reached root K s0))"
  unfolding findRun_def
  by (rule runs_attempt [OF runs_store_runs]) (auto intro!: runs_value simp: ret_def [abs_def] dest!: find_SomeD)

end
