(* ===== verification/Run_Follow_Resolve.thy ===== *)
theory Run_Follow_Resolve
  imports Run_Follow
begin

text \<open>
  \<open>Resolve\<close> follows the machine: it notes the canary, closes the ledger, marks the run
  resolved and records the teardown, in that order, and writes nothing else of the run.
\<close>

section \<open>Ledger and canary\<close>

lemma steps1: "run_step k s s' \<Longrightarrow> run_steps k s s'"
  by blast

text \<open>The states with a given run record.\<close>

definition with_run :: "string \<Rightarrow> string \<Rightarrow> run_state \<Rightarrow> run_record \<Rightarrow> files \<Rightarrow> bool" where
  "with_run root K s0 r fs \<longleftrightarrow> (\<exists>lo. tracks root K s0 (rr_run_key r) (Some r, lo) fs)"

lemma with_runI: "tracks root K s0 (rr_run_key r) (Some r, lo) fs \<Longrightarrow> with_run root K s0 r fs"
  by (auto simp: with_run_def)

lemma with_run_reached: "with_run root K s0 r fs \<Longrightarrow> reached root K s0 fs"
  by (auto simp: with_run_def tracks_reached)

lemma with_run_put_plain: "with_run root K s0 r fs \<Longrightarrow> \<not> protected root p \<Longrightarrow> plain c \<Longrightarrow> with_run root K s0 r (alist_put p c fs)"
  unfolding with_run_def using tracks_put_plain by blast

lemma runs_with_run: "(\<And>lo. runs (tracks root K s0 (rr_run_key r) (Some r, lo)) m Q) \<Longrightarrow> runs (with_run root K s0 r) m Q"
  by (auto simp: runs_def with_run_def)

lemma runs_note_canary:
  "runs (with_run (d_root d) K s0 run) (note_canary d run out i e) (\<lambda>_. with_run (d_root d) K s0 run)"
  unfolding note_canary_def
proof (rule runs_with_run, rule runs_attempt_or [OF runs_loadRunLedger], goal_cases)
  case (2 lo l)
  have "run_steps (rr_run_key run) (Some run, lo) (fst (Some run, lo), Some (append_entries [CanaryEntry (co_room out) i e] l))"
    if "l = ledger_of (rr_run_key run) lo"
    using that by (auto intro!: steps1 run_step.account simp: CanaryEntry_def entry_of_def zero_entry_def)
  then show ?case
    by (intro runs_assume runs_attempt_or [OF runs_writeRunLedger])
       (auto intro!: runs_value with_runI)
qed (auto intro!: runs_value with_runI)

lemma runs_postCanaryOnce:
  "runs (with_run (d_root d) K s0 run) (postCanaryOnce d run room line) (\<lambda>_. with_run (d_root d) K s0 run)"
proof -
  have "reads (recordedCanary (d_root d) (rr_run_key run) room)"
    unfolding recordedCanary_def by (intro reads_keeps keeps_attempt_or keeps_read_file) (auto simp: keeps_def)
  moreover have "runs (with_run (d_root d) K s0 run) (writeFileAtomic (canaryMarkerPath (d_root d) (rr_run_key run)) (TextFile t))
      (either (\<lambda>_. with_run (d_root d) K s0 run) (with_run (d_root d) K s0 run))" for t
    by (rule runs_write) (simp_all add: with_run_put_plain plain_def)
  ultimately show ?thesis
    unfolding postCanaryOnce_def [abs_def]
    by (intro reads_bind runs_prod runs_state runs_value follow_reads runs_Let runs_note_canary)
       (auto intro!: runs_attempt_or runs_value runs_note_canary)
qed

section \<open>Wakes\<close>

lemma reads_send_each: "reads (send_each d b text hs)"
proof (induction hs)
  case (Cons h hs)
  then show ?case by (auto simp: reads_iff split: prod.splits sum.splits dest: ext_files) (metis ext_files snd_conv)+
qed (simp add: reads_iff)

lemma runs_sendExitWakes:
  "runs (tracks (d_root d) K s0 k s) (sendExitWakes d b) (\<lambda>_. tracks (d_root d) K s0 k s)"
  unfolding sendExitWakes_def Let_def
  by (intro follow_reads runs_if runs_value reads_bind [OF reads_send_each] runs_state runs_with_now
        runs_attempt_or [OF runs_write [where E = "tracks (d_root d) K s0 k s"]] runs_prod)
     (auto intro!: runs_value tracks_put_plain simp: plain_def)

section \<open>Closing the ledger\<close>

definition stop_entry :: "run_entry option \<Rightarrow> bool" where
  "stop_entry r \<longleftrightarrow> (\<forall>e. r = Some e \<longrightarrow> re_stopped_by_resolve e)"

definition stopper_ok :: "stopper \<Rightarrow> bool" where
  "stopper_ok g \<longleftrightarrow> (\<forall>r. g = StopDone r \<longrightarrow> stop_entry r)"

lemma stop_step_ok: "stopper_ok g \<Longrightarrow> stop_step d grace g w = (g', w') \<Longrightarrow> stopper_ok g' \<and> w_files w' = w_files w"
  by (cases g) (auto simp: stop_step_def stopper_ok_def stop_entry_def attempt_or_def observe_def ChildStopEntry_def
      ChildStopFailureEntry_def split: prod.splits sum.splits if_splits dest: ext_files)

lemma run_schedule_ok:
  "list_all stopper_ok gs \<Longrightarrow> run_schedule d grace sched gs w = (gs', w') \<Longrightarrow> list_all stopper_ok gs' \<and> w_files w' = w_files w"
proof (induction sched arbitrary: gs w)
  case (Cons i sched)
  show ?case
  proof (cases "i < length gs")
    case True
    obtain g w1 where g: "stop_step d grace (gs ! i) w = (g, w1)" by (cases "stop_step d grace (gs ! i) w")
    have ok: "stopper_ok g \<and> w_files w1 = w_files w"
      using stop_step_ok [OF _ g] Cons.prems(1) True by (simp add: list_all_length)
    then have "list_all stopper_ok (gs[i := g])"
      using Cons.prems(1) by (cases "i < length gs") (auto simp: list_all_iff dest!: set_update_subset_insert [THEN subsetD])
    from Cons.IH [OF this] Cons.prems(2) True g ok show ?thesis by simp
  qed (use Cons in simp)
qed simp

lemma finish_each_ok:
  "list_all stopper_ok gs \<Longrightarrow> finish_each d grace gs w = (es, w') \<Longrightarrow> list_all stop_entry es \<and> w_files w' = w_files w"
proof (induction gs arbitrary: es w w')
  case (Cons g gs)
  obtain g1 w1 where 1: "stop_step d grace g w = (g1, w1)" by (cases "stop_step d grace g w")
  obtain g2 w2 where 2: "stop_step d grace g1 w1 = (g2, w2)" by (cases "stop_step d grace g1 w1")
  obtain g3 w3 where 3: "stop_step d grace g2 w2 = (g3, w3)" by (cases "stop_step d grace g2 w2")
  obtain g4 w4 where 4: "stop_step d grace g3 w3 = (g4, w4)" by (cases "stop_step d grace g3 w3")
  have ok: "stopper_ok g4 \<and> w_files w4 = w_files w"
    using stop_step_ok [OF _ 1] stop_step_ok [OF _ 2] stop_step_ok [OF _ 3] stop_step_ok [OF _ 4] Cons.prems(1) by simp
  obtain es' w5 where 5: "finish_each d grace gs w4 = (es', w5)" by (cases "finish_each d grace gs w4")
  have "list_all stop_entry es' \<and> w_files w5 = w_files w4" using Cons.IH [OF _ 5] Cons.prems(1) by simp
  moreover have "stop_entry (case g4 of StopDone r \<Rightarrow> r | _ \<Rightarrow> None)"
    using ok by (cases g4) (auto simp: stopper_ok_def stop_entry_def)
  ultimately show ?case using ok Cons.prems(2) 1 2 3 4 5 by auto
qed simp

lemma runs_stopLiveChildren:
  "runs P (stopLiveChildren d sched key grace) (either (\<lambda>es fs. (\<forall>e \<in> set es. re_stopped_by_resolve e) \<and> P fs) P)"
  unfolding stopLiveChildren_def
proof (rule runs_attempt [OF runs_read_either [OF reads_keeps [OF keeps_runChildren]]], goal_cases)
  case (2 cs)
  show ?case
  proof (rule runsI)
    fix w w' and r :: "gerror + run_entry list" assume w: "P (w_files w)"
      and run: "(case run_schedule d grace sched (map StopStart cs) w of (gs, w1) \<Rightarrow> case finish_each d grace gs w1 of
        (es, w2) \<Rightarrow> (Inr (concat (map (\<lambda>e. case e of Some x \<Rightarrow> [x] | None \<Rightarrow> []) es)), w2)) = (r, w')"
    obtain gs w1 where gs: "run_schedule d grace sched (map StopStart cs) w = (gs, w1)" by (cases "run_schedule d grace sched (map StopStart cs) w")
    obtain es w2 where es: "finish_each d grace gs w1 = (es, w2)" by (cases "finish_each d grace gs w1")
    have "list_all stopper_ok gs \<and> w_files w1 = w_files w"
      by (rule run_schedule_ok [OF _ gs]) (simp add: list_all_length stopper_ok_def)
    with finish_each_ok [OF _ es] have "list_all stop_entry es \<and> w_files w2 = w_files w" by simp
    with w run gs es show "either (\<lambda>es fs. (\<forall>e \<in> set es. re_stopped_by_resolve e) \<and> P fs) P r (w_files w')"
      by (auto simp: list_all_iff stop_entry_def split: option.splits)
  qed
qed simp

lemma runs_persistLedger:
  assumes "rr_run_key run = k" and "run_steps k s (fst s, Some l)"
  shows "runs (tracks (d_root d) K s0 k s) (persistLedger d run l)
    (either (\<lambda>_. tracks (d_root d) K s0 k (fst s, Some l)) (tracks (d_root d) K s0 k s))"
  unfolding persistLedger_def assms(1)
  by (intro runs_attempt_or [OF runs_writeRunLedger [OF assms(2)]] follow_reads) (auto intro: runs_fail runs_ret runs_value)

text \<open>The ledger \<open>closeLedger\<close> returns is one the machine can reach by closing, or is closed already.\<close>

lemma runs_closeLedger:
  assumes "rr_run_key run = k" and "rr_resolved run = None" and "rq_state req = StateSucceeded \<or> rq_state req = StateFailed"
  shows "runs (tracks (d_root d) K s0 k (Some run, lo)) (closeLedger d sched run req)
    (either (\<lambda>l fs. (rl_resolved l \<noteq> None \<and> run_steps k (Some run, lo) (Some run, Some l)) \<and> tracks (d_root d) K s0 k (Some run, lo) fs)
       (tracks (d_root d) K s0 k (Some run, lo)))"
  unfolding closeLedger_def assms(1)
proof (rule runs_attempt [OF runs_loadRunLedger], goal_cases)
  case (2 l)
  show ?case
  proof (rule runs_assume, rule runs_if, goal_cases)
    case 1
    then have "lo = Some l" by (cases lo) (auto simp: ledger_of_def new_run_ledger_def)
    with 1 show ?case by (auto intro!: runs_ret)
  next
    case 2
    show ?case
    proof (rule runs_attempt [OF runs_stopLiveChildren], goal_cases)
      case (2 stops)
      have close: "run_steps k (Some run, lo) (Some run, Some ((append_entries (stops @ [FallbackEntry (rq_state req) (rq_reason req)
          (rq_fallback_artifacts req)]) l)\<lparr>rl_resolved := Some \<lparr>rz_state = rq_state req, rz_reason = rq_reason req, rz_at = now\<rparr>\<rparr>))"
        if "\<forall>e \<in> set stops. re_stopped_by_resolve e" for now
        using \<open>\<not> rl_resolved l \<noteq> None\<close> \<open>l = _\<close> assms(2,3) that
          run_step.close [of run k lo "\<lparr>rz_state = rq_state req, rz_reason = rq_reason req, rz_at = now\<rparr>" stops "rq_fallback_artifacts req"]
        by (auto intro!: steps1)
      show ?case by (rule runs_assume) (auto intro!: runs_with_now runs_ret dest: close)
    qed simp
  qed
qed simp

lemma reads_terminal_of_run: "reads (terminal_of_run d run st m ref)"
  unfolding terminal_of_run_def
  by (rule reads_keeps) (intro keeps_observe keeps_ext keeps_attempt_or keeps_fail keeps_option keeps_ret)

text \<open>After the terminal record the run record follows the closed ledger.\<close>

definition announced :: "string \<Rightarrow> string \<Rightarrow> run_state \<Rightarrow> run_record \<Rightarrow> resolution \<Rightarrow> resolve_outcome \<times> (run_record + gerror) \<Rightarrow> files \<Rightarrow> bool" where
  "announced root K s0 run z r fs \<longleftrightarrow> (case snd r of
      Inl run1 \<Rightarrow> run1 = run\<lparr>rr_resolved := Some z\<rparr> \<and> with_run root K s0 run1 fs
    | Inr _ \<Rightarrow> reached root K s0 fs)"

lemma runs_announce:
  assumes "rr_resolved run = None" and "rl_resolved l = Some z" and "sound_run k run"
  shows "runs (tracks (d_root d) K s0 k (Some run, Some l)) (announce d run l out term recs) (announced (d_root d) K s0 run z)"
proof -
  let ?run = "run\<lparr>rr_resolved := Some z\<rparr>"
  have k: "rr_run_key ?run = k" "pw_ref (rr_root_credential_ref ?run)" using assms(3) by (simp_all add: sound_run_def)
  have "run_steps k (Some run, Some l) (Some ?run, snd (Some run, Some l))"
    using run_step.resolve [of run l z k] assms(1,2) by (simp add: steps1)
  from runs_SaveRun [OF k this] have "runs (tracks (d_root d) K s0 k (Some run, Some l)) (SaveRun (d_root d) ?run)
      (either (\<lambda>_. with_run (d_root d) K s0 ?run) (reached (d_root d) K s0))"
    by (rule runs_weaken) (auto simp: either_def with_run_def k(1) tracks_reached split: sum.splits)
  then show ?thesis
    unfolding announce_def [abs_def] Let_def assms(2)
    by (intro runs_bind [OF runs_sendExitWakes] runs_prod runs_state runs_attempt_or)
       (auto intro!: runs_value simp: announced_def tracks_reached)
qed

section \<open>Accounts\<close>

lemma runs_revokeAccount:
  "pw_ref pw \<Longrightarrow> runs (tracks root K s0 k s) (revokeAccount d p pw) (\<lambda>_. tracks root K s0 k s)"
proof -
  assume pw: "pw_ref pw"
  have "runs (tracks root K s0 k s) (delete_password pw reason) (\<lambda>_. tracks root K s0 k s)" for reason
    unfolding delete_password_def
    by (rule runs_attempt_or [where R = "\<lambda>_. tracks root K s0 k s" and E = "tracks root K s0 k s"])
       (auto intro!: runs_weaken [OF runs_remove [where R = "tracks root K s0 k s"]] runs_value tracks_remove pw_not_protected [OF pw]
         simp: either_def split: sum.split)
  then show ?thesis
    unfolding revokeAccount_def by (intro runs_if runs_value follow_reads) auto
qed

text \<open>The entry of a revoked account names the account.\<close>

definition account_entry :: "string \<Rightarrow> run_entry \<Rightarrow> bool" where
  "account_entry p e \<longleftrightarrow> re_tool e = TeardownTool \<and> re_principal e = p"

lemma account_TeardownEntry [simp]: "account_entry p (TeardownEntry p jid ok reason)"
  by (simp add: account_entry_def TeardownEntry_def entry_of_def)

lemma runs_revoke_with:
  "pw_ref pw \<Longrightarrow> runs (tracks root K s0 k s) (revoke_with d p jid pw notes) (\<lambda>e fs. account_entry p e \<and> tracks root K s0 k s fs)"
  unfolding revoke_with_def [abs_def]
  by (intro runs_bind [OF runs_revokeAccount] runs_prod) (auto intro!: runs_value)

lemma reads_try_affiliate: "reads (try_affiliate d run root jid m)"
  unfolding try_affiliate_def by (rule reads_keeps) (intro keeps_attempt_or keeps_ext; simp add: keeps_def)

lemma runs_teardownRoot:
  assumes "sound_run k' run"
  shows "runs (tracks root K s0 k s) (teardownRoot d run i)
    (\<lambda>e fs. account_entry (rr_root_principal run) e \<and> tracks root K s0 k s fs)"
proof -
  have "reads (\<lambda>w. if \<not> rr_room_created run then ([''root affiliation kept: the room was not provisioned by juggler''], w)
      else if rr_operator_jid run = [] then ([''root affiliation kept: the room has no operator owner''], w)
      else try_affiliate d run i (rr_root_jid run) ''root affiliation not removed: '' w)"
    by (auto simp: reads_iff reads_try_affiliate [unfolded reads_iff, rule_format])
  with assms show ?thesis
    unfolding teardownRoot_def [abs_def] by (intro reads_bind runs_revoke_with) (simp_all add: sound_run_def)
qed

lemma runs_teardownChild:
  assumes "pw_ref (cr_credential_ref c)"
  shows "runs (tracks root K s0 k s) (teardownChild d run i c)
    (\<lambda>e fs. account_entry (cr_principal c) e \<and> tracks root K s0 k s fs)"
proof -
  have "reads (\<lambda>w. if rr_room_created run then try_affiliate d run i (cr_jid c) ''room affiliation not removed: '' w else ([], w))"
    by (auto simp: reads_iff reads_try_affiliate [unfolded reads_iff, rule_format])
  with assms show ?thesis
    unfolding teardownChild_def by (intro follow_reads runs_if reads_bind runs_revoke_with) (auto intro!: runs_value)
qed

lemma runs_teardown_children:
  "\<forall>c \<in> set cs. pw_ref (cr_credential_ref c) \<Longrightarrow>
     runs (tracks root K s0 k s) (teardown_children d run i gone cs)
       (\<lambda>r fs. (\<forall>e \<in> set (fst r). re_tool e = TeardownTool) \<and> tracks root K s0 k s fs)"
proof (induction cs)
  case Nil
  then show ?case by (simp add: runs_def)
next
  case (Cons c cs)
  then have IH: "runs (tracks root K s0 k s) (teardown_children d run i gone cs)
      (\<lambda>r fs. (\<forall>e \<in> set (fst r). re_tool e = TeardownTool) \<and> tracks root K s0 k s fs)" by simp
  show ?case
    unfolding teardown_children.simps [abs_def]
  proof (intro runs_state, goal_cases)
    case 1
    then show ?case using IH by simp
  next
    case 2
    show ?case
      by (intro runs_bind [OF runs_teardownChild] runs_assume runs_bind [OF IH] runs_prod)
         (use Cons.prems in \<open>auto intro!: runs_value simp: account_entry_def\<close>)
  qed
qed

lemma runs_root_entry:
  "sound_run k' run \<Longrightarrow> runs (tracks root K s0 k s) (root_entry d run i childrenGone)
     (\<lambda>e fs. account_entry (rr_root_principal run) e \<and> tracks root K s0 k s fs)"
  unfolding root_entry_def [abs_def] by (intro runs_state runs_teardownRoot) (auto intro!: runs_value)

text \<open>The entries of a teardown, and what makes the root account gone.\<close>

definition teardown_roots :: "run_record \<Rightarrow> run_ledger \<Rightarrow> run_entry list \<times> bool \<Rightarrow> bool" where
  "teardown_roots run l r \<longleftrightarrow> (\<forall>e \<in> set (fst r). re_tool e = TeardownTool)
     \<and> (snd r \<longrightarrow> rr_root_principal run \<in> set (gone_principals (append_entries (fst r) l)))"

lemma gone_append: "gone_principals (append_entries es l) = gone_principals l @ map re_principal (filter (\<lambda>e. re_tool e = TeardownTool \<and> re_ok e) es)"
  by (simp add: gone_principals_def append_entries_def)

lemma runs_roots:
  assumes "sound_run k' run"
  shows "runs (tracks root K s0 k s)
    (\<lambda>w. if rr_root_principal run \<in> set (gone_principals l) then (([], True), w)
         else case root_entry d run i childrenGone w of (e, w2) \<Rightarrow> (([e], re_ok e), w2))
    (\<lambda>r fs. teardown_roots run l r \<and> tracks root K s0 k s fs)"
proof (intro runs_state, goal_cases)
  case 1
  then show ?case by (auto intro!: runs_value simp: teardown_roots_def gone_append)
next
  case 2
  show ?case
    by (intro runs_bind [OF runs_root_entry [OF assms]] runs_assume runs_value)
       (auto simp: teardown_roots_def account_entry_def gone_append)
qed

lemma runs_save_torn_down:
  assumes "sound_run k run" and "rr_resolved run \<noteq> None" and "\<not> rr_torn_down run"
    and "torn \<longrightarrow> rr_root_principal run \<in> set (gone_principals (ledger_of k lo))"
  shows "runs (tracks (d_root d) K s0 k (Some run, lo)) (save_torn_down d run entries torn) (\<lambda>_. reached (d_root d) K s0)"
proof -
  let ?run = "run\<lparr>rr_torn_down := torn\<rparr>"
  have k: "rr_run_key ?run = k" "pw_ref (rr_root_credential_ref ?run)" using assms(1) by (simp_all add: sound_run_def)
  have "run_steps k (Some run, lo) (Some ?run, snd (Some run, lo))"
    using run_step.tear [of run torn k lo] assms(2-4) by (simp add: steps1)
  from runs_SaveRun [OF k this] show ?thesis
    unfolding save_torn_down_def [abs_def] Let_def
    by (rule runs_attempt_or) (auto intro!: runs_value simp: tracks_reached)
qed

lemma account_steps:
  "\<forall>e \<in> set es. re_tool e = CanaryTool \<or> re_tool e = TeardownTool \<Longrightarrow>
     run_steps k (Some r, lo) (fst (Some r, lo), Some (append_entries es (ledger_of k lo)))"
  using run_step.account [of es k r lo] by (simp add: steps1)

lemma runs_teardownAccounts:
  assumes "sound_run k run" and "rr_resolved run \<noteq> None" and "\<not> rr_torn_down run"
  shows "runs (tracks (d_root d) K s0 k (Some run, lo)) (teardownAccounts d run) (\<lambda>_. reached (d_root d) K s0)"
proof -
  let ?T = "tracks (d_root d) K s0 k (Some run, lo)"
  let ?l = "ledger_of k lo"
  have k: "rr_run_key run = k" using assms(1) by (simp add: sound_run_def)
  have finish: "runs ?T (\<lambda>w. let entries = es @ fst roots; torn = (childrenGone \<and> snd roots) in
      if entries = [] then save_torn_down d run entries torn w
      else attempt_or (persistLedger d run (append_entries entries ?l)) (\<lambda>e w. ((entries, run, Some e), w))
             (\<lambda>_. save_torn_down d run entries torn) w) (\<lambda>_. reached (d_root d) K s0)"
    if es: "\<forall>e \<in> set es. re_tool e = TeardownTool" and roots: "teardown_roots run ?l roots" for es roots childrenGone
    unfolding Let_def
  proof (intro runs_state, goal_cases)
    case 1
    then show ?case using roots
      by (intro runs_save_torn_down [OF assms]) (auto simp: teardown_roots_def append_entries_def gone_principals_def)
  next
    case 2
    have tools: "\<forall>e \<in> set (es @ fst roots). re_tool e = CanaryTool \<or> re_tool e = TeardownTool"
      using es roots by (auto simp: teardown_roots_def)
    show ?case
    proof (rule runs_attempt_or [OF runs_persistLedger [OF k account_steps [OF tools]]], goal_cases)
      case 2
      show ?case using roots
        by (simp, intro runs_save_torn_down [OF assms]) (auto simp: teardown_roots_def ledger_of_def gone_append)
    qed (auto intro!: runs_value simp: tracks_reached)
  qed
  show ?thesis
    unfolding teardownAccounts_def k
  proof (rule runs_attempt_or [OF runs_loadRunLedger], goal_cases)
    case (2 l)
    show ?case
    proof (rule runs_assume, rule runs_attempt_or [OF runs_runChildren], goal_cases)
      case (2 cs)
      show ?case
        unfolding Let_def
      proof (rule runs_assume, rule runs_bind [OF runs_teardown_children], assumption, rule runs_state(4), goal_cases)
        case (1 r es childrenGone)
        show ?case
        proof (rule runs_assume, rule runs_bind [OF runs_roots [OF assms(1)]], rule runs_assume, rule runs_state(4), goal_cases)
          case (1 r' roots rootGone)
          with finish [of es r' childrenGone] \<open>r = (es, childrenGone)\<close> \<open>l = _\<close>
          show ?case by (simp add: Let_def cong: if_cong)
        qed
      qed
    qed (auto intro!: runs_value simp: tracks_reached)
  qed (auto intro!: runs_value simp: tracks_reached)
qed

lemma runs_finishTeardown:
  assumes "sound_run (rr_run_key run) run" and "rr_resolved run \<noteq> None"
  shows "runs (with_run (d_root d) K s0 run) (finishTeardown d run keep out) (\<lambda>_. reached (d_root d) K s0)"
  unfolding finishTeardown_def [abs_def]
  by (intro runs_with_run runs_state runs_bind [OF runs_teardownAccounts [OF assms]] runs_prod runs_option)
     (auto intro!: runs_value simp: tracks_reached)

section \<open>Resolve\<close>

lemma runs_resolve_open:
  assumes "sound_run (rr_run_key run) run" and "rr_resolved run = None" and "rq_state req = StateSucceeded \<or> rq_state req = StateFailed"
  shows "runs (with_run (d_root d) K s0 run) (resolve_open d sched req run out) (\<lambda>_. reached (d_root d) K s0)"
proof (rule runs_with_run)
  fix lo
  let ?k = "rr_run_key run"
  let ?T = "tracks (d_root d) K s0 ?k"
  have key: "rr_run_key (run\<lparr>rr_resolved := z\<rparr>) = ?k" for z by simp
  have sound: "sound_run ?k (run\<lparr>rr_resolved := z\<rparr>)" for z using assms(1) by (simp add: sound_run_def)
  have finish: "runs (announced (d_root d) K s0 run z r) (\<lambda>w. case r of
        (out1, Inl run1) \<Rightarrow> finishTeardown d run1 (rq_keep_accounts req) out1 w | (out1, Inr e) \<Rightarrow> ((out1, Some e), w))
      (\<lambda>_. reached (d_root d) K s0)" for z r
  proof (cases r)
    case (Pair out1 x)
    show ?thesis
    proof (cases x)
      case (Inl run1)
      have "runs (with_run (d_root d) K s0 (run\<lparr>rr_resolved := Some z\<rparr>))
          (finishTeardown d (run\<lparr>rr_resolved := Some z\<rparr>) (rq_keep_accounts req) out1) (\<lambda>_. reached (d_root d) K s0)"
        by (rule runs_finishTeardown) (simp_all add: sound key)
      then show ?thesis using Pair Inl by (auto simp: announced_def [abs_def] intro: runs_assume)
    next
      case (Inr e)
      then show ?thesis using Pair by (auto simp: announced_def [abs_def] intro: runs_value)
    qed
  qed
  show "runs (?T (Some run, lo)) (resolve_open d sched req run out) (\<lambda>_. reached (d_root d) K s0)"
    unfolding resolve_open_def
  proof (rule runs_attempt_or [OF runs_closeLedger [OF refl assms(2,3)]], goal_cases)
    case (2 l)
    show ?case
    proof (rule runs_assume, elim conjE, goal_cases)
      case 1
      then obtain z where z: "rl_resolved l = Some z" by blast
      show ?case
        using 1(2)
        apply (intro runs_attempt_or [OF runs_persistLedger [OF refl]] reads_or [OF reads_terminal_of_run] runs_Let runs_prod)
        apply simp_all
        apply (simp_all add: runs_value tracks_reached)
        apply (rule runs_bind [OF runs_announce [OF assms(2) z assms(1)]])
        apply (rule finish)
        done
    qed
  qed (auto intro!: runs_value simp: tracks_reached)
qed

lemma reads_recordedCanary: "reads (recordedCanary root key room)"
  unfolding recordedCanary_def by (intro reads_keeps keeps_attempt_or keeps_read_file) (auto simp: keeps_def)

lemma runs_resolve_again:
  assumes "sound_run (rr_run_key run) run" and "rr_resolved run \<noteq> None"
  shows "runs (with_run (d_root d) K s0 run) (resolve_again d req run z out) (\<lambda>_. reached (d_root d) K s0)"
  unfolding resolve_again_def [abs_def] Let_def
  by (intro runs_state runs_finishTeardown [OF assms] reads_bind [OF reads_recordedCanary] runs_prod runs_value with_run_reached)

lemma runs_resolve_run:
  assumes "sound_run (rr_run_key run) run" and "rq_state req = StateSucceeded \<or> rq_state req = StateFailed"
  shows "runs (with_run (d_root d) K s0 run) (resolve_run d sched req run) (\<lambda>_. reached (d_root d) K s0)"
  unfolding resolve_run_def [abs_def] Let_def
proof (intro runs_state, goal_cases)
  case (3 z)
  then show ?case by (intro runs_resolve_again assms) simp
next
  case 1
  then show ?case by (intro runs_resolve_open assms) simp
next
  case 2
  show ?case
    by (intro runs_bind [OF runs_postCanaryOnce] runs_state runs_value with_run_reached runs_resolve_open assms) (use 2 in simp_all)
qed

lemma with_run_found:
  "reached root K s0 fs \<Longrightarrow> idPattern K \<Longrightarrow> sound_run (rr_run_key r) r \<Longrightarrow> run_at root (rr_run_key r) fs = Some r \<Longrightarrow> with_run root K s0 r fs"
  by (auto simp: with_run_def tracks_def sound_run_def run_state_at_def)

lemma runs_Resolve:
  assumes "idPattern K"
  shows "runs (reached (d_root d) K s0) (Resolve d sched req) (\<lambda>_. reached (d_root d) K s0)"
  unfolding Resolve_def FindRunByJob_def
proof (rule runs_if, rule runs_value, assumption, rule runs_attempt_or [OF runs_findRun], goal_cases)
  case (2 x)
  show ?case
  proof (intro runs_assume runs_option runs_value follow_reads, goal_cases)
    case (3 run)
    have "runs (with_run (d_root d) K s0 run) (resolve_run d sched req run) (\<lambda>_. reached (d_root d) K s0)"
      using 2 3 by (intro runs_resolve_run) auto
    with 3 show ?case by (auto intro!: runs_pre [of _ "with_run (d_root d) K s0 run"] with_run_found [OF _ assms])
  qed auto
qed (auto intro!: runs_value)

end
