(* ===== verification/Run_Follow_Verbs.thy ===== *)
theory Run_Follow_Verbs
  imports Run_Follow_Resolve
begin

text \<open>
  The other verbs follow the machine: ledger entries (\<open>AppendRunLedgerEntry\<close>), the sweep
  (\<open>Clean\<close>), new runs (\<open>NewRun\<close>) and subagents (\<open>SpawnChild\<close>). \<open>mint_law\<close> is what troupe
  documents of a mint: the credential names the password file it was given.
\<close>

lemma runs_tracks:
  "idPattern K \<Longrightarrow> idPattern k \<Longrightarrow> (\<And>s. runs (tracks root K s0 k s) m Q) \<Longrightarrow> runs (reached root K s0) m Q"
  unfolding runs_def using reached_tracks by blast

lemma runs_tracks_reached: "runs (reached root K s0) m Q \<Longrightarrow> runs (tracks root K s0 k s) m Q"
  by (auto simp: runs_def tracks_reached)

section \<open>Ledger entries\<close>

lemma fail_if_None: "fail_if e w = (r, w') \<Longrightarrow> w' = w \<and> (e = None \<longleftrightarrow> r = Inr ())"
  by (auto simp: fail_if_def split: option.splits)

lemma runs_fail_if [runs_intros]: "runs P (fail_if e) (either (\<lambda>_ fs. e = None \<and> P fs) P)"
  by (cases e) (auto simp: fail_if_def runs_def)

lemma CheckOpen_None: "CheckOpen fmt r = None \<longleftrightarrow> open_run r"
  by (auto simp: CheckOpen_def open_run_def split: option.splits)

lemma ValidRunKey_None: "ValidRunKey k = None \<longleftrightarrow> idPattern k"
  by (simp add: ValidRunKey_def)

lemma runs_AppendRunLedgerEntry:
  assumes "idPattern K"
  shows "runs (reached root K s0) (AppendRunLedgerEntry root fmt key e) (\<lambda>_. reached root K s0)"
  unfolding AppendRunLedgerEntry_def
proof (rule runs_attempt [OF runs_fail_if], simp, rule runs_assume, goal_cases)
  case (1 x)
  then have key: "idPattern key" by (simp add: ValidRunKey_None)
  show ?case
  proof (rule runs_tracks [OF assms key], rule follow_reads, goal_cases)
    case (2 s)
    show ?case
    proof (rule runs_attempt [OF runs_LoadRun], simp add: tracks_reached, rule runs_assume, rule runs_option, goal_cases)
      case (2 found run)
      then have s: "s = (Some run, snd s)" by (cases s) simp
      show ?case
      proof (rule runs_if, goal_cases)
        case 1
        show ?case by (rule runs_weaken [OF runs_fail_if]) (auto simp: either_def tracks_reached split: sum.splits)
      next
        case 2
        show ?case
        proof (rule runs_attempt [OF runs_loadRunLedger], simp add: tracks_reached, rule runs_assume, rule runs_if, goal_cases)
          case (2 l)
          have "run_steps key s (fst s, Some (append_entries [e] l))"
            using run_step.log [of run key "snd s" e] 2 \<open>\<not> (rr_pending run \<or> rr_reaped run)\<close> s
            by (metis de_Morgan_disj fst_conv open_run_def steps1)
          from runs_writeRunLedger [OF this] show ?case
            by (rule runs_weaken) (auto simp: either_def tracks_reached split: sum.splits)
        qed (auto intro!: runs_fail simp: tracks_reached)
      qed
    qed (auto intro!: runs_fail simp: tracks_reached)
  qed (simp add: tracks_reached)
qed

section \<open>The sweep\<close>

lemma reads_stillRunning: "reads (stillRunning d c)"
  unfolding stillRunning_def by (intro reads_keeps keeps_attempt_or keeps_ext keeps_fail keeps_ret)

lemma runs_sweep_file:
  "idPattern K \<Longrightarrow> \<not> protected root p \<Longrightarrow> runs (reached root K s0) (sweep_file act p s) (\<lambda>_. reached root K s0)"
  unfolding sweep_file_def Let_def
  by (intro runs_if runs_value follow_reads runs_attempt_or [where R = "\<lambda>_. reached root K s0" and E = "reached root K s0"]
        runs_weaken [OF runs_remove [where R = "reached root K s0"]])
     (auto intro: reached_remove simp: either_def split: sum.splits)

lemma runs_sweep_child:
  "idPattern K \<Longrightarrow> runs (reached (d_root d) K s0) (sweep_child d key act c s) (\<lambda>_. reached (d_root d) K s0)"
  unfolding sweep_child_def drop_directory_def
  apply (intro reads_or [OF reads_stillRunning] runs_value runs_state runs_bind [OF runs_sweep_file])
  apply (auto intro!: runs_value)
  subgoal by (auto simp: runs_def reads_iff [THEN iffD1, OF reads_keeps [OF keeps_may_fail]])
  done

lemma runs_sweep_children:
  "idPattern K \<Longrightarrow> runs (reached (d_root d) K s0) (sweep_children d key act cs s) (\<lambda>_. reached (d_root d) K s0)"
proof (induction cs arbitrary: s)
  case (Cons c cs)
  then show ?case
    unfolding sweep_children.simps [abs_def] by (intro runs_bind [OF runs_sweep_child])
qed (simp add: runs_def)

lemma runs_cleanResolvedRun:
  "idPattern K \<Longrightarrow> runs (reached (d_root d) K s0) (cleanResolvedRun d run act age) (\<lambda>_. reached (d_root d) K s0)"
  unfolding cleanResolvedRun_def Let_def
  by (intro follow_reads runs_value runs_bind [OF runs_sweep_children])

lemma runs_record_reap:
  assumes "sound_run k r" and "re_tool e = TeardownTool"
  shows "runs (tracks (d_root d) K s0 k (Some r, lo)) (record_reap d r e res) (\<lambda>_. reached (d_root d) K s0)"
proof -
  have k: "rr_run_key r = k" using assms(1) by (simp add: sound_run_def)
  have "\<forall>x \<in> set [e]. re_tool x = CanaryTool \<or> re_tool x = TeardownTool" using assms(2) by simp
  note steps = account_steps [OF this, of k r lo]
  have "runs (tracks (d_root d) K s0 k (Some r, lo)) (appendRunLedgerLocked (d_root d) k e)
      (either (\<lambda>_. reached (d_root d) K s0) (reached (d_root d) K s0))"
    unfolding appendRunLedgerLocked_def
  proof (rule runs_attempt [OF runs_loadRunLedger], simp add: tracks_reached, rule runs_assume, goal_cases)
    case (1 l)
    then have "run_steps k (Some r, lo) (fst (Some r, lo), Some (append_entries [e] l))" using steps by simp
    from runs_writeRunLedger [OF this] show ?case
      by (rule runs_weaken) (auto simp: either_def tracks_reached split: sum.splits)
  qed
  then show ?thesis unfolding record_reap_def k by (rule runs_attempt_or) (auto intro: runs_value)
qed

lemma runs_reap:
  assumes "sound_run k r" and "rr_pending r"
  shows "runs (tracks (d_root d) K s0 k (Some r, lo)) (reap d r res) (\<lambda>_. reached (d_root d) K s0)"
proof -
  have k: "rr_run_key (tombstone t r) = k" "pw_ref (rr_root_credential_ref (tombstone t r))" and sound: "sound_run k (tombstone t r)" for t
    using assms(1) by (simp_all add: sound_run_def tombstone_def)
  have steps: "run_steps k (Some r, lo) (Some (tombstone t r), snd (Some r, lo))" for t
    using run_step.reap [of r k lo t] assms(2) by (simp add: steps1)
  show ?thesis
    unfolding reap_def [abs_def] Let_def
  proof (rule runs_bind [OF runs_teardownRoot [OF assms(1)]], rule runs_assume, intro runs_state, goal_cases)
    case (1 e)
    then have "re_tool e = TeardownTool" by (simp add: account_entry_def)
    then show ?case
      by (intro runs_with_now runs_attempt_or [OF runs_SaveRun [OF k steps]])
         (auto intro!: runs_value runs_record_reap [OF sound] simp: tracks_reached)
  next
    case (2 e)
    then show ?case by (intro runs_record_reap [OF assms(1)]) (simp add: account_entry_def)
  qed
qed

lemma runs_cleanPendingRun:
  assumes "idPattern K" and "idPattern (rr_run_key run)"
  shows "runs (reached (d_root d) K s0) (cleanPendingRun d run act olderThan now) (\<lambda>_. reached (d_root d) K s0)"
proof (rule runs_tracks [OF assms])
  fix s
  show "runs (tracks (d_root d) K s0 (rr_run_key run) s) (cleanPendingRun d run act olderThan now) (\<lambda>_. reached (d_root d) K s0)"
    unfolding cleanPendingRun_def Let_def
  proof (intro runs_if runs_value follow_reads, goal_cases)
    case 3
    show ?case
    proof (rule runs_attempt_or [OF runs_LoadRun], goal_cases)
      case (2 found)
      show ?case
      proof (rule runs_assume, intro runs_option runs_if runs_value, goal_cases)
        case (4 fresh)
        then have s: "s = (Some fresh, snd s)" by (cases s) simp
        from 4 have "runs (tracks (d_root d) K s0 (rr_run_key run) (Some fresh, snd s)) (reap d fresh res) (\<lambda>_. reached (d_root d) K s0)" for res
          by (intro runs_reap) simp_all
        then show ?case using s by simp
      qed (simp_all add: tracks_reached)
    qed (auto intro!: runs_value simp: tracks_reached)
  qed (simp_all add: tracks_reached)
qed

lemma runs_clean_each:
  assumes "idPattern K"
  shows "\<forall>r \<in> set rs. idPattern (rr_run_key r) \<Longrightarrow> runs (reached (d_root d) K s0) (clean_each d req now rs) (\<lambda>_. reached (d_root d) K s0)"
proof (induction rs)
  case (Cons r rs)
  have "runs (reached (d_root d) K s0) (clean_one d req now r) (\<lambda>_. reached (d_root d) K s0)"
    unfolding clean_one_def [abs_def]
    by (intro runs_state runs_value runs_bind [OF runs_cleanPendingRun] runs_bind [OF runs_cleanResolvedRun] runs_prod runs_option assms)
       (use Cons.prems in auto)
  with Cons show ?case
    unfolding clean_each.simps [abs_def] by (intro runs_bind [where R = "\<lambda>_. reached (d_root d) K s0"]) (auto intro: runs_value)
qed (simp add: runs_def)

lemma runs_Clean:
  assumes "idPattern K"
  shows "runs (reached (d_root d) K s0) (Clean d req) (\<lambda>_. reached (d_root d) K s0)"
  unfolding Clean_def
proof (rule runs_attempt_or [OF runs_store_runs], goal_cases)
  case (2 rs)
  show ?case
    by (rule runs_pre [where P = "\<lambda>fs. (\<forall>r \<in> set rs. idPattern (rr_run_key r)) \<and> reached (d_root d) K s0 fs"])
       (auto intro!: runs_assume runs_with_now runs_bind [OF runs_clean_each [OF assms]] runs_value simp: sound_run_def)
qed (auto intro: runs_fail)

section \<open>New runs\<close>

definition mint_law :: "'e deps \<Rightarrow> bool" where
  "mint_law d \<longleftrightarrow> (\<forall>key pw e cred secret e'. sv_mint d key pw e = ((Inr cred, secret), e') \<longrightarrow> cd_password_file cred = pw)"

lemma runs_mint_tracks:
  "\<not> protected root pw \<Longrightarrow> runs (tracks root K s0 k s) (mint d p pw) (either (\<lambda>_. tracks root K s0 k s) (tracks root K s0 k s))"
  by (rule runs_mint) (auto intro: tracks_put_plain simp: plain_def either_def split: sum.split)

lemma mint_file: "mint_law d \<Longrightarrow> mint d p pw w = (Inr cred, w') \<Longrightarrow> cd_password_file cred = pw"
proof -
  assume law: "mint_law d" and run: "mint d p pw w = (Inr cred, w')"
  from run obtain secret e' where "sv_mint d p pw (w_ext w) = ((Inr cred, secret), e')"
    by (auto simp: mint_def ext_def split: prod.splits option.splits)
  with law show ?thesis unfolding mint_law_def by blast
qed

lemma runs_mint_law:
  assumes "mint_law d" and "\<not> protected root pw"
  shows "runs (tracks root K s0 k s) (mint d p pw)
    (either (\<lambda>cred fs. cd_password_file cred = pw \<and> tracks root K s0 k s fs) (tracks root K s0 k s))"
proof (rule runsI)
  fix w r w' assume w: "tracks root K s0 k s (w_files w)" and run: "mint d p pw w = (r, w')"
  from runsD [OF runs_mint_tracks [OF assms(2)] w run] mint_file [OF assms(1), of p pw w _ w'] run
  show "either (\<lambda>cred fs. cd_password_file cred = pw \<and> tracks root K s0 k s fs) (tracks root K s0 k s) r (w_files w')"
    by (cases r) auto
qed

text \<open>A record \<open>NewRun\<close> may write over what the key has.\<close>

definition new_ok :: "string \<Rightarrow> run_state \<Rightarrow> run_record \<Rightarrow> bool" where
  "new_ok k s r \<longleftrightarrow> sound_run k r \<and> unsettled r \<and> (case fst s of None \<Rightarrow> True
     | Some p \<Rightarrow> rr_pending p \<and> \<not> rr_reaped p \<and> rr_root_principal r = rr_root_principal p \<and> rr_created_at r = rr_created_at p)"

lemma new_ok_steps: "new_ok k s r \<Longrightarrow> run_steps k s (Some r, snd s)"
  by (cases s) (auto simp: new_ok_def sound_run_def split: option.splits intro!: steps1 run_step.create run_step.retry)

lemma runs_SaveRun_new:
  assumes "new_ok k s r"
  shows "runs (tracks root K s0 k s) (SaveRun root r) (either (\<lambda>_. reached root K s0) (tracks root K s0 k s))"
  using assms new_ok_steps [OF assms]
  by (intro runs_weaken [OF runs_SaveRun]) (auto simp: new_ok_def sound_run_def either_def tracks_reached split: sum.splits)

lemma reads_run_undo: "\<forall>f \<in> set undo. \<forall>c. reads (f c) \<Longrightarrow> reads (run_undo undo cause)"
proof (induction undo)
  case (Cons f fs)
  then have "reads (f cause)" and "reads (run_undo fs cause)" by simp_all
  then show ?case by (auto simp: reads_iff split: prod.splits) (metis snd_conv)+
qed (simp add: reads_iff)

lemma reads_unwind: "\<forall>f \<in> set undo. \<forall>c. reads (f c) \<Longrightarrow> reads (unwind undo cause)"
  using reads_run_undo [of undo cause] by (auto simp: unwind_def reads_iff split: prod.splits) (metis snd_conv)

lemma runs_save_pending:
  assumes "new_ok k s rec" and "\<forall>f \<in> set undo. \<forall>c. reads (f c)"
  shows "runs (tracks (d_root d) K s0 k s) (save_pending d rec undo cause) (\<lambda>_. reached (d_root d) K s0)"
  unfolding save_pending_def [abs_def] Let_def
proof (intro reads_bind [OF reads_unwind [OF assms(2)]] runs_with_now, goal_cases)
  case (1 e t)
  have "new_ok k s (rec\<lparr>rr_pending := True, rr_root_stanza := [], rr_run_job := [], rr_holders := [], rr_pending_since := t\<rparr>)"
    using assms(1) by (simp add: new_ok_def sound_run_def unsettled_def cong: option.case_cong)
  then show ?case
    by (intro runs_attempt_or [OF runs_SaveRun_new]) (auto intro!: runs_fail simp: tracks_reached)
qed

lemma reads_undo: "reads (withdraw d who room stanza c)" "reads (failJobUndo d target job c)"
  unfolding withdraw_def failJobUndo_def by (intro reads_keeps keeps_attempt keeps_ext keeps_ret)+

lemma reads_mirrorHolder: "reads (mirrorHolder d target job h)"
  unfolding mirrorHolder_def by (intro reads_keeps keeps_attempt_or keeps_ext keeps_fail keeps_ret)

lemma new_ok_update:
  "new_ok k s r \<Longrightarrow> new_ok k s (r\<lparr>rr_root_stanza := a\<rparr>)" "new_ok k s r \<Longrightarrow> new_ok k s (r\<lparr>rr_run_job := a\<rparr>)"
  "new_ok k s r \<Longrightarrow> new_ok k s (r\<lparr>rr_holders := hs\<rparr>)" "new_ok k s r \<Longrightarrow> new_ok k s (r\<lparr>rr_room := a\<rparr>)"
  "new_ok k s r \<Longrightarrow> new_ok k s (r\<lparr>rr_room_created := c\<rparr>)"
  "new_ok k s r \<Longrightarrow> pw_ref b \<Longrightarrow> new_ok k s (r\<lparr>rr_root_jid := a, rr_root_credential_ref := b\<rparr>)"
  by (simp_all add: new_ok_def sound_run_def unsettled_def cong: option.case_cong)

lemma runs_start_run:
  assumes "new_ok k s rec"
  shows "runs (tracks (d_root d) K s0 k s) (start_run d req root resumed rec) (\<lambda>_. reached (d_root d) K s0)"
  unfolding start_run_def Let_def
  by (intro follow_reads reads_or [OF reads_mirrorHolder] runs_with_now runs_save_pending runs_attempt_or [OF runs_SaveRun_new]
        new_ok_update assms)
     (auto intro!: runs_ret simp: reads_undo)

lemma runs_with_room:
  assumes "\<And>r. new_ok k s r \<Longrightarrow> runs (tracks (d_root d) K s0 k s) (cont r) (\<lambda>_. reached (d_root d) K s0)" and "new_ok k s rec"
  shows "runs (tracks (d_root d) K s0 k s) (with_room d req root rec cont) (\<lambda>_. reached (d_root d) K s0)"
  unfolding with_room_def Let_def
  by (intro runs_if follow_reads runs_save_pending assms(1) new_ok_update assms(2)) simp

lemma runs_CredentialPath:
  "runs P (CredentialPath root key p) (either (\<lambda>x fs. x = path_join (runDir root key) (p @ ''.pw'') \<and> P fs) P)"
  by (auto simp: runs_def CredentialPath_def attempt_def attempt_or_def may_fail_def fail_def ret_def split: list.split option.split)

lemma pw_ref_path: "pw_ref (path_join dir (p @ ''.pw''))"
  by (simp add: pw_ref_def path_join_def suffix_def)

lemma new_ok_fresh:
  "idPattern (nq_run_key req) \<Longrightarrow> fst s = prior \<Longrightarrow> (\<forall>p. prior = Some p \<longrightarrow> rr_pending p \<and> \<not> rr_reaped p) \<Longrightarrow>
     new_ok (nq_run_key req) s (fresh_run req root now prior)"
  by (auto simp: new_ok_def sound_run_def unsettled_def fresh_run_def zero_run_def pw_ref_def split: option.splits)

lemma runs_mint_root:
  assumes "mint_law d" and "idPattern (nq_run_key req)" and "\<forall>p. fst s = Some p \<longrightarrow> rr_pending p \<and> \<not> rr_reaped p"
  shows "runs (tracks (d_root d) K s0 (nq_run_key req) s) (mint_root d req (fst s)) (\<lambda>_. reached (d_root d) K s0)"
  unfolding mint_root_def Let_def
proof (rule follow_reads, simp add: tracks_reached, rule runs_with_now, rule runs_attempt_or [OF runs_CredentialPath], goal_cases)
  case (2 now x pw)
  have "mint_law d" by (rule assms(1))
  show ?case
  proof (rule runs_assume, rule runs_attempt_or [OF runs_mint_law [OF assms(1)]], goal_cases)
    case (3 cred)
    show ?case
    proof (rule runs_assume, rule runs_with_room, rule runs_start_run, assumption, goal_cases)
      case 1
      with 3 new_ok_fresh [OF assms(2) refl assms(3)] show ?case by (simp add: new_ok_update(6) pw_ref_path)
    qed
  qed (auto intro!: runs_fail simp: tracks_reached)
qed (auto intro!: runs_fail simp: tracks_reached)

lemma runs_NewRun:
  assumes "mint_law d" and "idPattern K"
  shows "runs (reached (d_root d) K s0) (NewRun d req) (\<lambda>_. reached (d_root d) K s0)"
proof -
  have locked: "runs (reached (d_root d) K s0) (new_run_locked d req) (\<lambda>_. reached (d_root d) K s0)"
    if key: "idPattern (nq_run_key req)" for req
  proof (rule runs_tracks [OF assms(2) key])
    fix s
    show "runs (tracks (d_root d) K s0 (nq_run_key req) s) (new_run_locked d req) (\<lambda>_. reached (d_root d) K s0)"
      unfolding new_run_locked_def
    proof (rule runs_attempt [OF runs_LoadRun], simp add: tracks_reached, rule runs_assume, rule runs_option, goal_cases)
      case (1 found)
      with runs_mint_root [OF assms(1) key, of s] show ?case by simp
    next
      case (2 found p)
      then have s: "s = (Some p, snd s)" and p: "sound_run (nq_run_key req) p" by (cases s; simp)+
      show ?case
        unfolding Let_def
      proof (intro runs_if runs_option runs_fail runs_ret runs_with_now, goal_cases)
        case (4 now)
        let ?p = "p\<lparr>rr_pending_since := now\<rparr>"
        have k: "rr_run_key ?p = nq_run_key req" "pw_ref (rr_root_credential_ref ?p)" using p by (simp_all add: sound_run_def)
        have "run_steps (nq_run_key req) (Some p, snd s) (Some ?p, snd (Some p, snd s))"
          using run_step.stamp [of p "nq_run_key req" "snd s" now] 4 by (simp add: steps1)
        note save = runs_SaveRun [OF k this]
        have "runs (tracks (d_root d) K s0 (nq_run_key req) (Some ?p, snd s)) (mint_root d req (Some ?p)) (\<lambda>_. reached (d_root d) K s0)"
          using runs_mint_root [OF assms(1) key, of "(Some ?p, snd s)"] 4 by simp
        then show ?case
          using s by (intro runs_attempt_or [OF save [folded s]]) (auto intro!: runs_fail simp: tracks_reached)
      qed (simp_all add: tracks_reached)
    qed
  qed
  have keyed: "runs (reached (d_root d) K s0) (new_run_keyed d req) (\<lambda>_. reached (d_root d) K s0)" for req
    unfolding new_run_keyed_def
    by (rule runs_attempt [OF runs_fail_if]) (auto intro!: runs_assume follow_reads locked simp: ValidRunKey_None)
  show ?thesis
    unfolding NewRun_def
    by (rule runs_attempt [OF runs_fail_if])
       (auto intro!: runs_assume keyed reads_bind [OF reads_keeps [OF keeps_ext]])
qed

section \<open>Subagents\<close>

text \<open>Compensations that stay within the store's invariant.\<close>

definition undo_keeps :: "(files \<Rightarrow> bool) \<Rightarrow> 'e undo \<Rightarrow> bool" where
  "undo_keeps I undo \<longleftrightarrow> (\<forall>f \<in> set undo. \<forall>c. runs I (f c) (\<lambda>_. I))"

lemma undo_keeps_simps [simp]:
  "undo_keeps I []" "undo_keeps I (f # fs) \<longleftrightarrow> (\<forall>c. runs I (f c) (\<lambda>_. I)) \<and> undo_keeps I fs"
  by (simp_all add: undo_keeps_def)

lemma runs_run_undo: "undo_keeps I undo \<Longrightarrow> runs I (run_undo undo cause) (\<lambda>_. I)"
proof (induction undo)
  case (Cons f fs)
  then show ?case
    unfolding run_undo.simps [abs_def] by (intro runs_bind [where R = "\<lambda>_. I"]) (auto intro: runs_value)
qed (simp add: runs_def)

lemma runs_fail_unwound: "undo_keeps I undo \<Longrightarrow> runs I (fail_unwound undo cause) (\<lambda>_. I)"
  unfolding fail_unwound_def [abs_def] unwind_def [abs_def]
  by (intro runs_bind [where R = "\<lambda>_. I"] runs_run_undo runs_value)

lemma runs_ext: "runs I (ext f) (\<lambda>_. I)"
  by (rule runs_reads) (rule reading)

lemma runs_removeIfExists:
  "idPattern K \<Longrightarrow> \<not> protected root p \<Longrightarrow> runs (reached root K s0) (removeIfExists p) (\<lambda>_. reached root K s0)"
  by (rule runs_remove) (auto intro: reached_remove)

lemma runs_write_plain:
  "idPattern K \<Longrightarrow> \<not> protected root p \<Longrightarrow> plain c \<Longrightarrow>
     runs (reached root K s0) (writeFileAtomic p c) (either (\<lambda>_. reached root K s0) (reached root K s0))"
  by (rule runs_write) (auto intro: reached_put_plain)

lemma runs_undo: "runs I (withdraw d who room stanza c) (\<lambda>_. I)" "runs I (failJobUndo d target job c) (\<lambda>_. I)"
  by (rule runs_reads; simp add: reads_undo)+

lemma runs_spawn_launch:
  assumes "idPattern K" and "pw_ref (cr_credential_ref rec)" and "undo_keeps (reached (d_root (sn_deps s)) K s0) undo"
  shows "runs (reached (d_root (sn_deps s)) K s0) (spawn_launch s cred undo rec) (\<lambda>_. reached (d_root (sn_deps s)) K s0)"
  unfolding spawn_launch_def Let_def SaveChild_def
  by (intro runs_attempt_or [OF runs_write_plain] follow_reads runs_fail_unwound runs_ret)
     (auto simp: assms plain_def intro!: runs_removeIfExists)

lemma runs_spawn_job:
  assumes "idPattern K" and "pw_ref (cr_credential_ref rec)" and "undo_keeps (reached (d_root (sn_deps s)) K s0) undo"
  shows "runs (reached (d_root (sn_deps s)) K s0) (spawn_job s cred undo rec) (\<lambda>_. reached (d_root (sn_deps s)) K s0)"
  unfolding spawn_job_def Let_def
  by (intro follow_reads reads_or [OF reads_mirrorHolder] runs_with_now runs_fail_unwound runs_spawn_launch)
     (auto simp: assms runs_undo)

lemma runs_spawn_stage:
  assumes "idPattern K" and "pw_ref (cr_credential_ref rec)" and "undo_keeps (reached (d_root (sn_deps s)) K s0) undo"
  shows "runs (reached (d_root (sn_deps s)) K s0) (spawn_stage s cred undo rec) (\<lambda>_. reached (d_root (sn_deps s)) K s0)"
  unfolding spawn_stage_def Let_def
  by (intro runs_attempt_or [OF runs_write_plain] runs_fail_unwound runs_spawn_job)
     (auto simp: assms plain_def intro!: runs_removeIfExists)

lemma runs_spawn_affiliate:
  assumes "idPattern K" and "pw_ref (cr_credential_ref rec)" and "undo_keeps (reached (d_root (sn_deps s)) K s0) undo"
  shows "runs (reached (d_root (sn_deps s)) K s0) (spawn_affiliate s cred undo rec) (\<lambda>_. reached (d_root (sn_deps s)) K s0)"
  unfolding spawn_affiliate_def Let_def
  by (intro runs_if follow_reads runs_fail_unwound runs_spawn_stage) (auto simp: assms runs_ext)

lemma runs_mint_reached:
  assumes "mint_law d" and "idPattern K"
  shows "runs (reached root K s0) (mint d p (path_join (runDir root key) (q @ ''.pw'')))
    (either (\<lambda>cred fs. pw_ref (cd_password_file cred) \<and> reached root K s0 fs) (reached root K s0))"
  by (rule runs_tracks [OF assms(2) assms(2)], rule runs_weaken [OF runs_mint_law [OF assms(1)]])
     (auto simp: either_def tracks_reached pw_ref_path split: sum.splits)

lemma runs_spawn_mint:
  assumes "idPattern K" and "mint_law (sn_deps s)" and "undo_keeps (reached (d_root (sn_deps s)) K s0) undo"
  shows "runs (reached (d_root (sn_deps s)) K s0) (spawn_mint s undo rec) (\<lambda>_. reached (d_root (sn_deps s)) K s0)"
  unfolding spawn_mint_def Let_def
proof (rule runs_attempt_or [OF runs_CredentialPath], goal_cases)
  case (2 pw)
  show ?case
  proof (rule runs_assume, simp only:, rule runs_attempt_or [OF runs_mint_reached [OF assms(2,1)]], goal_cases)
    case (2 cred)
    show ?case by (rule runs_assume, rule runs_spawn_affiliate) (auto simp: assms runs_ext)
  qed (intro runs_fail_unwound assms)
qed (intro runs_fail_unwound assms)

section \<open>The refusals of a spawn\<close>

lemma runs_appendRunLedgerLocked:
  assumes "open_run r" and "re_kind e = ''refusal''"
  shows "runs (tracks root K s0 k (Some r, lo)) (appendRunLedgerLocked root k e) (either (\<lambda>_. reached root K s0) (reached root K s0))"
  unfolding appendRunLedgerLocked_def
proof (rule runs_attempt [OF runs_loadRunLedger], simp add: tracks_reached, rule runs_assume, goal_cases)
  case (1 l)
  then have "run_steps k (Some r, lo) (fst (Some r, lo), Some (append_entries [e] l))"
    using run_step.refuse [of r e k lo] assms by (simp add: steps1)
  from runs_writeRunLedger [OF this] show ?case
    by (rule runs_weaken) (auto simp: either_def tracks_reached split: sum.splits)
qed

lemma runs_recorded:
  assumes "open_run r" and "\<forall>e. entry = Some e \<longrightarrow> re_kind e = ''refusal''"
  shows "runs (tracks (d_root d) K s0 k (Some r, lo)) (recorded d k entry e) (\<lambda>_. reached (d_root d) K s0)"
  unfolding recorded_def refuse_recorded_def
  by (intro runs_option runs_attempt_or [OF runs_appendRunLedgerLocked [OF assms(1)]] runs_value runs_Pair)
     (auto simp: assms tracks_reached)

lemma runs_fail_recorded:
  assumes "open_run r" and "\<forall>e. entry = Some e \<longrightarrow> re_kind e = ''refusal''"
  shows "runs (tracks (d_root d) K s0 k (Some r, lo)) (fail_recorded d k entry e) (\<lambda>_. reached (d_root d) K s0)"
  unfolding fail_recorded_def [abs_def] by (intro runs_bind [OF runs_recorded [OF assms]] runs_value)

lemma refusal_kinds [simp]:
  "re_kind (ToolRefusalEntry e) = ''refusal''" "re_kind (NarrowsRefusalEntry r) = ''refusal''" "re_kind (SystemdRefusalEntry a b) = ''refusal''"
  by (simp_all add: ToolRefusalEntry_def NarrowsRefusalEntry_def SystemdRefusalEntry_def entry_of_def zero_entry_def)

lemma reads_resolve_tools: "reads (resolve_tools d ce env al ts)"
proof (induction ts)
  case (Cons t ts)
  have "keeps (on_files P) (resolve_tools d ce env al ts)" for P using Cons by (simp add: reads_def)
  then show ?case
    unfolding resolve_tools.simps
    by (intro reads_keeps keeps_if keeps_attempt_or keeps_ext keeps_option keeps_fail)
       (auto intro!: keeps_attempt keeps_fail keeps_ret keeps_Let split: option.split)
qed (simp add: reads_iff)

lemma reads_DeriveAgentMoxyfile: "reads (DeriveAgentMoxyfile d tm ce env b)"
  unfolding DeriveAgentMoxyfile_def
  by (auto intro!: reads_keeps keeps_attempt keeps_fail keeps_ret reads_resolve_tools [unfolded reads_def, rule_format] split: sum.split)

text \<open>The narrowing check: what it staged is on the undo stack it returns.\<close>

fun narrowing_undo :: "'e narrowing \<Rightarrow> 'e undo" where
  "narrowing_undo (Narrowed rec undo) = undo"
| "narrowing_undo (Refused e v undo) = undo"

definition checked :: "string \<Rightarrow> string \<Rightarrow> run_state \<Rightarrow> string \<Rightarrow> run_state \<Rightarrow> 'e narrowing \<Rightarrow> files \<Rightarrow> bool" where
  "checked root K s0 k s r fs \<longleftrightarrow> undo_keeps (reached root K s0) (narrowing_undo r) \<and> tracks root K s0 k s fs"

lemma runs_remove_both:
  "idPattern K \<Longrightarrow> \<not> protected root a \<Longrightarrow> \<not> protected root b \<Longrightarrow> runs (reached root K s0) (remove_both a b c) (\<lambda>_. reached root K s0)"
  unfolding remove_both_def
  by (intro runs_observe [where R = "reached root K s0"])
     (auto intro!: runs_weaken [OF runs_removeIfExists] runs_ret runs_fail simp: either_def split: sum.splits option.splits list.splits)

lemma runs_write_staged:
  "\<not> protected root p \<Longrightarrow> runs (tracks root K s0 k s) (write_staged p data) (either (\<lambda>_. tracks root K s0 k s) (tracks root K s0 k s))"
  unfolding write_staged_def
  by (intro runs_attempt_or [OF runs_write [where R = "tracks root K s0 k s" and E = "tracks root K s0 k s"]] runs_fail runs_ret)
     (auto intro: tracks_put_plain simp: plain_def)

lemma runs_run_narrows:
  "undo_keeps (reached root K s0) undo \<Longrightarrow>
     runs (tracks root K s0 k s) (run_narrows d env rec child undo) (checked root K s0 k s)"
  unfolding run_narrows_def by (intro follow_reads runs_value) (auto simp: checked_def Let_def)

lemma runs_checkBriefNarrows:
  assumes "idPattern K"
  shows "runs (tracks (d_root d) K s0 k s) (checkBriefNarrows d req rec moxyfile) (checked (d_root d) K s0 k s)"
  unfolding checkBriefNarrows_def Let_def
  by (intro runs_sum runs_value follow_reads runs_attempt_or [OF runs_write_staged] runs_run_narrows)
     (auto simp: checked_def assms runs_remove_both)

lemma runs_narrowing:
  assumes "runs P m R" and "\<And>rec undo. runs (R (Narrowed rec undo)) (f rec undo) Q"
    and "\<And>e v undo. runs (R (Refused e v undo)) (g e v undo) Q"
  shows "runs P (\<lambda>w. case m w of (Narrowed rec undo, w1) \<Rightarrow> f rec undo w1 | (Refused e v undo, w1) \<Rightarrow> g e v undo w1) Q"
proof (rule runsI)
  fix w r w' assume w: "P (w_files w)"
    and run: "(case m w of (Narrowed rec undo, w1) \<Rightarrow> f rec undo w1 | (Refused e v undo, w1) \<Rightarrow> g e v undo w1) = (r, w')"
  obtain n w1 where n: "m w = (n, w1)" by (cases "m w")
  with assms(1) w have "R n (w_files w1)" by (blast dest: runsD)
  with run n runsD [OF assms(2)] runsD [OF assms(3)] show "Q r (w_files w')" by (cases n) simp_all
qed

lemma runs_spawn_checked:
  assumes K: "idPattern K" and law: "mint_law (sn_deps s)" and run: "open_run (sn_run s)" "rr_run_key (sn_run s) = k"
  shows "runs (tracks (d_root (sn_deps s)) K s0 k (Some (sn_run s), lo)) (spawn_checked s tm ce rec) (\<lambda>_. reached (d_root (sn_deps s)) K s0)"
  unfolding spawn_checked_def Let_def run(2)
proof (rule reads_or [OF reads_DeriveAgentMoxyfile], goal_cases)
  case (1 e)
  show ?case by (rule runs_fail_recorded [OF run(1)]) auto
next
  case (2 moxyfile)
  show ?case
  proof (rule runs_narrowing [OF runs_checkBriefNarrows [OF K]], goal_cases)
    case (1 rec1 undo)
    show ?case
      by (simp add: checked_def [abs_def]) (rule runs_assume, rule runs_tracks_reached, rule runs_spawn_mint [OF K law])
  next
    case (2 e v undo)
    show ?case
      by (simp add: checked_def [abs_def])
         (rule runs_assume, rule runs_bind [OF runs_recorded [OF run(1)]], auto intro: runs_fail_unwound)
  qed
qed

lemma runs_spawn_fresh:
  assumes "idPattern K" and "mint_law d" and "open_run run" and "rr_run_key run = k"
  shows "runs (tracks (d_root d) K s0 k (Some run, lo)) (spawn_fresh d tm ce req found run probe) (\<lambda>_. reached (d_root d) K s0)"
proof -
  have checked: "runs (tracks (d_root d) K s0 k (Some run, lo))
      (spawn_checked \<lparr>sn_deps = d, sn_req = req, sn_run = run, sn_brief = b, sn_canonical = c, sn_wall_clock = t\<rparr> tm ce rec)
      (\<lambda>_. reached (d_root d) K s0)" for b c t rec
    using runs_spawn_checked [of K "\<lparr>sn_deps = d, sn_req = req, sn_run = run, sn_brief = b, sn_canonical = c, sn_wall_clock = t\<rparr>" k s0 lo tm ce rec]
      assms by simp
  show ?thesis
    unfolding spawn_fresh_def
    by (intro runs_with_now reads_bind [OF reads_keeps [OF keeps_ext]] runs_state)
       (auto intro!: runs_Pair checked simp: tracks_reached)
qed

lemma runs_SpawnChild:
  assumes "mint_law d" and "idPattern K"
  shows "runs (reached (d_root d) K s0) (SpawnChild d tm ce req) (\<lambda>_. reached (d_root d) K s0)"
proof -
  have locked: "runs (reached (d_root d) K s0) (spawn_locked d tm ce req found probe) (\<lambda>_. reached (d_root d) K s0)"
    if key: "idPattern (rr_run_key found)" for found probe
  proof (rule runs_tracks [OF assms(2) key])
    fix s
    show "runs (tracks (d_root d) K s0 (rr_run_key found) s) (spawn_locked d tm ce req found probe) (\<lambda>_. reached (d_root d) K s0)"
      unfolding spawn_locked_def
    proof (rule runs_attempt [OF runs_LoadRun], simp add: tracks_reached, rule runs_assume, rule runs_option, goal_cases)
      case (2 again run)
      then have s: "s = (Some run, snd s)" and k: "rr_run_key run = rr_run_key found" by (cases s; simp add: sound_run_def)+
      have open_case: "runs (tracks (d_root d) K s0 (rr_run_key found) (Some run, snd s))
          (fail_recorded d (rr_run_key run) (map_option (\<lambda>(st, detail). SystemdRefusalEntry st detail) (err_as is_not_ready e)) e)
          (\<lambda>_. reached (d_root d) K s0)" if "open_run run" for e
        unfolding k by (rule runs_fail_recorded [OF that]) auto
      show ?case
      proof (rule runs_attempt [OF runs_fail_if], simp add: tracks_reached, rule runs_assume, rule follow_reads, simp add: tracks_reached, goal_cases)
        case (1 _ prior)
        then have "open_run run" by (simp add: CheckOpen_None)
        then have "runs (tracks (d_root d) K s0 (rr_run_key found) (Some run, snd s))
            (attempt_or (CheckSystemdReady d)
              (\<lambda>e. fail_recorded d (rr_run_key run) (map_option (\<lambda>(st, detail). SystemdRefusalEntry st detail) (err_as is_not_ready e)) e)
              (\<lambda>_. spawn_fresh d tm ce req found run probe)) (\<lambda>_. reached (d_root d) K s0)"
          by (intro reads_or [OF reads_keeps [OF keeps_systemd]] open_case runs_spawn_fresh [OF assms(2,1) _ k])
        with s show ?case by (cases prior) (auto intro!: runs_ret simp: tracks_reached)
      qed
    qed (auto intro!: runs_fail simp: tracks_reached)
  qed
  have found: "runs (reached (d_root d) K s0) (findSpawnRun (d_root d) rk room rp)
      (either (\<lambda>r fs. idPattern (rr_run_key r) \<and> reached (d_root d) K s0 fs) (reached (d_root d) K s0))" for rk room rp
  proof -
    have listed: "runs (reached (d_root d) K s0) (attempt (findRun (d_root d) match)
        (\<lambda>x. case x of None \<Rightarrow> fail e | Some r \<Rightarrow> ret r))
        (either (\<lambda>r fs. idPattern (rr_run_key r) \<and> reached (d_root d) K s0 fs) (reached (d_root d) K s0))" for match e
      by (rule runs_attempt [OF runs_findRun], simp, rule runs_assume, rule runs_option)
         (auto intro!: runs_fail runs_ret simp: sound_run_def)
    have loaded: "runs (reached (d_root d) K s0) (attempt (LoadRun (d_root d) rk) (\<lambda>x. case x of None \<Rightarrow> fail e | Some r \<Rightarrow> ret r))
        (either (\<lambda>r fs. idPattern (rr_run_key r) \<and> reached (d_root d) K s0 fs) (reached (d_root d) K s0))" if "idPattern rk" for e
      by (rule runs_tracks [OF assms(2) that], rule runs_attempt [OF runs_LoadRun], simp add: tracks_reached, rule runs_assume, rule runs_option)
         (auto intro!: runs_fail runs_ret simp: sound_run_def tracks_reached)
    show ?thesis
      unfolding findSpawnRun_def FindRunByRoom_def
      by (intro runs_if runs_fail listed runs_attempt [OF runs_fail_if] runs_assume loaded) (auto simp: ValidRunKey_None)
  qed
  show ?thesis
    unfolding SpawnChild_def
    by (intro runs_if runs_sum runs_fail runs_attempt [OF found] runs_assume runs_prod runs_attempt [OF runs_fail_if] follow_reads locked)
       auto
qed

end
