(* ===== verification/Run_Lifecycle.thy ===== *)
theory Run_Lifecycle
  imports Run_Follow_Verbs
begin

text \<open>
  The lifecycle as a transition system: a step is one verb of juggler, a write of the agent
  to its traffic file, or anything outside juggler's files. Every step refines the machine of
  each run key, so what the machine keeps holds of every store juggler can reach
  (\<open>run_law\<close> states the interface, its interpretations the laws).
\<close>

section \<open>Steps\<close>

inductive juggler_step :: "'e deps \<Rightarrow> 'e world \<Rightarrow> 'e world \<Rightarrow> bool" for d where
  new_run: "NewRun d req w = (r, w') \<Longrightarrow> juggler_step d w w'"
| spawn: "SpawnChild d tm ce req w = (r, w') \<Longrightarrow> juggler_step d w w'"
| wait: "WaitChild d rec timeout grace w = (r, w') \<Longrightarrow> juggler_step d w w'"
| resolve: "Resolve d sched req w = (r, w') \<Longrightarrow> juggler_step d w w'"
| clean: "Clean d req w = (r, w') \<Longrightarrow> juggler_step d w w'"
| entry: "AppendRunLedgerEntry (d_root d) fmt key e w = (r, w') \<Longrightarrow> juggler_step d w w'"
| exit_wake: "ExitWake d req w = Some (r, w') \<Longrightarrow> juggler_step d w w'"
| traffic: "w' = w\<lparr>w_files := alist_put (TrafficPath (d_root d) p job) (TextFile t) (w_files w)\<rparr> \<Longrightarrow> juggler_step d w w'"
| outside: "w_files w' = w_files w \<Longrightarrow> juggler_step d w w'"

abbreviation juggler_steps :: "'e deps \<Rightarrow> 'e world \<Rightarrow> 'e world \<Rightarrow> bool" where
  "juggler_steps d \<equiv> (juggler_step d)\<^sup>*\<^sup>*"

text \<open>From an empty state directory.\<close>

definition reachable :: "'e deps \<Rightarrow> 'e world \<Rightarrow> bool" where
  "reachable d w \<longleftrightarrow> (\<exists>w0. w_files w0 = [] \<and> juggler_steps d w0 w)"

section \<open>The hook and the wait\<close>

lemma done_attempt_files: "done_attempt d req st m w = (r, w') \<Longrightarrow> w_files w' = w_files w"
  unfolding done_attempt_def
  by (rule reads_files [of "done_attempt d req st m", unfolded done_attempt_def])
     (intro reads_keeps keeps_attempt_or keeps_ext; auto simp: keeps_def)

text \<open>What a retrying hook returns, and that it touches no file.\<close>

lemma doneWithRetry_result:
  assumes "doneWithRetry d req st m w = Some (r, w')"
  shows "w_files w' = w_files w \<and> (\<forall>t wrote. r = Inr (t, wrote) \<longrightarrow>
    (if wrote then t = hook_record st m (xr_ledger_ref req) else IsTerminalState (jr_type t)))"
proof -
  let ?P = "\<lambda>(d :: 'a deps) req st m w y. w_files (snd y) = w_files w \<and> (\<forall>t wrote. fst y = Inr (t, wrote) \<longrightarrow>
    (if wrote then t = hook_record st m (xr_ledger_ref req) else IsTerminalState (jr_type t)))"
  have "?P d req st m w (r, w')"
  proof (rule doneWithRetry.raw_induct [where P = ?P, OF _ assms], goal_cases)
    case (1 self d req st m w y)
    obtain a w1 where a: "done_attempt d req st m w = (a, w1)" by (cases "done_attempt d req st m w")
    have files: "w_files w1 = w_files w" by (rule done_attempt_files [OF a])
    show ?case
    proof (cases a)
      case (Inl x)
      with a have "if snd x then fst x = hook_record st m (xr_ledger_ref req) else IsTerminalState (jr_type (fst x))"
        by (auto simp: done_attempt_def attempt_or_def split: prod.splits sum.splits option.splits dest: terminal_found)
      with 1(2) a Inl files show ?thesis by auto
    next
      case (Inr e)
      obtain stop w2 where s: "ext (sv_retry_wait d) w1 = (stop, w2)" by (cases "ext (sv_retry_wait d) w1")
      with files have "w_files w2 = w_files w" by (auto dest: ext_files)
      with 1 a Inr s show ?thesis by (auto split: if_splits)
    qed
  qed
  then show ?thesis by simp
qed

lemma reads_spool_ledger: "reads (readAgentLedger path)" "reads (spool_ledger d rec)"
proof -
  show r: "reads (readAgentLedger path)" for path
    unfolding readAgentLedger_def
    by (intro reads_keeps keeps_if keeps_ret keeps_attempt keeps_may_fail) (auto simp: keeps_def)
  show "reads (spool_ledger d rec)"
    unfolding spool_ledger_def using r
    by (intro reads_keeps keeps_attempt_or keeps_ext) (auto simp: keeps_def reads_def)
qed

lemma reads_with_traffic: "reads (with_traffic d rec l out)"
proof -
  have "reads (trafficPathIfExists path)" for path
    unfolding trafficPathIfExists_def by (intro reads_keeps keeps_if keeps_attempt_or keeps_stat_file) (auto simp: keeps_def)
  from reads_files [OF this] show ?thesis by (auto simp: with_traffic_def [abs_def] reads_iff Let_def split: prod.split)
qed

lemma reads_WaitChild: "reads (WaitChild d rec timeout grace)"
proof -
  have verdict: "reads (read_verdict d rec trm)" for trm
    unfolding read_verdict_def Let_def
    by (intro reads_keeps keeps_attempt_or reads_spool_ledger [unfolded reads_def, rule_format])
       (auto simp: keeps_def on_files_def reads_with_traffic [unfolded reads_iff, rule_format]
         split: prod.splits option.splits dest!: reads_files [OF reads_spool_ledger(2)])
  have journal: "reads (wait_journal d rec grace e t recs)" for e t recs
    unfolding wait_journal_def no_verdict_def
    by (intro reads_keeps keeps_if keeps_option keeps_attempt_or keeps_requestStop verdict [unfolded reads_def, rule_format])
       (auto intro!: verdict [unfolded reads_def, rule_format] simp: keeps_Pair split: prod.splits option.splits)
  show ?thesis
    unfolding reads_iff
  proof
    fix w
    obtain start w1 where 1: "ext (sv_clock d) w = (start, w1)" by (cases "ext (sv_clock d) w")
    obtain e w2 where 2: "ext (sv_wait_terminal d (cr_parent rec) (cr_job rec) timeout) w1 = (e, w2)"
      by (cases "ext (sv_wait_terminal d (cr_parent rec) (cr_job rec) timeout) w1")
    obtain now w3 where 3: "ext (sv_clock d) w2 = (now, w3)" by (cases "ext (sv_clock d) w2")
    have "w_files w3 = w_files w" using ext_files [OF 1] ext_files [OF 2] ext_files [OF 3] by simp
    with 1 2 3 show "w_files (snd (WaitChild d rec timeout grace w)) = w_files w"
      by (auto simp: WaitChild_def observe_def attempt_or_def journal [unfolded reads_iff, rule_format]
          split: prod.splits sum.splits dest: ext_files)
  qed
qed

lemma runs_relay: "idPattern K \<Longrightarrow> runs (reached (d_root d) K s0) (relay d req recs trm wrote) (\<lambda>_. reached (d_root d) K s0)"
  unfolding relay_def [abs_def] Let_def
  by (rule runs_tracks, assumption, assumption, rule runs_bind [OF runs_sendExitWakes])
     (auto intro!: runs_prod runs_value simp: tracks_reached split: prod.split)

lemma ExitWake_reached:
  assumes "idPattern K" and "reached (d_root d) K s0 (w_files w)" and "ExitWake d req w = Some (r, w')"
  shows "reached (d_root d) K s0 (w_files w')"
proof -
  obtain x w1 where x: "ext (sv_records d (xr_target req) (xr_job req)) w = (x, w1)"
    by (cases "ext (sv_records d (xr_target req) (xr_job req)) w")
  have 1: "reached (d_root d) K s0 (w_files w1)" using assms(2) ext_files [OF x] by simp
  have relayed: "reached (d_root d) K s0 (w_files w')"
    if "relay d req recs trm wrote w2 = (r, w')" and "w_files w2 = w_files w1" for recs trm wrote w2
    using runsD [OF runs_relay [OF assms(1)] _ that(1)] 1 that(2) by simp
  show ?thesis
    using assms(3) x 1 relayed
    by (auto simp: ExitWake_def split: sum.splits list.splits option.splits prod.splits dest!: doneWithRetry_result)
qed

section \<open>Every step refines the machine\<close>

lemma step_reached:
  assumes "juggler_step d w w'" and "mint_law d" and K: "idPattern K" and R: "reached (d_root d) K s0 (w_files w)"
  shows "reached (d_root d) K s0 (w_files w')"
  using assms(1)
proof cases
  case (new_run req r)
  then show ?thesis by (rule runsD [OF runs_NewRun [OF assms(2) K] R])
next
  case (spawn tm ce req r)
  then show ?thesis by (rule runsD [OF runs_SpawnChild [OF assms(2) K] R])
next
  case (wait rec timeout grace r)
  from reads_files [OF reads_WaitChild this] R show ?thesis by simp
next
  case (resolve sched req r)
  then show ?thesis by (rule runsD [OF runs_Resolve [OF K] R])
next
  case (clean req r)
  then show ?thesis by (rule runsD [OF runs_Clean [OF K] R])
next
  case (entry fmt key e r)
  then show ?thesis by (rule runsD [OF runs_AppendRunLedgerEntry [OF K] R])
next
  case (exit_wake req r)
  then show ?thesis by (rule ExitWake_reached [OF K R])
next
  case (traffic p job t)
  then show ?thesis using reached_put_plain [OF R K] by (simp add: plain_def)
next
  case outside
  with R show ?thesis by simp
qed

lemma steps_reached:
  assumes "juggler_steps d w w'" and "mint_law d" and "idPattern K" and "wf_store (d_root d) (w_files w)"
  shows "reached (d_root d) K (run_state_at (d_root d) K (w_files w)) (w_files w')"
  using assms(1)
proof (induction rule: rtranclp_induct)
  case base
  with assms(4) show ?case by (simp add: reached_def)
next
  case (step w1 w2)
  then show ?case by (blast intro: step_reached [OF _ assms(2,3)])
qed

lemma wf_empty: "wf_store root []"
  by (simp add: wf_store_def)

section \<open>Laws of a run key\<close>

text \<open>A law: a property of a run key's state that no step of the machine breaks.\<close>

locale run_law =
  fixes key :: string and J :: "run_state \<Rightarrow> bool"
  assumes law: "run_step key s s' \<Longrightarrow> J s \<Longrightarrow> J s'"
begin

lemma law_steps: "run_steps key s s' \<Longrightarrow> J s \<Longrightarrow> J s'"
  by (induction rule: rtranclp_induct) (auto intro: law)

lemma law_world:
  assumes "juggler_steps d w w'" and "mint_law d" and "idPattern key" and "wf_store (d_root d) (w_files w)"
    and "J (run_state_at (d_root d) key (w_files w))"
  shows "J (run_state_at (d_root d) key (w_files w'))"
proof -
  have "run_steps key (run_state_at (d_root d) key (w_files w)) (run_state_at (d_root d) key (w_files w'))"
    using steps_reached [OF assms(1-4)] by (simp add: reached_def)
  then show ?thesis using assms(5) by (rule law_steps)
qed

lemma law_reachable:
  assumes "reachable d w" and "mint_law d" and "idPattern key" and "J (None, None)"
  shows "J (run_state_at (d_root d) key (w_files w))"
proof -
  from assms(1) obtain w0 where w0: "w_files w0 = []" "juggler_steps d w0 w" by (auto simp: reachable_def)
  with assms(4) show ?thesis
    by (intro law_world [OF w0(2) assms(2,3)]) (simp_all add: wf_empty run_state_at_def run_at_def ledger_at_def)
qed

end

definition is_reaped :: "run_state \<Rightarrow> bool" where
  "is_reaped s \<longleftrightarrow> (case fst s of Some r \<Rightarrow> rr_reaped r | None \<Rightarrow> False)"

text \<open>The run record is still \<open>r\<close>, up to the flag that its accounts are torn down, which is only ever set.\<close>

definition settled_as :: "run_record \<Rightarrow> run_state \<Rightarrow> bool" where
  "settled_as r s \<longleftrightarrow> (\<exists>b. fst s = Some (r\<lparr>rr_torn_down := b\<rparr>) \<and> (rr_torn_down r \<longrightarrow> b))"

definition ledger_from :: "run_entry list \<Rightarrow> run_state \<Rightarrow> bool" where
  "ledger_from cs s \<longleftrightarrow> (case snd s of Some l \<Rightarrow> prefix cs (rl_calls l) | None \<Rightarrow> False)"

text \<open>The entries a closed ledger still takes: refused spawns, the canary, the teardown.\<close>

definition late_entry :: "run_entry \<Rightarrow> bool" where
  "late_entry e \<longleftrightarrow> re_kind e = ''refusal'' \<or> re_tool e = CanaryTool \<or> re_tool e = TeardownTool"

definition closed_from :: "run_entry list \<Rightarrow> resolution \<Rightarrow> run_state \<Rightarrow> bool" where
  "closed_from cs z s \<longleftrightarrow> (case snd s of Some l \<Rightarrow> rl_resolved l = Some z \<and> prefix cs (rl_calls l)
     \<and> list_all late_entry (drop (length cs) (rl_calls l)) | None \<Rightarrow> False)"

definition ledger_agrees :: "run_state \<Rightarrow> bool" where
  "ledger_agrees s \<longleftrightarrow>
     (case Option.bind (snd s) rl_resolved of Some z \<Rightarrow> rz_state z = StateSucceeded \<or> rz_state z = StateFailed | None \<Rightarrow> True)
     \<and> (case Option.bind (fst s) rr_resolved of Some z \<Rightarrow> Option.bind (snd s) rl_resolved = Some z | None \<Rightarrow> True)"

definition torn_down_gone :: "string \<Rightarrow> run_state \<Rightarrow> bool" where
  "torn_down_gone key s \<longleftrightarrow> (case fst s of
     Some r \<Rightarrow> rr_torn_down r \<longrightarrow> rr_root_principal r \<in> set (gone_principals (ledger_of key (snd s))) | None \<Rightarrow> True)"

definition rooted :: "string \<Rightarrow> int \<Rightarrow> run_state \<Rightarrow> bool" where
  "rooted p t s \<longleftrightarrow> (case fst s of Some r \<Rightarrow> rr_root_principal r = p \<and> rr_created_at r = t | None \<Rightarrow> False)"

lemmas law_defs = is_reaped_def settled_as_def ledger_from_def closed_from_def ledger_agrees_def torn_down_gone_def rooted_def

lemma ledger_of_simps [simp]: "ledger_of key (Some l) = l" "ledger_of key None = new_run_ledger key"
  by (simp_all add: ledger_of_def)

lemma rl_append [simp]: "rl_calls (append_entries es l) = rl_calls l @ es" "rl_resolved (append_entries es l) = rl_resolved l"
  by (simp_all add: append_entries_def)

lemma rl_new [simp]: "rl_calls (new_run_ledger k) = []" "rl_resolved (new_run_ledger k) = None"
  by (simp_all add: new_run_ledger_def)

interpretation reaped: run_law key is_reaped for key
  by unfold_locales (erule run_step.cases; auto simp: is_reaped_def tombstone_def unsettled_def)

lemma settled_step:
  assumes "run_step key s s'" and "rr_resolved r = Some z" and "\<not> rr_pending r" and "settled_as r s"
  shows "settled_as r s'"
  using assms by (cases rule: run_step.cases) (auto simp: settled_as_def open_run_def)

interpretation settled: run_law key "\<lambda>s. rr_resolved r = Some z \<and> \<not> rr_pending r \<and> settled_as r s" for key r z
  by unfold_locales (blast intro: settled_step)

interpretation appended: run_law key "ledger_from cs" for key cs
  by unfold_locales (erule run_step.cases; auto simp: ledger_from_def append_entries_def ledger_of_def split: option.splits)

lemma late_account: "re_tool e = CanaryTool \<or> re_tool e = TeardownTool \<Longrightarrow> late_entry e"
  by (auto simp: late_entry_def)

interpretation closed: run_law key "closed_from cs z" for key cs z
proof (unfold_locales, erule run_step.cases, goal_cases)
  case (6 es r lo)
  then show ?case by (auto simp: closed_from_def ledger_of_def late_account list_all_iff prefix_def split: option.splits)
qed (auto simp: closed_from_def ledger_of_def late_entry_def prefix_def split: option.splits)

interpretation root: run_law key "rooted p t" for key p t
  by unfold_locales (erule run_step.cases; auto simp: rooted_def tombstone_def)

interpretation agrees: run_law key ledger_agrees for key
  by unfold_locales
     (erule run_step.cases; auto simp: ledger_agrees_def tombstone_def unsettled_def ledger_of_def split: option.splits bind_splits)

interpretation torn: run_law key "torn_down_gone key" for key
  by unfold_locales
     (erule run_step.cases; auto simp: torn_down_gone_def tombstone_def unsettled_def gone_append gone_principals_def split: option.splits)

end
