(* ===== verification/Run_Demo.thy ===== *)
theory Run_Demo
  imports Run_Lifecycle
begin

text \<open>
  A concrete instance of the collaborators and a few worlds, for the examples beside the
  theorems: services that succeed (a post fails while the outside is in state 1), a journal that
  always ends in \<open>succeeded\<close>, and an injected clock that stands still.
\<close>

definition demo_deps :: "nat deps" where
  "demo_deps = \<lparr>d_root = ''s'', sv_now = (\<lambda>e. (7, e)), sv_clock = (\<lambda>e. (int e, Suc e)), sv_fmt = itoa,
     sv_parse_time = (\<lambda>s. if s = ''7'' then Some 7 else None), sv_new_principal = (\<lambda>e. (''p'', e)),
     sv_root_principal = (\<lambda>k. ''r'' @ k), sv_sha = (\<lambda>s. ''h''),
     sv_start = (\<lambda>t l s e. (Inr ''j'', e)), sv_progress = (\<lambda>t j m e. (Inr (), e)), sv_done = (\<lambda>t j r e. (Inr (), e)),
     sv_records = (\<lambda>t j e. (Inr [no_record\<lparr>jr_type := ''succeeded'', jr_message := ''ok''\<rparr>], e)),
     sv_spool_path = (\<lambda>t j e. (Inr ''sp'', e)), sv_wait_terminal = (\<lambda>t j g e. (Inr (), e)),
     sv_cancel = (\<lambda>t j m e. (Inr (), e)), sv_retry_wait = (\<lambda>e. (True, e)),
     sv_mint = (\<lambda>k pw e. ((Inr \<lparr>cd_jid = k @ ''@x'', cd_password_file = pw\<rparr>, Some ''secret''), e)),
     sv_revoke = (\<lambda>p pw e. (Inr (), e)), sv_post = (\<lambda>i r s b e. (if e = 1 then Inl (ErrMsg ''down'') else Inr ''m1'', e)), sv_wake = (\<lambda>k e. (Inr (), e)),
     sv_create_room = (\<lambda>i r os e. (Inr \<lparr>ri_room = r, ri_created = True, ri_owners = os, ri_members = []\<rparr>, e)),
     sv_affiliate = (\<lambda>i r a j e. (Inr (), e)), sv_systemd = (\<lambda>e. (Inr \<lparr>sd_state = ''running'', sd_detail = []\<rparr>, e)),
     sv_launch = (\<lambda>u e. (Inr (), e)), sv_moxy_path = ''/m'', sv_moxy_show = (\<lambda>env dir e. (Inr ''t'', e)),
     sv_moxy_narrows = (\<lambda>env a b e. (Inr \<lparr>nr_widens = False, nr_lines = [], nr_violations = [], nr_violations_parsed = False,
        nr_moxy_bin = [], nr_parent_moxyfile_digest = []\<rparr>, e)),
     sv_moxy_resolve = (\<lambda>env n t e. (Inr (''srv'', t), e))\<rparr>"

lemma demo_mint_law: "mint_law demo_deps"
  by (simp add: mint_law_def demo_deps_def)

definition empty_world :: "nat world" where
  "empty_world = \<lparr>w_files = [], w_spools = [], w_faults = [], w_ext = 0\<rparr>"

definition demo_new :: new_run_request where
  "demo_new = \<lparr>nq_run_key = ''k'', nq_issuer = ''i'', nq_input = ''1'', nq_room = ''a@b'', nq_room_domain = [], nq_operator_jid = []\<rparr>"

definition demo_resolve :: resolve_request where
  "demo_resolve = \<lparr>rq_run_job = ''j'', rq_state = ''succeeded'', rq_reason = ''ok'', rq_fallback_artifacts = [], rq_stop_grace = 0,
     rq_result_line = [], rq_canary_room = [], rq_keep_accounts = False\<rparr>"

text \<open>A run made, and the same run resolved.\<close>

definition started :: "nat world" where
  "started = snd (NewRun demo_deps demo_new empty_world)"

definition settled_world :: "nat world" where
  "settled_world = snd (Resolve demo_deps [] demo_resolve started)"

lemma demo_steps: "juggler_steps demo_deps empty_world started" "juggler_steps demo_deps started settled_world"
proof -
  have "juggler_step demo_deps empty_world started" unfolding started_def
    by (rule juggler_step.new_run [OF prod.collapse [symmetric]])
  then show "juggler_steps demo_deps empty_world started" by blast
  have "juggler_step demo_deps started settled_world" unfolding settled_world_def
    by (rule juggler_step.resolve [OF prod.collapse [symmetric]])
  then show "juggler_steps demo_deps started settled_world" by blast
qed

text \<open>A run whose first post failed, and the sweep that reaped it.\<close>

definition demo_clean :: clean_request where
  "demo_clean = \<lparr>cq_older_than = 0, cq_resolved = False, cq_resolved_older_than = 0, cq_act = True\<rparr>"

definition pending_world :: "nat world" where
  "pending_world = snd (NewRun demo_deps demo_new (empty_world\<lparr>w_ext := 1\<rparr>))"

definition reaped_world :: "nat world" where
  "reaped_world = snd (Clean demo_deps demo_clean pending_world)"

lemma demo_reap: "juggler_steps demo_deps (empty_world\<lparr>w_ext := 1\<rparr>) pending_world" "juggler_step demo_deps pending_world reaped_world"
  unfolding pending_world_def reaped_world_def
  by (rule r_into_rtranclp, rule juggler_step.new_run [OF prod.collapse [symmetric]], rule juggler_step.clean [OF prod.collapse [symmetric]])

lemma demo_reachable: "reachable demo_deps started" "reachable demo_deps settled_world" "reachable demo_deps pending_world" "reachable demo_deps reaped_world"
proof -
  have empty: "w_files empty_world = []" "w_files (empty_world\<lparr>w_ext := 1\<rparr>) = []" by (simp_all add: empty_world_def)
  show "reachable demo_deps started" "reachable demo_deps pending_world"
    unfolding reachable_def using empty demo_steps(1) demo_reap(1) by blast+
  show "reachable demo_deps settled_world" "reachable demo_deps reaped_world"
    unfolding reachable_def using empty rtranclp_trans [OF demo_steps] rtranclp.rtrancl_into_rtrancl [OF demo_reap] by blast+
qed




end
