(* ===== verification/Run_Verb_Facts.thy ===== *)
theory Run_Verb_Facts
  imports Run_Lifecycle
begin

text \<open>
  What single verbs do, branch by branch: a new run on a key already used, and the entry that
  goes to an open ledger. The claims about verbs rest on these.
\<close>

section \<open>New runs on a used key\<close>

lemma may_fail_cases:
  assumes "may_fail w = (r, w')"
  shows "w_files w' = w_files w \<and> (w_faults w = [] \<longrightarrow> r = Inr () \<and> w' = w)"
  using assms by (auto simp: may_fail_def split: list.splits)

lemma readJSONFile_cases:
  assumes "readJSONFile sel path w = (x, w')"
  shows "w_files w' = w_files w \<and> (\<forall>y. x = Inr y \<longrightarrow> y = Option.bind (map_of (w_files w) path) sel)
    \<and> (w_faults w = [] \<and> (\<forall>c. map_of (w_files w) path = Some c \<longrightarrow> sel c \<noteq> None)
         \<longrightarrow> x = Inr (Option.bind (map_of (w_files w) path) sel) \<and> w' = w)"
proof -
  obtain f w1 where f: "may_fail w = (f, w1)" by (cases "may_fail w")
  have e1: "is_not_exist (not_exist v path)" for v by (simp add: is_not_exist_def not_exist_def)
  have e2: "\<not> is_not_exist e" if "f = Inl e" for e
    using f that by (auto simp: may_fail_def is_not_exist_def split: list.splits option.splits)
  have e3: "w_files w1 = w_files w" "w_faults w = [] \<Longrightarrow> f = Inr ()"  "w_faults w = [] \<Longrightarrow> w1 = w" using may_fail_cases[OF f] by auto
  show ?thesis
  proof (cases f)
    case (Inl e)
    with f assms e2[OF Inl] have "x = Inl e" "w' = w1" by (simp_all add: readJSONFile_def read_file_def attempt_def attempt_or_def)
    then show ?thesis using e3 Inl by auto
  next
    case (Inr u)
    show ?thesis
    proof (cases "map_of (w_files w) path")
      case None
      with f Inr assms e1 e3(1) have "x = Inr None" "w' = w1" by (simp_all add: readJSONFile_def read_file_def attempt_def attempt_or_def)
      then show ?thesis using e3 None by auto
    next
      case (Some c)
      then show ?thesis
      proof (cases "sel c")
        case None
        with f Inr assms e1 e3(1) Some have "\<exists>e. x = Inl e" "w' = w1" by (auto simp: readJSONFile_def read_file_def attempt_def attempt_or_def)
        then show ?thesis using e3 Some None by auto
      next
        case Sc: (Some v)
        with f Inr assms e1 e3(1) Some have "x = Inr (Some v)" "w' = w1" by (simp_all add: readJSONFile_def read_file_def attempt_def attempt_or_def)
        then show ?thesis using e3 Some Sc by auto
      qed
    qed
  qed
qed

lemma LoadRun_cases:
  assumes "LoadRun root k w = (x, w')"
  shows "w_files w' = w_files w"
    and "x = Inr y \<Longrightarrow> y = run_at root k (w_files w)"
    and "w_faults w = [] \<Longrightarrow> run_at root k (w_files w) = Some r \<Longrightarrow> x = Inr (Some r) \<and> w' = w"
proof -
  note load = readJSONFile_cases [OF assms [unfolded LoadRun_def], folded run_at_def]
  show "w_files w' = w_files w" using load by (rule conjunct1)
  show "x = Inr y \<Longrightarrow> y = run_at root k (w_files w)" using load by blast
  assume "w_faults w = []" and r: "run_at root k (w_files w) = Some r"
  moreover from r have "\<forall>c. map_of (w_files w) (runPath root k) = Some c \<longrightarrow> as_run c \<noteq> None"
    by (cases "map_of (w_files w) (runPath root k)") (simp_all add: run_at_def)
  ultimately have "x = Inr (run_at root k (w_files w)) \<and> w' = w" using load by blast
  with r show "x = Inr (Some r) \<and> w' = w" by simp
qed

lemma LoadRun_found: "LoadRun root k w = (Inr y, w') \<Longrightarrow> y = run_at root k (w_files w) \<and> w_files w' = w_files w"
  using LoadRun_cases by blast

lemma load_ledger_cases:
  assumes "loadRunLedger root k w = (x, w')"
  shows "w_files w' = w_files w"
    and "x = Inr y \<Longrightarrow> y = ledger_of k (ledger_at root k (w_files w))"
    and "w_faults w = [] \<Longrightarrow> map_of (w_files w) (RunLedgerPath root k) \<noteq> None \<longrightarrow> ledger_at root k (w_files w) \<noteq> None \<Longrightarrow>
      x = Inr (ledger_of k (ledger_at root k (w_files w))) \<and> w' = w"
proof -
  obtain z w1 where z: "readJSONFile as_ledger (RunLedgerPath root k) w = (z, w1)" by (cases "readJSONFile as_ledger (RunLedgerPath root k) w")
  note read = readJSONFile_cases [OF z, folded ledger_at_def]
  have x: "w' = w1" "x = (case z of Inl e \<Rightarrow> Inl e | Inr lo \<Rightarrow> Inr (ledger_of k lo))"
    using assms z by (cases z; simp add: loadRunLedger_def attempt_def attempt_or_def ledger_of_def)+
  from read x(1) show "w_files w' = w_files w" by blast
  from read x(2) show "x = Inr y \<Longrightarrow> y = ledger_of k (ledger_at root k (w_files w))"
    by (cases z) simp_all
  assume "w_faults w = []" and "map_of (w_files w) (RunLedgerPath root k) \<noteq> None \<longrightarrow> ledger_at root k (w_files w) \<noteq> None"
  moreover from this(2) have "\<forall>c. map_of (w_files w) (RunLedgerPath root k) = Some c \<longrightarrow> as_ledger c \<noteq> None"
    unfolding ledger_at_def by (metis bind.bind_lunit option.distinct(1))
  ultimately have "z = Inr (ledger_at root k (w_files w)) \<and> w1 = w" using read by blast
  with x show "x = Inr (ledger_of k (ledger_at root k (w_files w))) \<and> w' = w" by simp
qed

lemma load_ledger_found:
  "loadRunLedger root k w = (Inr y, w') \<Longrightarrow> y = ledger_of k (ledger_at root k (w_files w)) \<and> w_files w' = w_files w"
  using load_ledger_cases by blast

lemma write_cases:
  assumes "writeFileAtomic path c w = (x, w')"
  shows "x = Inr () \<and> w_files w' = alist_put path c (w_files w) \<or> (\<exists>e. x = Inl e) \<and> w_files w' = w_files w \<and> w_faults w \<noteq> []"
  using assms by (auto simp: writeFileAtomic_def attempt_def attempt_or_def may_fail_def split: prod.splits sum.splits option.splits list.splits)

lemma lock_found: "lock p w = (Inr (), w') \<Longrightarrow> w_files w' = w_files w"
  by (simp add: lock_def may_fail_cases)

text \<open>A new run under a given key fails before it looks at the record, or goes on under the lock.\<close>

lemma NewRun_cases:
  assumes "NewRun d req w = (x, w')" and "nq_run_key req \<noteq> []"
  obtains (refused) e where "x = Inl e" and "w_files w' = w_files w" and "w_faults w = [] \<longrightarrow>
      new_run_usage req \<noteq> None \<or> \<not> idPattern (nq_run_key req)"
    | (locked) w1 where "w_files w1 = w_files w" and "w_faults w = [] \<longrightarrow> w_faults w1 = []" and "new_run_usage req = None"
        and "idPattern (nq_run_key req)" and "new_run_locked d req w1 = (x, w')"
  using assms
  by (auto simp: NewRun_def new_run_keyed_def attempt_def attempt_or_def lock_def ValidRunKey_def fail_if_def
      split: prod.splits sum.splits option.splits if_splits dest!: may_fail_cases dest: fail_if_None)

lemma new_run_locked_load:
  assumes "run_at (d_root d) (nq_run_key req) (w_files w) = Some r" and "new_run_locked d req w = (x, w')"
  obtains (failed) e where "x = Inl e" and "w_files w' = w_files w" and "w_faults w \<noteq> []"
    | (found) w1 where "w_files w1 = w_files w"
        and "(if rr_reaped r then (case CheckOpen (sv_fmt d) r of Some e \<Rightarrow> fail e | None \<Rightarrow> ret (newRunResult zero_run False))
              else if \<not> rr_pending r then ret (newRunResult r True)
              else with_now d (\<lambda>now. let refreshed = r\<lparr>rr_pending_since := now\<rparr> in
                attempt_or (SaveRun (d_root d) refreshed)
                  (\<lambda>e. fail (ErrWrap (''refreshing the pending run's retry stamp: '') e []))
                  (\<lambda>_. mint_root d req (Some refreshed)))) w1 = (x, w')"
proof -
  obtain y w1 where y: "LoadRun (d_root d) (nq_run_key req) w = (y, w1)" by (cases "LoadRun (d_root d) (nq_run_key req) w")
  note load = LoadRun_cases [OF y]
  show thesis
  proof (cases y)
    case (Inl e)
    with y assms(2) have "x = Inl e" "w' = w1" by (simp_all add: new_run_locked_def attempt_def attempt_or_def)
    with load assms(1) Inl show thesis by (auto intro: failed)
  next
    case (Inr z)
    with load(2) assms(1) have "z = Some r" by simp
    with y Inr assms(2) load(1) show thesis by (intro found [of w1]) (simp_all add: new_run_locked_def attempt_def attempt_or_def)
  qed
qed

lemma new_run_locked_reaped:
  assumes "run_at (d_root d) (nq_run_key req) (w_files w) = Some r" and "rr_reaped r" and "new_run_locked d req w = (x, w')"
  shows "w_files w' = w_files w \<and> (\<exists>e. x = Inl e)"
  using assms(1,3)
proof (cases rule: new_run_locked_load)
  case (found w1)
  with assms(2) show ?thesis by (cases "rr_resolved r") (auto simp: CheckOpen_def)
qed simp

lemma new_run_locked_used:
  assumes "run_at (d_root d) (nq_run_key req) (w_files w) = Some r" and "\<not> rr_reaped r" and "\<not> rr_pending r"
    and "new_run_locked d req w = (x, w')"
  shows "w_files w' = w_files w \<and> ((\<exists>e. x = Inl e) \<or> x = Inr (newRunResult r True)) \<and> (w_faults w = [] \<longrightarrow> x = Inr (newRunResult r True))"
  using assms(1,4)
proof (cases rule: new_run_locked_load)
  case (found w1)
  with assms(2,3) show ?thesis by simp
qed simp

section \<open>Entries\<close>

text \<open>The runs that take entries.\<close>

definition appendable :: "string \<Rightarrow> string \<Rightarrow> files \<Rightarrow> bool" where
  "appendable root key fs \<longleftrightarrow> idPattern key \<and> (case run_at root key fs of Some r \<Rightarrow> open_run r | None \<Rightarrow> False)
     \<and> rl_resolved (ledger_of key (ledger_at root key fs)) = None"

definition appended :: "string \<Rightarrow> string \<Rightarrow> run_entry \<Rightarrow> files \<Rightarrow> files" where
  "appended root key e fs = alist_put (RunLedgerPath root key) (LedgerFile (append_entries [e] (ledger_of key (ledger_at root key fs)))) fs"

lemma runs_LoadRun_at: "runs P (LoadRun root k) (either (\<lambda>x fs. x = run_at root k fs \<and> P fs) P)"
proof (rule runsI)
  fix w r w' assume "P (w_files w)" and "LoadRun root k w = (r, w')"
  with LoadRun_cases(1,2) [OF this(2)] show "either (\<lambda>x fs. x = run_at root k fs \<and> P fs) P r (w_files w')"
    by (cases r) simp_all
qed

lemma runs_loadRunLedger_at: "runs P (loadRunLedger root k) (either (\<lambda>x fs. x = ledger_of k (ledger_at root k fs) \<and> P fs) P)"
proof (rule runsI)
  fix w r w' assume "P (w_files w)" and "loadRunLedger root k w = (r, w')"
  with load_ledger_cases(1,2) [OF this(2)] show "either (\<lambda>x fs. x = ledger_of k (ledger_at root k fs) \<and> P fs) P r (w_files w')"
    by (cases r) simp_all
qed

lemma runs_append_entry:
  "runs (\<lambda>fs. fs = fs0) (AppendRunLedgerEntry root fmt key e)
     (either (\<lambda>_ fs. appendable root key fs0 \<and> fs = appended root key e fs0) (\<lambda>fs. fs = fs0))"
proof -
  have entry: "runs (\<lambda>fs. y = run_at root key fs \<and> fs = fs0) (case y of None \<Rightarrow> fail (ErrMsg (''no run with key '' @ quoted key))
     | Some run \<Rightarrow>
       if rr_pending run \<or> rr_reaped run then fail_if (CheckOpen fmt run)
       else attempt (loadRunLedger root key) (\<lambda>l.
         if rl_resolved l \<noteq> None \<or> rr_resolved run \<noteq> None
         then fail (ErrMsg (''run '' @ key @ '' is already resolved; its ledger is closed''))
         else writeRunLedger root key (append_entries [e] l)))
     (either (\<lambda>_ fs. appendable root key fs0 \<and> fs = appended root key e fs0) (\<lambda>fs. fs = fs0))" if "idPattern key" for y
  proof (intro runs_option runs_fail runs_if runs_attempt [OF runs_loadRunLedger_at], goal_cases)
    case (2 run)
    then obtain x where "CheckOpen fmt run = Some x" by (cases "CheckOpen fmt run") (auto simp: CheckOpen_None open_run_def)
    then show ?case unfolding fail_if_def by (simp add: runs_def)
  next
    case (5 run l)
    with that show ?case
      unfolding writeRunLedger_def
      by (intro runs_conseq [OF runs_write [where P = "\<lambda>fs. l = ledger_of key (ledger_at root key fs) \<and> y = run_at root key fs \<and> fs = fs0"
              and R = "\<lambda>fs. appendable root key fs0 \<and> fs = appended root key e fs0" and E = "\<lambda>fs. fs = fs0"]])
         (auto simp: appendable_def appended_def open_run_def)
  qed simp_all
  show ?thesis
    unfolding AppendRunLedgerEntry_def
    by (rule runs_attempt [OF runs_fail_if], simp, rule runs_assume, rule reads_attempt [OF reads_keeps [OF keeps_lock]], simp,
        rule runs_attempt [OF runs_LoadRun_at], simp, rule entry, simp add: ValidRunKey_None)
qed

lemma append_entry_total:
  assumes "appendable root key (w_files w)" and "w_faults w = []"
    and "map_of (w_files w) (RunLedgerPath root key) \<noteq> None \<longrightarrow> ledger_at root key (w_files w) \<noteq> None"
  shows "fst (AppendRunLedgerEntry root fmt key e w) = Inr ()"
proof -
  obtain r where r: "run_at root key (w_files w) = Some r" "open_run r" and key: "idPattern key"
    and open_ledger: "rl_resolved (ledger_of key (ledger_at root key (w_files w))) = None"
    using assms(1) by (auto simp: appendable_def split: option.splits)
  have "LoadRun root key w = (Inr (Some r), w)"
    using LoadRun_cases(3) [of root key w _ _ r] assms(2) r(1) by (cases "LoadRun root key w") simp
  moreover have "loadRunLedger root key w = (Inr (ledger_of key (ledger_at root key (w_files w))), w)"
    using load_ledger_cases(3) [of root key w] assms(2,3) by (cases "loadRunLedger root key w") simp
  ultimately show ?thesis
    using assms(2) r(2) key open_ledger
    by (simp add: AppendRunLedgerEntry_def ValidRunKey_def fail_if_def attempt_def attempt_or_def lock_def may_fail_def open_run_def
        writeRunLedger_def writeFileAtomic_def)
qed

end
