(* ===== verification/Run_Lifecycle_Claims.thy ===== *)
theory Run_Lifecycle_Claims
  imports Run_Demo Run_Verb_Facts
begin

text \<open>
  What every sequence of juggler's verbs does to a run: the laws of \<open>run_law\<close> read off the
  store, each with an example on the worlds of \<open>Run_Demo\<close>.
\<close>

text \<open>A run key of the store, at a point of the run's life.\<close>

definition run_of :: "'e deps \<Rightarrow> string \<Rightarrow> 'e world \<Rightarrow> run_state" where
  "run_of d key w = run_state_at (d_root d) key (w_files w)"

definition wf_world :: "'e deps \<Rightarrow> 'e world \<Rightarrow> bool" where
  "wf_world d w \<longleftrightarrow> wf_store (d_root d) (w_files w)"

lemmas world_defs = run_of_def wf_world_def

lemma run_of_parts: "fst (run_of d key w) = run_at (d_root d) key (w_files w)" "snd (run_of d key w) = ledger_at (d_root d) key (w_files w)"
  by (simp_all add: run_of_def run_state_at_def)

section \<open>The example worlds\<close>

lemma demo_key: "idPattern ''k''"
  by code_simp

lemma wf_reachable: "reachable d w \<Longrightarrow> mint_law d \<Longrightarrow> wf_world d w"
  using steps_reached [OF _ _ demo_key] by (fastforce simp: reachable_def wf_world_def reached_def wf_empty)

lemmas wf_demo = wf_reachable [OF demo_reachable(1) demo_mint_law] wf_reachable [OF demo_reachable(2) demo_mint_law]
  wf_reachable [OF demo_reachable(3) demo_mint_law] wf_reachable [OF demo_reachable(4) demo_mint_law]

lemma wf_empty_world: "wf_world demo_deps empty_world"
  by (simp add: wf_world_def empty_world_def wf_empty)

text \<open>Anything outside juggler's files may happen after.\<close>

lemma later: "juggler_steps d w (w\<lparr>w_ext := e\<rparr>)"
  by (rule r_into_rtranclp) (simp add: juggler_step.outside)

section \<open>Claims\<close>

text \<open>C1. The store refines the machine of a run: whatever sequence of verbs juggler executes, with
  whatever failures of files and services, the run record and ledger of every key change only by
  steps of the abstract lifecycle, and the store stays well formed.\<close>

theorem store_refines_machine:
  assumes "juggler_steps d w w'" and "mint_law d" and "idPattern key" and "wf_world d w"
  shows "wf_world d w' \<and> run_steps key (run_of d key w) (run_of d key w')"
  using steps_reached [OF assms(1-3)] assms(4) by (simp add: world_defs reached_def)

theorem store_refines_machine_witness:
  "wf_world demo_deps settled_world \<and> run_steps ''k'' (run_of demo_deps ''k'' started) (run_of demo_deps ''k'' settled_world)"
  by (rule store_refines_machine [OF demo_steps(2) demo_mint_law demo_key wf_demo(1)])

text \<open>C2. A key reaped by clean is dead: it stays reaped whatever follows, and a later
  \<open>NewRun\<close> on it fails and changes no file.\<close>

theorem reaped_key_is_dead:
  assumes "juggler_steps d w w'" and "mint_law d" and "idPattern (nq_run_key req)" and "wf_world d w"
    and "is_reaped (run_of d (nq_run_key req) w)"
  shows "is_reaped (run_of d (nq_run_key req) w')
    \<and> (\<exists>e. fst (NewRun d req w') = Inl e) \<and> w_files (snd (NewRun d req w')) = w_files w'"
proof -
  have reaped: "is_reaped (run_of d (nq_run_key req) w')"
    using reaped.law_world [OF assms(1-3)] assms(4,5) by (simp add: world_defs)
  then obtain r where r: "run_at (d_root d) (nq_run_key req) (w_files w') = Some r" "rr_reaped r"
    by (auto simp: is_reaped_def run_of_parts split: option.splits)
  obtain x w2 where new: "NewRun d req w' = (x, w2)" by (cases "NewRun d req w'")
  have key: "nq_run_key req \<noteq> []" using assms(3) by (auto simp: idPattern_def)
  have "w_files w2 = w_files w' \<and> (\<exists>e. x = Inl e)"
    using new key
  proof (cases rule: NewRun_cases)
    case (locked w1)
    then show ?thesis using new_run_locked_reaped [of d req w1 r x w2] r by simp
  qed auto
  with reaped new show ?thesis by simp
qed

theorem reaped_key_is_dead_witness:
  "\<exists>e. fst (NewRun demo_deps demo_new reaped_world) = Inl e"
proof -
  have "is_reaped (run_of demo_deps (nq_run_key demo_new) reaped_world)" by code_simp
  moreover have "idPattern (nq_run_key demo_new)" by code_simp
  ultimately show ?thesis using reaped_key_is_dead [OF rtranclp.rtrancl_refl demo_mint_law _ wf_demo(4)] by blast
qed

text \<open>C3. A resolution is final: from the moment a run record that is not pending carries one, no verb
  changes the record any more, except to note once that the run's accounts are torn down. (A pending
  record is left out: \<open>Resolve\<close> called with an empty run job finds it, and the retry of \<open>NewRun\<close>
  then replaces it, as \<open>pending_resolution_is_replaced\<close> below shows.)\<close>

theorem resolution_is_final:
  assumes "juggler_steps d w w'" and "mint_law d" and "idPattern key" and "wf_world d w"
    and "run_at (d_root d) key (w_files w) = Some r" and "rr_resolved r = Some z" and "\<not> rr_pending r"
  shows "\<exists>b. run_at (d_root d) key (w_files w') = Some (r\<lparr>rr_torn_down := b\<rparr>) \<and> (rr_torn_down r \<longrightarrow> b)"
proof -
  have "settled_as r (run_of d key w')"
    using settled.law_world [OF assms(1-3), of r z] assms(4-7)
    by (fastforce simp: world_defs run_state_at_def settled_as_def intro: exI [of _ "rr_torn_down r"])
  then show ?thesis by (simp add: settled_as_def run_of_parts)
qed

theorem resolution_is_final_witness:
  "\<exists>r. run_at ''s'' ''k'' (w_files settled_world) = Some r \<and> rr_resolved r \<noteq> None \<and>
     (\<exists>b. run_at ''s'' ''k'' (w_files (settled_world\<lparr>w_ext := 9\<rparr>)) = Some (r\<lparr>rr_torn_down := b\<rparr>))"
proof -
  have "case run_at ''s'' ''k'' (w_files settled_world) of Some r \<Rightarrow> rr_resolved r \<noteq> None \<and> \<not> rr_pending r | None \<Rightarrow> False" by code_simp
  then obtain r z where r: "run_at (d_root demo_deps) ''k'' (w_files settled_world) = Some r" "rr_resolved r = Some z" "\<not> rr_pending r"
    by (auto simp: demo_deps_def split: option.splits)
  from resolution_is_final [OF later demo_mint_law demo_key wf_demo(2) r] r show ?thesis by (auto simp: demo_deps_def)
qed

text \<open>The pending record a failed \<open>NewRun\<close> leaves has no run job, so a \<open>Resolve\<close> of the empty run
  job (which the command line refuses, the function does not) resolves it, and the retry loses that.\<close>

lemma pending_resolution_is_replaced:
  "let w = snd (Resolve demo_deps [] (demo_resolve\<lparr>rq_run_job := []\<rparr>) pending_world)
   in map_option (\<lambda>r. (rr_pending r, rr_resolved r \<noteq> None)) (run_at ''s'' ''k'' (w_files w)) = Some (True, True)
      \<and> map_option (\<lambda>r. (rr_pending r, rr_resolved r \<noteq> None)) (run_at ''s'' ''k'' (w_files (snd (NewRun demo_deps demo_new (w\<lparr>w_ext := 0\<rparr>))))) = Some (False, False)"
  by code_simp

text \<open>A run's ledger only grows at its end, so an entry once written is never lost or changed.\<close>

theorem ledger_append_only:
  assumes "juggler_steps d w w'" and "mint_law d" and "idPattern key" and "wf_world d w"
    and "ledger_at (d_root d) key (w_files w) = Some l"
  shows "\<exists>l'. ledger_at (d_root d) key (w_files w') = Some l' \<and> prefix (rl_calls l) (rl_calls l')"
proof -
  have "ledger_from (rl_calls l) (run_of d key w')"
    using appended.law_world [OF assms(1-3), of "rl_calls l"] assms(4,5) by (simp add: world_defs ledger_from_def run_state_at_def)
  then show ?thesis by (auto simp: ledger_from_def run_of_parts split: option.splits)
qed

theorem ledger_append_only_witness:
  "\<exists>l. ledger_at ''s'' ''k'' (w_files settled_world) = Some l \<and>
     (\<exists>l'. ledger_at ''s'' ''k'' (w_files (settled_world\<lparr>w_ext := 9\<rparr>)) = Some l' \<and> prefix (rl_calls l) (rl_calls l'))"
proof -
  have "ledger_at ''s'' ''k'' (w_files settled_world) \<noteq> None" by code_simp
  then obtain l where "ledger_at (d_root demo_deps) ''k'' (w_files settled_world) = Some l" by (auto simp: demo_deps_def)
  from ledger_append_only [OF later demo_mint_law demo_key wf_demo(2) this] this show ?thesis by (simp add: demo_deps_def)
qed

text \<open>C4. A closed ledger keeps its resolution, and from then on takes only refused spawns, the
  canary line and the teardown's entries.\<close>

theorem closed_ledger_is_sealed:
  assumes "juggler_steps d w w'" and "mint_law d" and "idPattern key" and "wf_world d w"
    and "closed_from cs z (run_of d key w)"
  shows "closed_from cs z (run_of d key w')"
  using closed.law_world [OF assms(1-3)] assms(4,5) by (simp add: world_defs)

theorem closed_ledger_is_sealed_witness:
  "closed_from [FallbackEntry ''succeeded'' ''ok'' []] \<lparr>rz_state = ''succeeded'', rz_reason = ''ok'', rz_at = 7\<rparr>
     (run_of demo_deps ''k'' (settled_world\<lparr>w_ext := 9\<rparr>))"
  by (rule closed_ledger_is_sealed [OF later demo_mint_law demo_key wf_demo(2)]) code_simp

text \<open>C5. In every store juggler can reach, a resolved run has a ledger closed with the same
  resolution, and a resolution is \<open>succeeded\<close> or \<open>failed\<close>.\<close>

theorem resolved_run_has_closed_ledger:
  assumes "reachable d w" and "mint_law d" and "idPattern key"
  shows "ledger_agrees (run_of d key w)"
  unfolding run_of_def by (rule agrees.law_reachable [OF assms]) (simp add: ledger_agrees_def)

theorem resolved_run_has_closed_ledger_witness:
  "ledger_agrees (run_of demo_deps ''k'' settled_world)
     \<and> Option.bind (fst (run_of demo_deps ''k'' settled_world)) rr_resolved = Some \<lparr>rz_state = ''succeeded'', rz_reason = ''ok'', rz_at = 7\<rparr>"
  by (rule conjI [OF resolved_run_has_closed_ledger [OF demo_reachable(2) demo_mint_law demo_key]]) code_simp

text \<open>In every store juggler can reach, a run marked torn down says so in its ledger: it holds a successful teardown entry of the root principal.\<close>

lemma torn_down_is_recorded:
  assumes "reachable d w" and "mint_law d" and "idPattern key"
    and "run_at (d_root d) key (w_files w) = Some r" and "rr_torn_down r"
  shows "\<exists>l. ledger_at (d_root d) key (w_files w) = Some l \<and>
    (\<exists>e \<in> set (rl_calls l). re_tool e = TeardownTool \<and> re_ok e \<and> re_principal e = rr_root_principal r)"
proof -
  have "torn_down_gone key (run_of d key w)"
    unfolding run_of_def by (rule torn.law_reachable [OF assms(1-3)]) (simp add: torn_down_gone_def)
  then show ?thesis
    using assms(4,5) by (auto simp: torn_down_gone_def run_of_parts ledger_of_def gone_principals_def split: option.splits)
qed

lemma torn_down_is_recorded_witness:
  "\<exists>r l. run_at ''s'' ''k'' (w_files settled_world) = Some r \<and> ledger_at ''s'' ''k'' (w_files settled_world) = Some l \<and>
    (\<exists>e \<in> set (rl_calls l). re_tool e = TeardownTool \<and> re_ok e \<and> re_principal e = rr_root_principal r)"
proof -
  have "case run_at ''s'' ''k'' (w_files settled_world) of Some r \<Rightarrow> rr_torn_down r | None \<Rightarrow> False" by code_simp
  then obtain r where "run_at (d_root demo_deps) ''k'' (w_files settled_world) = Some r" "rr_torn_down r"
    by (auto simp: demo_deps_def split: option.splits)
  from torn_down_is_recorded [OF demo_reachable(2) demo_mint_law demo_key this] this show ?thesis
    by (auto simp: demo_deps_def)
qed

text \<open>A run keeps its root: retries of a failed \<open>NewRun\<close> and everything after keep the root
  principal and the creation time of the first attempt.\<close>

theorem root_is_permanent:
  assumes "juggler_steps d w w'" and "mint_law d" and "idPattern key" and "wf_world d w"
    and "run_at (d_root d) key (w_files w) = Some r"
  shows "\<exists>r'. run_at (d_root d) key (w_files w') = Some r' \<and> rr_root_principal r' = rr_root_principal r
    \<and> rr_created_at r' = rr_created_at r"
proof -
  have "rooted (rr_root_principal r) (rr_created_at r) (run_of d key w')"
    using root.law_world [OF assms(1-3)] assms(4,5) by (simp add: world_defs rooted_def run_state_at_def)
  then show ?thesis by (auto simp: rooted_def run_of_parts split: option.splits)
qed

theorem root_is_permanent_witness:
  "\<exists>r r'. run_at ''s'' ''k'' (w_files pending_world) = Some r \<and> run_at ''s'' ''k'' (w_files reaped_world) = Some r'
     \<and> rr_root_principal r' = rr_root_principal r"
proof -
  have "run_at ''s'' ''k'' (w_files pending_world) \<noteq> None" by code_simp
  then obtain r where "run_at (d_root demo_deps) ''k'' (w_files pending_world) = Some r" by (auto simp: demo_deps_def)
  from root_is_permanent [OF r_into_rtranclp [of "juggler_step demo_deps", OF demo_reap(2)] demo_mint_law demo_key wf_demo(3) this] this
  show ?thesis by (auto simp: demo_deps_def)
qed

end
