(* ===== verification/Run_Teardown_Claims.thy ===== *)
theory Run_Teardown_Claims
  imports Run_Demo
begin

text \<open>
  The accounts of a run and what its teardown does to them: the entries \<open>teardownAccounts\<close> writes
  as successful, and the run it marks torn down, are of accounts the minting service revoked.
\<close>

section \<open>Accounts\<close>

text \<open>The children of a run, and its accounts: each child's and then the root's, with the password files.\<close>

definition children_at :: "string \<Rightarrow> string \<Rightarrow> files \<Rightarrow> child_record list" where
  "children_at root key fs = concat (map (\<lambda>p. case Option.bind (map_of fs p) as_child of Some c \<Rightarrow> [c] | None \<Rightarrow> [])
     (glob_json (childrenDir root key) fs))"

definition accounts :: "run_record \<Rightarrow> child_record list \<Rightarrow> (string \<times> string) list" where
  "accounts run cs = map (\<lambda>c. (cr_principal c, cr_credential_ref c)) cs @ [(rr_root_principal run, rr_root_credential_ref run)]"

definition accounts_at :: "'e deps \<Rightarrow> run_record \<Rightarrow> 'e world \<Rightarrow> (string \<times> string) list" where
  "accounts_at d run w = accounts run (children_at (d_root d) (rr_run_key run) (w_files w))"

text \<open>A password file is one account's.\<close>

definition own_files :: "(string \<times> string) list \<Rightarrow> bool" where
  "own_files A \<longleftrightarrow> (\<forall>(p, pw) \<in> set A. \<forall>(q, pw') \<in> set A. pw = pw' \<longrightarrow> p = q)"

lemma own_filesD: "own_files A \<Longrightarrow> (p, pw) \<in> set A \<Longrightarrow> (q, pw) \<in> set A \<Longrightarrow> p = q"
  unfolding own_files_def by fast

text \<open>What the services promise, for a reading \<open>gone\<close> of the outside that says which accounts are
  revoked: a revoke that succeeds, or that the server answers with a login failure, leaves no account
  (troupe cannot tell a deleted account from a wrong password), and the calls a teardown makes bring
  none back.\<close>

definition revoke_law :: "'e deps \<Rightarrow> (string \<Rightarrow> 'e \<Rightarrow> bool) \<Rightarrow> bool" where
  "revoke_law d gone \<longleftrightarrow>
     (\<forall>p pw e. (case fst (sv_revoke d p pw e) of Inr _ \<Rightarrow> True | Inl err \<Rightarrow> IsLoginFailure err) \<longrightarrow> gone p (snd (sv_revoke d p pw e)))
     \<and> (\<forall>q e. gone q e \<longrightarrow> (\<forall>p pw. gone q (snd (sv_revoke d p pw e))) \<and> (\<forall>t j. gone q (snd (sv_records d t j e)))
         \<and> (\<forall>i r a j. gone q (snd (sv_affiliate d i r a j e))) \<and> (\<forall>t j. gone q (snd (sv_spool_path d t j e))))"

lemma revoke_lawD:
  assumes "revoke_law d gone" and "sv_revoke d p pw e = (r, e')" and "case r of Inr _ \<Rightarrow> True | Inl err \<Rightarrow> IsLoginFailure err"
  shows "gone p e'"
  using assms(1) [unfolded revoke_law_def, THEN conjunct1, rule_format, of p pw e] assms(2,3) by simp

text \<open>From \<open>w\<close> to \<open>w'\<close> the account lost its password file, or had none, and if it had one it was revoked.\<close>

definition account_gone :: "(string \<Rightarrow> 'e \<Rightarrow> bool) \<Rightarrow> 'e world \<Rightarrow> 'e world \<Rightarrow> string \<Rightarrow> string \<Rightarrow> bool" where
  "account_gone gone w w' p pw \<longleftrightarrow> pw \<noteq> [] \<and> map_of (w_files w') pw = None
     \<and> (map_of (w_files w) pw \<noteq> None \<longrightarrow> gone p (w_ext w'))"

section \<open>Operations that leave accounts alone\<close>

text \<open>\<open>after\<close>: no account has come back and no file either.\<close>

definition after :: "(string \<Rightarrow> 'e \<Rightarrow> bool) \<Rightarrow> 'e world \<Rightarrow> 'e world \<Rightarrow> bool" where
  "after gone w w' \<longleftrightarrow> (\<forall>q. gone q (w_ext w) \<longrightarrow> gone q (w_ext w')) \<and> (\<forall>x. map_of (w_files w) x = None \<longrightarrow> map_of (w_files w') x = None)"

lemma after_refl [simp]: "after gone w w"
  by (simp add: after_def)

lemma after_trans: "after gone w1 w2 \<Longrightarrow> after gone w2 w3 \<Longrightarrow> after gone w1 w3"
  by (simp add: after_def)

lemma account_gone_after: "account_gone gone w w1 p pw \<Longrightarrow> after gone w1 w2 \<Longrightarrow> account_gone gone w w2 p pw"
  by (auto simp: account_gone_def after_def)

definition calm :: "(string \<Rightarrow> 'e \<Rightarrow> bool) \<Rightarrow> ('e world \<Rightarrow> 'r \<times> 'e world) \<Rightarrow> bool" where
  "calm gone m \<longleftrightarrow> (\<forall>w r w'. m w = (r, w') \<longrightarrow> w_files w' = w_files w \<and> after gone w w')"

lemma calmI: "(\<And>w r w'. m w = (r, w') \<Longrightarrow> w_files w' = w_files w \<and> (\<forall>q. gone q (w_ext w) \<longrightarrow> gone q (w_ext w'))) \<Longrightarrow> calm gone m"
  by (simp add: calm_def after_def)

lemma calmD: "calm gone m \<Longrightarrow> m w = (r, w') \<Longrightarrow> w_files w' = w_files w \<and> after gone w w'"
  by (simp add: calm_def)

lemma calm_ext: "(\<And>q e. gone q e \<Longrightarrow> gone q (snd (f e))) \<Longrightarrow> calm gone (ext f)"
  by (rule calmI) (force simp: ext_def split: prod.splits)

lemma calm_services:
  assumes "revoke_law d gone"
  shows "calm gone (ext (sv_records d t j))" and "calm gone (ext (sv_affiliate d i rm a j))" and "calm gone (ext (sv_spool_path d t j))"
    and "calm gone (ext (sv_revoke d p pw))"
  by (rule calm_ext; use assms in \<open>simp add: revoke_law_def\<close>)+

lemma calm_may_fail: "calm gone may_fail"
  by (rule calmI) (auto simp: may_fail_def split: list.splits)

lemma calm_value [simp]: "calm gone (fail e)" "calm gone (ret x)" "calm gone (\<lambda>w. (v, w))" "calm gone (Pair v)"
  by (simp_all add: calm_def fail_def ret_def)

lemma calm_attempt_or:
  assumes "calm gone m" and "\<And>e. calm gone (h e)" and "\<And>x. calm gone (k x)"
  shows "calm gone (attempt_or m h k)"
  unfolding calm_def
proof (intro allI impI)
  fix w r w' assume run: "attempt_or m h k w = (r, w')"
  obtain x w1 where m: "m w = (x, w1)" by (cases "m w")
  from calmD [OF assms(1) m] have 1: "w_files w1 = w_files w \<and> after gone w w1" .
  have "w_files w' = w_files w1 \<and> after gone w1 w'"
    using run m calmD [OF assms(2)] calmD [OF assms(3)] by (cases x) (auto simp: attempt_or_def)
  with 1 show "w_files w' = w_files w \<and> after gone w w'" using after_trans by auto
qed

lemma calm_if: "calm gone m \<Longrightarrow> calm gone n \<Longrightarrow> calm gone (if b then m else n)"
  by simp

lemma calm_spools: "calm gone (\<lambda>w. (r, w\<lparr>w_spools := f w\<rparr>))"
  by (simp add: calm_def after_def)

lemma calm_attempt: "calm gone m \<Longrightarrow> (\<And>x. calm gone (k x)) \<Longrightarrow> calm gone (attempt m k)"
  unfolding attempt_def by (rule calm_attempt_or) simp_all

lemma calm_reads: "calm gone (read_file p)" "calm gone (readJSONFile sel p)"
proof -
  show read: "calm gone (read_file p)"
    unfolding read_file_def by (rule calm_attempt [OF calm_may_fail]) (simp add: calm_def)
  show "calm gone (readJSONFile sel p)"
    unfolding readJSONFile_def by (rule calm_attempt_or [OF read]) (auto split: option.split)
qed

lemma calm_load_each: "calm gone (load_each sel ps)"
  by (induction ps) (auto intro!: calm_attempt calm_reads)

lemma calm_try_affiliate: "revoke_law d gone \<Longrightarrow> calm gone (try_affiliate d run root jid note)"
  unfolding try_affiliate_def by (rule calm_attempt_or [OF calm_services(2)]) simp_all

lemma calm_writeSpool: "revoke_law d gone \<Longrightarrow> calm gone (writeSpool d t j doc)"
  unfolding writeSpool_def by (intro calm_attempt_or calm_services(3) calm_may_fail calm_if calm_spools) simp_all

text \<open>What the two loads of a teardown find.\<close>

lemma read_file_found: "read_file p w = (Inr c, w') \<Longrightarrow> map_of (w_files w) p = Some c"
  by (auto simp: read_file_def attempt_def attempt_or_def fail_def split: prod.splits sum.splits option.splits dest!: may_fail_files)

lemma read_file_missing: "read_file p w = (Inl e, w') \<Longrightarrow> is_not_exist e \<Longrightarrow> map_of (w_files w) p = None"
  by (auto simp: read_file_def attempt_def attempt_or_def fail_def may_fail_def is_not_exist_def split: prod.splits sum.splits option.splits list.splits)

lemma readJSONFile_found: "readJSONFile sel p w = (Inr x, w') \<Longrightarrow> Option.bind (map_of (w_files w) p) sel = x"
  by (auto simp: readJSONFile_def attempt_or_def fail_def ret_def split: prod.splits sum.splits option.splits if_splits
      dest!: read_file_found read_file_missing)

lemma load_each_found:
  "load_each sel ps w = (Inr xs, w') \<Longrightarrow> xs = concat (map (\<lambda>p. case Option.bind (map_of (w_files w) p) sel of Some c \<Rightarrow> [c] | None \<Rightarrow> []) ps)"
proof (induction ps arbitrary: w xs w')
  case (Cons p ps)
  obtain x w1 where 1: "readJSONFile sel p w = (Inr x, w1)"
      and rest: "attempt (load_each sel ps) (\<lambda>xs. ret (case x of Some r \<Rightarrow> r # xs | None \<Rightarrow> xs)) w1 = (Inr xs, w')"
    using Cons.prems by (simp only: load_each.simps) (rule attempt_InrE)
  from rest obtain ys w2 where 2: "load_each sel ps w1 = (Inr ys, w2)" and xs: "xs = (case x of Some r \<Rightarrow> r # ys | None \<Rightarrow> ys)"
    by (auto simp: ret_def elim!: attempt_InrE)
  have "w_files w1 = w_files w" using calmD [OF calm_reads(2) [where gone = "\<lambda>_ _. True"] 1] by simp
  with Cons.IH [OF 2] readJSONFile_found [OF 1] xs show ?case by (auto split: option.split)
qed (simp add: ret_def)

lemma runChildren_found: "runChildren root key w = (Inr cs, w') \<Longrightarrow> cs = children_at root key (w_files w) \<and> w_files w' = w_files w \<and> after gone w w'"
  unfolding runChildren_def children_at_def using load_each_found calmD [OF calm_load_each] by blast

lemma loadRunLedger_found:
  "loadRunLedger root key w = (Inr l, w') \<Longrightarrow> l = ledger_of key (ledger_at root key (w_files w)) \<and> w_files w' = w_files w \<and> after gone w w'"
proof -
  assume "loadRunLedger root key w = (Inr l, w')"
  then obtain x where x: "readJSONFile as_ledger (RunLedgerPath root key) w = (Inr x, w')" and l: "l = (case x of Some l \<Rightarrow> l | None \<Rightarrow> new_run_ledger key)"
    by (auto simp: loadRunLedger_def ret_def elim!: attempt_InrE)
  from readJSONFile_found [OF x] calmD [OF calm_reads(2) x] l show ?thesis by (simp add: ledger_of_def ledger_at_def)
qed

section \<open>Revoking\<close>

text \<open>The files of a teardown are those it began with, less password files of accounts revoked since.\<close>

definition only_revoked :: "(string \<Rightarrow> 'e \<Rightarrow> bool) \<Rightarrow> (string \<times> string) list \<Rightarrow> 'e world \<Rightarrow> 'e world \<Rightarrow> bool" where
  "only_revoked gone A w w1 \<longleftrightarrow> (\<forall>x. map_of (w_files w1) x = map_of (w_files w) x
     \<or> map_of (w_files w1) x = None \<and> (\<exists>q. (q, x) \<in> set A \<and> gone q (w_ext w1)))"

lemma only_revoked_refl [simp]: "only_revoked gone A w w"
  by (simp add: only_revoked_def)

lemma only_revoked_calm: "only_revoked gone A w w1 \<Longrightarrow> w_files w2 = w_files w1 \<Longrightarrow> after gone w1 w2 \<Longrightarrow> only_revoked gone A w w2"
  by (auto simp: only_revoked_def after_def)

lemma only_revoked_remove:
  assumes "only_revoked gone A w w1" and "(p, pw) \<in> set A" and "gone p (w_ext w1)"
    and "w_files w2 = remove_path pw (w_files w1)" and "w_ext w2 = w_ext w1"
  shows "only_revoked gone A w w2 \<and> after gone w1 w2"
  using assms by (auto simp: only_revoked_def after_def map_of_remove)

text \<open>The file is gone after \<open>removeIfExists\<close> said so; nothing else changes.\<close>

lemma removeIfExists_cases:
  assumes "removeIfExists pw w = (r, w')"
  obtains (kept) e where "r = Inl e" "w_files w' = w_files w" "w_ext w' = w_ext w"
    | (removed) "r = Inr ()" "w_files w' = remove_path pw (w_files w)" "w_ext w' = w_ext w"
proof -
  have same: "map_of fs pw = None \<Longrightarrow> remove_path pw fs = fs" for fs
    unfolding remove_path_def by (rule filter_True) (force simp: map_of_eq_None_iff)
  from assms that show thesis
    by (auto simp: removeIfExists_def remove_file_def attempt_def attempt_or_def fail_def ret_def may_fail_def is_not_exist_def not_exist_def same
        split: prod.splits sum.splits option.splits if_splits list.splits)
qed

lemma stat_missing: "stat_file pw w = (Inl e, w') \<Longrightarrow> is_not_exist e \<Longrightarrow> map_of (w_files w) pw = None"
  by (auto simp: stat_file_def attempt_def attempt_or_def fail_def may_fail_def is_not_exist_def split: prod.splits sum.splits option.splits list.splits)

lemma calm_stat: "calm gone (stat_file pw)"
  unfolding stat_file_def by (rule calm_attempt [OF calm_may_fail]) (simp add: calm_def)

text \<open>A step of the teardown: nothing comes back, only revoked accounts lose their files, and \<open>ok\<close> means
  that the account is gone.\<close>

definition revoking :: "(string \<Rightarrow> 'e \<Rightarrow> bool) \<Rightarrow> (string \<times> string) list \<Rightarrow> 'e world \<Rightarrow> 'e world \<Rightarrow> 'e world \<Rightarrow> bool \<Rightarrow> string \<Rightarrow> string \<Rightarrow> bool" where
  "revoking gone A w w1 w2 ok p pw \<longleftrightarrow> only_revoked gone A w w2 \<and> after gone w1 w2 \<and> (ok \<longrightarrow> account_gone gone w w2 p pw)"

lemma delete_password_revokes:
  assumes "delete_password pw reason w1 = ((ok, text'), w2)" and "only_revoked gone A w w1" and "(p, pw) \<in> set A" and "gone p (w_ext w1)" and "pw \<noteq> []"
  shows "revoking gone A w w1 w2 ok p pw"
proof -
  obtain r w3 where rm: "removeIfExists pw w1 = (r, w3)" by (cases "removeIfExists pw w1")
  then show ?thesis
  proof (cases rule: removeIfExists_cases)
    case (kept e)
    with assms rm show ?thesis
      by (auto simp: delete_password_def attempt_or_def revoking_def after_def intro: only_revoked_calm)
  next
    case removed
    with only_revoked_remove [OF assms(2-4) removed(2,3)] assms rm show ?thesis
      by (auto simp: delete_password_def attempt_or_def revoking_def account_gone_def map_of_remove)
  qed
qed

lemma revokeAccount_revokes:
  assumes law: "revoke_law d gone" and own: "own_files A" and run: "revokeAccount d p pw w1 = ((ok, text'), w2)"
    and state: "only_revoked gone A w w1" and mem: "(p, pw) \<in> set A"
  shows "revoking gone A w w1 w2 ok p pw"
proof (cases "pw = []")
  case True
  with run state show ?thesis by (simp add: revokeAccount_def revoking_def)
next
  case False
  obtain st w3 where stat: "stat_file pw w1 = (st, w3)" by (cases "stat_file pw w1")
  note files3 = calmD [OF calm_stat stat, of gone]
  have state3: "only_revoked gone A w w3" using only_revoked_calm [OF state] files3 by blast
  show ?thesis
  proof (cases "\<exists>e. st = Inl e \<and> is_not_exist e")
    case True
    then have missing: "map_of (w_files w1) pw = None" using stat_missing stat by blast
    have "map_of (w_files w1) pw = map_of (w_files w) pw \<or> map_of (w_files w1) pw = None \<and> (\<exists>q. (q, pw) \<in> set A \<and> gone q (w_ext w1))"
      using state unfolding only_revoked_def by blast
    with missing have "map_of (w_files w) pw = None \<or> gone p (w_ext w1)" using own_filesD [OF own mem] by auto
    with missing False files3 have "account_gone gone w w3 p pw" by (auto simp: account_gone_def after_def)
    moreover have "w2 = w3" using run False stat True by (auto simp: revokeAccount_def observe_def attempt_or_def)
    ultimately show ?thesis using state3 files3 by (simp add: revoking_def)
  next
    case tried: False
    obtain r w4 where revoke: "ext (sv_revoke d p pw) w3 = (r, w4)" by (cases "ext (sv_revoke d p pw) w3")
    note files4 = calmD [OF calm_services(4) [OF law] revoke]
    have state4: "only_revoked gone A w w4" using only_revoked_calm [OF state3] files4 by blast
    have to4: "after gone w1 w4" using after_trans files3 files4 by blast
    show ?thesis
    proof (cases "case r of Inr _ \<Rightarrow> True | Inl err \<Rightarrow> IsLoginFailure err")
      case True
      then have "gone p (w_ext w4)" using revoke revoke_lawD [OF law] by (auto simp: ext_def split: prod.splits)
      moreover obtain reason where "delete_password pw reason w4 = ((ok, text'), w2)"
        using run False stat revoke tried True
        by (cases st; cases r) (auto simp: revokeAccount_def observe_def attempt_or_def split: if_splits)
      ultimately have "revoking gone A w w4 w2 ok p pw" using delete_password_revokes [OF _ state4 mem _ False] by blast
      with to4 show ?thesis using after_trans by (auto simp: revoking_def)
    next
      case kept: False
      then have "w2 = w4 \<and> \<not> ok" using run False stat revoke tried
        by (cases st; cases r) (auto simp: revokeAccount_def observe_def attempt_or_def split: if_splits)
      with state4 to4 show ?thesis by (simp add: revoking_def)
    qed
  qed
qed

section \<open>Tearing down\<close>

lemma TeardownEntry_simps [simp]: "re_ok (TeardownEntry p jid ok reason) = ok" "re_principal (TeardownEntry p jid ok reason) = p"
  by (simp_all add: TeardownEntry_def entry_of_def)

lemma revoking_trans: "after gone w1 w2 \<Longrightarrow> revoking gone A w w2 w3 ok p pw \<Longrightarrow> revoking gone A w w1 w3 ok p pw"
  using after_trans by (auto simp: revoking_def)

lemma revoking_kept: "only_revoked gone A w w1 \<Longrightarrow> w_files w2 = w_files w1 \<Longrightarrow> after gone w1 w2 \<Longrightarrow> revoking gone A w w1 w2 False p pw"
  using only_revoked_calm by (auto simp: revoking_def)

text \<open>The entry made for an account, and what became of it.\<close>

definition entry_revoking :: "(string \<Rightarrow> 'e \<Rightarrow> bool) \<Rightarrow> (string \<times> string) list \<Rightarrow> 'e world \<Rightarrow> 'e world \<Rightarrow> string \<Rightarrow> string \<Rightarrow> run_entry \<times> 'e world \<Rightarrow> bool" where
  "entry_revoking gone A w w1 p pw r \<longleftrightarrow> re_principal (fst r) = p \<and> revoking gone A w w1 (snd r) (re_ok (fst r)) p pw"

lemma revoke_with_revokes:
  assumes "revoke_law d gone" and "own_files A" and "(p, pw) \<in> set A" and "only_revoked gone A w w1"
  shows "entry_revoking gone A w w1 p pw (revoke_with d p jid pw notes w1)"
proof -
  obtain ok reason w2 where r: "revokeAccount d p pw w1 = ((ok, reason), w2)" by (metis prod.exhaust)
  from revokeAccount_revokes [OF assms(1,2) r assms(4,3)] r show ?thesis by (simp add: revoke_with_def entry_revoking_def)
qed

lemma entry_revoking_later:
  "after gone w1 w2 \<Longrightarrow> entry_revoking gone A w w2 p pw r \<Longrightarrow> entry_revoking gone A w w1 p pw r"
  using revoking_trans by (auto simp: entry_revoking_def)

lemma teardownChild_revokes:
  assumes law: "revoke_law d gone" and own: "own_files A" and mem: "(cr_principal c, cr_credential_ref c) \<in> set A" and state: "only_revoked gone A w w1"
  shows "entry_revoking gone A w w1 (cr_principal c) (cr_credential_ref c) (teardownChild d run root c w1)"
proof -
  obtain r w2 where recs: "ext (sv_records d (cr_parent c) (cr_job c)) w1 = (r, w2)" by (cases "ext (sv_records d (cr_parent c) (cr_job c)) w1")
  note 2 = calmD [OF calm_services(1) [OF law] recs]
  have kept: "entry_revoking gone A w w1 (cr_principal c) (cr_credential_ref c) (TeardownEntry (cr_principal c) (cr_jid c) False reason, w2)" for reason
    using revoking_kept [OF state] 2 by (simp add: entry_revoking_def)
  have state2: "only_revoked gone A w w2" using only_revoked_calm [OF state] 2 by blast
  have tried: "entry_revoking gone A w w1 (cr_principal c) (cr_credential_ref c)
      (case (if rr_room_created run then try_affiliate d run root (cr_jid c) msg w2 else ([], w2)) of
         (ns, w3) \<Rightarrow> revoke_with d (cr_principal c) (cr_jid c) (cr_credential_ref c) ns w3)" for msg
  proof -
    obtain ns w3 where aff: "(if rr_room_created run then try_affiliate d run root (cr_jid c) msg w2 else ([], w2)) = (ns, w3)" by fastforce
    then have 3: "w_files w3 = w_files w2 \<and> after gone w2 w3"
      using calmD [OF calm_try_affiliate [OF law]] by (auto split: if_splits)
    then have "only_revoked gone A w w3" using only_revoked_calm [OF state2] by blast
    note entry = revoke_with_revokes [OF law own mem this]
    have "after gone w1 w3" using 2 3 after_trans by blast
    from entry_revoking_later [OF this entry] show ?thesis unfolding aff prod.case .
  qed
  show ?thesis
    using kept tried recs by (cases r) (auto simp: teardownChild_def attempt_or_def)
qed

lemma teardownRoot_revokes:
  assumes law: "revoke_law d gone" and own: "own_files A" and mem: "(rr_root_principal run, rr_root_credential_ref run) \<in> set A"
    and state: "only_revoked gone A w w1"
  shows "entry_revoking gone A w w1 (rr_root_principal run) (rr_root_credential_ref run) (root_entry d run root childrenGone w1)"
proof (cases childrenGone)
  case True
  obtain ns w2 where aff: "(if \<not> rr_room_created run then ([''root affiliation kept: the room was not provisioned by juggler''], w1)
            else if rr_operator_jid run = [] then ([''root affiliation kept: the room has no operator owner''], w1)
            else try_affiliate d run root (rr_root_jid run) ''root affiliation not removed: '' w1) = (ns, w2)" by fastforce
  then have 2: "w_files w2 = w_files w1 \<and> after gone w1 w2"
    using calmD [OF calm_try_affiliate [OF law]] by (auto split: if_splits)
  then have "only_revoked gone A w w2" using only_revoked_calm [OF state] by blast
  note entry = revoke_with_revokes [OF law own mem this]
  from entry_revoking_later [OF conjunct2 [OF 2] entry] True show ?thesis
    unfolding root_entry_def teardownRoot_def aff prod.case by simp
next
  case False
  then show ?thesis using revoking_kept [OF state] by (simp add: root_entry_def entry_revoking_def)
qed

lemma append_no_entries [simp]: "append_entries [] l = l"
  by (simp add: append_entries_def)

text \<open>The entries of several accounts; an account without an entry was gone before.\<close>

definition entries_revoking :: "(string \<Rightarrow> 'e \<Rightarrow> bool) \<Rightarrow> (string \<times> string) list \<Rightarrow> 'e world \<Rightarrow> run_entry list \<Rightarrow> 'e world \<Rightarrow> bool" where
  "entries_revoking gone A w es w2 \<longleftrightarrow> (\<forall>e \<in> set es. re_ok e \<longrightarrow> (\<exists>pw. (re_principal e, pw) \<in> set A \<and> account_gone gone w w2 (re_principal e) pw))"

lemma entries_revoking_after: "entries_revoking gone A w es w1 \<Longrightarrow> after gone w1 w2 \<Longrightarrow> entries_revoking gone A w es w2"
  using account_gone_after by (fastforce simp: entries_revoking_def)

definition all_gone :: "(string \<Rightarrow> 'e \<Rightarrow> bool) \<Rightarrow> string list \<Rightarrow> 'e world \<Rightarrow> 'e world \<Rightarrow> (string \<times> string) list \<Rightarrow> bool" where
  "all_gone gone before w w2 B \<longleftrightarrow> (\<forall>(p, pw) \<in> set B. p \<in> set before \<or> account_gone gone w w2 p pw)"

lemma all_gone_append: "all_gone gone b w w1 (B @ C) \<longleftrightarrow> all_gone gone b w w1 B \<and> all_gone gone b w w1 C"
  by (auto simp: all_gone_def)

lemma all_gone_after: "all_gone gone b w w1 B \<Longrightarrow> after gone w1 w2 \<Longrightarrow> all_gone gone b w w2 B"
  using account_gone_after by (fastforce simp: all_gone_def)

lemma teardown_children_revokes:
  assumes law: "revoke_law d gone" and own: "own_files A"
  shows "\<forall>c \<in> set cs. (cr_principal c, cr_credential_ref c) \<in> set A \<Longrightarrow> only_revoked gone A w w1 \<Longrightarrow>
    teardown_children d run root before cs w1 = ((es, allGone), w2) \<Longrightarrow>
    only_revoked gone A w w2 \<and> after gone w1 w2 \<and> entries_revoking gone A w es w2
      \<and> (allGone \<longrightarrow> all_gone gone before w w2 (map (\<lambda>c. (cr_principal c, cr_credential_ref c)) cs))"
proof (induction cs arbitrary: w1 es allGone)
  case Nil
  then show ?case by (simp add: entries_revoking_def all_gone_def)
next
  case (Cons c cs)
  show ?case
  proof (cases "cr_principal c \<in> set before")
    case True
    with Cons.IH [of w1 es allGone] Cons.prems show ?thesis by (simp add: all_gone_def)
  next
    case False
    obtain e w3 where e: "teardownChild d run root c w1 = (e, w3)" by fastforce
    obtain es' g w4 where rest: "teardown_children d run root before cs w3 = ((es', g), w4)" by (metis prod.exhaust)
    have out: "es = e # es'" "allGone = (re_ok e \<and> g)" "w4 = w2" using Cons.prems(3) False e rest by auto
    have one: "entry_revoking gone A w w1 (cr_principal c) (cr_credential_ref c) (e, w3)"
      using teardownChild_revokes [OF law own _ Cons.prems(2), of c run root] Cons.prems(1) e by simp
    then have 3: "only_revoked gone A w w3" "after gone w1 w3" by (simp_all add: entry_revoking_def revoking_def)
    note 4 = Cons.IH [OF _ 3(1) rest [unfolded out(3)]]
    have ok: "re_ok e \<longrightarrow> account_gone gone w w2 (cr_principal c) (cr_credential_ref c) \<and> re_principal e = cr_principal c"
      using one 4 Cons.prems(1) account_gone_after by (auto simp: entry_revoking_def revoking_def)
    show ?thesis using 4 ok 3(2) Cons.prems(1) after_trans unfolding out by (auto simp: entries_revoking_def all_gone_def)
  qed
qed

text \<open>The writes at the end leave password files alone.\<close>

definition spares :: "(string \<Rightarrow> 'e \<Rightarrow> bool) \<Rightarrow> (string \<times> string) list \<Rightarrow> 'e world \<Rightarrow> 'e world \<Rightarrow> bool" where
  "spares gone A w1 w2 \<longleftrightarrow> (\<forall>q. gone q (w_ext w1) \<longrightarrow> gone q (w_ext w2))
     \<and> (\<forall>(p, pw) \<in> set A. map_of (w_files w1) pw = None \<longrightarrow> map_of (w_files w2) pw = None)"

lemma spares_gone: "spares gone A w1 w2 \<Longrightarrow> (p, pw) \<in> set A \<Longrightarrow> account_gone gone w w1 p pw \<Longrightarrow> account_gone gone w w2 p pw"
  by (auto simp: spares_def account_gone_def)

lemma spares_trans: "spares gone A w1 w2 \<Longrightarrow> spares gone A w2 w3 \<Longrightarrow> spares gone A w1 w3"
  by (fastforce simp: spares_def)

lemma spares_after: "after gone w1 w2 \<Longrightarrow> spares gone A w1 w2"
  by (auto simp: after_def spares_def)

lemma spares_write:
  assumes "writeFileAtomic x c w1 = (r, w2)" and "\<forall>(p, pw) \<in> set A. pw \<noteq> x"
  shows "spares gone A w1 w2 \<and> (r = Inr () \<longrightarrow> map_of (w_files w2) x = Some c)"
  using assms by (auto simp: writeFileAtomic_def attempt_def attempt_or_def may_fail_def fail_def spares_def split: list.splits option.splits prod.splits)

lemma spares_persist:
  assumes "revoke_law d gone" and "persistLedger d run l w1 = (r, w2)" and "\<forall>(p, pw) \<in> set A. pw \<noteq> RunLedgerPath (d_root d) (rr_run_key run)"
  shows "spares gone A w1 w2 \<and> (\<forall>u. r = Inr u \<longrightarrow> ledger_at (d_root d) (rr_run_key run) (w_files w2) = Some l)"
proof -
  obtain x w3 where 1: "writeFileAtomic (RunLedgerPath (d_root d) (rr_run_key run)) (LedgerFile l) w1 = (x, w3)" by fastforce
  note s3 = spares_write [OF 1 assms(3), of gone]
  show ?thesis
  proof (cases x)
    case (Inl e)
    with assms(2) 1 s3 show ?thesis by (auto simp: persistLedger_def writeRunLedger_def attempt_or_def fail_def)
  next
    case (Inr u)
    obtain y w4 where 2: "writeSpool d (rr_issuer run) (rr_run_job run) (RunSpool l) w3 = (y, w4)" by fastforce
    with assms(2) 1 Inr have "w2 = w4" by (cases y) (auto simp: persistLedger_def writeRunLedger_def attempt_or_def ret_def)
    with s3 spares_after [of gone w3 w4 A] calmD [OF calm_writeSpool [OF assms(1)] 2] Inr show ?thesis
      using spares_trans [of gone A w1 w3 w4] by (simp add: ledger_at_def)
  qed
qed

lemma spares_save:
  assumes "save_torn_down d run es torn w1 = ((entries, run', err), w2)" and "\<forall>(p, pw) \<in> set A. pw \<noteq> runPath (d_root d) (rr_run_key run)"
    and "idPattern (rr_run_key run)"
  shows "spares gone A w1 w2 \<and> entries = es \<and> run' = run\<lparr>rr_torn_down := torn\<rparr>
    \<and> ledger_at (d_root d) (rr_run_key run) (w_files w2) = ledger_at (d_root d) (rr_run_key run) (w_files w1)
    \<and> (err = None \<longrightarrow> run_at (d_root d) (rr_run_key run) (w_files w2) = Some run')"
proof -
  obtain r w3 where save: "writeFileAtomic (runPath (d_root d) (rr_run_key run)) (RunFile (run\<lparr>rr_torn_down := torn\<rparr>)) w1 = (r, w3)" by fastforce
  have "ledger_at (d_root d) (rr_run_key run) (w_files w3) = ledger_at (d_root d) (rr_run_key run) (w_files w1)"
    using save run_not_ledger [OF assms(3)] by (auto simp: writeFileAtomic_def attempt_def attempt_or_def fail_def ledger_at_def
      split: prod.splits sum.splits dest!: may_fail_files)
  with assms(1) spares_write [OF save assms(2), of gone] save show ?thesis
    by (cases r) (auto simp: save_torn_down_def SaveRun_def attempt_or_def Let_def run_at_def)
qed

section \<open>The claim\<close>

lemma account_paths:
  assumes "wf_store (d_root d) (w_files w)" and "run_at (d_root d) (rr_run_key run) (w_files w) = Some run"
  shows "idPattern (rr_run_key run)" and "\<forall>(p, pw) \<in> set (accounts_at d run w). pw_ref pw"
proof -
  have "map_of (w_files w) (runPath (d_root d) (rr_run_key run)) = Some (RunFile run)"
    using assms(2) by (auto simp: run_at_def as_run_def split: Option.bind_splits content.splits)
  then have run: "idPattern (rr_run_key run)" "pw_ref (rr_root_credential_ref run)" using assms(1) by (auto simp: wf_store_def)
  then show "idPattern (rr_run_key run)" by blast
  have "pw_ref (cr_credential_ref c)" if "c \<in> set (children_at (d_root d) (rr_run_key run) (w_files w))" for c
  proof -
    from that obtain p where "Option.bind (map_of (w_files w) p) as_child = Some c"
      by (auto simp: children_at_def split: option.splits)
    then have "map_of (w_files w) p = Some (ChildFile c)" by (auto simp: as_child_def split: Option.bind_splits content.splits)
    with assms(1) show ?thesis by (auto simp: wf_store_def)
  qed
  with run(2) show "\<forall>(p, pw) \<in> set (accounts_at d run w). pw_ref pw" by (auto simp: accounts_at_def accounts_def)
qed

lemma pw_apart: "\<forall>(p, pw) \<in> set A. pw_ref pw \<Longrightarrow> protected root x \<Longrightarrow> \<forall>(p, pw) \<in> set A. pw \<noteq> x"
  using pw_not_protected by fastforce

lemma only_revoked_elsewhere:
  "only_revoked gone A w w1 \<Longrightarrow> \<forall>(p, pw) \<in> set A. pw \<noteq> x \<Longrightarrow> map_of (w_files w1) x = map_of (w_files w) x"
  by (fastforce simp: only_revoked_def)

text \<open>After the loads: children, root, the ledger and the record.\<close>

definition teardown_tail :: "'e deps \<Rightarrow> run_record \<Rightarrow> run_ledger \<Rightarrow> child_record list \<Rightarrow> 'e world \<Rightarrow>
    (run_entry list \<times> run_record \<times> gerror option) \<times> 'e world" where
  "teardown_tail d run l children w =
     (let gone = gone_principals l; root = rootIdentity run in
       case teardown_children d run root gone children w of ((es, childrenGone), w1) \<Rightarrow>
       case (if rr_root_principal run \<in> set gone then (([], True), w1)
             else case root_entry d run root childrenGone w1 of (e, w2) \<Rightarrow> (([e], re_ok e), w2)) of
         ((roots, rootGone), w2) \<Rightarrow>
           (let entries = es @ roots; torn = (childrenGone \<and> rootGone) in
            if entries = [] then save_torn_down d run entries torn w2
            else attempt_or (persistLedger d run (append_entries entries l))
                   (\<lambda>e w. ((entries, run, Some e), w))
                   (\<lambda>_. save_torn_down d run entries torn) w2))"

lemma teardownAccounts_tail: "teardownAccounts d run =
     attempt_or (loadRunLedger (d_root d) (rr_run_key run)) (\<lambda>e w. (([], run, Some e), w)) (\<lambda>l.
     attempt_or (runChildren (d_root d) (rr_run_key run)) (\<lambda>e w. (([], run, Some e), w)) (\<lambda>children. teardown_tail d run l children))"
  unfolding teardownAccounts_def teardown_tail_def [abs_def] ..

text \<open>Children and root: the entries and whether everything is gone.\<close>

lemma root_revokes:
  assumes law: "revoke_law d gone" and own: "own_files A" and mem: "(rr_root_principal run, rr_root_credential_ref run) \<in> set A"
    and state: "only_revoked gone A w w1"
    and run: "(if rr_root_principal run \<in> set before then (([], True), w1)
             else case root_entry d run root childrenGone w1 of (e, w2) \<Rightarrow> (([e], re_ok e), w2)) = ((roots, rootGone), w2)"
  shows "only_revoked gone A w w2 \<and> after gone w1 w2 \<and> entries_revoking gone A w roots w2
    \<and> (rootGone \<longrightarrow> all_gone gone before w w2 [(rr_root_principal run, rr_root_credential_ref run)])"
proof (cases "rr_root_principal run \<in> set before")
  case True
  with run state show ?thesis by (simp add: entries_revoking_def all_gone_def)
next
  case False
  obtain e w3 where e: "root_entry d run root childrenGone w1 = (e, w3)" by fastforce
  with run False have out: "roots = [e]" "rootGone = re_ok e" "w2 = w3" by auto
  from teardownRoot_revokes [OF law own mem state, of root childrenGone] e mem show ?thesis
    unfolding out by (auto simp: entry_revoking_def revoking_def entries_revoking_def all_gone_def)
qed

lemma triple_ex: obtains a b c where "x = ((a, b), c)"
  by (metis prod.exhaust)

lemma teardown_tail_revokes:
  assumes law: "revoke_law d gone" and own: "own_files A" and A: "A = accounts run cs" and state: "only_revoked gone A w w1"
    and key: "idPattern (rr_run_key run)" and refs: "\<forall>(p, pw) \<in> set A. pw_ref pw"
    and run: "teardown_tail d run l cs w1 = ((entries, run', err), w')"
  shows "entries_revoking gone A w entries w'
    \<and> (err = None \<longrightarrow> (rr_torn_down run' \<longrightarrow> all_gone gone (gone_principals l) w w' A)
        \<and> (entries \<noteq> [] \<longrightarrow> ledger_at (d_root d) (rr_run_key run) (w_files w') = Some (append_entries entries l))
        \<and> (entries = [] \<longrightarrow> ledger_at (d_root d) (rr_run_key run) (w_files w') = ledger_at (d_root d) (rr_run_key run) (w_files w))
        \<and> run_at (d_root d) (rr_run_key run) (w_files w') = Some run')"
proof -
  note safe = pw_apart [OF refs protected_paths(2) [OF key]] pw_apart [OF refs protected_paths(1) [OF key]]
  obtain es g w2 where 1: "teardown_children d run (rootIdentity run) (gone_principals l) cs w1 = ((es, g), w2)" by (metis prod.exhaust)
  have "\<forall>c \<in> set cs. (cr_principal c, cr_credential_ref c) \<in> set A" unfolding A by (simp add: accounts_def)
  note c = teardown_children_revokes [OF law own this state 1]
  obtain roots rg w3 where 2: "(if rr_root_principal run \<in> set (gone_principals l) then (([], True), w2)
             else case root_entry d run (rootIdentity run) g w2 of (e, w2) \<Rightarrow> (([e], re_ok e), w2)) = ((roots, rg), w3)"
    by (rule triple_ex)
  have "(rr_root_principal run, rr_root_credential_ref run) \<in> set A" unfolding A by (simp add: accounts_def)
  note r = root_revokes [OF law own this conjunct1 [OF c] 2]
  have after: "after gone w2 w3" using r by blast
  have both: "entries_revoking gone A w (es @ roots) w3" "g \<and> rg \<Longrightarrow> all_gone gone (gone_principals l) w w3 A"
  proof -
    have "entries_revoking gone A w es w3" using c entries_revoking_after [OF _ after] by blast
    with r show "entries_revoking gone A w (es @ roots) w3" by (auto simp: entries_revoking_def)
    assume gone: "g \<and> rg"
    with c have "all_gone gone (gone_principals l) w w3 (map (\<lambda>c. (cr_principal c, cr_credential_ref c)) cs)"
      using all_gone_after [OF _ after] by blast
    with r gone show "all_gone gone (gone_principals l) w w3 A" unfolding A accounts_def all_gone_append by blast
  qed
  have stays: "entries_revoking gone A w (es @ roots) w4 \<and> (g \<and> rg \<longrightarrow> all_gone gone (gone_principals l) w w4 A)" if "spares gone A w3 w4" for w4
    using both spares_gone [OF that] by (fastforce simp: entries_revoking_def all_gone_def)
  have tail: "(if es @ roots = [] then save_torn_down d run (es @ roots) (g \<and> rg) w3
            else attempt_or (persistLedger d run (append_entries (es @ roots) l))
                   (\<lambda>e w. ((es @ roots, run, Some e), w)) (\<lambda>_. save_torn_down d run (es @ roots) (g \<and> rg)) w3) = ((entries, run', err), w')"
    using run unfolding teardown_tail_def Let_def 1 prod.case 2 .
  show ?thesis
  proof (cases "es @ roots = []")
    case True
    with tail have save: "save_torn_down d run [] (g \<and> rg) w3 = ((entries, run', err), w')" by simp
    have "ledger_at (d_root d) (rr_run_key run) (w_files w3) = ledger_at (d_root d) (rr_run_key run) (w_files w)"
      using only_revoked_elsewhere [OF conjunct1 [OF r] safe(1)] by (simp add: ledger_at_def)
    with spares_save [OF save safe(2) key, of gone] stays True show ?thesis by auto
  next
    case False
    obtain x w4 where p: "persistLedger d run (append_entries (es @ roots) l) w3 = (x, w4)" by fastforce
    note persisted = spares_persist [OF law p safe(1)]
    note tail' = tail [unfolded if_not_P [OF False]]
    show ?thesis
    proof (cases x)
      case (Inl e)
      with tail' p persisted stays show ?thesis by (auto simp: attempt_or_def)
    next
      case (Inr u)
      with tail' p have save: "save_torn_down d run (es @ roots) (g \<and> rg) w4 = ((entries, run', err), w')" by (simp add: attempt_or_def)
      note saved = spares_save [OF save safe(2) key, of gone]
      have "spares gone A w3 w'" using saved persisted spares_trans by blast
      with saved persisted stays Inr False show ?thesis by auto
    qed
  qed
qed

text \<open>C6. A run is torn down only when its accounts are revoked. Whenever \<open>teardownAccounts\<close> writes an entry as
  successful, the entry's account is gone from the service: its revoke succeeded or was answered with a
  login failure, and its password file is deleted; or there was no password file to begin with, which the
  code takes as the account being gone. When it marks the run torn down, that holds of every account of
  the run, each child's and the root's, that an earlier entry of the ledger did not already name as gone;
  and then the ledger holds the old entries followed by these, and the record the new mark. (The services
  behave as \<open>revoke_law\<close> says, the store is well formed and no two accounts share a password file.)\<close>

theorem torn_down_means_revoked:
  assumes "revoke_law d gone" and "wf_store (d_root d) (w_files w)" and "run_at (d_root d) (rr_run_key run) (w_files w) = Some run"
    and "own_files (accounts_at d run w)" and "teardownAccounts d run w = ((entries, run', err), w')"
  shows "(\<forall>e \<in> set entries. re_ok e \<longrightarrow> (\<exists>pw. (re_principal e, pw) \<in> set (accounts_at d run w) \<and> account_gone gone w w' (re_principal e) pw))
    \<and> (err = None \<longrightarrow>
         (rr_torn_down run' \<longrightarrow> (\<forall>(p, pw) \<in> set (accounts_at d run w).
            p \<in> set (gone_principals (ledger_of (rr_run_key run) (ledger_at (d_root d) (rr_run_key run) (w_files w))))
            \<or> account_gone gone w w' p pw))
         \<and> ledger_of (rr_run_key run) (ledger_at (d_root d) (rr_run_key run) (w_files w'))
             = append_entries entries (ledger_of (rr_run_key run) (ledger_at (d_root d) (rr_run_key run) (w_files w)))
         \<and> run_at (d_root d) (rr_run_key run) (w_files w') = Some run')"
proof -
  let ?key = "rr_run_key run"
  note paths = account_paths [OF assms(2,3)]
  obtain r1 w1 where 1: "loadRunLedger (d_root d) ?key w = (r1, w1)" by fastforce
  show ?thesis
  proof (cases r1)
    case (Inl e)
    with assms(5) 1 show ?thesis by (auto simp: teardownAccounts_def attempt_or_def)
  next
    case l: (Inr l)
    note found1 = loadRunLedger_found [OF 1 [unfolded l], of gone]
    obtain r2 w2 where 2: "runChildren (d_root d) ?key w1 = (r2, w2)" by fastforce
    show ?thesis
    proof (cases r2)
      case (Inl e)
      with assms(5) 1 2 l show ?thesis by (auto simp: teardownAccounts_def attempt_or_def)
    next
      case cs: (Inr cs)
      note found2 = runChildren_found [OF 2 [unfolded cs], of gone]
      have A: "accounts_at d run w = accounts run cs" using found1 found2 by (simp add: accounts_at_def)
      have state: "only_revoked gone (accounts_at d run w) w w2" using found1 found2 by (simp add: only_revoked_def)
      have "teardown_tail d run l cs w2 = ((entries, run', err), w')"
        using assms(5) 1 2 l cs by (simp add: teardownAccounts_tail attempt_or_def)
      note tail = teardown_tail_revokes [OF assms(1,4) A state paths this]
      have before: "ledger_of ?key (ledger_at (d_root d) ?key (w_files w)) = l" using found1 by simp
      have "err = None \<longrightarrow> ledger_of ?key (ledger_at (d_root d) ?key (w_files w')) = append_entries entries l"
        using tail before by (cases "entries = []") simp_all
      with tail show ?thesis unfolding before entries_revoking_def all_gone_def by blast
    qed
  qed
qed

section \<open>An example\<close>

text \<open>A minting service whose outside says, by the number 9, that the one account was revoked.\<close>

definition revoking_deps :: "nat deps" where
  "revoking_deps = demo_deps\<lparr>sv_revoke := (\<lambda>p pw e. (Inr (), 9))\<rparr>"

definition started_run :: run_record where
  "started_run = the (run_at ''s'' ''k'' (w_files started))"

theorem torn_down_means_revoked_witness:
  "account_gone (\<lambda>q e. e = 9) started (snd (teardownAccounts revoking_deps started_run started))
     (rr_root_principal started_run) (rr_root_credential_ref started_run)
   \<and> map_of (w_files started) (rr_root_credential_ref started_run) \<noteq> None"
proof
  obtain es r' err w' where run: "teardownAccounts revoking_deps started_run started = ((es, r', err), w')" by (metis prod.exhaust)
  have "case teardownAccounts revoking_deps started_run started of ((es, r', err), w') \<Rightarrow> err = None \<and> rr_torn_down r'" by code_simp
  with run have ok: "err = None" "rr_torn_down r'" by auto
  have law: "revoke_law revoking_deps (\<lambda>q e. e = 9)"
    by (simp add: revoke_law_def revoking_deps_def demo_deps_def)
  have root: "d_root revoking_deps = ''s''" by (simp add: revoking_deps_def demo_deps_def)
  have demo_root: "d_root demo_deps = ''s''" by (simp add: demo_deps_def)
  have key: "idPattern ''k''" by code_simp
  have wf: "wf_store (d_root revoking_deps) (w_files started)"
    using steps_reached [OF demo_steps(1) demo_mint_law key] unfolding root demo_root
    by (simp add: empty_world_def wf_empty reached_def)
  have "rr_run_key started_run = ''k'' \<and> run_at ''s'' ''k'' (w_files started) = Some started_run" by code_simp
  then have rec: "run_at (d_root revoking_deps) (rr_run_key started_run) (w_files started) = Some started_run" unfolding root by simp
  have own: "own_files (accounts_at revoking_deps started_run started)" by code_simp
  have first: "gone_principals (ledger_of (rr_run_key started_run) (ledger_at (d_root revoking_deps) (rr_run_key started_run) (w_files started))) = []"
    by code_simp
  have "(rr_root_principal started_run, rr_root_credential_ref started_run) \<in> set (accounts_at revoking_deps started_run started)"
    by (simp add: accounts_at_def accounts_def)
  with torn_down_means_revoked [OF law wf rec own run] ok first run
  show "account_gone (\<lambda>q e. e = 9) started (snd (teardownAccounts revoking_deps started_run started))
     (rr_root_principal started_run) (rr_root_credential_ref started_run)" by fastforce
  show "map_of (w_files started) (rr_root_credential_ref started_run) \<noteq> None" by code_simp
qed

end
