(* ===== verification/Run_Claims.thy ===== *)
theory Run_Claims
  imports Run_Demo Run_Verb_Facts
begin

text \<open>
  What single verbs and the helpers they rest on do: the hook's reasons, the holders mirrored
  in a journal, the exit wake, the ledger, new runs, and the wait for a subagent.
\<close>

section \<open>Reasons\<close>

text \<open>The hook's verdict can be read back from the journal: the reason \<open>ExitReasonFor\<close> derives from the
  terminal record the hook writes is the one of the $SERVICE_RESULT table, and the record is terminal.\<close>

theorem hook_reason_readback:
  "ExitReasonFor (fst (HookTerminal sr)) (snd (HookTerminal sr)) =
     (if sr_result sr = ''timeout'' then ReasonFailed else if sr_result sr = ''signal'' then ReasonKilled else ReasonCrash)
   \<and> IsTerminalState (fst (HookTerminal sr))"
  by (auto simp: HookTerminal_def ExitReasonFor_def IsTerminalState_def state_defs reason_defs
      killedMessagePrefix_def crashMessagePrefix_def legacyStateCancelled_def has_prefix_def)

section \<open>Holders\<close>

text \<open>
  A journal with the holders mirrored in it, and the holder each record mirrors: any other record,
  of another type or a progress record without the holder prefix (\<open>postTurn\<close> of \<open>agent.go\<close> writes
  \<open>turn <id> <type>\<close>), mirrors none.
\<close>

definition mirror_journal :: "(int \<Rightarrow> string) \<Rightarrow> (string \<Rightarrow> int option) \<Rightarrow> job_record list \<Rightarrow> holder option list \<Rightarrow> bool" where
  "mirror_journal fmt parse recs hos \<longleftrightarrow> list_all2 (\<lambda>r ho. case ho of
      None \<Rightarrow> jr_type r \<noteq> ''progress'' \<or> \<not> has_prefix (jr_message r) holderRecordPrefix
    | Some h \<Rightarrow> mirrors fmt r h \<and> utf8_holder fmt h \<and> parse (fmt (h_granted_at h)) = Some (h_granted_at h) \<and> h_principal h \<noteq> []) recs hos"

abbreviation last_written :: "holder option list \<Rightarrow> string \<Rightarrow> holder option" where
  "last_written hos p \<equiv> find (\<lambda>h. h_principal h = p) (rev (map the (filter (\<lambda>x. x \<noteq> None) hos)))"

lemma find_keyed: "map_of (map (\<lambda>h. (h_principal h, h)) hs) p = find (\<lambda>x. h_principal x = p) hs"
  by (induction hs) auto

text \<open>C18. The journal is a faithful mirror of the holder table: reading the holders back from a journal
  that holds, between any other records (the progress records of a running agent too), the JSON written
  for them, gives the merge of the holders written, without the released ones: one entry per principal,
  the last state written for it.\<close>

theorem holders_roundtrip:
  assumes "mirror_journal fmt parse recs hos"
  shows "HoldersFromRecords parse recs = filter (\<lambda>h. h_status h \<noteq> HandleReleased) (MergeHolders [map the (filter (\<lambda>x. x \<noteq> None) hos)])
    \<and> distinct (map h_principal (HoldersFromRecords parse recs))
    \<and> (\<forall>h. h \<in> set (HoldersFromRecords parse recs) \<longleftrightarrow> last_written hos (h_principal h) = Some h \<and> h_status h \<noteq> HandleReleased)"
proof -
  let ?hs = "map the (filter (\<lambda>x. x \<noteq> None) hos)"
  have "concat (map (\<lambda>r. case mirrored_holder parse r of Some h \<Rightarrow> [h] | None \<Rightarrow> []) recs) = ?hs"
    using assms unfolding mirror_journal_def
    by (induction rule: list_all2_induct) (auto simp: mirrored_back mirrored_none split: option.splits)
  then have eq: "HoldersFromRecords parse recs = filter (\<lambda>h. h_status h \<noteq> HandleReleased) (MergeHolders [?hs])"
    by (simp add: HoldersFromRecords_mirrors)
  have "distinct (map h_principal (filter (\<lambda>h. h_status h \<noteq> HandleReleased) (MergeHolders [?hs])))"
    by (rule distinct_map_filter) (rule distinct_MergeHolders)
  with eq show ?thesis using MergeHolders_last [of _ "[?hs]"] by (auto simp: find_keyed)
qed

definition demo_holder :: holder where
  "demo_holder = FirstHolder ''p'' 7"

definition demo_records :: "job_record list" where
  "demo_records = [no_record\<lparr>jr_type := ''started''\<rparr>,
     no_record\<lparr>jr_type := ''progress'', jr_message := HolderProgressMessage itoa demo_holder\<rparr>,
     no_record\<lparr>jr_type := ''progress'', jr_message := ''turn t1 text''\<rparr>]"

theorem holders_roundtrip_witness:
  "HoldersFromRecords (sv_parse_time demo_deps) demo_records = [demo_holder]"
proof -
  have "mirror_journal itoa (sv_parse_time demo_deps) demo_records [None, Some demo_holder, None]"
    unfolding mirror_journal_def mirrors_def by code_simp
  from holders_roundtrip [OF this] show ?thesis by (simp add: MergeHolders_def put_holder_def demo_holder_def FirstHolder_def HandleAccepted_def HandleReleased_def)
qed

text \<open>Merging holder tables keeps one entry per principal, the one that comes last, and an exit
  wake goes exactly once to each principal with an accepted handle.\<close>

theorem merged_holders_woken_once:
  "distinct (map h_principal (MergeHolders tables))
   \<and> (\<forall>h. h \<in> set (MergeHolders tables) \<longleftrightarrow> find (\<lambda>x. h_principal x = h_principal h) (rev (concat tables)) = Some h)
   \<and> distinct (WakeRecipients (MergeHolders tables))
   \<and> set (WakeRecipients (MergeHolders tables)) =
       {h_principal h |h. h \<in> set (MergeHolders tables) \<and> h_status h = HandleAccepted \<and> h_principal h \<noteq> []}"
  using wake_recipients_facts [of "[]" "MergeHolders tables"]
  by (simp add: distinct_MergeHolders MergeHolders_last find_keyed WakeRecipients_def)

section \<open>The exit wake\<close>

lemma ext_world: "ext f w = (r, w') \<Longrightarrow> w_files w' = w_files w \<and> w_faults w' = w_faults w"
  by (auto simp: ext_def split: prod.splits)

lemma send_each_result:
  "send_each d b text hs w = ((woken, errs), w') \<Longrightarrow> w_files w' = w_files w \<and> (errs = [] \<longrightarrow> woken = hs)"
  by (induction hs arbitrary: woken errs w w') (auto split: prod.splits sum.splits dest!: ext_world)

text \<open>What one call does to the marker and to the outside.\<close>

lemma sendExitWakes_result:
  assumes "sendExitWakes d b w = ((woken, already, err), w')"
  shows "map_of (w_files w) (wakeMarkerPath (d_root d) (eb_job b)) = Some c \<Longrightarrow> woken = [] \<and> w_files w' = w_files w \<and> w_ext w' = w_ext w"
    and "err = None \<Longrightarrow> map_of (w_files w') (wakeMarkerPath (d_root d) (eb_job b)) \<noteq> None"
    and "err = None \<Longrightarrow> \<not> already \<Longrightarrow> woken = eb_recipients b"
    and "err \<noteq> None \<Longrightarrow> w_files w' = w_files w"
  using assms
  by (auto simp: sendExitWakes_def Let_def attempt_or_def attempt_def lock_def may_fail_def stat_file_def writeFileAtomic_def with_now_def
      not_exist_def is_not_exist_def fail_def ext_def split: prod.splits sum.splits option.splits list.splits if_splits dest!: send_each_result)

lemma wakeMarker_file: "w_files w' = w_files w \<Longrightarrow> map_of (w_files w') = map_of (w_files w)"
  by simp

text \<open>C16. Holders are woken at most once: a call that reports no error has woken every recipient or
  found the marker of an earlier call, and after it no call for the same job sends a wake or writes a
  file; a call with an error leaves no marker, so a retry reaches everyone again.\<close>

theorem exit_wake_once:
  assumes "sendExitWakes d b w = ((woken, already, err), w1)"
  shows "(err = None \<longrightarrow> (already \<or> woken = eb_recipients b) \<and>
      (\<forall>b' r w2. eb_job b' = eb_job b \<and> sendExitWakes d b' w1 = (r, w2) \<longrightarrow>
          fst r = [] \<and> w_files w2 = w_files w1 \<and> w_ext w2 = w_ext w1))
    \<and> (err \<noteq> None \<longrightarrow> w_files w1 = w_files w)"
proof (intro conjI impI allI)
  assume ok: "err = None"
  then show "already \<or> woken = eb_recipients b" using sendExitWakes_result(3) [OF assms] by blast
  obtain c where c: "map_of (w_files w1) (wakeMarkerPath (d_root d) (eb_job b)) = Some c"
    using sendExitWakes_result(2) [OF assms ok] by blast
  fix b' r w2 assume "eb_job b' = eb_job b \<and> sendExitWakes d b' w1 = (r, w2)"
  then show "fst r = []" "w_files w2 = w_files w1" "w_ext w2 = w_ext w1"
    using sendExitWakes_result(1) [of d b' w1 "fst r" "fst (snd r)" "snd (snd r)" w2 c] c by auto
qed (use sendExitWakes_result(4) [OF assms] in blast)

definition demo_batch :: exit_wake_batch where
  "demo_batch = \<lparr>eb_job = ''j'', eb_from = ''f'', eb_source = ResolveSource, eb_state = ''failed'', eb_reason = ''failed'',
     eb_message = [], eb_result_ref = [], eb_recipients = [''p'', ''q'']\<rparr>"

theorem exit_wake_once_witness:
  "fst (sendExitWakes demo_deps demo_batch empty_world) = ([''p'', ''q''], False, None) \<and>
   fst (fst (sendExitWakes demo_deps demo_batch (snd (sendExitWakes demo_deps demo_batch empty_world)))) = []"
proof -
  obtain w1 where "snd (sendExitWakes demo_deps demo_batch empty_world) = w1" by blast
  moreover have "fst (sendExitWakes demo_deps demo_batch empty_world) = ([''p'', ''q''], False, None)" by code_simp
  ultimately have run: "sendExitWakes demo_deps demo_batch empty_world = (([''p'', ''q''], False, None), w1)" by (simp add: prod_eq_iff)
  obtain r w2 where again: "sendExitWakes demo_deps demo_batch w1 = (r, w2)" by (cases "sendExitWakes demo_deps demo_batch w1")
  from exit_wake_once [OF run] again have "fst r = []" by blast
  with run again show ?thesis by simp
qed

text \<open>A measure that no journal call raises and every granted retry lowers.\<close>

definition retry_measure :: "'e deps \<Rightarrow> ('e \<Rightarrow> nat) \<Rightarrow> bool" where
  "retry_measure d M \<longleftrightarrow> (\<forall>t j x e. M (snd (sv_done d t j x e)) \<le> M e) \<and> (\<forall>t j e. M (snd (sv_records d t j e)) \<le> M e)
     \<and> (\<forall>e e'. sv_retry_wait d e = (False, e') \<longrightarrow> M e' < M e)"

lemma done_attempt_measure:
  assumes "done_attempt d req st m w = (r, w')" and "retry_measure d M"
  shows "M (w_ext w') \<le> M (w_ext w)"
proof -
  have "M e' \<le> M e" if "sv_done d t j x e = (y, e')" for t j x e y e'
    using assms(2) that by (metis retry_measure_def snd_conv)
  moreover have "M e' \<le> M e" if "sv_records d t j e = (y, e')" for t j e y e'
    using assms(2) that by (metis retry_measure_def snd_conv)
  ultimately show ?thesis
    using assms(1)
    by (auto simp: done_attempt_def attempt_or_def ext_def split: prod.splits sum.splits option.splits; blast intro: le_trans)
qed

lemma doneWithRetry_returns:
  assumes "retry_measure d M"
  shows "doneWithRetry d req st m w \<noteq> None"
proof (induction "M (w_ext w)" arbitrary: w rule: less_induct)
  case less
  obtain a w1 where a: "done_attempt d req st m w = (a, w1)" by (cases "done_attempt d req st m w")
  have le: "M (w_ext w1) \<le> M (w_ext w)" by (rule done_attempt_measure [OF a assms])
  obtain stop w2 where s: "ext (sv_retry_wait d) w1 = (stop, w2)" by (cases "ext (sv_retry_wait d) w1")
  have "M (w_ext w2) < M (w_ext w)" if "\<not> stop"
    using s that le assms by (fastforce simp: retry_measure_def ext_def split: prod.splits)
  with less a s show ?case by (subst doneWithRetry.simps) (auto split: sum.split)
qed

lemma hook_terminal: "IsTerminalState (fst (HookTerminal sr))"
  by (simp add: HookTerminal_def IsTerminalState_def state_defs)

lemma relay_outcome:
  assumes "relay d req recs trm wrote w = ((out, err), w')" and "IsTerminalState (jr_type trm)"
  shows "IsTerminalState (xo_state out) \<and> xo_reason out = ExitReasonFor (xo_state out) (xo_message out)"
  using assms by (auto simp: relay_def Let_def split: prod.splits)

lemma hook_outcome:
  assumes "ExitWake d req w = Some ((out, None), w')"
  shows "IsTerminalState (xo_state out) \<and> xo_reason out = ExitReasonFor (xo_state out) (xo_message out)"
proof -
  have wrote: "IsTerminalState (jr_type t)"
    if "doneWithRetry d req (fst (HookTerminal (xr_service req))) m w1 = Some (Inr (t, b), w2)" for m w1 t b w2
    using doneWithRetry_result [OF that] hook_terminal [of "xr_service req"] by (auto simp: hook_record_def split: if_splits)
  obtain x w1 where x: "ext (sv_records d (xr_target req) (xr_job req)) w = (x, w1)"
    by (cases "ext (sv_records d (xr_target req) (xr_job req)) w")
  show ?thesis
    using assms x wrote
    by (auto simp: ExitWake_def split: sum.splits list.splits option.splits prod.splits dest!: terminal_found dest: relay_outcome)
qed

text \<open>C17. The hook returns: when the retry clock makes progress (a measure that every granted retry
  lowers and no journal call raises), \<open>ExitWake\<close> gives an outcome; and an outcome without an error
  names a terminal state with the reason read from its record.\<close>

theorem exit_wake_returns:
  assumes "retry_measure d M"
  shows "\<exists>out err w'. ExitWake d req w = Some ((out, err), w') \<and>
    (err = None \<longrightarrow> IsTerminalState (xo_state out) \<and> xo_reason out = ExitReasonFor (xo_state out) (xo_message out))"
proof -
  have "ExitWake d req w \<noteq> None"
  proof
    assume "ExitWake d req w = None"
    then show False
      by (auto simp: ExitWake_def doneWithRetry_returns [OF assms] split: sum.splits list.splits option.splits prod.splits)
  qed
  then obtain out err w' where run: "ExitWake d req w = Some ((out, err), w')" by auto
  then have "err = None \<longrightarrow> IsTerminalState (xo_state out) \<and> xo_reason out = ExitReasonFor (xo_state out) (xo_message out)"
    using hook_outcome by blast
  with run show ?thesis by blast
qed

text \<open>A journal that takes no terminal record for a while.\<close>

definition flaky_deps :: "nat deps" where
  "flaky_deps = demo_deps\<lparr>sv_done := (\<lambda>t j r e. (if e = 0 then Inr () else Inl (ErrMsg ''busy''), e)),
     sv_records := (\<lambda>t j e. (Inr [no_record\<lparr>jr_type := ''started''\<rparr>], e)), sv_retry_wait := (\<lambda>e. (e = 0, e - 1))\<rparr>"

definition demo_hook :: exit_wake_request where
  "demo_hook = \<lparr>xr_job = ''j'', xr_target = ''t'', xr_from = ''f'', xr_ledger_ref = [],
     xr_service = \<lparr>sr_result = ''signal'', sr_exit_code = ''killed'', sr_exit_status = ''KILL''\<rparr>\<rparr>"

theorem exit_wake_returns_witness:
  "\<exists>out err w'. ExitWake flaky_deps demo_hook (empty_world\<lparr>w_ext := 3\<rparr>) = Some ((out, err), w') \<and>
    (err = None \<longrightarrow> IsTerminalState (xo_state out) \<and> xo_reason out = ExitReasonFor (xo_state out) (xo_message out))"
  by (rule exit_wake_returns [of flaky_deps id]) (auto simp: flaky_deps_def retry_measure_def)

end
