(* ===== verification/Run_New_Facts.thy ===== *)
theory Run_New_Facts
  imports Run_Verb_Facts
begin

text \<open>
  A new run ends in one of two ways: its record is saved with everything the result reports, or
  the key is left as a pending record that a retry takes up (or untouched). The triples below
  follow \<open>NewRun\<close> with these two postconditions.
\<close>

definition unsaved :: "string \<Rightarrow> string \<Rightarrow> string \<Rightarrow> files \<Rightarrow> bool" where
  "unsaved root key p fs \<longleftrightarrow> (case run_at root key fs of None \<Rightarrow> True | Some r \<Rightarrow> rr_pending r \<and> rr_root_principal r = p)"

definition saved :: "string \<Rightarrow> string \<Rightarrow> string \<Rightarrow> new_run_result \<Rightarrow> files \<Rightarrow> bool" where
  "saved root key p res fs \<longleftrightarrow> (case run_at root key fs of None \<Rightarrow> False | Some r \<Rightarrow>
     \<not> rr_pending r \<and> rr_root_principal r = p \<and> res = (newRunResult r False)\<lparr>nr_resumed := nr_resumed res\<rparr>)"

abbreviation started_or_not :: "string \<Rightarrow> string \<Rightarrow> string \<Rightarrow> gerror + new_run_result \<Rightarrow> files \<Rightarrow> bool" where
  "started_or_not root key p \<equiv> either (saved root key p) (unsaved root key p)"

definition draft :: "string \<Rightarrow> string \<Rightarrow> run_record \<Rightarrow> bool" where
  "draft key p r \<longleftrightarrow> rr_run_key r = key \<and> rr_root_principal r = p \<and> \<not> rr_pending r"

lemma runs_SaveRun_at:
  assumes "rr_run_key r = key"
  shows "runs P (SaveRun root r) (either (\<lambda>_ fs. run_at root key fs = Some r) P)"
  unfolding SaveRun_def assms by (rule runs_write) (simp_all add: run_at_def)

lemma runs_save_pending_at:
  assumes "draft key p rec" and "\<forall>f \<in> set undo. \<forall>c. reads (f c)"
  shows "runs (unsaved (d_root d) key p) (save_pending d rec undo cause) (started_or_not (d_root d) key p)"
  unfolding save_pending_def [abs_def] Let_def
proof (intro reads_bind [OF reads_unwind [OF assms(2)]] runs_with_now, goal_cases)
  case (1 e t)
  show ?case
    using assms(1)
    by (intro runs_attempt_or [OF runs_SaveRun_at [where key = key]] runs_fail) (simp_all add: draft_def unsaved_def)
qed

lemma draft_update [simp]:
  "draft k p (r\<lparr>rr_root_stanza := a\<rparr>) = draft k p r" "draft k p (r\<lparr>rr_run_job := a\<rparr>) = draft k p r"
  "draft k p (r\<lparr>rr_holders := hs\<rparr>) = draft k p r" "draft k p (r\<lparr>rr_room := a\<rparr>) = draft k p r"
  "draft k p (r\<lparr>rr_room_created := c\<rparr>) = draft k p r"
  "draft k p (r\<lparr>rr_root_jid := a\<rparr>) = draft k p r" "draft k p (r\<lparr>rr_root_credential_ref := a\<rparr>) = draft k p r"
  by (simp_all add: draft_def)

lemma saved_result:
  "run_at root key fs = Some r \<Longrightarrow> draft key p r \<Longrightarrow> saved root key p ((newRunResult r False)\<lparr>nr_resumed := b\<rparr>) fs"
  by (simp add: saved_def draft_def)

lemma runs_start_run_at:
  assumes "draft key p rec"
  shows "runs (unsaved (d_root d) key p) (start_run d req root resumed rec) (started_or_not (d_root d) key p)"
  unfolding start_run_def Let_def
proof (intro follow_reads reads_or [OF reads_mirrorHolder] runs_with_now runs_save_pending_at runs_attempt_or [OF runs_SaveRun_at [where key = key]] runs_ret)
qed (use assms in \<open>simp_all add: reads_undo saved_result draft_def\<close>)

lemma runs_with_room_at:
  assumes "\<And>r. draft key p r \<Longrightarrow> runs (unsaved (d_root d) key p) (cont r) (started_or_not (d_root d) key p)" and "draft key p rec"
  shows "runs (unsaved (d_root d) key p) (with_room d req root rec cont) (started_or_not (d_root d) key p)"
  unfolding with_room_def Let_def
  by (intro runs_if follow_reads runs_save_pending_at assms(1)) (simp_all add: assms(2))

lemma unsaved_put: "idPattern key \<Longrightarrow> \<not> protected root pw \<Longrightarrow> unsaved root key p (alist_put pw c fs) = unsaved root key p fs"
  using state_unprotected(1) [of root pw key c fs] by (simp add: unsaved_def run_state_at_def)

lemma runs_mint_at:
  "idPattern key \<Longrightarrow> \<not> protected root pw \<Longrightarrow> runs (unsaved root key p) (mint d k pw) (either (\<lambda>_. unsaved root key p) (unsaved root key p))"
  by (rule runs_mint) (simp_all add: either_def unsaved_put split: sum.split)

lemma runs_mint_root_at:
  assumes "idPattern (nq_run_key req)"
    and "p = (case prior of Some r \<Rightarrow> rr_root_principal r | None \<Rightarrow> sv_root_principal d (nq_run_key req))"
  shows "runs (unsaved (d_root d) (nq_run_key req) p) (mint_root d req prior) (started_or_not (d_root d) (nq_run_key req) p)"
  unfolding mint_root_def Let_def
proof (rule follow_reads, simp, rule runs_with_now, rule runs_attempt_or [OF runs_CredentialPath], goal_cases)
  case (2 u now pw)
  have fresh: "draft (nq_run_key req) p (fresh_run req (sv_root_principal d (nq_run_key req)) now prior)"
    using assms(2) by (simp add: draft_def fresh_run_def zero_run_def)
  show ?case
    by (rule runs_assume, rule runs_attempt_or [OF runs_mint_at [OF assms(1)]])
       (auto intro!: runs_fail runs_with_room_at runs_start_run_at simp: fresh)
qed (auto intro!: runs_fail)

lemma runs_new_run_locked_at:
  assumes key: "idPattern (nq_run_key req)" and "unsaved (d_root d) (nq_run_key req) p fs0" and "wf_store (d_root d) fs0"
    and p: "p = (case run_at (d_root d) (nq_run_key req) fs0 of Some r \<Rightarrow> rr_root_principal r | None \<Rightarrow> sv_root_principal d (nq_run_key req))"
  shows "runs (\<lambda>fs. fs = fs0) (new_run_locked d req) (started_or_not (d_root d) (nq_run_key req) p)"
  unfolding new_run_locked_def
proof (rule runs_attempt [where R = "\<lambda>x fs. x = run_at (d_root d) (nq_run_key req) fs0 \<and> fs = fs0" and E = "\<lambda>fs. fs = fs0"], goal_cases)
  case 1
  show ?case by (rule runs_weaken [OF runs_LoadRun_at]) (auto simp: either_def split: sum.splits)
next
  case (3 found)
  show ?case
  proof (intro runs_assume runs_option, goal_cases)
    case 1
    with assms show ?case by (intro runs_pre [OF _ runs_mint_root_at [OF key]]) simp_all
  next
    case (2 r)
    then have at0: "run_at (d_root d) (nq_run_key req) fs0 = Some r" by simp
    with assms(2) p have r: "rr_pending r" "p = rr_root_principal r" by (simp_all add: unsaved_def)
    have rkey: "rr_run_key r = nq_run_key req"
    proof -
      from at0 have "map_of fs0 (runPath (d_root d) (nq_run_key req)) = Some (RunFile r)"
        unfolding run_at_def by (auto split: bind_splits)
      with wf_run [OF assms(3)] show ?thesis by (simp add: sound_run_def)
    qed
    have retry: "runs (unsaved (d_root d) (nq_run_key req) p) (mint_root d req (Some (r\<lparr>rr_pending_since := now\<rparr>)))
        (started_or_not (d_root d) (nq_run_key req) p)" for now
      using r(2) by (intro runs_mint_root_at [OF key]) simp
    have at: "runs (\<lambda>fs. run_at (d_root d) (nq_run_key req) fs = Some (r\<lparr>rr_pending_since := now\<rparr>)) (mint_root d req (Some (r\<lparr>rr_pending_since := now\<rparr>)))
        (started_or_not (d_root d) (nq_run_key req) p)" for now
      using r by (intro runs_pre [OF _ retry]) (simp add: unsaved_def)
    show ?case
      unfolding Let_def
    proof (intro runs_if runs_option runs_fail runs_ret runs_with_now, goal_cases)
      case (4 now)
      show ?case
        using at by (intro runs_attempt_or [OF runs_SaveRun_at [where key = "nq_run_key req"]] runs_fail) (use 4 assms(2) rkey in simp_all)
    qed (use r assms(2) in \<open>auto simp: CheckOpen_def split: option.splits\<close>)
  qed
qed (use assms(2) in simp)

text \<open>The principal a new run of this key will have.\<close>

definition root_of :: "'e deps \<Rightarrow> string \<Rightarrow> files \<Rightarrow> string" where
  "root_of d key fs = (case run_at (d_root d) key fs of Some r \<Rightarrow> rr_root_principal r | None \<Rightarrow> sv_root_principal d key)"

lemma NewRun_outcome:
  assumes "NewRun d req w = (x, w')" and "nq_run_key req \<noteq> []" and "wf_store (d_root d) (w_files w)"
    and "unsaved (d_root d) (nq_run_key req) (root_of d (nq_run_key req) (w_files w)) (w_files w)"
  shows "started_or_not (d_root d) (nq_run_key req) (root_of d (nq_run_key req) (w_files w)) x (w_files w')"
  using assms(1,2)
proof (cases rule: NewRun_cases)
  case (refused e)
  with assms(4) show ?thesis by simp
next
  case (locked w1)
  have "runs (\<lambda>fs. fs = w_files w) (new_run_locked d req)
      (started_or_not (d_root d) (nq_run_key req) (root_of d (nq_run_key req) (w_files w)))"
    by (rule runs_new_run_locked_at [OF locked(4) assms(4,3)]) (simp add: root_of_def)
  from runsD [OF this _ locked(5)] locked(1) show ?thesis by simp
qed

end
