(* ===== verification/Run_Verb_Claims.thy ===== *)
theory Run_Verb_Claims
  imports Run_Demo Run_New_Facts
begin

text \<open>
  The verbs one by one: entries of a run's ledger, new runs and their retries, the wait for a
  subagent, and the sweep.
\<close>

section \<open>Entries\<close>

text \<open>An entry is appended only to the ledger of an open run: success means the run exists, is
  neither pending, reaped nor resolved, its ledger was not closed, and exactly this entry is added at
  its end; a failure changes no file. When the files can be read and written these conditions suffice.\<close>

theorem entry_appended_exactly:
  assumes "AppendRunLedgerEntry root fmt key e w = (r, w')"
  shows "(r = Inr () \<longrightarrow> appendable root key (w_files w) \<and> w_files w' = appended root key e (w_files w))
    \<and> ((\<exists>x. r = Inl x) \<longrightarrow> w_files w' = w_files w)
    \<and> (appendable root key (w_files w) \<and> w_faults w = [] \<and>
        (map_of (w_files w) (RunLedgerPath root key) \<noteq> None \<longrightarrow> ledger_at root key (w_files w) \<noteq> None) \<longrightarrow> r = Inr ())"
  using runsD [OF runs_append_entry [of "w_files w" root fmt key e] refl assms] append_entry_total [of root key w fmt e] assms
  by (cases r) (auto simp del: not_None_eq)

definition demo_route :: run_entry where
  "demo_route = entry_of ''route'' ''route'' True ''best''"

theorem entry_appended_exactly_witness:
  "fst (AppendRunLedgerEntry ''s'' itoa ''k'' demo_route started) = Inr ()
   \<and> w_files (snd (AppendRunLedgerEntry ''s'' itoa ''k'' demo_route started)) = appended ''s'' ''k'' demo_route (w_files started)"
proof -
  obtain r w' where run: "AppendRunLedgerEntry ''s'' itoa ''k'' demo_route started = (r, w')" by fastforce
  have "fst (AppendRunLedgerEntry ''s'' itoa ''k'' demo_route started) = Inr ()" by code_simp
  with run have "r = Inr ()" by simp
  with entry_appended_exactly [OF run] run show ?thesis by simp
qed

section \<open>New runs\<close>

text \<open>C19. A new run is saved whole or left to retry: on a key with no record, or a pending one,
  \<open>NewRun\<close> that returns a result has saved a record that is not pending and that the result reports,
  and one that fails leaves the key without a record or with a pending one; the root principal is the
  same on every attempt.\<close>

theorem new_run_saved_or_pending:
  assumes "NewRun d req w = (x, w')" and "nq_run_key req = key" and "key \<noteq> []" and "wf_store (d_root d) (w_files w)"
    and "unsaved (d_root d) key (root_of d key (w_files w)) (w_files w)"
  shows "(\<forall>e. x = Inl e \<longrightarrow> unsaved (d_root d) key (root_of d key (w_files w)) (w_files w'))
    \<and> (\<forall>res. x = Inr res \<longrightarrow> saved (d_root d) key (root_of d key (w_files w)) res (w_files w'))"
  using NewRun_outcome [of d req w x w'] assms by (cases x) auto

theorem new_run_saved_or_pending_witness:
  "unsaved ''s'' ''k'' ''rk'' (w_files pending_world)
   \<and> run_at ''s'' ''k'' (w_files pending_world) \<noteq> None"
proof -
  obtain x where run: "NewRun demo_deps demo_new (empty_world\<lparr>w_ext := 1\<rparr>) = (x, pending_world)"
    unfolding pending_world_def by (metis prod.collapse)
  have "case fst (NewRun demo_deps demo_new (empty_world\<lparr>w_ext := 1\<rparr>)) of Inl e \<Rightarrow> True | Inr _ \<Rightarrow> False" by code_simp
  with run obtain e where "x = Inl e" by (cases x) auto
  moreover have "unsaved (d_root demo_deps) ''k'' (root_of demo_deps ''k'' (w_files (empty_world\<lparr>w_ext := 1\<rparr>))) (w_files (empty_world\<lparr>w_ext := 1\<rparr>))"
    by code_simp
  moreover have "root_of demo_deps ''k'' (w_files (empty_world\<lparr>w_ext := 1\<rparr>)) = ''rk''" "d_root demo_deps = ''s''" by code_simp+
  moreover have "wf_store (d_root demo_deps) (w_files (empty_world\<lparr>w_ext := 1\<rparr>))" by (simp add: empty_world_def wf_empty)
  ultimately have "unsaved ''s'' ''k'' ''rk'' (w_files pending_world)"
    using new_run_saved_or_pending [OF run, of "''k''"] by (simp add: demo_new_def)
  moreover have "run_at ''s'' ''k'' (w_files pending_world) \<noteq> None" by code_simp
  ultimately show ?thesis ..
qed

text \<open>\<open>NewRun\<close> is idempotent: on the key of a run already made it changes no file, and when the
  store can be read and the request is well formed it returns the stored run, marked as existing.\<close>

theorem new_run_idempotent:
  assumes "run_at (d_root d) (nq_run_key req) (w_files w) = Some r" and "\<not> rr_reaped r" and "\<not> rr_pending r"
    and "idPattern (nq_run_key req)" and "NewRun d req w = (x, w')"
  shows "w_files w' = w_files w \<and> (\<forall>res. x = Inr res \<longrightarrow> res = newRunResult r True)
    \<and> (w_faults w = [] \<and> new_run_usage req = None \<longrightarrow> x = Inr (newRunResult r True))"
proof -
  have "nq_run_key req \<noteq> []" using assms(4) by (auto simp: idPattern_def)
  with assms(5) show ?thesis
  proof (cases rule: NewRun_cases)
    case (locked w1)
    with new_run_locked_used [of d req w1 r x w'] assms(1-3) show ?thesis by auto
  qed (use assms(4) in auto)
qed

theorem new_run_idempotent_witness:
  "\<exists>r. run_at ''s'' ''k'' (w_files settled_world) = Some r \<and> fst (NewRun demo_deps demo_new settled_world) = Inr (newRunResult r True)"
proof -
  have "case run_at ''s'' ''k'' (w_files settled_world) of Some r \<Rightarrow> \<not> rr_reaped r \<and> \<not> rr_pending r | None \<Rightarrow> False" by code_simp
  then obtain r where r: "run_at ''s'' ''k'' (w_files settled_world) = Some r" "\<not> rr_reaped r" "\<not> rr_pending r"
    by (auto split: option.splits)
  have demo: "d_root demo_deps = ''s''" "nq_run_key demo_new = ''k''" by (simp_all add: demo_deps_def demo_new_def)
  have r1: "run_at (d_root demo_deps) (nq_run_key demo_new) (w_files settled_world) = Some r" unfolding demo by (rule r(1))
  have key: "idPattern (nq_run_key demo_new)" by code_simp
  have "w_faults settled_world = []" "new_run_usage demo_new = None" by code_simp+
  moreover obtain x w' where run: "NewRun demo_deps demo_new settled_world = (x, w')" by (cases "NewRun demo_deps demo_new settled_world")
  ultimately have "x = Inr (newRunResult r True)"
    using new_run_idempotent [OF r1 r(2,3) key run] by blast
  with run have "fst (NewRun demo_deps demo_new settled_world) = Inr (newRunResult r True)" by (simp only: fst_conv)
  with r(1) show ?thesis by blast
qed

section \<open>Waiting\<close>

lemma with_traffic_state: "with_traffic d rec l out w = ((out', err), w') \<Longrightarrow> wr_state out' = wr_state out"
  by (cases l) (auto simp: with_traffic_def Let_def split: prod.splits)

lemma read_verdict_state:
  assumes "read_verdict d rec trm w = ((out, err), w')"
  shows "wr_state out = jr_type trm"
proof -
  let ?out = "(waiting rec)\<lparr>wr_state := jr_type trm, wr_message := jr_message trm, wr_ledger := jr_result_ref trm,
                   wr_reason := ExitReasonFor (jr_type trm) (jr_message trm)\<rparr>"
  obtain x w1 where x: "readAgentLedger (wr_ledger ?out) w = (x, w1)" by (cases "readAgentLedger (wr_ledger ?out) w")
  show ?thesis
  proof (cases x)
    case (Inl e)
    with assms x show ?thesis by (auto simp: read_verdict_def attempt_or_def Let_def)
  next
    case (Inr l)
    obtain y w2 where y: "spool_ledger d rec w1 = (y, w2)" by (cases "spool_ledger d rec w1")
    show ?thesis
      using assms x Inr y
      by (cases y; cases "l = None \<and> wr_ledger ?out = []") (auto simp: read_verdict_def attempt_or_def Let_def dest!: with_traffic_state split: prod.splits if_splits)
  qed
qed

text \<open>The journal readings of a job.\<close>

definition journal_read :: "'e deps \<Rightarrow> child_record \<Rightarrow> job_record list \<Rightarrow> bool" where
  "journal_read d rec recs \<longleftrightarrow> (\<exists>e e'. sv_records d (cr_parent rec) (cr_job rec) e = (Inr recs, e'))"

definition verdict_in :: "'e deps \<Rightarrow> child_record \<Rightarrow> string \<Rightarrow> bool" where
  "verdict_in d rec s \<longleftrightarrow> (\<exists>recs t. journal_read d rec recs \<and> TerminalRecord recs = Some t \<and> jr_type t = s)"

lemma verdict_inI: "journal_read d rec recs \<Longrightarrow> TerminalRecord recs = Some t \<Longrightarrow> s = jr_type t \<Longrightarrow> verdict_in d rec s"
  by (auto simp: verdict_in_def)

lemma ext_journal: "ext (sv_records d (cr_parent rec) (cr_job rec)) w = (Inr recs, w') \<Longrightarrow> journal_read d rec recs"
  by (auto simp: ext_def journal_read_def split: prod.splits)

lemma requestStop_journal: "requestStop d (cr_parent rec) (cr_job rec) m grace w = (Inr (recs, b), w') \<Longrightarrow> journal_read d rec recs"
  by (auto simp: requestStop_def observe_def attempt_or_def split: prod.splits sum.splits dest: ext_journal)

lemma no_verdict_open: "no_verdict rec waitErr timedOut w = ((out, err), w') \<Longrightarrow> \<not> IsTerminalState (wr_state out)"
  by (auto simp: no_verdict_def waiting_def IsTerminalState_def state_defs legacyStateCancelled_def split: option.splits if_splits)

lemma waiting_open: "\<not> IsTerminalState (wr_state (waiting rec))"
  by (simp add: waiting_def IsTerminalState_def state_defs legacyStateCancelled_def)

lemma wait_journal_state:
  assumes "wait_journal d rec grace waitErr timedOut recs w = ((out, err), w')" and "IsTerminalState (wr_state out)" and "journal_read d rec recs"
  shows "verdict_in d rec (wr_state out)"
proof (cases "TerminalRecord recs")
  case (Some t)
  with assms have "read_verdict d rec t w = ((out, err), w')" using waiting_open [of rec] by (auto simp: wait_journal_def split: if_splits)
  with assms(3) Some show ?thesis by (blast intro: verdict_inI read_verdict_state)
next
  case None
  obtain x w1 where x: "requestStop d (cr_parent rec) (cr_job rec) ''juggler spawn --wait timed out'' grace w = (x, w1)"
    by (cases "requestStop d (cr_parent rec) (cr_job rec) ''juggler spawn --wait timed out'' grace w")
  from None x assms(1,2) waiting_open [of rec]
  obtain recs' b t where "x = Inr (recs', b)" "TerminalRecord recs' = Some t" "read_verdict d rec t w1 = ((out, err), w')"
    by (cases x) (auto simp: wait_journal_def attempt_or_def split: if_splits option.splits dest!: no_verdict_open)
  with x show ?thesis by (blast intro: verdict_inI read_verdict_state requestStop_journal)
qed

text \<open>C20. \<open>spawn --wait\<close> reports success only for a subagent whose journal says so: an exit code of 0
  means a reading of the job's journal whose last terminal record is \<open>succeeded\<close>, and any code but the
  timeout's means a terminal record of the state reported.\<close>

theorem wait_success_is_journaled:
  assumes "WaitChild d rec timeout grace w = ((out, err), w')"
  shows "(WaitExitCode out = ExitSucceeded \<longrightarrow> verdict_in d rec StateSucceeded)
    \<and> (WaitExitCode out \<noteq> ExitWaitTimeout \<longrightarrow> verdict_in d rec (wr_state out))"
proof -
  obtain start w1 where 1: "ext (sv_clock d) w = (start, w1)" by (cases "ext (sv_clock d) w")
  obtain e w2 where 2: "ext (sv_wait_terminal d (cr_parent rec) (cr_job rec) timeout) w1 = (e, w2)"
    by (cases "ext (sv_wait_terminal d (cr_parent rec) (cr_job rec) timeout) w1")
  obtain now w3 where 3: "ext (sv_clock d) w2 = (now, w3)" by (cases "ext (sv_clock d) w2")
  obtain r w4 where 4: "ext (sv_records d (cr_parent rec) (cr_job rec)) w3 = (r, w4)"
    by (cases "ext (sv_records d (cr_parent rec) (cr_job rec)) w3")
  have journal: "verdict_in d rec (wr_state out)" if "IsTerminalState (wr_state out)"
    using assms 1 2 3 4 that waiting_open [of rec] wait_journal_state [OF _ that ext_journal]
    by (cases e; cases r) (auto simp: WaitChild_def observe_def attempt_or_def)
  have terminal: "IsTerminalState (wr_state out)" if "WaitExitCode out \<noteq> ExitWaitTimeout"
    using that by (simp add: WaitExitCode_def split: if_splits)
  moreover have "wr_state out = StateSucceeded" if "WaitExitCode out = ExitSucceeded"
    using that by (auto simp: WaitExitCode_def ExitCodeForState_def exit_defs split: if_splits)
  ultimately show ?thesis using journal by (auto simp: exit_defs)
qed

definition demo_child :: child_record where
  "demo_child = zero_child\<lparr>cr_parent := ''t'', cr_job := ''j'', cr_principal := ''p''\<rparr>"

theorem wait_success_is_journaled_witness:
  "WaitExitCode (fst (fst (WaitChild demo_deps demo_child 0 0 empty_world))) = ExitSucceeded
   \<and> verdict_in demo_deps demo_child StateSucceeded"
proof -
  obtain out err w' where run: "WaitChild demo_deps demo_child 0 0 empty_world = ((out, err), w')" by (metis prod.collapse)
  have "WaitExitCode (fst (fst (WaitChild demo_deps demo_child 0 0 empty_world))) = ExitSucceeded" by code_simp
  with wait_success_is_journaled [OF run] run show ?thesis by simp
qed

end
