(* ===== verification/Run_Sweep_Claims.thy ===== *)
theory Run_Sweep_Claims
  imports Run_Demo
begin

text \<open>
  What verbs do not do: a dry sweep changes nothing, and a wait cancels a subagent only after the
  time it was given.
\<close>

section \<open>The dry sweep\<close>

text \<open>The services a sweep may call to act.\<close>

definition other_services :: "'e deps \<Rightarrow> (string \<Rightarrow> string \<Rightarrow> ('e, unit) op) \<Rightarrow>
    (identity \<Rightarrow> string \<Rightarrow> string \<Rightarrow> string \<Rightarrow> ('e, unit) op) \<Rightarrow> 'e deps" where
  "other_services d revoke affiliate = d\<lparr>sv_revoke := revoke, sv_affiliate := affiliate\<rparr>"

lemma other_services_simps [simp]:
  "d_root (other_services d a b) = d_root d" "sv_now (other_services d a b) = sv_now d" "sv_records (other_services d a b) = sv_records d"
  by (simp_all add: other_services_def)

lemma dry_file: "reads (sweep_file False p s)"
  unfolding sweep_file_def Let_def if_True if_False simp_thms
  by (intro reads_keeps keeps_if keeps_attempt_or keeps_stat_file) (simp_all add: keeps_def)

lemma dry_child: "w_files (snd (sweep_child d key False c s w)) = w_files w
    \<and> sweep_child (other_services d a b) key False c s w = sweep_child d key False c s w"
proof -
  obtain x w1 where x: "stillRunning d c w = (x, w1)" by (cases "stillRunning d c w")
  have same: "stillRunning (other_services d a b) c = stillRunning d c" by (simp add: stillRunning_def)
  have fs: "w_files w1 = w_files w" by (rule reads_files [OF reads_stillRunning x])
  show ?thesis
    using x fs
    by (cases x) (auto simp: sweep_child_def same attempt_or_def dry_file [unfolded reads_iff, rule_format] split: prod.splits if_splits dest!: reads_files [OF dry_file])
qed

lemma dry_children: "w_files (snd (sweep_children d key False cs s w)) = w_files w
    \<and> sweep_children (other_services d a b) key False cs s w = sweep_children d key False cs s w"
proof (induction cs arbitrary: s w)
  case (Cons c cs)
  obtain s1 w1 where c: "sweep_child d key False c s w = (s1, w1)" by (cases "sweep_child d key False c s w")
  with dry_child [of d key c s w a b] Cons.IH [of s1 w1] show ?case by simp
qed simp

lemma dry_resolved: "w_files (snd (cleanResolvedRun d run False age w)) = w_files w
    \<and> cleanResolvedRun (other_services d a b) run False age w = cleanResolvedRun d run False age w
    \<and> (\<forall>r. fst (cleanResolvedRun d run False age w) = Some r \<longrightarrow> \<not> cs_reaped r)"
proof -
  obtain x w1 where x: "runChildren (d_root d) (rr_run_key run) w = (x, w1)" by (cases "runChildren (d_root d) (rr_run_key run) w")
  have fs: "w_files w1 = w_files w" by (rule reads_files [OF reads_keeps [OF keeps_runChildren] x])
  have not_reaped: "sweep_report False s res = Some r \<Longrightarrow> \<not> cs_reaped r" for s res r
    by (auto simp: sweep_report_def Let_def split: if_splits)
  show ?thesis
  proof (cases x)
    case (Inl e)
    with x fs show ?thesis by (simp add: cleanResolvedRun_def Let_def attempt_or_def new_result_def)
  next
    case (Inr cs)
    let ?z = "\<lparr>sw_found = 0, sw_removed = 0, sw_skipped = 0, sw_notes = []\<rparr>"
    obtain sw w2 where "sweep_children d (rr_run_key run) False cs ?z w1 = (sw, w2)"
      by (cases "sweep_children d (rr_run_key run) False cs ?z w1")
    with dry_children [of d "rr_run_key run" cs ?z w1 a b] x fs Inr not_reaped show ?thesis
      by (simp add: cleanResolvedRun_def Let_def attempt_or_def)
  qed
qed

lemma dry_one: "w_files (snd (clean_one d req now run w)) = w_files w
    \<and> clean_one (other_services d a b) req now run w = clean_one d req now run w
    \<and> (\<forall>r \<in> set (fst (clean_one d req now run w)). \<not> cs_reaped r)" if "\<not> cq_act req"
proof (cases "rr_pending run")
  case True
  with that show ?thesis by (simp add: clean_one_def cleanPendingRun_def Let_def new_result_def)
next
  case False
  show ?thesis
  proof (cases "rr_resolved run")
    case (Some z)
    obtain x w1 where x: "cleanResolvedRun d run False (now - rz_at z) w = (x, w1)" by (cases "cleanResolvedRun d run False (now - rz_at z) w")
    with dry_resolved [of d run "now - rz_at z" w a b] that False Some show ?thesis by (cases x) (simp_all add: clean_one_def)
  qed (use False in \<open>simp add: clean_one_def\<close>)
qed

lemma dry_each: "w_files (snd (clean_each d req now rs w)) = w_files w
    \<and> clean_each (other_services d a b) req now rs w = clean_each d req now rs w
    \<and> (\<forall>r \<in> set (fst (clean_each d req now rs w)). \<not> cs_reaped r)" if "\<not> cq_act req"
proof (induction rs arbitrary: w)
  case (Cons run rs)
  obtain xs w1 where c: "clean_one d req now run w = (xs, w1)" by (cases "clean_one d req now run w")
  with dry_one [OF that, of d now run w a b] Cons.IH [of w1] show ?case by (auto split: prod.split)
qed simp

text \<open>A dry sweep only looks: without \<open>--act\<close>, \<open>Clean\<close> changes no file, reports nothing as reaped, and its
  result does not depend on what revoking an account or an affiliation would do (it calls neither).\<close>

theorem dry_sweep_only_looks:
  assumes "\<not> cq_act req"
  shows "w_files (snd (Clean d req w)) = w_files w
    \<and> Clean (other_services d a b) req w = Clean d req w
    \<and> (\<forall>out. fst (Clean d req w) = Inr out \<longrightarrow> cc_dry_run out \<and> (\<forall>r \<in> set (cc_runs out). \<not> cs_reaped r))"
proof -
  obtain x w1 where x: "store_runs (d_root d) w = (x, w1)" by (cases "store_runs (d_root d) w")
  have fs: "w_files w1 = w_files w" by (rule reads_files [OF reads_keeps [OF keeps_store_runs] x])
  obtain now w2 where now: "ext (sv_now d) w1 = (now, w2)" by (cases "ext (sv_now d) w1")
  have "w_files w2 = w_files w" using ext_files [OF now] fs by simp
  show ?thesis
  proof (cases x)
    case (Inl e)
    with x fs show ?thesis by (simp add: Clean_def attempt_or_def)
  next
    case (Inr rs)
    obtain ys w3 where "clean_each d req now rs w2 = (ys, w3)" by (cases "clean_each d req now rs w2")
    with dry_each [OF assms, of d now rs w2 a b] x now Inr assms \<open>w_files w2 = w_files w\<close> show ?thesis
      by (simp add: Clean_def attempt_or_def with_now_def)
  qed
qed

theorem dry_sweep_only_looks_witness:
  "w_files (snd (Clean demo_deps (demo_clean\<lparr>cq_act := False\<rparr>) pending_world)) = w_files pending_world
   \<and> (case fst (Clean demo_deps (demo_clean\<lparr>cq_act := False\<rparr>) pending_world) of Inr out \<Rightarrow> length (cc_runs out) = 1 | Inl _ \<Rightarrow> False)"
proof
  have "\<not> cq_act (demo_clean\<lparr>cq_act := False\<rparr>)" by (simp add: demo_clean_def)
  from dry_sweep_only_looks [OF this] show "w_files (snd (Clean demo_deps (demo_clean\<lparr>cq_act := False\<rparr>) pending_world)) = w_files pending_world"
    by blast
  show "case fst (Clean demo_deps (demo_clean\<lparr>cq_act := False\<rparr>) pending_world) of Inr out \<Rightarrow> length (cc_runs out) = 1 | Inl _ \<Rightarrow> False"
    by code_simp
qed

end
