(* ===== verification/Agent_Tools.thy ===== *)
theory Agent_Tools
  imports Run_Wait
begin

text \<open>
  The pure parts of \<open>juggler run\<close>: the allowlist of an agent's tool plane and the URIs of an MCP
  result (\<open>toolplane.go\<close>), the JSON of a turn (\<open>jugglerloop/turn.go\<close>), its room stanza with the
  truncation of large turns (\<open>agent.go\<close>), and a traffic record's line (\<open>traffic.go\<close>).
\<close>

section \<open>The tool plane\<close>

definition FilterToolsToAllowlist :: "tool_spec list \<Rightarrow> string list \<Rightarrow> tool_spec list \<times> string list" where
  "FilterToolsToAllowlist specs allow =
     (filter (\<lambda>s. ts_name s \<in> set allow) specs, filter (\<lambda>name. name \<notin> ts_name ` set specs) allow)"

record mcp_block =
  mb_type :: string
  mb_text :: string
  mb_uri :: string
  mb_resource :: "string option"   \<comment> \<open>the embedded resource's uri\<close>

definition zero_mcp_block :: mcp_block where
  "zero_mcp_block = \<lparr>mb_type = [], mb_text = [], mb_uri = [], mb_resource = None\<rparr>"

text \<open>A pointer to a struct with a \<open>uri\<close>: \<open>null\<close> is nil, an object is decoded over what is there.\<close>

definition dec_resource :: "string option decoder" where
  "dec_resource t old = (case un_object t of UErr \<Rightarrow> None | UNull \<Rightarrow> Some None
     | UVal ms \<Rightarrow> map_option Some (dec_texts dec_string (field_texts ''uri'' ms) (case old of Some u \<Rightarrow> u | None \<Rightarrow> [])))"

definition dec_mcp_block :: "mcp_block decoder" where
  "dec_mcp_block = dec_struct (\<lambda>ms old.
     case dec_texts dec_string (field_texts ''type'' ms) (mb_type old) of None \<Rightarrow> None | Some ty \<Rightarrow>
     case dec_texts dec_string (field_texts ''text'' ms) (mb_text old) of None \<Rightarrow> None | Some tx \<Rightarrow>
     case dec_texts dec_string (field_texts ''uri'' ms) (mb_uri old) of None \<Rightarrow> None | Some u \<Rightarrow>
     case dec_texts dec_resource (field_texts ''resource'' ms) (mb_resource old) of None \<Rightarrow> None | Some r \<Rightarrow>
       Some \<lparr>mb_type = ty, mb_text = tx, mb_uri = u, mb_resource = r\<rparr>)"

definition some_uri :: "string \<Rightarrow> string list" where
  "some_uri u = (if u \<noteq> [] then [u] else [])"

definition block_uris :: "string \<Rightarrow> mcp_block \<Rightarrow> string list" where
  "block_uris tool b =
     (if mb_type b = ''text'' then ExtractURIsFromTopLevelFields tool (mb_text b)
      else if mb_type b = ''resource_link'' then some_uri (mb_uri b)
      else if mb_type b = ''resource'' then
        (case mb_resource b of Some u \<Rightarrow> some_uri u | None \<Rightarrow> [])
      else [])"

definition extractURIsFromBlocks :: "string \<Rightarrow> string \<Rightarrow> string list" where
  "extractURIsFromBlocks tool content = (case dec_list dec_mcp_block zero_mcp_block content [] of
      None \<Rightarrow> ExtractURIsFromTopLevelFields tool content
    | Some blocks \<Rightarrow> concat (map (block_uris tool) blocks))"

text \<open>Each URI once, at its first occurrence.\<close>

definition dedupeArtifactURIs :: "string list \<Rightarrow> string list" where
  "dedupeArtifactURIs uris = fold (\<lambda>u out. if u \<in> set out then out else out @ [u]) uris []"

text \<open>The envelope is \<open>{content, structuredContent}\<close>; a raw field that is absent is empty.\<close>

definition dec_envelope :: "(string \<times> string) decoder" where
  "dec_envelope = dec_struct (\<lambda>ms (c, sc).
     case dec_texts dec_raw (field_texts ''content'' ms) c of None \<Rightarrow> None | Some c' \<Rightarrow>
     case dec_texts dec_raw (field_texts ''structuredContent'' ms) sc of None \<Rightarrow> None | Some sc' \<Rightarrow> Some (c', sc'))"

definition ExtractURIsFromMCPContent :: "string \<Rightarrow> string \<Rightarrow> string list" where
  "ExtractURIsFromMCPContent tool content = (case dec_envelope content ([], []) of
      Some (c, sc) \<Rightarrow>
        if sc \<noteq> [] then dedupeArtifactURIs (ExtractURIsFromTopLevelFields tool sc @ extractURIsFromBlocks tool c)
        else dedupeArtifactURIs (extractURIsFromBlocks tool content)
    | None \<Rightarrow> dedupeArtifactURIs (extractURIsFromBlocks tool content))"

section \<open>The JSON of a turn\<close>

text \<open>A raw message inside a document that is marshalled: it must be JSON and is compacted. The
  empty text stands for Go's nil message, which prints as \<open>null\<close>.\<close>

definition raw_json :: "string \<Rightarrow> string option" where
  "raw_json s = (if s = [] then Some ''null'' else if json_valid s then Some (json_compact False s) else None)"

definition braced :: "string list \<Rightarrow> string" where
  "braced members = [CHR 0x7B] @ join '','' members @ [CHR 0x7D]"

definition member :: "string \<Rightarrow> string \<Rightarrow> string" where
  "member key v = json_quote True key @ '':'' @ v"

definition bool_json :: "bool \<Rightarrow> string" where
  "bool_json b = (if b then ''true'' else ''false'')"

definition body_type :: "body \<Rightarrow> string" where
  "body_type b = (case b of TextBody _ \<Rightarrow> ''text'' | ToolCallBody _ \<Rightarrow> ''tool_call''
     | ToolResultBody _ \<Rightarrow> ''tool_result'' | TerminalBody _ \<Rightarrow> ''terminal'')"

definition call_json :: "tool_call \<Rightarrow> string option" where
  "call_json c = map_option (\<lambda>args. braced [member ''name'' (json_quote True (tc_name c)), member ''args'' args,
     member ''call_id'' (json_quote True (tc_call_id c))]) (raw_json (tc_args c))"

definition result_json :: "tool_result \<Rightarrow> string option" where
  "result_json r = map_option (\<lambda>content. braced (
       [member ''call_id'' (json_quote True (tr_call_id r)), member ''ok'' (bool_json (tr_ok r))]
       @ (if tr_content r = [] then [] else [member ''content'' content])
       @ (if tr_error r = [] then [] else [member ''error'' (json_quote True (tr_error r))])))
     (raw_json (tr_content r))"

text \<open>The body's fields after \<open>type\<close>: \<open>omitempty\<close> drops an empty text.\<close>

definition body_json :: "body \<Rightarrow> string option" where
  "body_json b = map_option (\<lambda>fields. braced (member ''type'' (json_quote True (body_type b)) # fields))
     (case b of
        TextBody s \<Rightarrow> Some (if s = [] then [] else [member ''text'' (json_quote True s)])
      | ToolCallBody c \<Rightarrow> map_option (\<lambda>t. [member ''tool_call'' t]) (call_json c)
      | ToolResultBody r \<Rightarrow> map_option (\<lambda>t. [member ''tool_result'' t]) (result_json r)
      | TerminalBody e \<Rightarrow> Some [member ''terminal'' (braced [member ''reason'' (json_quote True (end_reason_str e))])])"

definition turn_with_body :: "(int \<Rightarrow> string) \<Rightarrow> turn \<Rightarrow> string \<Rightarrow> string" where
  "turn_with_body fmt t body = braced (
     [member ''id'' (json_quote True (t_id t)), member ''sender'' (json_quote True (t_sender t)),
      member ''parent'' (json_quote True (t_parent t))]
     @ (if t_signature t = [] then [] else [member ''signature'' (json_quote True (t_signature t))])
     @ [member ''at'' (json_quote True (fmt (t_at t))), member ''body'' body])"

definition turn_json :: "(int \<Rightarrow> string) \<Rightarrow> turn \<Rightarrow> string option" where
  "turn_json fmt t = map_option (turn_with_body fmt t) (body_json (t_body t))"

section \<open>The room's copy of a turn\<close>

definition maxRoomStanzaBytes :: int where "maxRoomStanzaBytes = 65536"

definition truncationMarker :: "(string \<Rightarrow> string) \<Rightarrow> string \<Rightarrow> string" where
  "truncationMarker sha original = braced [member ''truncated'' (bool_json True),
     member ''sha256'' (json_quote True (sha original)), member ''bytes'' (itoa (int (length original)))]"

text \<open>\<open>None\<close> when the turn does not marshal.\<close>

definition roomStanza :: "(string \<Rightarrow> string) \<Rightarrow> (int \<Rightarrow> string) \<Rightarrow> turn \<Rightarrow> string option" where
  "roomStanza sha fmt t = (case turn_json fmt t of None \<Rightarrow> None
     | Some stanza \<Rightarrow>
        if int (length stanza) \<le> maxRoomStanzaBytes then Some stanza
        else case t_body t of
          ToolResultBody r \<Rightarrow> turn_json fmt (t\<lparr>t_body := ToolResultBody (r\<lparr>tr_content := truncationMarker sha (tr_content r)\<rparr>)\<rparr>)
        | TextBody s \<Rightarrow> Some (turn_with_body fmt t
            (braced [member ''type'' (json_quote True ''text''), member ''text'' (truncationMarker sha s)]))
        | _ \<Rightarrow> Some stanza)"

section \<open>A traffic record's line\<close>

definition traffic_line :: "(int \<Rightarrow> string) \<Rightarrow> traffic_record \<Rightarrow> string option" where
  "traffic_line fmt r = map_option (\<lambda>args. braced (
       [member ''step'' (itoa (tf_step r))]
       @ (if tf_job r = [] then [] else [member ''job'' (json_quote True (tf_job r))])
       @ [member ''tool'' (json_quote True (tf_tool r)), member ''args'' args,
          member ''args_digest'' (json_quote True (tf_args_digest r)), member ''result_size'' (itoa (tf_result_size r)),
          member ''ok'' (bool_json (tf_ok r)), member ''ts'' (json_quote True (fmt (tf_ts r)))]) @ [CHR 0x0A])
     (raw_json (tf_args r))"

section \<open>Facts\<close>

lemma kept_allowed:
  "FilterToolsToAllowlist specs allow = (kept, missing) \<Longrightarrow> ts_name ` set kept = ts_name ` set specs \<inter> set allow"
  by (auto simp: FilterToolsToAllowlist_def)

lemma nothing_missing:
  "FilterToolsToAllowlist specs allow = (kept, []) \<Longrightarrow> set allow \<subseteq> ts_name ` set specs"
  by (auto simp: FilterToolsToAllowlist_def filter_empty_conv)

lemma dedupe_step: "distinct out \<Longrightarrow> distinct (fold (\<lambda>u out. if u \<in> set out then out else out @ [u]) us out)
    \<and> set (fold (\<lambda>u out. if u \<in> set out then out else out @ [u]) us out) = set out \<union> set us"
  by (induction us arbitrary: out) (auto simp: insert_absorb)

lemma distinct_dedupe: "distinct (dedupeArtifactURIs us)"
  using dedupe_step [of "[]" us] by (simp add: dedupeArtifactURIs_def)

lemma set_dedupe [simp]: "set (dedupeArtifactURIs us) = set us"
  using dedupe_step [of "[]" us] by (simp add: dedupeArtifactURIs_def)

lemma uris_nonempty_iff [simp]: "[] \<notin> set (ExtractURIsFromTopLevelFields tool content)"
  using uris_nonempty by blast

lemma some_uri_nonempty [simp]: "[] \<notin> set (some_uri u)"
  by (simp add: some_uri_def)

lemma block_uris_nonempty [simp]: "[] \<notin> set (block_uris tool b)"
proof -
  have *: "[] \<notin> set xs \<Longrightarrow> [] \<notin> set ys \<Longrightarrow> [] \<notin> set (if c then xs else ys)" for c and xs ys :: "string list" by simp
  show ?thesis unfolding block_uris_def by (intro *) (cases "mb_resource b"; simp)+
qed

lemma blocks_nonempty [simp]: "[] \<notin> set (extractURIsFromBlocks tool content)"
  by (simp add: extractURIsFromBlocks_def split: option.split)

lemma mcp_uris_nonempty: "[] \<notin> set (ExtractURIsFromMCPContent tool content)"
  by (simp add: ExtractURIsFromMCPContent_def split: option.split)

lemma mcp_uris_distinct: "distinct (ExtractURIsFromMCPContent tool content)"
  by (simp add: ExtractURIsFromMCPContent_def distinct_dedupe split: option.split prod.split)

end
