(* ===== verification/Run_Agent.thy ===== *)
theory Run_Agent
  imports Agent_Tools
begin

text \<open>
  \<open>juggler run\<close> (\<open>RunAgent\<close>, \<open>agent.go\<close>) with the traffic file (\<open>traffic.go\<close>): the job and its
  lock, the model, the tool plane behind the brief's allowlist, the loop of \<open>Loop\<close> with its turns
  posted to the room, the verdict, and the terminal bookkeeping. The context, the watch for a
  holder's cancel and the two concurrent posts of a turn are decided by the outside world; what is
  written to stderr is not modelled.
\<close>

definition RunSource :: string where "RunSource = ''juggler-run''"

type_synonym 'e executor = "string \<Rightarrow> string \<Rightarrow> 'e \<Rightarrow> exec_outcome \<times> 'e"

text \<open>
  \<open>AgentDeps\<close>. \<open>ag_protocol\<close>: the protocol check, when the ringmaster has one. \<open>ag_lock\<close> returns
  the release operation. \<open>ag_post_first\<close>: of a turn's two concurrent posts, does the stanza come
  first? \<open>ag_cancel_observed\<close>, \<open>ag_cancelled_at\<close> and \<open>ag_ctx_ended\<close> read what the watching
  goroutines have stored and whether the caller's context has ended.
\<close>

record 'e agent_deps =
  ag_deps :: "'e deps"
  ag_toml :: toml
  ag_ctx :: "gerror option"
  ag_protocol :: "('e, unit) op option"
  ag_lock :: "string \<Rightarrow> string \<Rightarrow> ('e, ('e, unit) op) op"
  ag_already_locked :: "gerror \<Rightarrow> bool"
  ag_already_terminal :: "gerror \<Rightarrow> bool"
  ag_traffic_path :: "(string \<Rightarrow> string \<Rightarrow> string) option"
  ag_resolve_model :: "(string \<Rightarrow> ('e, resolved_model) op) option"
  ag_connect :: "string \<Rightarrow> ('e, tool_spec list \<times> 'e executor) op"
  ag_evaluate :: "string \<Rightarrow> string \<Rightarrow> ledger \<Rightarrow> ('e, bool) op"
  ag_launch :: "(string \<Rightarrow> string \<Rightarrow> (string \<times> string) list \<Rightarrow> ('e, string) op) option"
  ag_stop :: "'e \<Rightarrow> 'e"
  ag_state_dir :: string
  ag_http_do :: "http_request \<Rightarrow> 'e \<Rightarrow> http_outcome \<times> 'e"
  ag_new_turn_id :: "'e \<Rightarrow> string \<times> 'e"
  ag_ctx_err :: "int \<Rightarrow> 'e \<Rightarrow> bool \<times> 'e"
  ag_parent_err :: "'e \<Rightarrow> bool \<times> 'e"
  ag_url_error :: "string \<Rightarrow> string option"
  ag_json_errmsg :: "string \<Rightarrow> string"
  ag_post_first :: "'e \<Rightarrow> bool \<times> 'e"
  ag_cancel_observed :: "'e \<Rightarrow> bool \<times> 'e"
  ag_cancelled_at :: "'e \<Rightarrow> int option \<times> 'e"
  ag_ctx_ended :: "'e \<Rightarrow> bool \<times> 'e"

record agent_request =
  aq_brief :: brief
  aq_job :: string
  aq_brief_stanza :: string
  aq_moxy_url :: string
  aq_env_principal :: string
  aq_watch_cancel :: bool

record agent_outcome =
  ao_job :: string
  ao_state :: string
  ao_message :: string
  ao_ledger_path :: string
  ao_traffic_path :: string
  ao_ledger :: ledger
  ao_config_error :: bool

definition ExitCode :: "agent_outcome \<Rightarrow> int" where
  "ExitCode o' = (if ao_config_error o' then ExitUsage else ExitCodeForState (ao_state o'))"

text \<open>\<open>agentRun\<close>; \<open>ar_sink\<close>: the traffic file is open.\<close>

record 'e agent_run =
  ar_deps :: "'e agent_deps"
  ar_brief :: brief
  ar_job :: string
  ar_release :: "('e, unit) op option"
  ar_lock_err :: "gerror option"
  ar_sink :: bool
  ar_traffic_path :: string
  ar_traffic_note :: string

definition ar_target :: "'e agent_run \<Rightarrow> string" where
  "ar_target a = b_parent (ar_brief a)"

text \<open>The state of a run: the world, and whether a write of the traffic file has failed.\<close>

record 'e agent_world =
  aw_world :: "'e world"
  aw_failed :: bool

definition inside :: "('e world \<Rightarrow> 'r \<times> 'e world) \<Rightarrow> 'e agent_world \<Rightarrow> 'r \<times> 'e agent_world" where
  "inside f s = (case f (aw_world s) of (r, w) \<Rightarrow> (r, s\<lparr>aw_world := w\<rparr>))"

definition outside :: "('e \<Rightarrow> 'r \<times> 'e) \<Rightarrow> 'e agent_world \<Rightarrow> 'r \<times> 'e agent_world" where
  "outside f = inside (ext f)"

section \<open>The traffic file\<close>

definition openTrafficSink :: "string \<Rightarrow> 'e world \<Rightarrow> (bool \<times> string) \<times> 'e world" where
  "openTrafficSink path w =
     (if path = [] then ((False, []), w)
      else attempt_or may_fail (\<lambda>_ w. ((False, []), w))
        (\<lambda>_. attempt_or may_fail (\<lambda>_ w. ((False, []), w))
          (\<lambda>_ w. ((True, path), w\<lparr>w_files := alist_put path (TextFile []) (w_files w)\<rparr>))) w)"

definition append_file :: "string \<Rightarrow> string \<Rightarrow> ('e world, unit) op" where
  "append_file path line = attempt may_fail (\<lambda>_ w. (Inr (),
     w\<lparr>w_files := alist_put path (TextFile ((case map_of (w_files w) path of Some (TextFile t) \<Rightarrow> t | _ \<Rightarrow> []) @ line)) (w_files w)\<rparr>))"

definition onTraffic :: "'e agent_run \<Rightarrow> traffic_record \<Rightarrow> 'e agent_world \<Rightarrow> 'e agent_world" where
  "onTraffic a rec s =
     (if \<not> ar_sink a then s
      else case traffic_line (sv_fmt (ag_deps (ar_deps a))) (rec\<lparr>tf_job := ar_job a\<rparr>) of
        None \<Rightarrow> s\<lparr>aw_failed := True\<rparr>
      | Some line \<Rightarrow> (case inside (append_file (ar_traffic_path a) line) s of
            (Inl _, s1) \<Rightarrow> s1\<lparr>aw_failed := True\<rparr>
          | (Inr _, s1) \<Rightarrow> s1))"

definition close_traffic :: "'e agent_run \<Rightarrow> 'e agent_world \<Rightarrow> 'e agent_world" where
  "close_traffic a s =
     (if \<not> ar_sink a then s
      else case inside may_fail s of (Inl _, s1) \<Rightarrow> s1\<lparr>aw_failed := True\<rparr> | (Inr _, s1) \<Rightarrow> s1)"

section \<open>Turns\<close>

definition turn_progress :: "turn \<Rightarrow> string" where
  "turn_progress t = ''turn '' @ t_id t @ '' '' @ body_type (t_body t)
     @ (case t_body t of TerminalBody e \<Rightarrow> CHR '' '' # end_reason_str e | _ \<Rightarrow> [])"

definition postTurn :: "'e agent_run \<Rightarrow> turn \<Rightarrow> 'e agent_world \<Rightarrow> 'e agent_world" where
  "postTurn a t s =
     (let g = ar_deps a; d = ag_deps g in
      case roomStanza (sv_sha d) (sv_fmt d) t of
        None \<Rightarrow> s
      | Some stanza \<Rightarrow>
          (let post = (\<lambda>s. snd (outside (sv_post d ambient (b_room (ar_brief a)) RunSource stanza) s));
               progress = (\<lambda>s. snd (outside (sv_progress d (ar_target a) (ar_job a) (turn_progress t)) s))
           in case outside (ag_post_first g) s of
                (first, s1) \<Rightarrow> if first then progress (post s1) else post (progress s1)))"

section \<open>The end of a run\<close>

definition lock_note :: "gerror option \<Rightarrow> string list" where
  "lock_note e = (case e of None \<Rightarrow> []
     | Some x \<Rightarrow> [''job lock not acquired (liveness reaper backstop unavailable for this run): '' @ err_text x])"

definition traffic_note :: "'e agent_run \<Rightarrow> bool \<Rightarrow> string list" where
  "traffic_note a failed =
     (if ar_traffic_note a \<noteq> [] then [ar_traffic_note a]
      else if ar_sink a \<and> failed then [''traffic.jsonl had a write failure; some tool-call records may be missing'']
      else if \<not> Option.is_none (ag_traffic_path (ar_deps a)) \<and> ar_traffic_path a = []
        then [''traffic.jsonl could not be opened; no tool-call arguments were recorded for this run'']
      else [])"

text \<open>\<open>finish\<close>: the ledger into the spool, the terminal record, the lock. A job some other writer
  already settled keeps that writer's terminal, which is the one reported.\<close>

definition agent_done :: "'e agent_run \<Rightarrow> agent_outcome \<Rightarrow> 'e agent_world \<Rightarrow> agent_outcome \<times> 'e agent_world" where
  "agent_done a out =
     (let d = ag_deps (ar_deps a) in
      attempt_or (outside (sv_done d (ar_target a) (ar_job a)
          \<lparr>dr_state = ao_state out, dr_message = ao_message out, dr_result_ref = ao_ledger_path out\<rparr>))
        (\<lambda>e. if ag_already_terminal (ar_deps a) e then
               attempt_or (outside (sv_records d (ar_target a) (ar_job a))) (\<lambda>_ s. (out, s))
                 (\<lambda>recs s. (case TerminalRecord recs of
                     Some term \<Rightarrow> out\<lparr>ao_state := jr_type term, ao_message := jr_message term\<rparr>
                   | None \<Rightarrow> out, s))
             else Pair out)
        (\<lambda>_. Pair out))"

definition release_lock :: "'e agent_run \<Rightarrow> 'e agent_world \<Rightarrow> 'e agent_world" where
  "release_lock a s = (case ar_release a of None \<Rightarrow> s | Some r \<Rightarrow> snd (outside r s))"

definition agent_finish :: "'e agent_run \<Rightarrow> string \<Rightarrow> string \<Rightarrow> ledger \<Rightarrow> 'e agent_world \<Rightarrow> agent_outcome \<times> 'e agent_world" where
  "agent_finish a state message l s =
     (let s1 = close_traffic a s;
          l1 = l\<lparr>l_notes := l_notes l @ lock_note (ar_lock_err a) @ traffic_note a (aw_failed s1)\<rparr>
      in case attempt_or (inside (writeSpool (ag_deps (ar_deps a)) (ar_target a) (ar_job a) (AgentSpool l1)))
             (\<lambda>_ s. ([], s)) (\<lambda>path s. (path, s)) s1 of
           (path, s2) \<Rightarrow>
             (case agent_done a \<lparr>ao_job = ar_job a, ao_state = state, ao_message = message, ao_ledger_path = path,
                  ao_traffic_path = ar_traffic_path a, ao_ledger = l1, ao_config_error = False\<rparr> s2 of
                (out, s3) \<Rightarrow> (out, release_lock a s3)))"

definition finishWithoutLoop :: "'e agent_run \<Rightarrow> end_reason \<Rightarrow> string \<Rightarrow> 'e agent_world \<Rightarrow> agent_outcome \<times> 'e agent_world" where
  "finishWithoutLoop a end message = agent_finish a StateFailed message (newLedger\<lparr>l_end := end\<rparr>)"

definition config_error :: "'e agent_run \<Rightarrow> string \<Rightarrow> 'e agent_world \<Rightarrow> agent_outcome \<times> 'e agent_world" where
  "config_error a message s =
     (case finishWithoutLoop a EndToolError (''config: '' @ message) s of (out, s1) \<Rightarrow> (out\<lparr>ao_config_error := True\<rparr>, s1))"

section \<open>The loop of a run\<close>

definition agent_config :: "'e agent_run \<Rightarrow> agent_request \<Rightarrow> resolved_model \<Rightarrow> tool_spec list \<Rightarrow> 'e executor \<Rightarrow> int \<Rightarrow> 'e agent_world config" where
  "agent_config a req resolved tools exec wall =
     (let g = ar_deps a; b = ar_brief a; ev = b_evaluator b in
      \<lparr>cf_codec = None, cf_resolved = resolved, cf_model = b_model b, cf_system_prompt = b_system b, cf_task = b_task b,
       cf_tools = tools, cf_exec = Some (\<lambda>name args. outside (exec name args)), cf_max_steps = lm_steps (b_limits b),
       cf_wall_clock = wall, cf_max_tokens = 0, cf_principal = b_principal b, cf_brief_turn_id = aq_brief_stanza req,
       cf_on_turn = Some (postTurn a), cf_on_traffic = Some (onTraffic a),
       cf_uri_extractor = Some (\<lambda>tool content. Some (ExtractURIsFromMCPContent tool content)),
       cf_stop_when = (if ev_stop_on_pass ev then Some (\<lambda>l. outside (ag_evaluate g (ev_kind ev) (ev_program ev) l)) else None),
       cf_new_turn_id = outside (ag_new_turn_id g), cf_now = outside (sv_now (ag_deps g)),
       cf_http_do = (\<lambda>r. outside (ag_http_do g r)), cf_ctx_err = (\<lambda>t. outside (ag_ctx_err g t)),
       cf_parent_err = outside (ag_parent_err g), cf_url_error = ag_url_error g, cf_json_errmsg = ag_json_errmsg g,
       cf_sha = sv_sha (ag_deps g)\<rparr>)"

text \<open>A \<open>time.Duration\<close> between two times saturates.\<close>

definition time_sub :: "int \<Rightarrow> int \<Rightarrow> int" where
  "time_sub a b = max (- (2 ^ 63)) (min (2 ^ 63 - 1) (a - b))"

text \<open>The cancel the watcher saw: only a run that watches can have one, and once seen it stays.\<close>

definition cancel_seen :: "'e agent_run \<Rightarrow> agent_request \<Rightarrow> bool \<Rightarrow> 'e agent_world \<Rightarrow> bool \<times> 'e agent_world" where
  "cancel_seen a req before s =
     (if \<not> aq_watch_cancel req then (False, s)
      else case outside (ag_cancel_observed (ar_deps a)) s of (b, s1) \<Rightarrow> (before \<or> b, s1))"

text \<open>When the caller's context was cancelled: as stored by the goroutine, else read here.\<close>

definition cancelled_when :: "'e agent_run \<Rightarrow> 'e agent_world \<Rightarrow> int option \<times> 'e agent_world" where
  "cancelled_when a s = (case outside (ag_cancelled_at (ar_deps a)) s of
      (Some t, s1) \<Rightarrow> (Some t, s1)
    | (None, s1) \<Rightarrow> (case outside (ag_ctx_ended (ar_deps a)) s1 of
          (False, s2) \<Rightarrow> (None, s2)
        | (True, s2) \<Rightarrow> (case outside (sv_now (ag_deps (ar_deps a))) s2 of (now, s3) \<Rightarrow> (Some now, s3))))"

definition final_evaluation :: "'e agent_run \<Rightarrow> loop_result \<Rightarrow> bool \<Rightarrow> 'e agent_world \<Rightarrow> (bool \<times> gerror option) \<times> 'e agent_world" where
  "final_evaluation a res holderCancelled =
     (if (res_end res = EndTurn \<or> res_end res = EndEvaluatorPass) \<and> \<not> holderCancelled then
        attempt_or (outside (ag_evaluate (ar_deps a) (ev_kind (b_evaluator (ar_brief a))) (ev_program (b_evaluator (ar_brief a))) (res_ledger res)))
          (\<lambda>e s. ((False, Some e), s)) (\<lambda>passed s. ((passed, None), s))
      else Pair (False, None))"

definition agent_judge :: "'e agent_run \<Rightarrow> agent_request \<Rightarrow> int \<Rightarrow> loop_result \<Rightarrow> gerror option \<Rightarrow> 'e agent_world \<Rightarrow> agent_outcome \<times> 'e agent_world" where
  "agent_judge a req deadline res runErr s =
     (case cancel_seen a req False s of (observed, s1) \<Rightarrow>
      let holderCancelled = (res_end res = EndTimeout \<and> runErr \<noteq> None) \<or> observed in
      case final_evaluation a res holderCancelled s1 of ((passed, evalErr), s2) \<Rightarrow>
      case cancelled_when a s2 of (at, s3) \<Rightarrow>
      case (if holderCancelled then cancel_seen a req observed s3 else (observed, s3)) of (observed', s4) \<Rightarrow>
      case (if holderCancelled \<and> \<not> observed' \<and> (case at of Some t \<Rightarrow> t \<ge> deadline | None \<Rightarrow> False)
            then (StateFailed, ''wall clock expired'')
            else AgentVerdict res runErr holderCancelled passed evalErr) of (state, message) \<Rightarrow>
        agent_finish a state message (res_ledger res) s4)"

definition agent_loop :: "'e agent_run \<Rightarrow> agent_request \<Rightarrow> int \<Rightarrow> resolved_model \<Rightarrow> tool_spec list \<Rightarrow> 'e executor \<Rightarrow>
    'e agent_world \<Rightarrow> agent_outcome \<times> 'e agent_world" where
  "agent_loop a req deadline resolved tools exec s =
     (case outside (sv_now (ag_deps (ar_deps a))) s of (now, s1) \<Rightarrow>
      case Run (agent_config a req resolved tools exec (max (time_sub deadline now) 1)) s1 of
        (Inl e, s2) \<Rightarrow> finishWithoutLoop a EndModelError (''model_error: '' @ err_text e) s2
      | (Inr (res, runErr), s2) \<Rightarrow> agent_judge a req deadline res runErr s2)"

section \<open>Setup\<close>

definition agent_tools :: "'e agent_run \<Rightarrow> agent_request \<Rightarrow> int \<Rightarrow> resolved_model \<Rightarrow> string \<Rightarrow> 'e agent_world \<Rightarrow> agent_outcome \<times> 'e agent_world" where
  "agent_tools a req deadline resolved url =
     attempt_or (outside (ag_connect (ar_deps a) url))
       (\<lambda>e. finishWithoutLoop a EndToolError (''tool_error: '' @ err_text e))
       (\<lambda>(advertised, exec). case FilterToolsToAllowlist advertised (b_tools (ar_brief a)) of
          (tools, missing) \<Rightarrow>
            if missing \<noteq> [] then config_error a (''brief.tools names tools moxy does not advertise: '' @ join '', '' missing)
            else agent_loop a req deadline resolved tools exec)"

text \<open>The tool plane: the caller's, or the agent's own moxy under the derived moxyfile, stopped at
  the very end.\<close>

definition agent_own_moxy :: "'e agent_run \<Rightarrow> agent_request \<Rightarrow> int \<Rightarrow> resolved_model \<Rightarrow>
    (string \<Rightarrow> string \<Rightarrow> (string \<times> string) list \<Rightarrow> ('e, string) op) \<Rightarrow> 'e agent_world \<Rightarrow> agent_outcome \<times> 'e agent_world" where
  "agent_own_moxy a req deadline resolved launch =
     (let g = ar_deps a; b = ar_brief a in
      attempt_or (inside (DeriveAgentMoxyfile (ag_deps g) (ag_toml g) (ag_ctx g) [] b))
        (\<lambda>e. if err_as is_tool_refusal e \<noteq> None then config_error a (err_text e)
             else finishWithoutLoop a EndToolError (''tool_error: '' @ err_text e))
        (\<lambda>moxyfile. attempt_or (outside (launch (ag_state_dir g) moxyfile (b_env b)))
           (\<lambda>e. finishWithoutLoop a EndToolError (''tool_error: launching moxy: '' @ err_text e))
           (\<lambda>url s. case agent_tools a req deadline resolved url s of
              (out, s1) \<Rightarrow> (out, snd (outside (\<lambda>e. ((), ag_stop g e)) s1)))))"

definition agent_plane :: "'e agent_run \<Rightarrow> agent_request \<Rightarrow> int \<Rightarrow> resolved_model \<Rightarrow> 'e agent_world \<Rightarrow> agent_outcome \<times> 'e agent_world" where
  "agent_plane a req deadline resolved =
     (if aq_moxy_url req \<noteq> [] then agent_tools a req deadline resolved (aq_moxy_url req)
      else case ag_launch (ar_deps a) of
        Some launch \<Rightarrow>
          if ag_state_dir (ar_deps a) = [] then finishWithoutLoop a EndToolError ''tool_error: no moxy launcher or agent state dir configured''
          else agent_own_moxy a req deadline resolved launch
      | None \<Rightarrow> finishWithoutLoop a EndToolError ''tool_error: no moxy launcher or agent state dir configured'')"

definition agent_work :: "'e agent_run \<Rightarrow> agent_request \<Rightarrow> int \<Rightarrow> 'e agent_world \<Rightarrow> agent_outcome \<times> 'e agent_world" where
  "agent_work a req deadline =
     (case ag_resolve_model (ar_deps a) of
        None \<Rightarrow> finishWithoutLoop a EndModelError ''model_error: no model resolver configured''
      | Some resolve \<Rightarrow>
          attempt_or (outside (resolve (b_model (ar_brief a))))
            (\<lambda>e. finishWithoutLoop a EndModelError (''model_error: resolving '' @ quoted (b_model (ar_brief a)) @ '': '' @ err_text e))
            (agent_plane a req deadline))"

text \<open>The job: started here, with the parent as its first holder, or adopted.\<close>

definition agent_job :: "'e agent_deps \<Rightarrow> agent_request \<Rightarrow> ('e world, string) op" where
  "agent_job g req =
     (let d = ag_deps g; target = b_parent (aq_brief req) in
      if aq_job req = [] then
        attempt_or (ext (sv_start d target AgentJobLabel RunSource))
          (\<lambda>e. fail (ErrWrap (''ringmaster start on '' @ target @ '': '') e []))
          (\<lambda>job. with_now d (\<lambda>now. observe (mirrorHolder d target job (FirstHolder target now)) (\<lambda>_. ret job)))
      else case ag_protocol g of
        None \<Rightarrow> ret (aq_job req)
      | Some check \<Rightarrow> attempt_or (ext check)
          (\<lambda>e. fail (ErrWrap (''ringmaster protocol check on '' @ target @ '': '') e [])) (\<lambda>_. ret (aq_job req)))"

text \<open>The lock: lost to a live producer it ends the run; any other failure only loses the backstop.\<close>

definition agent_lock :: "'e agent_deps \<Rightarrow> string \<Rightarrow> string \<Rightarrow> ('e world, ('e, unit) op option \<times> gerror option) op" where
  "agent_lock g target job = attempt_or (ext (ag_lock g target job))
     (\<lambda>e. if ag_already_locked g e
          then fail (ErrWrap (''job '' @ job @ '' is already locked by a live producer (duplicate `juggler run`?): '') e [])
          else ret (None, Some e))
     (\<lambda>release. ret (Some release, None))"

definition agent_traffic :: "'e agent_deps \<Rightarrow> string \<Rightarrow> string \<Rightarrow> 'e world \<Rightarrow> ((bool \<times> string) \<times> string) \<times> 'e world" where
  "agent_traffic g p job w = (case ag_traffic_path g of
      None \<Rightarrow> (((False, []), []), w)
    | Some path \<Rightarrow>
        if \<not> idPattern p \<or> \<not> idPattern job
        then (((False, []), ''traffic disabled: job id '' @ quoted job @ '' or principal '' @ quoted p @ '' is not a safe path segment''), w)
        else (case openTrafficSink (path p job) w of (r, w1) \<Rightarrow> ((r, []), w1)))"

definition agent_prepare :: "'e agent_deps \<Rightarrow> agent_request \<Rightarrow> ('e world, 'e agent_run \<times> int) op" where
  "agent_prepare g req =
     (let b = aq_brief req in
      if aq_env_principal req \<noteq> [] \<and> aq_env_principal req \<noteq> b_principal b then
        fail (ErrMsg (''CLOWN_SESSION_ID '' @ quoted (aq_env_principal req) @ '' does not match brief.principal '' @ quoted (b_principal b)))
      else with_now (ag_deps g) (\<lambda>now.
        attempt (agent_job g req) (\<lambda>job.
        attempt (agent_lock g (b_parent b) job) (\<lambda>(release, lockErr) w.
          case agent_traffic g (b_principal b) job w of
            (((sink, path), traffic), w1) \<Rightarrow>
              ret (\<lparr>ar_deps = g, ar_brief = b, ar_job = job, ar_release = release, ar_lock_err = lockErr,
                    ar_sink = sink, ar_traffic_path = path, ar_traffic_note = traffic\<rparr>,
                   now + (case tm_duration (ag_toml g) (lm_wall_clock (b_limits b)) of Inr t \<Rightarrow> t | Inl _ \<Rightarrow> 0)) w1))))"

definition RunAgent :: "'e agent_deps \<Rightarrow> agent_request \<Rightarrow> ('e world, agent_outcome) op" where
  "RunAgent g req = attempt (agent_prepare g req) (\<lambda>(a, deadline) w.
     case agent_work a req deadline \<lparr>aw_world = w, aw_failed = False\<rparr> of (out, s) \<Rightarrow> ret out (aw_world s))"

end
