(* ===== verification/Run_Agent_Claims.thy ===== *)
theory Run_Agent_Claims
  imports Run_Agent Loop_Facts Run_Demo
begin

text \<open>
  What an agent's run promises its launcher: success is never the agent's own word, an error
  means nothing was written, and no tool outside the brief's list is ever called.
\<close>

section \<open>The verdict comes from the evaluator\<close>

text \<open>Some other writer's success, read back after this run's own terminal record was refused.\<close>

definition relayed_success :: "'e agent_deps \<Rightarrow> string \<Rightarrow> string \<Rightarrow> bool" where
  "relayed_success g target job \<longleftrightarrow>
     (\<exists>rec err e e'. sv_done (ag_deps g) target job rec e = (Inl err, e') \<and> ag_already_terminal g err)
   \<and> (\<exists>recs term e e'. sv_records (ag_deps g) target job e = (Inr recs, e')
        \<and> TerminalRecord recs = Some term \<and> jr_type term = StateSucceeded)"

text \<open>The evaluator returned true on a ledger with these calls and this end.\<close>

definition evaluator_accepted :: "'e agent_deps \<Rightarrow> evaluator \<Rightarrow> ledger \<Rightarrow> bool" where
  "evaluator_accepted g ev reported \<longleftrightarrow> (\<exists>l e e'. ag_evaluate g (ev_kind ev) (ev_program ev) l e = (Inr True, e')
     \<and> l_calls l = l_calls reported \<and> l_end l = l_end reported)"

definition outcome_ok :: "'e agent_run \<Rightarrow> agent_outcome \<Rightarrow> bool" where
  "outcome_ok a out \<longleftrightarrow> ao_job out = ar_job a \<and> (ao_state out = StateSucceeded \<longrightarrow>
     evaluator_accepted (ar_deps a) (b_evaluator (ar_brief a)) (ao_ledger out) \<or> relayed_success (ar_deps a) (ar_target a) (ar_job a))"

lemma outside_InrD: "outside f s = (r, s') \<Longrightarrow> \<exists>e e'. f e = (r, e')"
  by (auto simp: outside_def inside_def ext_def split: prod.splits)

lemma agent_done_outcome:
  assumes "agent_done a out s = (out', s')"
  shows "ao_job out' = ao_job out \<and> ao_ledger out' = ao_ledger out
    \<and> (ao_state out' = StateSucceeded \<longrightarrow> ao_state out = StateSucceeded \<or> relayed_success (ar_deps a) (ar_target a) (ar_job a))"
proof -
  define d where "d = ag_deps (ar_deps a)"
  obtain r s1 where dn: "outside (sv_done d (ar_target a) (ar_job a)
          \<lparr>dr_state = ao_state out, dr_message = ao_message out, dr_result_ref = ao_ledger_path out\<rparr>) s = (r, s1)"
    by (rule prod.exhaust)
  obtain rr s2 where rc: "outside (sv_records d (ar_target a) (ar_job a)) s1 = (rr, s2)" by (rule prod.exhaust)
  note lets = agent_done_def attempt_or_def Let_def d_def [symmetric] dn rc
  show ?thesis
  proof (cases r)
    case (Inr x)
    with assms show ?thesis by (simp add: lets)
  next
    case (Inl err)
    show ?thesis
    proof (cases "ag_already_terminal (ar_deps a) err")
      case True
      have "relayed_success (ar_deps a) (ar_target a) (ar_job a)"
          if "rr = Inr recs" "TerminalRecord recs = Some term" "jr_type term = StateSucceeded" for recs "term"
        using outside_InrD [OF rc] outside_InrD [OF dn] Inl True that unfolding relayed_success_def d_def by blast
      with assms Inl True show ?thesis by (cases rr) (fastforce simp: lets split: option.splits)+
    qed (use assms Inl in \<open>simp add: lets\<close>)
  qed
qed

lemma agent_finish_outcome:
  assumes "agent_finish a state message l s = (out, s')"
    and "state = StateSucceeded \<Longrightarrow> \<exists>e e'. ag_evaluate (ar_deps a) (ev_kind (b_evaluator (ar_brief a))) (ev_program (b_evaluator (ar_brief a))) l e = (Inr True, e')"
  shows "outcome_ok a out"
  using assms
  by (fastforce simp: agent_finish_def Let_def outcome_ok_def evaluator_accepted_def split: prod.splits dest!: agent_done_outcome)

lemma finishWithoutLoop_outcome: "finishWithoutLoop a end message s = (out, s') \<Longrightarrow> outcome_ok a out"
  unfolding finishWithoutLoop_def by (erule agent_finish_outcome) (simp add: StateFailed_def StateSucceeded_def)

lemma config_error_outcome: "config_error a message s = (out, s') \<Longrightarrow> outcome_ok a out"
  using finishWithoutLoop_outcome by (fastforce simp: config_error_def outcome_ok_def split: prod.splits)

lemma final_evaluation_passed:
  assumes "final_evaluation a res h s = ((passed, err), s')" and "passed"
  shows "\<exists>e e'. ag_evaluate (ar_deps a) (ev_kind (b_evaluator (ar_brief a))) (ev_program (b_evaluator (ar_brief a))) (res_ledger res) e = (Inr True, e')"
  using assms
  by (auto simp: final_evaluation_def attempt_or_def split: if_splits prod.splits sum.splits dest!: outside_InrD)

lemma verdict_passed: "AgentVerdict res runErr h passed err = (StateSucceeded, message) \<Longrightarrow> passed"
  by (auto simp: AgentVerdict_def StateFailed_def StateAborted_def StateSucceeded_def split: if_splits option.splits)

lemma agent_judge_outcome:
  assumes "agent_judge a req deadline res runErr s = (out, s')"
  shows "outcome_ok a out"
proof -
  obtain observed s1 where o1: "cancel_seen a req False s = (observed, s1)" by (rule prod.exhaust)
  define h where "h = ((res_end res = EndTimeout \<and> runErr \<noteq> None) \<or> observed)"
  obtain passed err s2 where ev: "final_evaluation a res h s1 = ((passed, err), s2)" by (metis prod.exhaust)
  obtain at s3 where wh: "cancelled_when a s2 = (at, s3)" by (rule prod.exhaust)
  obtain o' s4 where o2: "(if h then cancel_seen a req observed s3 else (observed, s3)) = (o', s4)" by (rule prod.exhaust)
  obtain state message where v: "(if h \<and> \<not> o' \<and> (case at of Some t \<Rightarrow> t \<ge> deadline | None \<Rightarrow> False)
            then (StateFailed, ''wall clock expired'') else AgentVerdict res runErr h passed err) = (state, message)"
    by (rule prod.exhaust)
  have fin: "agent_finish a state message (res_ledger res) s4 = (out, s')"
    using assms unfolding agent_judge_def o1 prod.case Let_def h_def [symmetric] ev wh o2 v by simp
  have "passed" if "state = StateSucceeded"
    using v that verdict_passed by (auto simp: StateFailed_def StateSucceeded_def split: if_splits)
  then show ?thesis using agent_finish_outcome [OF fin] final_evaluation_passed [OF ev] by blast
qed

lemmas no_loop_outcomes = finishWithoutLoop_outcome config_error_outcome

lemma agent_loop_outcome: "agent_loop a req deadline resolved tools exec s = (out, s') \<Longrightarrow> outcome_ok a out"
  by (auto simp: agent_loop_def split: prod.splits sum.splits dest: agent_judge_outcome no_loop_outcomes)

lemma agent_tools_outcome: "agent_tools a req deadline resolved url s = (out, s') \<Longrightarrow> outcome_ok a out"
  by (auto simp: agent_tools_def attempt_or_def split: prod.splits sum.splits if_splits
      dest: agent_loop_outcome no_loop_outcomes)

lemma agent_plane_outcome: "agent_plane a req deadline resolved s = (out, s') \<Longrightarrow> outcome_ok a out"
  by (auto simp: agent_plane_def agent_own_moxy_def attempt_or_def Let_def split: prod.splits sum.splits if_splits option.splits
      dest: agent_tools_outcome no_loop_outcomes)

lemma agent_work_outcome: "agent_work a req deadline s = (out, s') \<Longrightarrow> outcome_ok a out"
  by (auto simp: agent_work_def attempt_or_def split: prod.splits sum.splits option.splits
      dest: agent_plane_outcome no_loop_outcomes)

lemma agent_prepare_run:
  "agent_prepare g req w = (Inr (a, deadline), w') \<Longrightarrow> ar_deps a = g \<and> ar_brief a = aq_brief req"
  by (auto simp: agent_prepare_def with_now_def Let_def split: prod.splits if_splits elim!: attempt_InrE)

text \<open>C21. Success is never the agent's own word. When \<open>juggler run\<close> reports \<open>succeeded\<close>, the brief's
  own evaluator has accepted a ledger whose calls and end are those of the reported ledger, or
  this job's terminal record was refused as already written and the success reported is that of
  the terminal found in its journal.\<close>

theorem agent_success_needs_evaluator:
  assumes "RunAgent g req w = (Inr out, w')" and "ao_state out = StateSucceeded"
  shows "evaluator_accepted g (b_evaluator (aq_brief req)) (ao_ledger out)
    \<or> relayed_success g (b_parent (aq_brief req)) (ao_job out)"
proof -
  obtain a deadline w1 s where a: "agent_prepare g req w = (Inr (a, deadline), w1)"
      and "agent_work a req deadline \<lparr>aw_world = w1, aw_failed = False\<rparr> = (out, s)"
    using assms(1) by (auto simp: RunAgent_def split: prod.splits elim!: attempt_InrE)
  from agent_work_outcome [OF this(2)] agent_prepare_run [OF a] assms(2) show ?thesis
    by (auto simp: outcome_ok_def ar_target_def)
qed

section \<open>An error writes nothing\<close>

definition untouched :: "'e world \<Rightarrow> 'e world \<Rightarrow> bool" where
  "untouched w w' \<longleftrightarrow> w_files w' = w_files w \<and> w_spools w' = w_spools w \<and> w_faults w' = w_faults w"

definition with_terminals :: "(string \<Rightarrow> string \<Rightarrow> done_record \<Rightarrow> ('e, unit) op) \<Rightarrow> 'e agent_deps \<Rightarrow> 'e agent_deps" where
  "with_terminals f g = g\<lparr>ag_deps := (ag_deps g)\<lparr>sv_done := f\<rparr>\<rparr>"

lemma untouched_refl [simp]: "untouched w w"
  by (simp add: untouched_def)

lemma untouched_ext: "ext f w = (r, w') \<Longrightarrow> untouched w w'"
  by (auto simp: ext_def untouched_def split: prod.splits)

lemma untouched_trans: "untouched w w' \<Longrightarrow> untouched w' w'' \<Longrightarrow> untouched w w''"
  by (simp add: untouched_def)

lemma untouched_job: "agent_job g req w = (r, w') \<Longrightarrow> untouched w w'"
  by (auto simp: agent_job_def attempt_or_def observe_def with_now_def mirrorHolder_def Let_def
      split: if_splits prod.splits sum.splits option.splits intro: untouched_trans dest!: untouched_ext)

lemma untouched_lock: "agent_lock g target job w = (r, w') \<Longrightarrow> untouched w w'"
  by (auto simp: agent_lock_def attempt_or_def split: if_splits prod.splits sum.splits dest!: untouched_ext)

lemma RunAgent_Inl: "RunAgent g req w = (Inl e, w') \<longleftrightarrow> agent_prepare g req w = (Inl e, w')"
  by (auto simp: RunAgent_def attempt_def attempt_or_def split: prod.splits sum.splits)

lemma done_irrelevant [simp]:
  "with_now (d\<lparr>sv_done := f\<rparr>) = with_now d"
  "mirrorHolder (d\<lparr>sv_done := f\<rparr>) = mirrorHolder d"
  by (simp_all add: fun_eq_iff with_now_def mirrorHolder_def)

lemma terminals_irrelevant:
  "agent_job (with_terminals f g) req = agent_job g req"
  "agent_lock (with_terminals f g) target job = agent_lock g target job"
  "agent_traffic (with_terminals f g) p job w = agent_traffic g p job w"
  by (simp_all add: with_terminals_def agent_job_def agent_lock_def agent_traffic_def Let_def)

lemma attempt_Inl: "attempt m k w = (Inl e, w') \<longleftrightarrow> m w = (Inl e, w') \<or> (\<exists>x w1. m w = (Inr x, w1) \<and> k x w1 = (Inl e, w'))"
  by (auto simp: attempt_def attempt_or_def split: prod.splits sum.splits)

lemma prepare_Inl:
  "agent_prepare g req w = (Inl e, w') \<longleftrightarrow>
     (if aq_env_principal req \<noteq> [] \<and> aq_env_principal req \<noteq> b_principal (aq_brief req) then
        e = ErrMsg (''CLOWN_SESSION_ID '' @ quoted (aq_env_principal req) @ '' does not match brief.principal ''
           @ quoted (b_principal (aq_brief req))) \<and> w' = w
      else with_now (ag_deps g) (\<lambda>now w. \<exists>job w1. agent_job g req w = (Inl e, w')
        \<or> agent_job g req w = (Inr job, w1) \<and> agent_lock g (b_parent (aq_brief req)) job w1 = (Inl e, w')) w)"
proof -
  have *: "(case x of (((p, q), r), w1) \<Rightarrow> (Inr (F p q r), w1)) = (Inl e, w') \<longleftrightarrow> False" for x and F :: "bool \<Rightarrow> string \<Rightarrow> string \<Rightarrow> 'a agent_run \<times> int" and w' :: "'a world"
    by (simp split: prod.split)
  show ?thesis
    by (simp add: agent_prepare_def with_now_def attempt_Inl Let_def * split: prod.split)
      (auto simp: *)
qed

lemma prepare_error:
  assumes "agent_prepare g req w = (Inl e, w')"
  shows "untouched w w'"
  using assms unfolding prepare_Inl with_now_def
  by (auto split: if_splits prod.splits dest!: untouched_ext untouched_job untouched_lock intro: untouched_trans)

lemma prepare_error_terminals:
  "agent_prepare (with_terminals f g) req w = (Inl e, w') \<longleftrightarrow> agent_prepare g req w = (Inl e, w')"
  unfolding prepare_Inl terminals_irrelevant by (simp add: with_terminals_def)

text \<open>C22. An error from \<open>juggler run\<close> means that nothing was written: juggler's files and the
  result spools are as they were, and no terminal record can have been written, for the run ends
  in the same way whatever the ringmaster's \<open>done\<close> would do.\<close>

theorem agent_error_writes_nothing:
  assumes "RunAgent g req w = (Inl e, w')"
  shows "w_files w' = w_files w \<and> w_spools w' = w_spools w \<and> (\<forall>f. RunAgent (with_terminals f g) req w = (Inl e, w'))"
  using assms prepare_error [of g req w e w'] by (simp add: RunAgent_Inl prepare_error_terminals untouched_def)

section \<open>The brief's tools are all an agent can use\<close>

text \<open>A tool plane that passes on only calls of the named tools, and answers any other with
  \<open>other\<close>.\<close>

definition brief_only :: "string list \<Rightarrow> 'e executor \<Rightarrow> 'e executor \<Rightarrow> 'e executor" where
  "brief_only tools other exec name args = (if name \<in> set tools then exec name args else other name args)"

definition guarded_connect :: "string list \<Rightarrow> 'e executor \<Rightarrow> 'e agent_deps \<Rightarrow> string \<Rightarrow> ('e, tool_spec list \<times> 'e executor) op" where
  "guarded_connect tools other g url e = (case ag_connect g url e of
      (Inl err, e') \<Rightarrow> (Inl err, e')
    | (Inr (specs, exec), e') \<Rightarrow> (Inr (specs, brief_only tools other exec), e'))"

definition guarded :: "string list \<Rightarrow> 'e executor \<Rightarrow> 'e agent_deps \<Rightarrow> 'e agent_deps" where
  "guarded tools other g = g\<lparr>ag_connect := guarded_connect tools other g\<rparr>"

definition guarded_run :: "string list \<Rightarrow> 'e executor \<Rightarrow> 'e agent_run \<Rightarrow> 'e agent_run" where
  "guarded_run tools other a = a\<lparr>ar_deps := guarded tools other (ar_deps a)\<rparr>"

lemma guarded_simps [simp]:
  "ag_deps (guarded tools other g) = ag_deps g" "ag_toml (guarded tools other g) = ag_toml g"
  "ag_ctx (guarded tools other g) = ag_ctx g" "ag_protocol (guarded tools other g) = ag_protocol g"
  "ag_lock (guarded tools other g) = ag_lock g" "ag_already_locked (guarded tools other g) = ag_already_locked g"
  "ag_already_terminal (guarded tools other g) = ag_already_terminal g" "ag_traffic_path (guarded tools other g) = ag_traffic_path g"
  "ag_resolve_model (guarded tools other g) = ag_resolve_model g" "ag_connect (guarded tools other g) = guarded_connect tools other g"
  "ag_evaluate (guarded tools other g) = ag_evaluate g" "ag_launch (guarded tools other g) = ag_launch g"
  "ag_stop (guarded tools other g) = ag_stop g" "ag_state_dir (guarded tools other g) = ag_state_dir g"
  "ag_http_do (guarded tools other g) = ag_http_do g" "ag_new_turn_id (guarded tools other g) = ag_new_turn_id g"
  "ag_ctx_err (guarded tools other g) = ag_ctx_err g" "ag_parent_err (guarded tools other g) = ag_parent_err g"
  "ag_url_error (guarded tools other g) = ag_url_error g" "ag_json_errmsg (guarded tools other g) = ag_json_errmsg g"
  "ag_post_first (guarded tools other g) = ag_post_first g" "ag_cancel_observed (guarded tools other g) = ag_cancel_observed g"
  "ag_cancelled_at (guarded tools other g) = ag_cancelled_at g" "ag_ctx_ended (guarded tools other g) = ag_ctx_ended g"
  by (simp_all add: guarded_def)

lemma guarded_run_simps [simp]:
  "ar_deps (guarded_run tools other a) = guarded tools other (ar_deps a)" "ar_brief (guarded_run tools other a) = ar_brief a"
  "ar_job (guarded_run tools other a) = ar_job a" "ar_release (guarded_run tools other a) = ar_release a"
  "ar_lock_err (guarded_run tools other a) = ar_lock_err a" "ar_sink (guarded_run tools other a) = ar_sink a"
  "ar_traffic_path (guarded_run tools other a) = ar_traffic_path a" "ar_traffic_note (guarded_run tools other a) = ar_traffic_note a"
  "ar_target (guarded_run tools other a) = ar_target a"
  by (simp_all add: guarded_run_def ar_target_def)

lemma guarded_parts [simp]:
  "onTraffic (guarded_run tools other a) = onTraffic a"
  "postTurn (guarded_run tools other a) = postTurn a"
  "close_traffic (guarded_run tools other a) = close_traffic a"
  "traffic_note (guarded_run tools other a) = traffic_note a"
  "agent_done (guarded_run tools other a) = agent_done a"
  "release_lock (guarded_run tools other a) = release_lock a"
  "cancel_seen (guarded_run tools other a) = cancel_seen a"
  "cancelled_when (guarded_run tools other a) = cancelled_when a"
  "final_evaluation (guarded_run tools other a) = final_evaluation a"
  unfolding fun_eq_iff onTraffic_def postTurn_def close_traffic_def traffic_note_def agent_done_def release_lock_def
    cancel_seen_def cancelled_when_def final_evaluation_def Let_def guarded_run_simps guarded_simps by simp_all

lemma guarded_ends [simp]:
  "agent_finish (guarded_run tools other a) = agent_finish a"
  "finishWithoutLoop (guarded_run tools other a) = finishWithoutLoop a"
  "config_error (guarded_run tools other a) = config_error a"
  "agent_judge (guarded_run tools other a) = agent_judge a"
  unfolding fun_eq_iff agent_judge_def config_error_def finishWithoutLoop_def agent_finish_def guarded_parts guarded_run_simps guarded_simps
  by simp_all

lemma guarded_config [simp]: "agent_config (guarded_run tools other a) = agent_config a"
  unfolding fun_eq_iff agent_config_def Let_def guarded_parts guarded_run_simps guarded_simps by simp

lemma guarded_loop [simp]: "agent_loop (guarded_run tools other a) = agent_loop a"
  unfolding fun_eq_iff agent_loop_def guarded_config guarded_ends guarded_run_simps guarded_simps by simp

lemma Run_same_executor:
  assumes "cf_exec cfg = Some f"
    and "\<And>name args w. name \<noteq> CannotCompleteTool \<Longrightarrow> name \<in> ts_name ` set (cf_tools cfg) \<Longrightarrow> f name args w = h name args w"
  shows "Run (cfg\<lparr>cf_exec := Some h\<rparr>) w = Run cfg w"
proof (cases "withDefaults cfg")
  case (Inr c)
  have "agree_on (cf_json_errmsg c) (toolsWithCannotComplete (cf_tools c)) f h"
    using assms(2) withDefaults_same [OF Inr]
    by (auto simp: agree_on_def offered_def toolsWithCannotComplete_def CannotCompleteSpec_def)
  then have "run_loop (c\<lparr>cf_exec := Some h\<rparr>) w = run_loop c w"
    using run_loop_agree [of c f h w] withDefaults_keeps_exec [OF Inr] assms(1) by simp
  with Inr show ?thesis by (simp add: Run_def withDefaults_exec [OF assms(1)])
qed (simp add: Run_def withDefaults_exec [OF assms(1)])

lemma loop_brief_only:
  assumes "ts_name ` set specs \<subseteq> set tools"
  shows "agent_loop a req deadline resolved specs (brief_only tools other exec) = agent_loop a req deadline resolved specs exec"
proof -
  have "Run (agent_config a req resolved specs (brief_only tools other exec) wall) s
      = Run (agent_config a req resolved specs exec wall) s" for wall s
  proof -
    define cfg where "cfg = agent_config a req resolved specs exec wall"
    have "agent_config a req resolved specs (brief_only tools other exec) wall
        = cfg\<lparr>cf_exec := Some (\<lambda>name args. outside (brief_only tools other exec name args))\<rparr>"
      by (simp add: cfg_def agent_config_def Let_def)
    moreover have "Run (cfg\<lparr>cf_exec := Some (\<lambda>name args. outside (brief_only tools other exec name args))\<rparr>) s = Run cfg s"
      by (rule Run_same_executor [where f = "\<lambda>name args. outside (exec name args)"])
        (use assms in \<open>auto simp: cfg_def agent_config_def Let_def brief_only_def\<close>)
    ultimately show ?thesis by (simp add: cfg_def)
  qed
  then show ?thesis by (simp add: fun_eq_iff agent_loop_def)
qed

lemma outside_guarded:
  "outside (guarded_connect tools other g url) s = (case outside (ag_connect g url) s of
      (Inl err, s') \<Rightarrow> (Inl err, s') | (Inr (specs, exec), s') \<Rightarrow> (Inr (specs, brief_only tools other exec), s'))"
  by (auto simp: outside_def inside_def ext_def guarded_connect_def split: prod.split sum.split)

lemma guarded_tools:
  assumes "tools = b_tools (ar_brief a)"
  shows "agent_tools (guarded_run tools other a) = agent_tools a"
proof -
  have "agent_loop a req deadline resolved specs (brief_only tools other exec) = agent_loop a req deadline resolved specs exec"
      if "FilterToolsToAllowlist advertised tools = (specs, missing)" for req deadline resolved specs exec advertised missing
    using kept_allowed [OF that] by (intro loop_brief_only) auto
  then show ?thesis
    by (auto simp: fun_eq_iff agent_tools_def attempt_or_def outside_guarded assms split: prod.split sum.split)
qed

lemma guarded_work:
  assumes "tools = b_tools (ar_brief a)"
  shows "agent_work (guarded_run tools other a) = agent_work a"
proof -
  have own: "agent_own_moxy (guarded_run tools other a) = agent_own_moxy a"
    unfolding fun_eq_iff agent_own_moxy_def Let_def guarded_tools [OF assms] guarded_ends guarded_run_simps guarded_simps by simp
  have plane: "agent_plane (guarded_run tools other a) = agent_plane a"
    unfolding fun_eq_iff agent_plane_def own guarded_tools [OF assms] guarded_ends guarded_run_simps guarded_simps by simp
  show ?thesis
    unfolding fun_eq_iff agent_work_def plane guarded_ends guarded_run_simps guarded_simps by simp
qed

lemma guarded_prepare:
  "agent_prepare (guarded tools other g) req w = (case agent_prepare g req w of
      (Inl e, w') \<Rightarrow> (Inl e, w') | (Inr (a, t), w') \<Rightarrow> (Inr (guarded_run tools other a, t), w'))"
proof -
  have "agent_job (guarded tools other g) req = agent_job g req" "agent_lock (guarded tools other g) = agent_lock g"
    "agent_traffic (guarded tools other g) = agent_traffic g"
    unfolding fun_eq_iff agent_job_def agent_lock_def agent_traffic_def guarded_simps by simp_all
  then show ?thesis
    by (auto simp: agent_prepare_def with_now_def attempt_def attempt_or_def guarded_run_def Let_def split: prod.split sum.split)
qed

text \<open>C23. An agent is confined to its brief: putting a guard in front of the tool plane that passes
  on only calls of the tools the brief names, and answers all others in any way whatever,
  changes nothing about any run, from start to terminal record.\<close>

theorem agent_confined_to_brief:
  "RunAgent (guarded (b_tools (aq_brief req)) other g) req w = RunAgent g req w"
  using agent_prepare_run [of g req w]
  by (auto simp: RunAgent_def attempt_def attempt_or_def guarded_prepare guarded_work split: prod.split sum.split)

section \<open>A scripted run\<close>

text \<open>The services of \<open>demo_deps\<close> with a model that ends its turn at once, one tool, and an
  evaluator that accepts everything.\<close>

definition demo_agent :: "nat agent_deps" where
  "demo_agent = \<lparr>ag_deps = demo_deps,
     ag_toml = \<lparr>tm_decode = (\<lambda>_. Inl (ErrMsg ''x'')), tm_encode = (\<lambda>_. Inl (ErrMsg ''x'')), tm_lists = (\<lambda>_. Inl (ErrMsg ''x'')),
       tm_allow = (\<lambda>_. Inl (ErrMsg ''x'')), tm_with_allow = (\<lambda>_ _. Inl (ErrMsg ''x'')), tm_duration = (\<lambda>_. Inr 9)\<rparr>,
     ag_ctx = None, ag_protocol = None, ag_lock = (\<lambda>t j e. (Inr (\<lambda>e. (Inr (), e)), e)),
     ag_already_locked = (\<lambda>_. False), ag_already_terminal = (\<lambda>_. False), ag_traffic_path = Some (TrafficPath ''s''),
     ag_resolve_model = Some (\<lambda>m e. (Inr \<lparr>rm_kind = ''local'', rm_url = ''u'', rm_token = [], rm_style = ''anthropic'', rm_model_id = []\<rparr>, e)),
     ag_connect = (\<lambda>u e. (Inr ([\<lparr>ts_name = ''p'', ts_description = [], ts_input_schema = [], ts_kind = ''c''\<rparr>], \<lambda>n as e. (ExecErr ''x'', e)), e)),
     ag_evaluate = (\<lambda>k p l e. (Inr True, e)), ag_launch = None, ag_stop = (\<lambda>e. e), ag_state_dir = [],
     ag_http_do = (\<lambda>r e. (HttpOk 200 [CHR 0x7B, CHR 0x7D], e)), ag_new_turn_id = (\<lambda>e. (''i'', e)), ag_ctx_err = (\<lambda>t e. (False, e)),
     ag_parent_err = (\<lambda>e. (False, e)), ag_url_error = (\<lambda>_. None), ag_json_errmsg = (\<lambda>_. ''x''), ag_post_first = (\<lambda>e. (True, e)),
     ag_cancel_observed = (\<lambda>e. (False, e)), ag_cancelled_at = (\<lambda>e. (None, e)), ag_ctx_ended = (\<lambda>e. (False, e))\<rparr>"

definition demo_agent_request :: agent_request where
  "demo_agent_request = \<lparr>aq_brief = \<lparr>b_schema = 1, b_principal = ''a'', b_parent = ''r'', b_room = ''o'', b_model = ''m'', b_system = [],
       b_task = ''t'', b_moxyfile = [], b_budget_key_ref = [], b_tools = [''p''], b_env = [],
       b_evaluator = \<lparr>ev_kind = ''jq'', ev_program = ''.'', ev_stop_on_pass = False\<rparr>,
       b_limits = \<lparr>lm_steps = 2, lm_wall_clock = ''w'', lm_sandbox = None\<rparr>\<rparr>,
     aq_job = [], aq_brief_stanza = [], aq_moxy_url = ''u'', aq_env_principal = [], aq_watch_cancel = False\<rparr>"



definition demo_model :: resolved_model where
  "demo_model = \<lparr>rm_kind = ''local'', rm_url = ''u'', rm_token = [], rm_style = ''anthropic'', rm_model_id = []\<rparr>"

definition demo_agent_state :: "nat agent_run" where
  "demo_agent_state = \<lparr>ar_deps = demo_agent, ar_brief = aq_brief demo_agent_request, ar_job = ''j'',
     ar_release = Some (\<lambda>e. (Inr (), e)), ar_lock_err = None, ar_sink = True, ar_traffic_path = ''s/traffic/a/j.jsonl'', ar_traffic_note = []\<rparr>"

definition demo_agent_world :: "nat agent_world" where
  "demo_agent_world = \<lparr>aw_world = empty_world\<lparr>w_files := [(''s/traffic/a/j.jsonl'', TextFile [])]\<rparr>, aw_failed = False\<rparr>"

definition demo_agent_config :: "nat agent_world config" where
  "demo_agent_config = agent_config demo_agent_state demo_agent_request demo_model
     [\<lparr>ts_name = ''p'', ts_description = [], ts_input_schema = [], ts_kind = ''c''\<rparr>] (\<lambda>n as e. (ExecErr ''x'', e)) 9"

lemma demo_services [simp]:
  "sv_now demo_deps = Pair 7" "sv_start demo_deps t l q = Pair (Inr ''j'')" "sv_progress demo_deps t l q = Pair (Inr ())"
  "sv_done demo_deps t l dr = Pair (Inr ())" "sv_spool_path demo_deps t l = Pair (Inr ''sp'')"
  by (simp_all add: demo_deps_def fun_eq_iff)

lemma demo_agent_simps [simp]:
  "ag_deps demo_agent = demo_deps" "ag_protocol demo_agent = None" "ag_lock demo_agent t l = Pair (Inr (\<lambda>e. (Inr (), e)))"
  "ag_traffic_path demo_agent = Some (TrafficPath ''s'')" "ag_resolve_model demo_agent = Some (\<lambda>m e. (Inr demo_model, e))"
  "ag_connect demo_agent url = Pair (Inr ([\<lparr>ts_name = ''p'', ts_description = [], ts_input_schema = [], ts_kind = ''c''\<rparr>], \<lambda>n as e. (ExecErr ''x'', e)))"
  "ag_evaluate demo_agent k p led = Pair (Inr True)" "ag_cancelled_at demo_agent = Pair None" "ag_ctx_ended demo_agent = Pair False"
  "tm_duration (ag_toml demo_agent) t = Inr 9"
  by (simp_all add: demo_agent_def demo_model_def fun_eq_iff)

lemma demo_request_simps [simp]:
  "b_parent (aq_brief demo_agent_request) = ''r''" "b_principal (aq_brief demo_agent_request) = ''a''" "b_tools (aq_brief demo_agent_request) = [''p'']"
  "aq_job demo_agent_request = []" "aq_moxy_url demo_agent_request = ''u''" "aq_env_principal demo_agent_request = []"
  "\<not> aq_watch_cancel demo_agent_request"
  by (simp_all add: demo_agent_request_def)

lemma demo_state_simps [simp]:
  "ar_deps demo_agent_state = demo_agent" "ar_brief demo_agent_state = aq_brief demo_agent_request"
  by (simp_all add: demo_agent_state_def)

lemma demo_safe: "idPattern ''a''" "idPattern ''j''" by code_simp+

lemma demo_agent_prepare: "agent_prepare demo_agent demo_agent_request empty_world = (Inr (demo_agent_state, 16), aw_world demo_agent_world)"
  by (simp add: agent_prepare_def demo_agent_state_def demo_agent_world_def with_now_def Let_def
      agent_job_def agent_lock_def agent_traffic_def attempt_def attempt_or_def ext_def observe_def mirrorHolder_def openTrafficSink_def
      may_fail_def empty_world_def TrafficPath_def demo_safe path_join_def)

lemma demo_agent_end:
  "case Run demo_agent_config demo_agent_world of (r, s) \<Rightarrow> (case r of Inl _ \<Rightarrow> False | Inr (res, err) \<Rightarrow> res_end res = EndTurn \<and> err = None)"
  by code_simp

lemma demo_agent_loop:
  obtains res s where "Run demo_agent_config demo_agent_world = (Inr (res, None), s)" and "res_end res = EndTurn"
  using demo_agent_end by (auto split: prod.splits sum.splits)

lemma outside_Pair [simp]: "outside (Pair x) s = (x, s)"
  by (simp add: outside_def inside_def ext_def)

definition demo_outcome :: agent_outcome where
  "demo_outcome = fst (agent_work demo_agent_state demo_agent_request 16 demo_agent_world)"

lemma demo_succeeded: "ao_state demo_outcome = StateSucceeded"
proof -
  obtain res s where run: "Run demo_agent_config demo_agent_world = (Inr (res, None), s)" "res_end res = EndTurn"
    by (rule demo_agent_loop)
  have "agent_work demo_agent_state demo_agent_request 16 demo_agent_world = agent_judge demo_agent_state demo_agent_request 16 res None s"
    using run(1)
    by (simp add: agent_work_def agent_plane_def agent_tools_def agent_loop_def attempt_or_def FilterToolsToAllowlist_def
        demo_agent_config_def time_sub_def)
  also have "\<dots> = agent_finish demo_agent_state StateSucceeded ''evaluator passed'' (res_ledger res) s"
    using run(2) by (simp add: agent_judge_def cancel_seen_def final_evaluation_def cancelled_when_def attempt_or_def AgentVerdict_def)
  finally show ?thesis
    by (simp add: demo_outcome_def agent_finish_def agent_done_def attempt_or_def Let_def split: prod.split)
qed

lemma demo_agent_run:
  "RunAgent demo_agent demo_agent_request empty_world
     = (Inr demo_outcome, aw_world (snd (agent_work demo_agent_state demo_agent_request 16 demo_agent_world)))"
  by (simp add: RunAgent_def attempt_def attempt_or_def demo_agent_prepare demo_outcome_def demo_agent_world_def split: prod.split)

theorem agent_success_needs_evaluator_witness:
  "evaluator_accepted demo_agent (b_evaluator (aq_brief demo_agent_request)) (ao_ledger demo_outcome)
    \<or> relayed_success demo_agent (b_parent (aq_brief demo_agent_request)) (ao_job demo_outcome)"
  using agent_success_needs_evaluator [OF demo_agent_run demo_succeeded] .

text \<open>A duplicate \<open>juggler run\<close>: the job's lock is held.\<close>

definition demo_locked :: "nat agent_deps" where
  "demo_locked = demo_agent\<lparr>ag_lock := (\<lambda>t j e. (Inl (ErrMsg ''held''), e)), ag_already_locked := (\<lambda>_. True)\<rparr>"

theorem agent_error_writes_nothing_witness:
  "w_files empty_world = [] \<and> (\<exists>e. RunAgent (with_terminals (\<lambda>t j r e. (Inl (ErrMsg ''down''), e)) demo_locked) demo_agent_request empty_world = (Inl e, empty_world))"
proof -
  have "\<exists>e. RunAgent demo_locked demo_agent_request empty_world = (Inl e, empty_world)"
    by (simp add: RunAgent_Inl prepare_Inl demo_locked_def with_now_def agent_job_def agent_lock_def attempt_or_def observe_def
        mirrorHolder_def ext_def empty_world_def Let_def)
  then show ?thesis using agent_error_writes_nothing by (fastforce simp: empty_world_def)
qed

end
