(* ===== verification/Brief_Claims.thy ===== *)
theory Brief_Claims
  imports Run_Demo
begin

text \<open>
  What a brief that passed validation guarantees, what reaches the environment and the moxyfile
  of the agent it starts, and the moxin path it inherits.
\<close>

section \<open>Briefs\<close>

definition demo_brief :: brief where
  "demo_brief = \<lparr>b_schema = 1, b_principal = ''p'', b_parent = ''q'', b_room = ''r'', b_model = ''m'', b_system = ''s'',
     b_task = ''t'', b_moxyfile = [], b_budget_key_ref = [], b_tools = [''srv_read''], b_env = [(''FOO'', ''1'')],
     b_evaluator = \<lparr>ev_kind = ''jq'', ev_program = ''true'', ev_stop_on_pass = False\<rparr>,
     b_limits = \<lparr>lm_steps = 3, lm_wall_clock = ''2m'', lm_sandbox = None\<rparr>\<rparr>"

definition demo_toml :: toml where
  "demo_toml = \<lparr>tm_decode = (\<lambda>s. if s = ''doc'' then Inr (demo_brief, []) else Inl (ErrMsg ''bad'')), tm_encode = (\<lambda>b. Inr ''doc''),
     tm_lists = (\<lambda>s. Inr (None, None)), tm_allow = (\<lambda>s. Inr None), tm_with_allow = (\<lambda>s ts. Inr s),
     tm_duration = (\<lambda>s. if s = ''2m'' then Inr 120000000000 else Inl (ErrMsg ''bad duration''))\<rparr>"

lemma parse_valid: "parse_with tm template data = Inr b \<Longrightarrow> validate tm template b = None"
  by (auto simp: parse_with_def split: sum.splits option.splits)

lemma meta_find: "find (\<lambda>a. a \<in> set reservedMetaTools) ts = None \<longleftrightarrow> set ts \<inter> set reservedMetaTools = {}"
  by (auto simp: find_None_iff)

lemma no_meta_tools: "checkNoReservedMetaTools tm tools mox = None \<Longrightarrow> set tools \<inter> set reservedMetaTools = {}"
  by (auto simp: checkNoReservedMetaTools_def meta_find split: option.splits)

lemma required_present:
  "check_required False fvs = None \<Longrightarrow> \<forall>(f, v) \<in> set fvs. trim_space v \<noteq> []"
  by (auto simp: check_required_def find_None_iff split: option.splits)

text \<open>C27. A brief that \<open>Parse\<close> accepts is safe to run: every required field is there, the tools are distinct,
  not blank and not moxy's own meta tools, no environment key is reserved to the spawner, the evaluator
  is a jq program, and the limits are positive.\<close>

theorem parsed_brief_is_safe:
  assumes "Parse tm data = Inr b"
  shows "b_schema b = SchemaVersion
    \<and> (\<forall>v \<in> {b_principal b, b_parent b, b_room b, b_model b, b_system b, b_task b}. trim_space v \<noteq> [])
    \<and> b_tools b \<noteq> [] \<and> distinct (b_tools b) \<and> (\<forall>t \<in> set (b_tools b). trim_space t \<noteq> []) \<and> set (b_tools b) \<inter> set reservedMetaTools = {}
    \<and> (\<forall>(k, v) \<in> set (b_env b). k \<noteq> [] \<and> CHR ''='' \<notin> set k \<and> \<not> ReservedEnvKey k)
    \<and> ev_kind (b_evaluator b) = EvaluatorKindJQ \<and> trim_space (ev_program (b_evaluator b)) \<noteq> []
    \<and> 1 \<le> lm_steps (b_limits b) \<and> (\<exists>t. tm_duration tm (lm_wall_clock (b_limits b)) = Inr t \<and> 0 < t)"
proof -
  have "validate tm False b = None" using assms by (simp add: Parse_def parse_valid)
  note checks = this [unfolded validate_None]
  have "ev_kind (b_evaluator b) = EvaluatorKindJQ \<and> trim_space (ev_program (b_evaluator b)) \<noteq> []"
    using checks by (auto simp: check_evaluator_def split: if_splits)
  moreover have "1 \<le> lm_steps (b_limits b) \<and> (\<exists>t. tm_duration tm (lm_wall_clock (b_limits b)) = Inr t \<and> 0 < t)"
    using checks by (auto simp: check_limits_def split: if_splits sum.splits)
  moreover have "\<forall>v \<in> {b_principal b, b_parent b, b_room b, b_model b, b_system b, b_task b}. trim_space v \<noteq> []"
    using required_present [OF checks [THEN conjunct2, THEN conjunct1]] by simp
  ultimately show ?thesis
    using checks no_meta_tools [of tm "b_tools b" "b_moxyfile b"] by (simp add: check_env_None check_tool_names_None)
qed

theorem parsed_brief_is_safe_witness:
  "Parse demo_toml ''doc'' = Inr demo_brief \<and> set (b_tools demo_brief) \<inter> set reservedMetaTools = {}"
proof -
  have "Parse demo_toml ''doc'' = Inr demo_brief" by code_simp
  with parsed_brief_is_safe [OF this] show ?thesis by blast
qed

text \<open>
  What the TOML package and the duration parser promise: a printed brief reads back; a key the decoder
  reports as not used is a key below an opaque value, so below the reserved \<open>limits.sandbox\<close> table of a
  brief that has one; and there is no empty duration.
\<close>

definition below_sandbox :: "string list \<Rightarrow> bool" where
  "below_sandbox k \<longleftrightarrow> take 2 k = [''limits'', ''sandbox''] \<and> 2 < length k"

definition toml_reads_back :: "toml \<Rightarrow> brief \<Rightarrow> bool" where
  "toml_reads_back tm b \<longleftrightarrow> (case tm_encode tm b of
       Inr s \<Rightarrow> (case tm_decode tm s of
           Inr (b', unused) \<Rightarrow> b' = b \<and> (\<forall>(k, _) \<in> set unused. lm_sandbox (b_limits b) \<noteq> None \<and> below_sandbox k)
         | Inl _ \<Rightarrow> False)
     | Inl _ \<Rightarrow> True)
     \<and> (case tm_duration tm [] of Inl _ \<Rightarrow> True | Inr _ \<Rightarrow> False)"

lemma sandbox_key_below: "sandbox_key k \<longleftrightarrow> below_sandbox k"
  by (auto simp: sandbox_key_def below_sandbox_def split: list.splits)

lemma decode_Inr:
  "decode tm data = Inr b \<longleftrightarrow> (\<exists>b0 unused. tm_decode tm data = Inr (b0, unused) \<and> (\<forall>(k, _) \<in> set unused. below_sandbox k) \<and> b = applyDefaults b0)"
proof (cases "tm_decode tm data")
  case (Inr r)
  obtain b0 unused where r: "r = (b0, unused)" by fastforce
  have "filter (\<lambda>(k, _). \<not> below_sandbox k) unused = [] \<longleftrightarrow> (\<forall>(k, _) \<in> set unused. below_sandbox k)"
    by (auto simp: filter_empty_conv)
  with Inr r show ?thesis
    by (cases "filter (\<lambda>(k, _). \<not> below_sandbox k) unused") (auto simp: decode_def sandbox_key_below)
qed (simp add: decode_def)

text \<open>C26. A brief survives being written: whatever \<open>Marshal\<close> accepts, with or without a reserved sandbox
  table, \<open>Parse\<close> reads back as the same brief, so defaults are never applied twice and nothing a spawner
  staged is refused by the agent. And the brief is a contract nothing is left out of: \<open>Parse\<close> accepts
  no document with a key it does not use, below \<open>limits.sandbox\<close> aside, and what it accepts \<open>Marshal\<close>
  hands to the encoder.\<close>

theorem brief_roundtrip:
  assumes "toml_reads_back tm b"
  shows "(Marshal tm b = Inr s \<longrightarrow> Parse tm s = Inr b)
    \<and> (Parse tm data = Inr c \<longrightarrow> (\<exists>d unused. tm_decode tm data = Inr (d, unused) \<and> (\<forall>(k, _) \<in> set unused. below_sandbox k))
         \<and> (\<exists>e. Marshal tm c = Inl e) = (\<exists>e. tm_encode tm c = Inl e))"
proof (intro conjI impI)
  assume "Marshal tm b = Inr s"
  then have valid: "validate tm False b = None" and enc: "tm_encode tm b = Inr s"
    by (auto simp: Marshal_def Validate_def split: option.splits sum.splits)
  then have "check_limits tm (b_limits b) = None" by (simp add: validate_None)
  then have "lm_steps (b_limits b) \<noteq> 0" "lm_wall_clock (b_limits b) \<noteq> []"
    using assms by (auto simp: check_limits_def toml_reads_back_def split: if_splits sum.splits)
  then have "applyDefaults b = b" by (simp add: applyDefaults_def)
  moreover obtain unused where "tm_decode tm s = Inr (b, unused)" "\<forall>(k, _) \<in> set unused. below_sandbox k"
    using assms enc by (auto simp: toml_reads_back_def split: sum.splits)
  then have "decode tm s = Inr (applyDefaults b)" unfolding decode_Inr by blast
  ultimately show "Parse tm s = Inr b" using valid by (simp add: Parse_def parse_with_def)
next
  assume parse: "Parse tm data = Inr c"
  then show "\<exists>d unused. tm_decode tm data = Inr (d, unused) \<and> (\<forall>(k, _) \<in> set unused. below_sandbox k)"
    by (auto simp: Parse_def parse_with_def decode_Inr split: sum.splits)
  have "validate tm False c = None" using parse by (simp add: Parse_def parse_valid)
  then show "(\<exists>e. Marshal tm c = Inl e) = (\<exists>e. tm_encode tm c = Inl e)"
    by (auto simp: Marshal_def Validate_def split: sum.split)
qed

definition boxed_brief :: brief where
  "boxed_brief = demo_brief\<lparr>b_limits := b_limits demo_brief\<lparr>lm_sandbox := Some ''x = 1''\<rparr>\<rparr>"

definition boxed_toml :: toml where
  "boxed_toml = demo_toml\<lparr>tm_decode := (\<lambda>s. Inr (boxed_brief, [([''limits'', ''sandbox'', ''x''], ''limits.sandbox.x'')]))\<rparr>"

theorem brief_roundtrip_witness:
  "Parse boxed_toml ''doc'' = Inr boxed_brief"
proof -
  have "toml_reads_back boxed_toml boxed_brief" and "Marshal boxed_toml boxed_brief = Inr ''doc''" by code_simp+
  with brief_roundtrip [of boxed_toml boxed_brief "''doc''"] show ?thesis by blast
qed

section \<open>The agent's environment\<close>

lemma brief_added_reserved:
  assumes "ReservedEnvKey k \<or> k \<in> fst ` set env"
  shows "map_of (brief_added bs env) k = map_of env k"
  using assms
proof (induction bs arbitrary: env)
  case (Cons b bs)
  obtain kb v where b: "b = (kb, v)" by (cases b)
  have step: "brief_added (b # bs) env = brief_added bs (if kb \<notin> fst ` set env \<and> \<not> ReservedEnvKey kb then alist_put kb v env else env)"
    by (simp add: brief_added_def b)
  show ?case
    unfolding step by (subst Cons.IH) (use Cons.prems in auto)
qed (simp add: brief_added_def)

text \<open>C24. A brief cannot touch what the launcher owns: for a reserved key, and for any key the launcher
  passes, the agent's environment is the same whatever the brief's \<open>env\<close> says, and the launcher's
  identity variables win over everything.\<close>

theorem agent_env_confined:
  assumes "ReservedEnvKey k \<or> k \<in> fst ` set (sp_unit_env req)"
  shows "map_of (tu_env (agentUnit rec cred req bs t)) k = map_of (tu_env (agentUnit rec cred req [] t)) k
    \<and> map_of (tu_env (agentUnit rec cred req bs t)) SessionIDEnv = Some (cr_principal rec)
    \<and> map_of (tu_env (agentUnit rec cred req bs t)) ''TROUPE_XMPP_PASSWORD_FILE'' = Some (cd_password_file cred)"
proof -
  have "map_of (rev (launcher_env rec cred req)) SessionIDEnv = Some (cr_principal rec)"
    "map_of (rev (launcher_env rec cred req)) ''TROUPE_XMPP_PASSWORD_FILE'' = Some (cd_password_file cred)"
    by (simp_all add: launcher_env_def env_if_set_def SessionIDEnv_def MoxyURLEnv_def)
  moreover have "brief_added [] env = env" for env by (simp add: brief_added_def)
  ultimately show ?thesis
    by (simp add: agentUnit_def agent_env_def map_of_puts map_of_filter_key [where P = "\<lambda>k. \<not> IsMoxinIdentityEnvKey k"]
        brief_added_reserved [OF assms] split: option.split)
qed

definition demo_spawn :: spawn_request where
  "demo_spawn = \<lparr>sp_brief = ''doc'', sp_task = [], sp_run_key = ''k'', sp_env_principal = [], sp_moxy_url = [], sp_juggler_bin = ''/j'',
     sp_stop_grace = 0, sp_unit_env = [(''PATH'', ''/bin'')], sp_moxin_path = [], sp_spawner_dir = ''/w'', sp_environ = [],
     sp_getwd = Inr ''/w'', sp_look_path = (\<lambda>c. None)\<rparr>"

theorem agent_env_confined_witness:
  "map_of (tu_env (agentUnit zero_child \<lparr>cd_jid = ''p@x'', cd_password_file = ''f''\<rparr> demo_spawn [(''PATH'', ''/evil''), (''FOO'', ''1'')] 5)) ''PATH''
     = map_of (tu_env (agentUnit zero_child \<lparr>cd_jid = ''p@x'', cd_password_file = ''f''\<rparr> demo_spawn [] 5)) ''PATH''"
  using agent_env_confined [of "''PATH''" demo_spawn zero_child] by (simp add: demo_spawn_def)

text \<open>The unit outlives the brief's wall clock by the stop grace, and a waiting spawner outlives the
  unit by another grace, as long as the sum is a duration (an int64 of nanoseconds).\<close>

theorem wait_outlives_unit:
  assumes "tm_duration tm (cr_wall_clock rec) = Inr wall" and "0 < wall" and "wall + 2 * stop_grace grace < 2 ^ 63"
  shows "wall < tu_runtime_max (agentUnit rec cred req bs (dur (wall + stop_grace grace)))
    \<and> DefaultWaitTimeout tm rec grace = tu_runtime_max (agentUnit rec cred req bs (dur (wall + stop_grace grace))) + stop_grace grace
    \<and> 0 < stop_grace grace"
proof -
  have pos: "0 < stop_grace grace" by (simp add: stop_grace_def DefaultStopGrace_def)
  have id: "dur x = x" if "0 \<le> x" "x < 2 ^ 63" for x
    using that unfolding dur_def by (intro signed_take_bit_int_eq_self) simp_all
  from assms pos show ?thesis by (simp add: DefaultWaitTimeout_def agentUnit_def id)
qed

theorem wait_outlives_unit_witness:
  "DefaultWaitTimeout demo_toml (zero_child\<lparr>cr_wall_clock := ''2m''\<rparr>) 0 = 180000000000"
proof -
  have "tm_duration demo_toml (cr_wall_clock (zero_child\<lparr>cr_wall_clock := ''2m''\<rparr>)) = Inr 120000000000" by (simp add: demo_toml_def)
  from wait_outlives_unit [OF this, of 0 undefined demo_spawn "[]"] show ?thesis
    by (simp add: stop_grace_def DefaultStopGrace_def agentUnit_def dur_def)
qed

section \<open>The agent's moxyfile\<close>

lemma resolve_tools_covered:
  assumes "resolve_tools d ctx env (Some allowed) ts w = (Inr rs, w')"
  shows "(\<forall>r \<in> set rs. moxyCoveredBy r allowed) \<and> length rs = length (filter (\<lambda>t. t \<noteq> CannotCompleteTool) ts)"
  using assms
proof (induction ts arbitrary: w rs w')
  case (Cons t ts)
  show ?case
  proof (cases "t = CannotCompleteTool")
    case True
    with Cons show ?thesis by simp
  next
    case False
    obtain x w1 where x: "ext (sv_moxy_resolve d env MoxyNameTemplate t) w = (x, w1)"
      by (cases "ext (sv_moxy_resolve d env MoxyNameTemplate t) w")
    from Cons.prems False x obtain sv tl rs' w2 where "x = Inr (sv, tl)" and cov: "moxyCoveredBy (sv @ ''.'' @ tl) allowed"
      and rest: "resolve_tools d ctx env (Some allowed) ts w1 = (Inr rs', w2)" and rs: "rs = (sv @ ''.'' @ tl) # rs'"
      by (auto simp: attempt_or_def Let_def fail_def split: sum.splits option.splits if_splits prod.splits elim!: attempt_InrE)
    from Cons.IH [OF rest] cov rs False show ?thesis by simp
  qed
qed simp

text \<open>C25. Deriving an agent's moxyfile never widens the brief's: when the brief's own moxyfile has an
  \<open>allow-tools\<close> list, every entry of the derived list is covered by it, and there is exactly one entry per
  tool of the brief, \<open>cannot_complete\<close> aside.\<close>

theorem derived_moxyfile_narrows:
  assumes "DeriveAgentMoxyfile d tm ctx env b w = (Inr s, w')" and "trim_space (b_moxyfile b) \<noteq> []"
    and "tm_allow tm (b_moxyfile b) = Inr (Some (TomlArray vs))"
  shows "\<exists>allow. tm_with_allow tm (b_moxyfile b) allow = Inr s \<and> sorted_wrt str_le allow
    \<and> (\<forall>r \<in> set allow. moxyCoveredBy r (the (briefAllowSet (Some (TomlArray vs)))))
    \<and> length allow = length (filter (\<lambda>t. t \<noteq> CannotCompleteTool) (b_tools b))"
proof -
  from assms obtain rs w1 where "resolve_tools d ctx env (briefAllowSet (Some (TomlArray vs))) (b_tools b) w = (Inr rs, w1)"
    and "tm_with_allow tm (b_moxyfile b) (sort_strings rs) = Inr s"
    by (auto simp: DeriveAgentMoxyfile_def split: sum.splits elim!: attempt_InrE)
  with resolve_tools_covered [of d ctx env _ "b_tools b" w rs w1] show ?thesis
    by (intro exI [of _ "sort_strings rs"]) (simp add: briefAllowSet_def sorted_sort_strings)
qed

definition allow_toml :: toml where
  "allow_toml = demo_toml\<lparr>tm_allow := (\<lambda>s. Inr (Some (TomlArray [TomlString ''srv'']))), tm_with_allow := (\<lambda>s ts. Inr (join '' '' ts))\<rparr>"

definition allow_brief :: brief where
  "allow_brief = demo_brief\<lparr>b_moxyfile := ''m'', b_tools := [''srv_read'', ''cannot_complete'']\<rparr>"

theorem derived_moxyfile_narrows_witness:
  "\<exists>allow. join '' '' allow = ''srv.srv_read'' \<and> (\<forall>r \<in> set allow. moxyCoveredBy r [''srv'']) \<and> length allow = 1"
proof -
  have "fst (DeriveAgentMoxyfile demo_deps allow_toml None [] allow_brief empty_world) = Inr ''srv.srv_read''" by code_simp
  then obtain w' where run: "DeriveAgentMoxyfile demo_deps allow_toml None [] allow_brief empty_world = (Inr ''srv.srv_read'', w')"
    by (metis prod.collapse)
  have m: "trim_space (b_moxyfile allow_brief) \<noteq> []" "tm_allow allow_toml (b_moxyfile allow_brief) = Inr (Some (TomlArray [TomlString ''srv'']))"
    by code_simp+
  from derived_moxyfile_narrows [OF run m] show ?thesis
    by (auto simp: allow_toml_def briefAllowSet_def allow_brief_def CannotCompleteTool_def)
qed

section \<open>The moxin path\<close>

text \<open>The moxin path a child inherits is settled once: every entry is absolute and clean, so resolving
  it again, from any directory, gives the same path (for a working directory without a colon).\<close>

theorem moxin_path_settled:
  assumes "has_prefix cwd ''/''" and "CHR '':'' \<notin> set cwd"
  shows "SpawnerMoxinPath (SpawnerMoxinPath val cwd) cwd' = SpawnerMoxinPath val cwd
    \<and> (\<forall>e \<in> set (split_list (SpawnerMoxinPath val cwd)). path_is_abs e \<and> path_clean e = e)"
proof -
  let ?es = "map (moxin_dir cwd) (filter (\<lambda>d. d \<noteq> []) (split_list val))"
  have entry: "clean_abs (moxin_dir cwd d) \<and> CHR '':'' \<notin> set (moxin_dir cwd d)" if "d \<in> set (split_list val)" "d \<noteq> []" for d
  proof -
    have d: "CHR '':'' \<notin> set d" using that split_on_pieces [of "CHR '':''" val] by (auto simp: split_list_def split: if_splits)
    have abs: "has_prefix (if path_is_abs d then d else path_join_clean cwd d) ''/''"
      and no: "CHR '':'' \<notin> set (if path_is_abs d then d else path_join_clean cwd d)"
    proof -
      have cwd: "cwd \<noteq> []" "has_prefix (cwd @ ''/'' @ d) ''/''" using assms(1) by (auto simp: has_prefix_def prefix_def)
      show "has_prefix (if path_is_abs d then d else path_join_clean cwd d) ''/''"
        using path_clean_abs [OF cwd(2)] cwd that(2) clean_abs_fixed by (auto simp: path_is_abs_def path_join_clean_def)
      show "CHR '':'' \<notin> set (if path_is_abs d then d else path_join_clean cwd d)"
        using path_clean_abs [OF cwd(2)] cwd that(2) d assms(2) by (auto simp: path_join_clean_def)
    qed
    show ?thesis using path_clean_abs [OF abs] no unfolding moxin_dir_def by blast
  qed
  have es: "clean_abs e \<and> CHR '':'' \<notin> set e" if "e \<in> set ?es" for e using that entry by auto
  have nonempty: "e \<noteq> []" if "e \<in> set ?es" for e using es [OF that] unfolding clean_abs_def by blast
  have split: "split_list (SpawnerMoxinPath val cwd) = ?es"
  proof (cases "?es = []")
    case False
    then have "split_on (CHR '':'') (join '':'' ?es) = ?es" using es by (intro split_join) auto
    moreover have "join '':'' ?es \<noteq> []"
      using False nonempty by (intro join_nonempty) blast+
    ultimately show ?thesis by (simp add: SpawnerMoxinPath_def split_list_def)
  qed (simp add: SpawnerMoxinPath_def split_list_def)
  have same: "moxin_dir cwd' e = e \<and> e \<noteq> []" if "e \<in> set ?es" for e
    using es [OF that] clean_abs_fixed [of e] by (auto simp: moxin_dir_def path_is_abs_def clean_abs_def)
  have "SpawnerMoxinPath (SpawnerMoxinPath val cwd) cwd' = join '':'' (map (moxin_dir cwd') (filter (\<lambda>d. d \<noteq> []) ?es))"
    unfolding SpawnerMoxinPath_def [of "SpawnerMoxinPath val cwd"] split ..
  also have "filter (\<lambda>d. d \<noteq> []) ?es = ?es" by (rule filter_True) (use same in blast)
  also have "map (moxin_dir cwd') ?es = ?es" by (rule map_idI) (use same in blast)
  finally show ?thesis
    unfolding split using es clean_abs_fixed by (auto simp: SpawnerMoxinPath_def path_is_abs_def)
qed

theorem moxin_path_settled_witness:
  "SpawnerMoxinPath (SpawnerMoxinPath ''../x:/y//z'' ''/a/b'') ''/elsewhere'' = ''/a/x:/y/z''"
proof -
  have "SpawnerMoxinPath ''../x:/y//z'' ''/a/b'' = ''/a/x:/y/z''" by code_simp
  moreover have "has_prefix ''/a/b'' ''/''" "CHR '':'' \<notin> set ''/a/b''" by code_simp+
  ultimately show ?thesis using moxin_path_settled [of "''/a/b''" "''../x:/y//z''" "''/elsewhere''"] by simp
qed

end
