(* ===== verification/Scope_Spec.thy ===== *)
theory Scope_Spec
  imports Go_Path
begin

text \<open>
  The agent scope's specification (\<open>internal/alfa/agentscope/spec.go\<close>): what a confined unit
  may see, the checks that refuse a specification clown cannot honour without weakening the
  boundary, and the resolution of symlinks those checks rest on. The file system is read
  through \<open>readlink\<close>: the target of a path that is a symlink, \<open>Some None\<close> when reading it fails,
  \<open>None\<close> for anything that is not a symlink. A Go map is an association list; the order in which
  Go ranges over one only chooses among several refusals.
\<close>

section \<open>The specification\<close>

definition SpecVersion :: int where "SpecVersion = 1"

record scope_socket =
  so_path :: string
  so_purpose :: string

record scope_spec =
  ss_version :: int
  ss_worktree :: string
  ss_operator_home :: string
  ss_unit_name_hint :: string
  ss_result_path :: string
  ss_binds_rw :: "string list"
  ss_binds_ro :: "string list"
  ss_sockets :: "scope_socket list"
  ss_deny_paths :: "string list"
  ss_egress_allow :: "string list option"
  ss_env :: "(string \<times> string) list"

type_synonym links = "string \<Rightarrow> string option option"

section \<open>Paths\<close>

definition requireAbs :: "string \<Rightarrow> string \<Rightarrow> gerror option" where
  "requireAbs field p =
     (if p = [] \<or> \<not> path_is_abs p \<or> path_clean p \<noteq> p
      then Some (ErrMsg (field @ '' '' @ quoted p @ '' must be an absolute, clean path'')) else None)"

definition requireBindable :: "string \<Rightarrow> string \<Rightarrow> gerror option" where
  "requireBindable field p = (case requireAbs field p of
      Some e \<Rightarrow> Some e
    | None \<Rightarrow> if \<exists>c \<in> set p. c = CHR '':'' \<or> c = CHR '' '' \<or> c = CHR 0x09 \<or> c = CHR 0x0A
        then Some (ErrMsg (field @ '' '' @ quoted p @ '' contains ':' or whitespace, which systemd bind syntax cannot carry''))
        else None)"

text \<open>Binding \<open>p\<close> would expose all of \<open>target\<close>; and \<open>unit.go\<close>'s \<open>within\<close>.\<close>

definition exposesWhole :: "string \<Rightarrow> string \<Rightarrow> bool" where
  "exposesWhole p target \<longleftrightarrow> p = target \<or> p = ''/'' \<or> has_prefix target (p @ ''/'')"

definition within :: "string \<Rightarrow> string \<Rightarrow> bool" where
  "within p dir \<longleftrightarrow> path_clean p = dir \<or> has_prefix (path_clean p) (dir @ ''/'')"

definition xdgDefaults :: "(string \<times> string) list" where
  "xdgDefaults = [(''XDG_STATE_HOME'', ''.local/state''), (''XDG_LOG_HOME'', ''.local/log''), (''XDG_DATA_HOME'', ''.local/share'')]"

definition OperatorXDG :: "string list \<Rightarrow> string \<Rightarrow> string \<Rightarrow> string" where
  "OperatorXDG env operatorHome key =
     (case find (\<lambda>kv. case cut (CHR ''='') kv of (k, v, ok) \<Rightarrow> ok \<and> k = key \<and> path_is_abs v) env of
        Some kv \<Rightarrow> (case cut (CHR ''='') kv of (k, v, ok) \<Rightarrow> v)
      | None \<Rightarrow> path_join_clean operatorHome (case map_of xdgDefaults key of Some d \<Rightarrow> d | None \<Rightarrow> []))"

section \<open>Symlinks\<close>

definition maxSymlinkHops :: nat where "maxSymlinkHops = 40"

text \<open>The walk of \<open>ResolvePath\<close>: the directory reached, the components left, the links followed.\<close>

function resolve_walk :: "links \<Rightarrow> string \<Rightarrow> string list \<Rightarrow> nat \<Rightarrow> string" where
  "resolve_walk readlink cur [] hops = cur"
| "resolve_walk readlink cur (seg # rest) hops =
     (if seg = [] \<or> seg = ''.'' then resolve_walk readlink cur rest hops
      else if seg = ''..'' then resolve_walk readlink (path_dir cur) rest hops
      else let next = path_join_clean cur seg in
        case readlink next of
          None \<Rightarrow> resolve_walk readlink next rest hops
        | Some None \<Rightarrow> path_clean (join ''/'' (next # rest))
        | Some (Some target) \<Rightarrow>
            if maxSymlinkHops < hops + 1 then path_clean (join ''/'' (next # rest))
            else resolve_walk readlink (if path_is_abs target then ''/'' else cur) (split_on (CHR ''/'') target @ rest) (hops + 1))"
  by pat_completeness auto
termination
  by (relation "inv_image (measure id <*lex*> measure id) (\<lambda>(l, cur, rest, hops). (maxSymlinkHops + 1 - hops, length rest))")
     (auto simp: maxSymlinkHops_def)

text \<open>\<open>filepath.Abs\<close> joins a relative path to the working directory, when there is one.\<close>

definition ResolvePath :: "links \<Rightarrow> string option \<Rightarrow> string \<Rightarrow> string" where
  "ResolvePath readlink cwd p =
     (let a = (if path_is_abs p then path_clean p else case cwd of Some d \<Rightarrow> path_join_clean d p | None \<Rightarrow> p)
      in resolve_walk readlink ''/'' (split_on (CHR ''/'') (path_clean a)) 0)"

section \<open>Validation\<close>

definition scrubbedKeys :: "string list" where
  "scrubbedKeys = [''DBUS_SESSION_BUS_ADDRESS'', ''DISPLAY'', ''WAYLAND_DISPLAY'', ''XAUTHORITY'',
     ''CLOWN_SESSION_ID'', ''CLOWN_UNIT'', ''HOME'', ''SSH_AUTH_SOCK'', ''NIX_CONFIG'', ''NIX_USER_CONF_FILES'', ''NIX_CONF_DIR'']"

text \<open>What the unit may write, and everything exposed to it, by field.\<close>

definition writable :: "scope_spec \<Rightarrow> string list" where
  "writable s = ss_worktree s # ss_binds_rw s"

definition exposed :: "scope_spec \<Rightarrow> (string \<times> string) list" where
  "exposed s = (''worktree'', ss_worktree s) # map (Pair ''binds_rw'') (ss_binds_rw s) @ map (Pair ''binds_ro'') (ss_binds_ro s)
     @ map (\<lambda>k. (''sockets'', so_path k)) (ss_sockets s)"

definition check_result_path :: "scope_spec \<Rightarrow> gerror option" where
  "check_result_path s =
     (if ss_result_path s = [] then None
      else first_error (requireAbs ''result_path'' (ss_result_path s)
        # map (\<lambda>rw. if ss_result_path s = rw \<or> has_prefix (ss_result_path s) (rw @ ''/'')
             then Some (ErrMsg (''result_path '' @ quoted (ss_result_path s) @ '' is writable from inside the unit (under '' @ quoted rw @ '')'')) else None)
            (writable s)))"

definition check_exposed :: "scope_spec \<Rightarrow> string \<times> string \<Rightarrow> gerror option" where
  "check_exposed s = (\<lambda>(field, p). let home = ss_operator_home s;
       nixConf = path_join_clean (path_join_clean home ''.config'') ''nix'';
       creds = path_join_clean (path_join_clean home ''.claude'') ''.credentials.json'' in
     first_error [requireBindable field p,
       if exposesWhole p home then Some (ErrMsg (field @ '' entry '' @ quoted p @ '' exposes the whole operator home '' @ quoted home)) else None,
       if exposesWhole p nixConf \<or> within p nixConf
         then Some (ErrMsg (field @ '' entry '' @ quoted p @ '' exposes the operator's nix configuration '' @ quoted nixConf)) else None,
       if field \<noteq> ''binds_ro'' \<and> field \<noteq> ''sockets'' \<and> exposesWhole p creds
         then Some (ErrMsg (field @ '' entry '' @ quoted p @ '' makes the operator's claude credential '' @ quoted creds @ '' writable'')) else None])"

text \<open>One path covers the other or lies inside it.\<close>

definition overlaps :: "string \<Rightarrow> string \<Rightarrow> bool" where
  "overlaps p dir \<longleftrightarrow> exposesWhole p dir \<or> within p dir"

definition state_dir :: "string list \<Rightarrow> scope_spec \<Rightarrow> string \<Rightarrow> string" where
  "state_dir environ s name = path_join_clean (OperatorXDG environ (ss_operator_home s) ''XDG_STATE_HOME'') name"

text \<open>Compared lexically and with symlinks resolved on both sides.\<close>

definition touches :: "links \<Rightarrow> string option \<Rightarrow> string \<Rightarrow> string \<Rightarrow> bool" where
  "touches readlink cwd p dir \<longleftrightarrow> overlaps p dir \<or> overlaps (ResolvePath readlink cwd p) (ResolvePath readlink cwd dir)"

definition check_state :: "links \<Rightarrow> string option \<Rightarrow> string list \<Rightarrow> scope_spec \<Rightarrow> string \<Rightarrow> gerror option" where
  "check_state readlink cwd environ s p =
     (if touches readlink cwd p (state_dir environ s ''clown'')
      then Some (ErrMsg (''worktree or binds_rw entry '' @ quoted p @ '' makes clown's state '' @ quoted (state_dir environ s ''clown'')
             @ '' writable from inside the unit'')) else None)"

definition check_circus :: "links \<Rightarrow> string option \<Rightarrow> string list \<Rightarrow> scope_spec \<Rightarrow> string \<times> string \<Rightarrow> gerror option" where
  "check_circus readlink cwd environ s = (\<lambda>(field, p).
     if touches readlink cwd p (state_dir environ s ''circus'')
     then Some (ErrMsg (field @ '' entry '' @ quoted p @ '' exposes '' @ quoted (state_dir environ s ''circus'')
            @ '', which holds the issue-filer service token the frontend uses for the unit'')) else None)"

definition check_spec_env :: "string \<times> string \<Rightarrow> gerror option" where
  "check_spec_env = (\<lambda>(k, v).
     if k = [] \<or> CHR ''='' \<in> set k \<or> CHR 0x00 \<in> set k then Some (ErrMsg (''env key '' @ quoted k @ '' is not a valid variable name''))
     else if k \<in> set scrubbedKeys then Some (ErrMsg (''env key '' @ quoted k @ '' is scrubbed from the agent scope and may not be set by the spec''))
     else None)"

definition Validate_spec :: "links \<Rightarrow> string option \<Rightarrow> string list \<Rightarrow> scope_spec \<Rightarrow> gerror option" where
  "Validate_spec readlink cwd environ s = first_error
     ([if ss_version s \<noteq> SpecVersion then Some (ErrMsg (''version '' @ itoa (ss_version s) @ '' unsupported (this clown understands ''
          @ itoa SpecVersion @ '')'')) else None,
       requireAbs ''worktree'' (ss_worktree s), requireAbs ''operator_home'' (ss_operator_home s), check_result_path s]
      @ map (check_exposed s) (exposed s) @ map (check_state readlink cwd environ s) (writable s)
      @ map (check_circus readlink cwd environ s) (exposed s) @ map (requireBindable ''deny_paths'') (ss_deny_paths s)
      @ map check_spec_env (ss_env s))"

text \<open>\<open>ParseSpec\<close> on a decoded document; a decoding error is Go's.\<close>

definition ParseSpec :: "links \<Rightarrow> string option \<Rightarrow> string list \<Rightarrow> string \<Rightarrow> gerror + scope_spec \<Rightarrow> gerror + scope_spec" where
  "ParseSpec readlink cwd environ path doc = (case doc of
      Inl e \<Rightarrow> Inl (ErrWrap (''agent scope spec '' @ path @ '': '') e [])
    | Inr s \<Rightarrow> (case Validate_spec readlink cwd environ s of
          Some e \<Rightarrow> Inl (ErrWrap (''agent scope spec '' @ path @ '': '') e [])
        | None \<Rightarrow> Inr s))"

end
