(* ===== verification/Scope_Unit.thy ===== *)
theory Scope_Unit
  imports Scope_Spec Go_Json
begin

text \<open>
  The unit an agent runs in (\<open>internal/alfa/agentscope/unit.go\<close>, the relay addresses of
  \<open>egress.go\<close>, \<open>statsd.go\<close> and \<open>inject.go\<close>): what one launch hands to \<open>systemd-run\<close>, its sandbox
  properties, its environment and its command line. A Go map is an association list here; what it
  renders is sorted, so its order is never seen. The random suffix of a unit name is a parameter,
  and the callbacks of \<open>Launch\<close> are not part of the model.
\<close>

section \<open>Relays\<close>

record unit_relay =
  ry_listen :: string
  ry_socket :: string
  ry_target :: string
  ry_udp :: bool

definition no_relay :: unit_relay where
  "no_relay = \<lparr>ry_listen = [], ry_socket = [], ry_target = [], ry_udp = False\<rparr>"

definition udpPrefix :: string where "udpPrefix = ''udp:''"

text \<open>\<open>Relay.String\<close> and \<open>ParseRelay\<close>.\<close>

definition relay_string :: "unit_relay \<Rightarrow> string" where
  "relay_string r = (if ry_udp r then udpPrefix else []) @ ry_listen r @ ''='' @ ry_socket r"

definition ParseRelay :: "string \<Rightarrow> gerror + unit_relay" where
  "ParseRelay s = (let udp = has_prefix s udpPrefix; (listen, sock, ok) = cut (CHR ''='') (trim_prefix s udpPrefix) in
     if \<not> ok \<or> listen = [] \<or> sock = [] then Inl (ErrMsg (''relay '' @ quoted s @ '' is not [udp:]ADDR=SOCK''))
     else Inr \<lparr>ry_listen = listen, ry_socket = sock, ry_target = [], ry_udp = udp\<rparr>)"

definition RelayPort :: int where "RelayPort = 3128"
definition StatsdPort :: int where "StatsdPort = 8125"
definition ServePortBase :: int where "ServePortBase = 19000"
definition BrokerPort :: int where "BrokerPort = ServePortBase + 1"
definition ModelPort :: int where "ModelPort = BrokerPort + 1"

definition RelayAddr :: string where "RelayAddr = ''127.0.0.1:'' @ itoa RelayPort"
definition StatsdAddr :: string where "StatsdAddr = ''127.0.0.1:'' @ itoa StatsdPort"
definition ModelAddr :: string where "ModelAddr = ''127.0.0.1:'' @ itoa ModelPort"

definition ModelPlaceholder :: string where "ModelPlaceholder = ''clown-placeholder-not-a-credential''"

section \<open>A launch\<close>

record launch =
  la_spec :: scope_spec
  la_unit :: string
  la_work_dir :: string
  la_agent_home :: string
  la_frontend_env :: "string list"
  la_manager_env_keys :: "string list"
  la_extra_env :: "string list"
  la_plumbing_rw :: "string list"
  la_plumbing_ro :: "string list"
  la_shim :: "string list"
  la_argv :: "string list"
  la_egress_socket :: string
  la_forwards :: "unit_relay list"
  la_statsd_socket :: string
  la_idle_socket :: string
  la_serve_file :: string
  la_monitor_sockets :: "string list"
  la_principal :: string
  la_serve :: unit_relay
  la_broker :: unit_relay
  la_model :: unit_relay
  la_model_credential :: string
  la_unattended :: bool
  la_dead_man_socket :: string

definition resourceLimits :: "string list" where
  "resourceLimits = [''MemoryHigh=6G'', ''MemoryMax=8G'', ''MemorySwapMax=2G'', ''TasksMax=4096'', ''CPUQuota=400%'',
     ''IOWeight=50'', ''OOMPolicy=stop'', ''Restart=no'']"

definition unattendedRuntimeMax :: string where "unattendedRuntimeMax = ''RuntimeMaxSec=604800''"

definition unit_slice :: string where "unit_slice = ''clown-agent.slice''"

definition present :: "unit_relay \<Rightarrow> unit_relay list" where
  "present r = (if ry_socket r \<noteq> [] then [r] else [])"

definition launch_relays :: "launch \<Rightarrow> unit_relay list" where
  "launch_relays l = \<lparr>ry_listen = RelayAddr, ry_socket = la_egress_socket l, ry_target = [], ry_udp = False\<rparr> # la_forwards l
     @ present (la_serve l) @ present (la_broker l) @ present (la_model l)
     @ present \<lparr>ry_listen = StatsdAddr, ry_socket = la_statsd_socket l, ry_target = [], ry_udp = True\<rparr>"

text \<open>\<open>UnitName\<close>: one dash for each rune outside the alphabet; \<open>rnd\<close> is the eight random
  hexadecimal digits.\<close>

definition unit_char :: "char \<Rightarrow> bool" where
  "unit_char c \<longleftrightarrow> is_alnum c \<or> c = CHR ''_'' \<or> c = CHR ''.'' \<or> c = CHR ''-'' \<or> c = CHR '':''"

function unit_chars :: "string \<Rightarrow> string" where
  "unit_chars [] = []"
| "unit_chars (c # cs) = (if unit_char c then c # unit_chars cs
     else CHR ''-'' # unit_chars (drop (rune_width (c # cs) - 1) cs))"
  by pat_completeness auto
termination
  by (relation "measure length") auto

definition trim_dash_dot :: "string \<Rightarrow> string" where
  "trim_dash_dot s = (let cutset = (\<lambda>c. c = CHR ''-'' \<or> c = CHR ''.'') in rev (dropWhile cutset (rev (dropWhile cutset s))))"

definition UnitName :: "string \<Rightarrow> string \<Rightarrow> string" where
  "UnitName rnd hint = (let name = trim_dash_dot (unit_chars hint) in
     take 200 (if name = [] then ''clown-agent'' else name) @ ''-'' @ rnd @ ''.service'')"

section \<open>The sandbox\<close>

definition bind_path :: "string \<Rightarrow> string" where "bind_path p = ''BindPaths='' @ p"
definition bind_read_only :: "string \<Rightarrow> string" where "bind_read_only p = ''BindReadOnlyPaths='' @ p"

text \<open>The sockets of the frontend bound into the unit, in the order \<open>properties\<close> lists them.\<close>

definition own_sockets :: "launch \<Rightarrow> string list" where
  "own_sockets l = map ry_socket (la_forwards l) @ map ry_socket (present (la_serve l) @ present (la_broker l) @ present (la_model l))
     @ filter (\<lambda>s. s \<noteq> []) [la_statsd_socket l, la_idle_socket l, la_dead_man_socket l] @ la_monitor_sockets l"

definition launch_properties :: "launch \<Rightarrow> string list" where
  "launch_properties l = (let s = la_spec l in
     [''PrivateUsers=self'', ''PrivatePIDs=yes'', ''ProtectHome=tmpfs'', ''TemporaryFileSystem=/dev/pts'', ''PrivateTmp=yes'',
      ''ProtectSystem=strict'', ''NoNewPrivileges=yes'', ''WorkingDirectory='' @ la_work_dir l, ''PrivateNetwork=yes'',
      bind_path (la_egress_socket l), bind_path (ss_worktree s), ''ReadWritePaths='' @ ss_worktree s]
     @ map bind_path (ss_binds_rw s) @ map bind_path (map so_path (ss_sockets s)) @ map bind_path (own_sockets l)
     @ map (\<lambda>p. bind_path (''-'' @ p)) (la_plumbing_rw l) @ map bind_read_only (ss_binds_ro s)
     @ (if la_serve_file l \<noteq> [] then [bind_read_only (la_serve_file l)] else [])
     @ map (\<lambda>p. bind_read_only (''-'' @ p)) (la_plumbing_ro l) @ map (\<lambda>p. ''InaccessiblePaths=-'' @ p) (ss_deny_paths s)
     @ resourceLimits @ (if la_unattended l then [unattendedRuntimeMax] else []))"

section \<open>The environment\<close>

type_synonym env_map = "(string \<times> string) list"

definition passKeys :: "string list" where
  "passKeys = [''PATH'', ''TERM'', ''COLORTERM'', ''TERMINFO'', ''TERMINFO_DIRS'', ''LANG'', ''TZ'', ''TZDIR'', ''LOCALE_ARCHIVE'',
     ''USER'', ''LOGNAME'', ''SHELL'', ''SSL_CERT_FILE'', ''SSL_CERT_DIR'', ''CURL_CA_BUNDLE'', ''GIT_SSL_CAINFO'', ''XDG_RUNTIME_DIR'',
     ''CLOWN_NAME'', ''CLOWN_GROUP_ID'', ''CLOWN_GROUP_DESCRIPTION'', ''CLOWN_XMPP_VHOST'', ''MCP_CONNECTION_NONBLOCKING'']"

definition passPrefixes :: "string list" where
  "passPrefixes = [''LC_'', ''NIX_'', ''ANTHROPIC_'', ''CLAUDE_CODE_'', ''TROUPE_'']"

definition modelCredentialKeys :: "string list" where
  "modelCredentialKeys = [''ANTHROPIC_AUTH_TOKEN'', ''ANTHROPIC_API_KEY'', ''ANTHROPIC_BASE_URL'', ''ANTHROPIC_CUSTOM_HEADERS'',
     ''CLAUDE_CODE_OAUTH_TOKEN'', ''CLAUDE_CODE_OAUTH_REFRESH_TOKEN'']"

definition tmpDirKeys :: "string list" where "tmpDirKeys = [''TMPDIR'', ''CLAUDE_CODE_TMPDIR'']"

definition proxyKeys :: "string list" where
  "proxyKeys = [''HTTPS_PROXY'', ''https_proxy'', ''HTTP_PROXY'', ''http_proxy'', ''ALL_PROXY'', ''all_proxy'']"

definition hasAnyPrefix :: "string \<Rightarrow> string list \<Rightarrow> bool" where
  "hasAnyPrefix k ps \<longleftrightarrow> (\<exists>p \<in> set ps. has_prefix k p)"

definition bindsSocket :: "launch \<Rightarrow> string \<Rightarrow> bool" where
  "bindsSocket l p \<longleftrightarrow> (\<exists>s \<in> set (ss_sockets (la_spec l)). so_path s = p)"

definition worktree_tmp :: "launch \<Rightarrow> string" where
  "worktree_tmp l = path_join_clean (ss_worktree (la_spec l)) ''.tmp''"

definition frontend_entry :: "launch \<Rightarrow> string \<Rightarrow> env_map \<Rightarrow> env_map" where
  "frontend_entry l kv env = (case cut (CHR ''='') kv of (k, v, ok) \<Rightarrow>
     if \<not> ok then env
     else if k = ''SSH_AUTH_SOCK'' then (if bindsSocket l v then alist_put k v env else env)
     else if k \<in> set tmpDirKeys then alist_put k (if within v (ss_worktree (la_spec l)) then v else worktree_tmp l) env
     else if k \<in> set scrubbedKeys then env
     else if k \<in> set passKeys \<or> hasAnyPrefix k passPrefixes then alist_put k v env
     else env)"

definition just_entry :: "launch \<Rightarrow> env_map \<Rightarrow> env_map" where
  "just_entry l env = alist_put ''JUST_TEMPDIR''
     (case map_of env ''TMPDIR'' of Some tmp \<Rightarrow> if tmp \<noteq> [] then tmp else worktree_tmp l | None \<Rightarrow> worktree_tmp l) env"

definition extra_entry :: "string \<Rightarrow> env_map \<Rightarrow> env_map" where
  "extra_entry kv env = (case cut (CHR ''='') kv of (k, v, ok) \<Rightarrow> if ok \<and> k \<notin> set scrubbedKeys then alist_put k v env else env)"

definition env_delete :: "string list \<Rightarrow> env_map \<Rightarrow> env_map" where
  "env_delete ks env = filter (\<lambda>(k, v). k \<notin> set ks) env"

text \<open>What clown itself sets, after every source: the identity of the unit and the shim.\<close>

definition owned_entries :: "launch \<Rightarrow> env_map \<Rightarrow> env_map" where
  "owned_entries l env = (let env = env_delete [''CLOWN_BIN''] (alist_put ''CLOWN_UNIT'' (la_unit l) (alist_put ''HOME'' (la_agent_home l) env))
     in case la_shim l of [] \<Rightarrow> env | b # _ \<Rightarrow> alist_put ''CLOWN_BIN'' b env)"

definition xdg_entries :: "launch \<Rightarrow> env_map \<Rightarrow> env_map" where
  "xdg_entries l env = fold (\<lambda>k. alist_put k (OperatorXDG (la_frontend_env l) (ss_operator_home (la_spec l)) k))
     [''XDG_STATE_HOME'', ''XDG_LOG_HOME'', ''XDG_DATA_HOME''] env"

definition network_entries :: "launch \<Rightarrow> env_map \<Rightarrow> env_map" where
  "network_entries l env =
     (let env = fold (\<lambda>k. alist_put k (''http://'' @ RelayAddr)) proxyKeys env;
          env = alist_put ''no_proxy'' ''localhost,127.0.0.1,::1'' (alist_put ''NO_PROXY'' ''localhost,127.0.0.1,::1'' env);
          env = (if la_statsd_socket l \<noteq> [] then alist_put ''STATSD_PORT'' (itoa StatsdPort) (alist_put ''STATSD_HOST'' ''127.0.0.1'' env) else env)
      in case la_shim l of [] \<Rightarrow> env
         | b # _ \<Rightarrow> alist_put ''GIT_SSH_COMMAND'' (''ssh -F none -o ProxyCommand='' @ quoted (b @ '' egress-connect '' @ la_egress_socket l @ '' %h %p'')) env)"

definition model_entries :: "launch \<Rightarrow> env_map \<Rightarrow> env_map" where
  "model_entries l env =
     (if ry_socket (la_model l) = [] then env
      else alist_put ''ANTHROPIC_API_KEY'' [] (alist_put ''CLAUDE_CODE_OAUTH_TOKEN'' ModelPlaceholder
        (alist_put ''ANTHROPIC_BASE_URL'' (''http://'' @ ry_listen (la_model l)) (env_delete modelCredentialKeys env))))"

definition inherited_env :: "launch \<Rightarrow> env_map" where
  "inherited_env l = fold (\<lambda>(k, v). alist_put k v) (ss_env (la_spec l))
     (fold extra_entry (la_extra_env l) (just_entry l (fold (frontend_entry l) (la_frontend_env l) [])))"

definition launch_env :: "launch \<Rightarrow> env_map" where
  "launch_env l = model_entries l (network_entries l (xdg_entries l (owned_entries l (inherited_env l))))"

definition launch_environment :: "launch \<Rightarrow> string list \<times> string list" where
  "launch_environment l = (let env = launch_env l in
     (sort_strings (map (\<lambda>(k, v). k @ ''='' @ v) env),
      sort_strings (filter (\<lambda>k. map_of env k = None) (la_manager_env_keys l))))"

section \<open>The command line\<close>

definition unit_options :: "launch \<Rightarrow> string list" where
  "unit_options l = (case launch_environment l of (set_env, unset) \<Rightarrow>
     [''--user'', ''--quiet'', ''--collect'', ''--wait'', ''--pipe'', ''--expand-environment=no'', ''--slice='' @ unit_slice, ''--unit='' @ la_unit l]
     @ map (\<lambda>p. ''--property='' @ p) (launch_properties l)
     @ (if unset \<noteq> [] then [''--property=UnsetEnvironment='' @ join '' '' unset] else [])
     @ map (\<lambda>kv. ''--setenv='' @ kv) set_env)"

definition shim_args :: "launch \<Rightarrow> string list" where
  "shim_args l = la_shim l
     @ (if la_dead_man_socket l \<noteq> [] then [''--deadman'', la_dead_man_socket l] else [])
     @ (if la_serve_file l \<noteq> [] then [''--serve'', la_serve_file l] else [])
     @ concat (map (\<lambda>r. [''--relay'', relay_string r]) (launch_relays l))"

definition SystemdRunArgs :: "launch \<Rightarrow> gerror + string list" where
  "SystemdRunArgs l =
     (if \<not> suffix ''.service'' (la_unit l) then Inl (ErrMsg (''unit '' @ quoted (la_unit l) @ '' must be a .service''))
      else if \<not> within (la_work_dir l) (ss_worktree (la_spec l))
        then Inl (ErrMsg (''working directory '' @ quoted (la_work_dir l) @ '' is outside the worktree '' @ quoted (ss_worktree (la_spec l))))
      else if la_argv l = [] then Inl (ErrMsg ''empty provider argv'')
      else if la_egress_socket l = [] then Inl (ErrMsg ''no egress proxy socket: a unit without its proxy is not offered'')
      else Inr (unit_options l @ ''--'' # shim_args l @ ''--'' # la_argv l))"

section \<open>The outcome of a run\<close>

text \<open>
  \<open>Run\<close> after its unit was started: what it returns and the last result it writes, from the exit
  code of \<open>systemd-run\<close> and its error, whether the unit was reported started, and what the
  reporting goroutine saw (\<open>waitActive\<close>). \<open>ended\<close> and \<open>canceled\<close> are the two errors that mean the
  unit was gone before its provider was seen.
\<close>

datatype start_seen =
    Started                        \<comment> \<open>the provider started in an active unit\<close>
  | UnitEnded                      \<comment> \<open>\<open>errUnitEnded\<close>: a process of the unit ran and ended\<close>
  | WaitCanceled bool              \<comment> \<open>the exit came first; whether the shim was seen running\<close>
  | StartFailed gerror bool        \<comment> \<open>the unit failed or timed out; whether the shim was seen\<close>

datatype unit_result =
    Wrote_exit bool int "gerror option"   \<comment> \<open>whether it carries what \<open>waitActive\<close> saw, the exit code, the error\<close>
  | Wrote_error gerror

definition ShimRefused :: "int \<Rightarrow> bool" where
  "ShimRefused code \<longleftrightarrow> code = 2 \<or> code = 126 \<or> code = 127"

definition refused_error :: "int \<Rightarrow> gerror" where
  "refused_error code = ErrMsg (''the unit's exec shim refused before the provider started (exit '' @ itoa code @ ''; its stderr says why)'')"

definition unseen_error :: "int \<Rightarrow> gerror" where
  "unseen_error code = ErrMsg (''the unit ended (exit '' @ itoa code
     @ '') before clown saw it running: either it failed to start or its provider exited at once'')"

definition run_outcome :: "int \<Rightarrow> gerror option \<Rightarrow> start_seen option \<Rightarrow> (int \<times> gerror option) \<times> unit_result" where
  "run_outcome code err report = (case report of
      None \<Rightarrow> (let e = (case err of Some e \<Rightarrow> e
          | None \<Rightarrow> ErrMsg (''systemd-run exited (code '' @ itoa code @ '') before the unit started'')) in ((code, Some e), Wrote_error e))
    | Some Started \<Rightarrow> ((code, err), Wrote_exit True code err)
    | Some (StartFailed e _) \<Rightarrow> ((code, Some e), Wrote_error e)
    | Some UnitEnded \<Rightarrow>
        if ShimRefused code then ((code, Some (refused_error code)), Wrote_error (refused_error code))
        else ((code, err), Wrote_exit False code err)
    | Some (WaitCanceled shim_seen) \<Rightarrow>
        if ShimRefused code then ((code, Some (refused_error code)), Wrote_error (refused_error code))
        else if code \<noteq> 0 \<and> \<not> shim_seen then ((code, Some (unseen_error code)), Wrote_error (unseen_error code))
        else ((code, err), Wrote_exit False code err))"

end
