(* ===== verification/Scope_Facts.thy ===== *)
theory Scope_Facts
  imports Scope_Spec
begin

text \<open>
  The path tests of a scope specification in terms of segments, and the symlink walk: what it
  returns is a clean absolute path, and when the walk ends by itself no link is left on it.
\<close>

section \<open>Path tests\<close>

definition covers :: "string \<Rightarrow> string \<Rightarrow> bool" where
  "covers p q \<longleftrightarrow> prefix (segments p) (segments q)"

lemma has_prefix_slash [simp]: "has_prefix (CHR ''/'' # s) ''/''"
  by (simp add: has_prefix_def)

lemma clean_abs_iff: "clean_abs p \<longleftrightarrow> path_is_abs p \<and> path_clean p = p"
  using path_clean_abs [of p] clean_abs_fixed [of p] by (auto simp: path_is_abs_def)

lemma requireAbs_None: "requireAbs f p = None \<longleftrightarrow> clean_abs p"
  by (auto simp: requireAbs_def clean_abs_iff path_is_abs_def has_prefix_def)

lemma requireBindable_None: "requireBindable f p = None \<longleftrightarrow> clean_abs p \<and> (\<forall>c \<in> set p. c \<noteq> CHR '':'' \<and> c \<noteq> CHR '' '' \<and> c \<noteq> CHR 0x09 \<and> c \<noteq> CHR 0x0A)"
proof (cases "requireAbs f p")
  case None
  then have "clean_abs p" by (simp add: requireAbs_None)
  with None show ?thesis unfolding requireBindable_def by simp
next
  case (Some e)
  then have "\<not> clean_abs p" using requireAbs_None [of f p] by simp
  with Some show ?thesis unfolding requireBindable_def by simp
qed

lemma root_segments: "clean_abs p \<Longrightarrow> p = ''/'' \<longleftrightarrow> segments p = []"
  using clean_abs_segments(2) [of p] by (auto simp: of_segments_def segments_def)

lemma slash_prefix_covers:
  assumes "clean_abs p" and "clean_abs q" and "segments p \<noteq> []"
  shows "has_prefix q (p @ ''/'') \<longleftrightarrow> strict_prefix (segments p) (segments q)"
  using slash_prefix_segments [of "segments p" "segments q"] clean_abs_segments [OF assms(1)] clean_abs_segments [OF assms(2)] assms(3)
  by simp

lemma segments_inject: "clean_abs p \<Longrightarrow> clean_abs q \<Longrightarrow> segments p = segments q \<longleftrightarrow> p = q"
  using clean_abs_segments(2) by metis

lemma exposesWhole_covers:
  assumes "clean_abs p" and "clean_abs t"
  shows "exposesWhole p t \<longleftrightarrow> covers p t"
proof (cases "segments p = []")
  case True
  then show ?thesis using root_segments [OF assms(1)] by (simp add: exposesWhole_def covers_def)
next
  case False
  then show ?thesis
    using root_segments [OF assms(1)] slash_prefix_covers [OF assms False] segments_inject [OF assms]
    by (auto simp: exposesWhole_def covers_def strict_prefix_def)
qed

lemma within_covers:
  assumes "clean_abs p" and "clean_abs t" and "segments t \<noteq> []"
  shows "within p t \<longleftrightarrow> covers t p"
  using slash_prefix_covers [OF assms(2,1,3)] segments_inject [OF assms(1,2)] clean_abs_fixed(1) [OF assms(1)]
  by (auto simp: within_def covers_def strict_prefix_def)

lemma overlaps_covers:
  "clean_abs p \<Longrightarrow> clean_abs t \<Longrightarrow> segments t \<noteq> [] \<Longrightarrow> overlaps p t \<longleftrightarrow> covers p t \<or> covers t p"
  by (simp add: overlaps_def exposesWhole_covers within_covers)

section \<open>Clean results\<close>

lemma join_clean:
  assumes "clean_abs p" and "list_all plain_segment segs" and "segs \<noteq> []"
  shows "path_join_clean p (join ''/'' segs) = of_segments (segments p @ segs)"
proof -
  have p: "p \<noteq> []" "has_prefix p ''/''" using clean_abs_fixed(2) [OF assms(1)] by (auto simp: has_prefix_def)
  have nonempty: "join ''/'' segs \<noteq> []"
    using join_nonempty [OF assms(3)] assms(2) by (auto simp: list_all_iff plain_segment_def)
  have noslash: "\<forall>s \<in> set segs. CHR ''/'' \<notin> set s" "\<forall>s \<in> set (segments p). CHR ''/'' \<notin> set s"
    using assms(2) clean_abs_segments(1) [OF assms(1)] by (auto simp: list_all_iff plain_segment_def)
  have split: "split_on (CHR ''/'') (p @ CHR ''/'' # join ''/'' segs) = [] # (if segments p = [] then [[]] else segments p) @ segs"
  proof (cases "segments p = []")
    case True
    then have "p = ''/''" using root_segments [OF assms(1)] by simp
    then show ?thesis using True assms(3) noslash by (simp add: split_join)
  next
    case False
    have "p @ CHR ''/'' # join ''/'' segs = CHR ''/'' # join ''/'' (segments p @ segs)"
      using clean_abs_segments(2) [OF assms(1)] False assms(3) by (simp add: of_segments_def join_snoc)
    then show ?thesis using False noslash split_join [of "segments p @ segs" "CHR ''/''"] by auto
  qed
  have plain: "list_all plain_segment (segments p @ segs)" using assms(2) clean_abs_segments(1) [OF assms(1)] by simp
  have drop: "clean_segments True ([] # ss) = clean_segments True ss" for ss by (simp add: clean_segments_def path_push_def)
  have "clean_segments True (split_on (CHR ''/'') (p @ CHR ''/'' # join ''/'' segs)) = segments p @ segs"
    unfolding split using clean_segments_id [OF plain] drop by auto
  moreover have "has_prefix (p @ CHR ''/'' # join ''/'' segs) ''/''" using p by (auto simp: has_prefix_def prefix_def)
  ultimately show ?thesis using p nonempty by (simp add: path_join_clean_def path_clean_def of_segments_def Let_def)
qed

lemma join_clean_one: "clean_abs p \<Longrightarrow> plain_segment seg \<Longrightarrow> path_join_clean p seg = of_segments (segments p @ [seg])"
  using join_clean [of p "[seg]"] by simp

lemma clean_join_one: "clean_abs p \<Longrightarrow> plain_segment seg \<Longrightarrow> clean_abs (path_join_clean p seg)"
  using clean_abs_segments(1) by (simp add: join_clean_one clean_abs_of_segments)

lemma dir_of_snoc:
  assumes "list_all plain_segment (segs @ [seg])"
  shows "path_dir (of_segments (segs @ [seg])) = of_segments segs"
proof -
  have plain: "list_all plain_segment segs" "CHR ''/'' \<notin> set seg" using assms by (auto simp: plain_segment_def)
  have drop: "CHR ''/'' \<notin> set xs \<Longrightarrow> dropWhile (\<lambda>c. c \<noteq> CHR ''/'') (xs @ CHR ''/'' # ys) = CHR ''/'' # ys" for xs ys
    by (induction xs) auto
  define t where "t = (if segs = [] then ''/'' else of_segments segs @ ''/'')"
  have "of_segments (segs @ [seg]) = t @ seg" by (auto simp: t_def of_segments_def join_snoc)
  moreover have "dropWhile (\<lambda>c. c \<noteq> CHR ''/'') (rev seg @ rev t) = rev t"
    using plain(2) drop [of "rev seg"] by (auto simp: t_def)
  ultimately have "path_dir (of_segments (segs @ [seg])) = path_clean t" by (simp add: path_dir_def)
  moreover have "path_clean t = of_segments segs"
  proof (cases "segs = []")
    case True
    then show ?thesis by (simp add: t_def path_clean_def of_segments_def clean_segments_def path_push_def)
  next
    case False
    have "\<forall>s \<in> set (segs @ [[]]). CHR ''/'' \<notin> set s" using plain(1) by (auto simp: list_all_iff plain_segment_def)
    moreover have "t = CHR ''/'' # join ''/'' (segs @ [[]])" using False by (simp add: t_def of_segments_def join_snoc)
    ultimately have split: "split_on (CHR ''/'') t = [] # segs @ [[]]" using split_join [of "segs @ [[]]" "CHR ''/''"] by simp
    have "clean_segments True ([] # segs @ [[]]) = clean_segments True segs" by (simp add: clean_segments_def path_push_def)
    then have "clean_segments True (split_on (CHR ''/'') t) = segs" unfolding split using clean_segments_id [OF plain(1)] by simp
    moreover have "has_prefix t ''/''" using False by (simp add: t_def of_segments_def)
    ultimately show ?thesis by (simp add: path_clean_def of_segments_def Let_def)
  qed
  ultimately show ?thesis by simp
qed

lemma dir_clean:
  assumes "clean_abs p"
  shows "path_dir p = of_segments (butlast (segments p))"
proof (cases "segments p" rule: rev_exhaust)
  case Nil
  then have "p = ''/''" using root_segments [OF assms] by simp
  then show ?thesis using Nil by (simp add: path_dir_def path_clean_def of_segments_def clean_segments_def path_push_def)
next
  case (snoc segs seg)
  then show ?thesis using dir_of_snoc [of segs seg] clean_abs_segments [OF assms] by simp
qed

section \<open>The symlink walk\<close>

text \<open>A lookup as the kernel does it, component by component, following \<open>n\<close> links.\<close>

inductive lookup :: "links \<Rightarrow> string \<Rightarrow> string list \<Rightarrow> nat \<Rightarrow> string \<Rightarrow> bool" for readlink where
  at_end: "lookup readlink cur [] 0 cur"
| stay: "seg = [] \<or> seg = ''.'' \<Longrightarrow> lookup readlink cur rest n q \<Longrightarrow> lookup readlink cur (seg # rest) n q"
| up: "lookup readlink (path_dir cur) rest n q \<Longrightarrow> lookup readlink cur (''..'' # rest) n q"
| enter: "plain_segment seg \<Longrightarrow> readlink (path_join_clean cur seg) = None \<Longrightarrow>
    lookup readlink (path_join_clean cur seg) rest n q \<Longrightarrow> lookup readlink cur (seg # rest) n q"
| follow: "plain_segment seg \<Longrightarrow> readlink (path_join_clean cur seg) = Some (Some target) \<Longrightarrow>
    lookup readlink (if path_is_abs target then ''/'' else cur) (split_on (CHR ''/'') target @ rest) n q \<Longrightarrow>
    lookup readlink cur (seg # rest) (Suc n) q"

lemma walk_follows_lookup:
  "lookup readlink cur rest n q \<Longrightarrow> hops + n \<le> maxSymlinkHops \<Longrightarrow> resolve_walk readlink cur rest hops = q"
proof (induction arbitrary: hops rule: lookup.induct)
  case (follow seg cur target rest n q)
  then show ?case by (auto simp: plain_segment_def Let_def)
qed (auto simp: plain_segment_def Let_def)

text \<open>No component of a path, itself included, is a link.\<close>

definition link_free :: "links \<Rightarrow> string \<Rightarrow> bool" where
  "link_free readlink p \<longleftrightarrow> (\<forall>ss. ss \<noteq> [] \<and> prefix ss (segments p) \<longrightarrow> readlink (of_segments ss) = None)"

lemma link_free_root: "link_free readlink ''/''"
  by (simp add: link_free_def segments_def)

lemma link_free_prefix:
  "link_free readlink (of_segments ss) \<Longrightarrow> list_all plain_segment ss \<Longrightarrow> prefix rs ss \<Longrightarrow> link_free readlink (of_segments rs)"
  by (auto simp: link_free_def prefix_def)

lemma lookup_result:
  "lookup readlink cur rest n q \<Longrightarrow> clean_abs cur \<Longrightarrow> link_free readlink cur \<Longrightarrow> clean_abs q \<and> link_free readlink q"
proof (induction rule: lookup.induct)
  case (up cur rest n q)
  have "prefix (butlast (segments cur)) (segments cur)" by (metis append_butlast_last_id butlast.simps(1) prefixI prefix_order.refl)
  moreover have "list_all plain_segment (butlast (segments cur))"
    using clean_abs_segments(1) [OF up.prems(1)] by (auto simp: list_all_iff dest: in_set_butlastD)
  ultimately show ?case
    using up clean_abs_segments [OF up.prems(1)] link_free_prefix [of readlink "segments cur" "butlast (segments cur)"]
    by (simp add: dir_clean clean_abs_of_segments)
next
  case (enter seg cur rest n q)
  have join: "path_join_clean cur seg = of_segments (segments cur @ [seg])" using enter by (simp add: join_clean_one)
  have plain: "list_all plain_segment (segments cur @ [seg])" using enter clean_abs_segments(1) by simp
  have "link_free readlink (path_join_clean cur seg)"
    unfolding link_free_def join segments_of_segments [OF plain]
    using enter(2,6) join by (auto simp: link_free_def prefix_snoc)
  then show ?case using enter clean_abs_of_segments [OF plain] join by simp
next
  case (follow seg cur target rest n q)
  have "clean_abs ''/''" using clean_abs_of_segments [of "[]"] by (simp add: of_segments_def)
  then show ?case using follow link_free_root by simp
qed auto

lemma lookup_plain:
  "list_all plain_segment (ps @ ss) \<Longrightarrow> link_free readlink (of_segments (ps @ ss)) \<Longrightarrow>
     lookup readlink (of_segments ps) ss 0 (of_segments (ps @ ss))"
proof (induction ss arbitrary: ps)
  case Nil
  then show ?case by (simp add: lookup.at_end)
next
  case (Cons s ss)
  have plain: "list_all plain_segment (ps @ [s])" "list_all plain_segment ps" using Cons.prems(1) by auto
  have join: "path_join_clean (of_segments ps) s = of_segments (ps @ [s])"
    using Cons.prems(1) join_clean_one [OF clean_abs_of_segments [OF plain(2)]] by simp
  have "readlink (of_segments (ps @ [s])) = None"
    using Cons.prems by (auto simp: link_free_def)
  moreover have "lookup readlink (of_segments (ps @ [s])) ss 0 (of_segments (ps @ s # ss))"
    using Cons.IH [of "ps @ [s]"] Cons.prems by simp
  ultimately show ?case using lookup.enter [of s readlink "of_segments ps"] Cons.prems(1) join by simp
qed

lemma split_clean: "clean_abs p \<Longrightarrow> split_on (CHR ''/'') p = [] # (if segments p = [] then [[]] else segments p)"
proof -
  assume p: "clean_abs p"
  show ?thesis
  proof (cases "segments p = []")
    case True
    then show ?thesis using root_segments [OF p] by simp
  next
    case False
    have "\<forall>s \<in> set (segments p). CHR ''/'' \<notin> set s" using clean_abs_segments(1) [OF p] by (auto simp: list_all_iff plain_segment_def)
    then have "split_on (CHR ''/'') (of_segments (segments p)) = [] # segments p" using False by (simp add: of_segments_def split_join)
    then show ?thesis using False clean_abs_segments(2) [OF p] by simp
  qed
qed

lemma lookup_link_free:
  assumes "clean_abs p" and "link_free readlink p"
  shows "lookup readlink ''/'' (split_on (CHR ''/'') p) 0 p"
proof -
  have "lookup readlink (of_segments []) (segments p) 0 (of_segments ([] @ segments p))"
    using assms clean_abs_segments [OF assms(1)] by (intro lookup_plain) simp_all
  then have main: "lookup readlink ''/'' (segments p) 0 p" using clean_abs_segments(2) [OF assms(1)] by (simp add: of_segments_def)
  show ?thesis
  proof (cases "segments p = []")
    case True
    then show ?thesis using main by (auto simp: split_clean [OF assms(1)] intro: lookup.stay)
  next
    case False
    then show ?thesis using main by (auto simp: split_clean [OF assms(1)] intro: lookup.stay)
  qed
qed

lemma resolve_clean:
  assumes "path_is_abs p"
  shows "ResolvePath readlink cwd p = resolve_walk readlink ''/'' (split_on (CHR ''/'') (path_clean p)) 0"
proof -
  have "path_clean (path_clean p) = path_clean p"
    using path_clean_abs [of p] clean_abs_fixed(1) assms by (auto simp: path_is_abs_def)
  then show ?thesis using assms by (simp add: ResolvePath_def)
qed

end
