(* ===== verification/Scope_Claims.thy ===== *)
theory Scope_Claims
  imports Scope_Facts
begin

text \<open>
  What a validated scope specification keeps out of an agent unit, and that the symlink
  resolution its checks use finds the place a path really leads to.
\<close>

section \<open>Facts about the checks\<close>

lemma split_on_at: "split_on c (a @ c # b) = split_on c a @ split_on c b"
  by (induction a) (auto split: list.split simp: split_on_nonempty)

lemma path_push_snoc: "plain_segment seg \<Longrightarrow> clean_segments True (xs @ [seg]) = clean_segments True xs @ [seg]"
  by (simp add: clean_segments_def path_push_def plain_segment_def)

lemma join_named:
  assumes "path_is_abs v" and "plain_segment seg"
  shows "clean_abs (path_join_clean v seg) \<and> segments (path_join_clean v seg) \<noteq> []"
proof -
  have v: "v \<noteq> []" "has_prefix (v @ CHR ''/'' # seg) ''/''" using assms(1) by (auto simp: path_is_abs_def has_prefix_def prefix_def)
  have seg: "seg \<noteq> []" "CHR ''/'' \<notin> set seg" using assms(2) by (simp_all add: plain_segment_def)
  let ?segs = "clean_segments True (split_on (CHR ''/'') v) @ [seg]"
  have "path_join_clean v seg = of_segments ?segs"
    using v seg by (simp add: path_join_clean_def path_clean_def of_segments_def split_on_at split_on_plain path_push_snoc [OF assms(2)] Let_def)
  moreover have "list_all plain_segment ?segs"
    using clean_segments_plain [of "split_on (CHR ''/'') v"] split_on_pieces [of "CHR ''/''" v] assms(2) by auto
  ultimately show ?thesis using clean_abs_of_segments by simp
qed

lemma join_abs: "path_is_abs v \<Longrightarrow> d \<noteq> [] \<Longrightarrow> path_is_abs (path_join_clean v d)"
  using path_clean_abs [of "v @ CHR ''/'' # d"] clean_abs_fixed(2)
  by (auto simp: path_is_abs_def path_join_clean_def has_prefix_def prefix_def)

lemma xdg_default_named: "map_of xdgDefaults ''XDG_STATE_HOME'' = Some ''.local/state''"
  by (simp add: xdgDefaults_def)

lemma OperatorXDG_abs:
  assumes "clean_abs home"
  shows "path_is_abs (OperatorXDG environ home ''XDG_STATE_HOME'')"
proof -
  let ?ok = "\<lambda>kv. case cut (CHR ''='') kv of (k, v, ok) \<Rightarrow> ok \<and> k = ''XDG_STATE_HOME'' \<and> path_is_abs v"
  have home: "path_is_abs home" using assms by (simp add: clean_abs_iff)
  show ?thesis
  proof (cases "find ?ok environ")
    case None
    then show ?thesis using join_abs [OF home, of "''.local/state''"] xdg_default_named by (simp add: OperatorXDG_def)
  next
    case (Some kv)
    have "?ok kv" by (rule find_SomeD [OF Some, THEN conjunct2])
    with Some show ?thesis by (auto simp: OperatorXDG_def split: prod.splits)
  qed
qed

lemma state_dir_clean:
  "clean_abs (ss_operator_home s) \<Longrightarrow> plain_segment name \<Longrightarrow>
     clean_abs (state_dir environ s name) \<and> segments (state_dir environ s name) \<noteq> []"
  unfolding state_dir_def by (intro join_named OperatorXDG_abs)

lemma list_all_butlast: "list_all P xs \<Longrightarrow> list_all P (butlast xs)"
  by (metis in_set_butlastD list_all_iff)

lemma resolve_walk_clean:
  "clean_abs cur \<Longrightarrow> \<forall>seg \<in> set rest. CHR ''/'' \<notin> set seg \<Longrightarrow> clean_abs (resolve_walk readlink cur rest hops)"
proof (induction readlink cur rest hops rule: resolve_walk.induct)
  case (2 readlink cur seg rest hops)
  let ?next = "path_join_clean cur seg"
  note cur = "2.prems"(1) and names = "2.prems"(2)
  have root: "clean_abs ''/''" using clean_abs_of_segments [of "[]"] by (simp add: of_segments_def)
  have up: "clean_abs (path_dir cur)"
    using list_all_butlast [OF clean_abs_segments(1) [OF cur]] by (simp add: dir_clean [OF cur] clean_abs_of_segments)
  have entered: "clean_abs ?next" if "seg \<noteq> []" "seg \<noteq> ''.''" "seg \<noteq> ''..''"
    using join_clean_one [OF cur, of seg] that names clean_abs_segments(1) [OF cur]
    by (simp add: plain_segment_def clean_abs_of_segments)
  have rejoined: "clean_abs (path_clean (join ''/'' (?next # rest)))" if "clean_abs ?next"
    using path_clean_abs [of "join ''/'' (?next # rest)"] clean_abs_fixed(2) [OF that]
    by (cases rest) (auto simp: has_prefix_def prefix_def)
  have target: "\<forall>t \<in> set (split_on (CHR ''/'') target @ rest). CHR ''/'' \<notin> set t" for target
    using names split_on_pieces [of "CHR ''/''" target] by auto
  show ?case
  proof (cases "seg = [] \<or> seg = ''.'' \<or> seg = ''..''")
    case True
    then show ?thesis using 2(1,2) cur up names by auto
  next
    case False
    then have seg: "\<not> (seg = [] \<or> seg = ''.'')" "seg \<noteq> ''..''" "clean_abs ?next" using entered by auto
    show ?thesis
    proof (cases "readlink ?next")
      case None
      then show ?thesis using 2(3) [OF seg(1,2) refl] seg names by simp
    next
      case (Some t)
      then show ?thesis using 2(4) [OF seg(1,2) refl] seg names cur root target rejoined by (cases t) auto
    qed
  qed
qed simp

lemma resolved_clean: "path_is_abs p \<Longrightarrow> clean_abs (ResolvePath readlink cwd p)"
  using resolve_walk_clean [of "''/''" "split_on (CHR ''/'') (path_clean p)" readlink 0] split_on_pieces [of "CHR ''/''" "path_clean p"]
    clean_abs_of_segments [of "[]"]
  by (simp add: resolve_clean of_segments_def)

section \<open>The boundary\<close>

text \<open>Neither path contains the other.\<close>

definition apart :: "string \<Rightarrow> string \<Rightarrow> bool" where
  "apart p q \<longleftrightarrow> \<not> covers p q \<and> \<not> covers q p"

text \<open>Apart as written, and where symlinks lead; a directory that resolves to the root is covered by
  nothing but the root.\<close>

definition sealed_off :: "links \<Rightarrow> string option \<Rightarrow> string \<Rightarrow> string \<Rightarrow> bool" where
  "sealed_off readlink cwd p dir \<longleftrightarrow> apart p dir
     \<and> (let rp = ResolvePath readlink cwd p; rd = ResolvePath readlink cwd dir in
          if rd = ''/'' then rp \<noteq> ''/'' else apart rp rd)"

lemma not_touches_sealed:
  assumes "clean_abs p" and "clean_abs dir" and "segments dir \<noteq> []" and "\<not> touches readlink cwd p dir"
  shows "sealed_off readlink cwd p dir"
proof -
  have rp: "clean_abs (ResolvePath readlink cwd p)" "clean_abs (ResolvePath readlink cwd dir)"
    using assms(1,2) resolved_clean by (simp_all add: clean_abs_iff)
  show ?thesis
    using assms overlaps_covers [OF assms(1,2,3)] rp root_segments [OF rp(2)] overlaps_covers [OF rp]
    by (auto simp: touches_def sealed_off_def apart_def Let_def) (simp add: overlaps_def exposesWhole_def)
qed

lemma named_under:
  assumes "clean_abs home" and "list_all plain_segment [a, b]"
  shows "clean_abs (path_join_clean (path_join_clean home a) b) \<and> segments (path_join_clean (path_join_clean home a) b) \<noteq> []"
  using assms join_named [of "path_join_clean home a" b] clean_join_one [of home a] by (simp add: clean_abs_iff)

lemma check_exposed_None:
  assumes "clean_abs (ss_operator_home s)" and "check_exposed s (field, p) = None"
  shows "clean_abs p \<and> (\<forall>c \<in> set p. c \<noteq> CHR '':'' \<and> c \<noteq> CHR '' '' \<and> c \<noteq> CHR 0x09 \<and> c \<noteq> CHR 0x0A)
    \<and> \<not> covers p (ss_operator_home s)
    \<and> apart p (path_join_clean (path_join_clean (ss_operator_home s) ''.config'') ''nix'')
    \<and> (field \<noteq> ''binds_ro'' \<and> field \<noteq> ''sockets'' \<longrightarrow>
         \<not> covers p (path_join_clean (path_join_clean (ss_operator_home s) ''.claude'') ''.credentials.json''))"
proof -
  have named: "list_all plain_segment [''.config'', ''nix'']" "list_all plain_segment [''.claude'', ''.credentials.json'']"
    by (simp_all add: plain_segment_def)
  have checks: "requireBindable field p = None" "\<not> exposesWhole p (ss_operator_home s)"
    "\<not> (exposesWhole p (path_join_clean (path_join_clean (ss_operator_home s) ''.config'') ''nix'')
      \<or> within p (path_join_clean (path_join_clean (ss_operator_home s) ''.config'') ''nix''))"
    "\<not> (field \<noteq> ''binds_ro'' \<and> field \<noteq> ''sockets'' \<and>
       exposesWhole p (path_join_clean (path_join_clean (ss_operator_home s) ''.claude'') ''.credentials.json''))"
    using assms(2) unfolding check_exposed_def prod.case Let_def first_error_None by (auto split: if_splits)
  then have p: "clean_abs p" by (simp add: requireBindable_None)
  show ?thesis
    using checks named_under [OF assms(1) named(1)] named_under [OF assms(1) named(2)] p
    by (auto simp: requireBindable_None exposesWhole_covers within_covers assms(1) apart_def)
qed

lemma root_covers: "covers ''/'' t"
  by (simp add: covers_def segments_def)

lemma check_result_path_None:
  assumes "check_result_path s = None" and "rw \<in> set (writable s)" and "clean_abs rw" and "rw \<noteq> ''/''" and "ss_result_path s \<noteq> []"
  shows "\<not> covers rw (ss_result_path s)"
proof -
  have "clean_abs (ss_result_path s)" "\<not> (ss_result_path s = rw \<or> has_prefix (ss_result_path s) (rw @ ''/''))"
    using assms(1,2,5) unfolding check_result_path_def if_not_P [OF assms(5)] first_error_None
    by (auto simp: requireAbs_None split: if_splits)
  then show ?thesis using exposesWhole_covers [OF assms(3), of "ss_result_path s"] assms(4) by (auto simp: exposesWhole_def)
qed

lemma Validate_spec_None:
  "Validate_spec readlink cwd environ s = None \<longleftrightarrow>
     ss_version s = SpecVersion \<and> clean_abs (ss_worktree s) \<and> clean_abs (ss_operator_home s) \<and> check_result_path s = None
     \<and> (\<forall>e \<in> set (exposed s). check_exposed s e = None) \<and> (\<forall>p \<in> set (writable s). check_state readlink cwd environ s p = None)
     \<and> (\<forall>e \<in> set (exposed s). check_circus readlink cwd environ s e = None)
     \<and> (\<forall>p \<in> set (ss_deny_paths s). requireBindable ''deny_paths'' p = None) \<and> (\<forall>e \<in> set (ss_env s). check_spec_env e = None)"
  unfolding Validate_spec_def first_error_None by (auto simp: requireAbs_None)

lemma writable_exposed: "p \<in> set (writable s) \<Longrightarrow> \<exists>field. (field, p) \<in> set (exposed s) \<and> field \<noteq> ''binds_ro'' \<and> field \<noteq> ''sockets''"
  by (auto simp: writable_def exposed_def)

lemma validated_seals:
  assumes "Validate_spec readlink cwd environ s = None"
  shows "(\<forall>p \<in> set (writable s). sealed_off readlink cwd p (state_dir environ s ''clown'')
      \<and> \<not> covers p (path_join_clean (path_join_clean (ss_operator_home s) ''.claude'') ''.credentials.json'')
      \<and> (ss_result_path s \<noteq> [] \<longrightarrow> \<not> covers p (ss_result_path s)))
    \<and> (\<forall>(field, p) \<in> set (exposed s). clean_abs p \<and> (\<forall>c \<in> set p. c \<noteq> CHR '':'' \<and> c \<noteq> CHR '' '' \<and> c \<noteq> CHR 0x09 \<and> c \<noteq> CHR 0x0A)
      \<and> \<not> covers p (ss_operator_home s)
      \<and> apart p (path_join_clean (path_join_clean (ss_operator_home s) ''.config'') ''nix'')
      \<and> sealed_off readlink cwd p (state_dir environ s ''circus''))"
proof -
  note checks = iffD1 [OF Validate_spec_None assms]
  have home: "clean_abs (ss_operator_home s)" using checks by simp
  have plain: "plain_segment ''clown''" "plain_segment ''circus''" by (simp_all add: plain_segment_def)
  note dirs = state_dir_clean [OF home plain(1), of environ] state_dir_clean [OF home plain(2), of environ]
  have entry: "check_exposed s (field, p) = None" "\<not> touches readlink cwd p (state_dir environ s ''circus'')"
    if "(field, p) \<in> set (exposed s)" for field p
  proof -
    show "check_exposed s (field, p) = None" using checks that by blast
    have "check_circus readlink cwd environ s (field, p) = None" using checks that by blast
    then show "\<not> touches readlink cwd p (state_dir environ s ''circus'')" unfolding check_circus_def by (simp split: if_splits)
  qed
  have "sealed_off readlink cwd p (state_dir environ s ''clown'')
      \<and> \<not> covers p (path_join_clean (path_join_clean (ss_operator_home s) ''.claude'') ''.credentials.json'')
      \<and> (ss_result_path s \<noteq> [] \<longrightarrow> \<not> covers p (ss_result_path s))" if p: "p \<in> set (writable s)" for p
  proof -
    obtain field where "(field, p) \<in> set (exposed s)" "field \<noteq> ''binds_ro''" "field \<noteq> ''sockets''" using writable_exposed [OF p] by blast
    note facts = check_exposed_None [OF home entry(1) [OF this(1)]] this
    have "check_state readlink cwd environ s p = None" using checks p by blast
    then have "\<not> touches readlink cwd p (state_dir environ s ''clown'')" unfolding check_state_def by (simp split: if_splits)
    then have "sealed_off readlink cwd p (state_dir environ s ''clown'')" using facts dirs by (intro not_touches_sealed) simp_all
    moreover have "p \<noteq> ''/''" using facts root_covers by metis
    ultimately show ?thesis using facts check_result_path_None [OF _ p] checks by simp
  qed
  moreover have "clean_abs p \<and> (\<forall>c \<in> set p. c \<noteq> CHR '':'' \<and> c \<noteq> CHR '' '' \<and> c \<noteq> CHR 0x09 \<and> c \<noteq> CHR 0x0A)
      \<and> \<not> covers p (ss_operator_home s)
      \<and> apart p (path_join_clean (path_join_clean (ss_operator_home s) ''.config'') ''nix'')
      \<and> sealed_off readlink cwd p (state_dir environ s ''circus'')" if "(field, p) \<in> set (exposed s)" for field p
    using check_exposed_None [OF home entry(1) [OF that]] not_touches_sealed [OF _ _ _ entry(2) [OF that]] dirs by simp
  ultimately show ?thesis by blast
qed

text \<open>C7. A specification that validates seals the boundary. What the unit may write, its worktree and
  its writable binds, is apart from clown's own state, as written and where symlinks lead; nothing
  exposed to it in any way covers the operator's home, touches the operator's nix configuration or
  the issue-filer's token, or is a path systemd would misread; the claude credential is in no
  writable bind; and the result file is not writable from inside.\<close>

theorem validated_spec_seals:
  assumes "Validate_spec readlink cwd environ s = None"
  shows "(\<forall>p \<in> set (writable s). sealed_off readlink cwd p (state_dir environ s ''clown'')
      \<and> \<not> covers p (path_join_clean (path_join_clean (ss_operator_home s) ''.claude'') ''.credentials.json'')
      \<and> (ss_result_path s \<noteq> [] \<longrightarrow> \<not> covers p (ss_result_path s)))
    \<and> (\<forall>(field, p) \<in> set (exposed s). clean_abs p \<and> (\<forall>c \<in> set p. c \<noteq> CHR '':'' \<and> c \<noteq> CHR '' '' \<and> c \<noteq> CHR 0x09 \<and> c \<noteq> CHR 0x0A)
      \<and> \<not> covers p (ss_operator_home s)
      \<and> apart p (path_join_clean (path_join_clean (ss_operator_home s) ''.config'') ''nix'')
      \<and> sealed_off readlink cwd p (state_dir environ s ''circus''))"
  by (rule validated_seals [OF assms])

text \<open>A component that names something: neither empty nor \<open>.\<close>; the others do not move a walk.\<close>

abbreviation names_entry :: "string \<Rightarrow> bool" where
  "names_entry s \<equiv> s \<noteq> [] \<and> s \<noteq> ''.''"

lemma lookup_stays:
  "list_all (\<lambda>s. \<not> names_entry s) us \<Longrightarrow> lookup readlink cur vs n q \<Longrightarrow> lookup readlink cur (us @ vs) n q"
  by (induction us) (auto intro: lookup.stay)

lemma lookup_same_names:
  "lookup readlink cur segs n q \<Longrightarrow> filter names_entry segs' = filter names_entry segs \<Longrightarrow> lookup readlink cur segs' n q"
proof (induction arbitrary: segs' rule: lookup.induct)
  case (at_end cur)
  then show ?case using lookup_stays [of segs' readlink cur "[]"] lookup.at_end [of readlink cur] by (simp add: filter_empty_conv list_all_iff)
next
  case (stay seg cur rest n q)
  then show ?case by (intro stay.IH) auto
next
  case (up cur rest n q)
  then obtain us vs where "segs' = us @ ''..'' # vs" "list_all (\<lambda>s. \<not> names_entry s) us" "filter names_entry vs = filter names_entry rest"
    by (auto simp: filter_eq_Cons_iff list_all_iff)
  then show ?case using up.IH by (auto intro!: lookup_stays lookup.up)
next
  case (enter seg cur rest n q)
  then have "names_entry seg" by (simp add: plain_segment_def)
  with enter obtain us vs where "segs' = us @ seg # vs" "list_all (\<lambda>s. \<not> names_entry s) us" "filter names_entry vs = filter names_entry rest"
    by (auto simp: filter_eq_Cons_iff list_all_iff)
  then show ?case using enter.IH enter.hyps by (auto intro!: lookup_stays lookup.enter)
next
  case (follow seg cur target rest n q)
  then have "names_entry seg" by (simp add: plain_segment_def)
  with follow obtain us vs where segs: "segs' = us @ seg # vs" "list_all (\<lambda>s. \<not> names_entry s) us" "filter names_entry vs = filter names_entry rest"
    by (auto simp: filter_eq_Cons_iff list_all_iff)
  then have "lookup readlink (if path_is_abs target then ''/'' else cur) (split_on (CHR ''/'') target @ vs) n q"
    by (intro follow.IH) simp
  from lookup_stays [OF _ lookup.follow [OF follow.hyps(1,2) this]] segs show ?case by simp
qed

text \<open>Cleaning an absolute path without \<open>..\<close> keeps the components that name something.\<close>

lemma clean_keeps_names:
  assumes "path_is_abs p" and "''..'' \<notin> set (split_on (CHR ''/'') p)"
  shows "filter names_entry (split_on (CHR ''/'') (path_clean p)) = filter names_entry (split_on (CHR ''/'') p)"
proof -
  have kept: "''..'' \<notin> set segs \<Longrightarrow> fold (\<lambda>seg out. path_push True out seg) segs out = rev (filter names_entry segs) @ out" for segs out
    by (induction segs arbitrary: out) (auto simp: path_push_def)
  define ss where "ss = filter names_entry (split_on (CHR ''/'') p)"
  have clean: "path_clean p = of_segments ss"
    using assms kept [of "split_on (CHR ''/'') p" "[]"] by (simp add: path_clean_def path_is_abs_def clean_segments_def of_segments_def ss_def)
  have plain: "list_all plain_segment ss"
    using assms(2) split_on_pieces [of "CHR ''/''" p] by (auto simp: ss_def list_all_iff plain_segment_def)
  have "filter names_entry (split_on (CHR ''/'') q) = filter (\<lambda>s. s \<noteq> ''.'') (segments q)" for q
    by (simp add: segments_def conj_commute)
  then have "filter names_entry (split_on (CHR ''/'') (path_clean p)) = filter (\<lambda>s. s \<noteq> ''.'') ss"
    unfolding clean by (simp add: plain)
  also have "\<dots> = ss" by (rule filter_True) (simp add: ss_def)
  finally show ?thesis by (simp add: ss_def)
qed

text \<open>C40. Symlink resolution finds the place a path really leads to. When the kernel's own walk over an
  absolute path without \<open>..\<close> components, as it is written, ends at some place after at most forty links,
  \<open>ResolvePath\<close> answers that place: a clean absolute path, no component of it a link, which resolves to
  itself. (A path with \<open>..\<close> is first cleaned lexically, so there it is the walk over the cleaned path
  that counts: \<open>dotdot_is_lexical\<close> below shows the two differ. The specification's own paths are clean.)\<close>

theorem resolved_path_is_final:
  assumes "path_is_abs p" and "n \<le> maxSymlinkHops"
    and "lookup readlink ''/'' (split_on (CHR ''/'') (if ''..'' \<in> set (split_on (CHR ''/'') p) then path_clean p else p)) n q"
  shows "ResolvePath readlink cwd p = q \<and> clean_abs q \<and> link_free readlink q \<and> ResolvePath readlink cwd q = q"
proof -
  have look: "lookup readlink ''/'' (split_on (CHR ''/'') (path_clean p)) n q"
  proof (cases "''..'' \<in> set (split_on (CHR ''/'') p)")
    case False
    then show ?thesis using lookup_same_names [OF _ clean_keeps_names [OF assms(1) False]] assms(3) by simp
  qed (use assms(3) in simp)
  have q: "ResolvePath readlink cwd p = q" using walk_follows_lookup [OF look, of 0] assms(2) by (simp add: resolve_clean [OF assms(1)])
  have "clean_abs ''/''" using clean_abs_of_segments [of "[]"] by (simp add: of_segments_def)
  then have "link_free readlink q" using lookup_result [OF look] link_free_root split_on_pieces [of "CHR ''/''" "path_clean p"] by blast
  moreover have clean: "clean_abs q" using q resolved_clean [OF assms(1), of readlink cwd] by simp
  moreover have "ResolvePath readlink cwd q = q"
    using walk_follows_lookup [OF lookup_link_free [OF clean \<open>link_free readlink q\<close>], of 0] clean by (simp add: resolve_clean clean_abs_iff)
  ultimately show ?thesis using q by simp
qed

section \<open>Witnesses\<close>

definition demo_spec :: scope_spec where
  "demo_spec = \<lparr>ss_version = 1, ss_worktree = ''/w/x'', ss_operator_home = ''/home/op'', ss_unit_name_hint = [], ss_result_path = ''/r'',
     ss_binds_rw = [''/tmp/a''], ss_binds_ro = [''/nix''], ss_sockets = [\<lparr>so_path = ''/run/s'', so_purpose = ''mcp''\<rparr>],
     ss_deny_paths = [], ss_egress_allow = Some [], ss_env = [(''A'', ''b'')]\<rparr>"

definition demo_links :: links where
  "demo_links p = (if p = ''/tmp'' then Some (Some ''../var/tmp'') else None)"

theorem validated_spec_seals_witness:
  "\<not> covers ''/w/x'' ''/r'' \<and> sealed_off demo_links None ''/tmp/a'' ''/home/op/.local/state/clown''"
proof -
  have "Validate_spec demo_links None [] demo_spec = None" by code_simp
  moreover have "state_dir [] demo_spec ''clown'' = ''/home/op/.local/state/clown''" by code_simp
  ultimately show ?thesis using validated_spec_seals [of demo_links None "[]" demo_spec]
    by (simp add: writable_def demo_spec_def)
qed

lemma dotdot_is_lexical:
  "ResolvePath (\<lambda>p. if p = ''/l'' then Some (Some ''/a/b'') else None) None ''/l/../x'' = ''/x''
   \<and> resolve_walk (\<lambda>p. if p = ''/l'' then Some (Some ''/a/b'') else None) ''/'' (split_on (CHR ''/'') ''/l/../x'') 0 = ''/a/x''"
  by code_simp

theorem resolved_path_is_final_witness: "ResolvePath demo_links None ''/tmp//a'' = ''/var/tmp/a'' \<and> link_free demo_links ''/var/tmp/a''"
proof -
  have split: "split_on (CHR ''/'') ''/tmp//a'' = [[], ''tmp'', [], ''a'']" by code_simp
  have steps: "path_join_clean ''/'' ''tmp'' = ''/tmp''" "path_dir ''/'' = ''/''" "path_join_clean ''/'' ''var'' = ''/var''"
    "path_join_clean ''/var'' ''tmp'' = ''/var/tmp''" "path_join_clean ''/var/tmp'' ''a'' = ''/var/tmp/a''"
    "split_on (CHR ''/'') ''../var/tmp'' = [''..'', ''var'', ''tmp'']" "\<not> path_is_abs ''../var/tmp''"
    by code_simp+
  have "lookup demo_links ''/'' [[], ''tmp'', [], ''a''] 1 ''/var/tmp/a''"
    unfolding One_nat_def
    by (rule lookup.stay, simp, rule lookup.follow [where target = "''../var/tmp''"])
       (simp_all add: steps demo_links_def plain_segment_def lookup.at_end lookup.up lookup.enter lookup.stay)
  then show ?thesis using resolved_path_is_final [of "''/tmp//a''" 1 demo_links "''/var/tmp/a''" None]
    by (simp add: split path_is_abs_def maxSymlinkHops_def)
qed

text \<open>
  The operator's home, nix configuration and credential are compared as written only: a bind that is
  itself a link to the nix configuration is accepted, though the place it leads to would be refused.
\<close>

definition nix_links :: links where
  "nix_links p = (if p = ''/l'' then Some (Some ''/home/op/.config/nix'') else None)"

lemma nix_check_is_lexical:
  "Validate_spec nix_links None [] (demo_spec\<lparr>ss_binds_ro := [''/l'']\<rparr>) = None"
  "ResolvePath nix_links None ''/l'' = ''/home/op/.config/nix''"
  "Validate_spec nix_links None [] (demo_spec\<lparr>ss_binds_ro := [''/home/op/.config/nix'']\<rparr>) \<noteq> None"
  by code_simp+

end
