(* ===== verification/Scope_Unit_Claims.thy ===== *)
theory Scope_Unit_Claims
  imports Scope_Unit Scope_Claims
begin

text \<open>
  The boundary of a launched unit: whatever the frontend's environment, the provider binding and
  the specification hold, the unit's environment keeps clown's own settings and none of the
  scrubbed ones, and its sandbox mounts only what the specification named or clown owns. A relay
  reads back from its argument, and a run reports success only for a provider that ran.
\<close>

section \<open>Reading K=V entries\<close>

lemma map_of_env_delete: "map_of (env_delete ks env) = (\<lambda>k. if k \<in> set ks then None else map_of env k)"
  by (induction env) (auto simp: env_delete_def fun_eq_iff)

lemma keys_env_delete: "distinct (map fst env) \<Longrightarrow> distinct (map fst (env_delete ks env))"
  unfolding env_delete_def by (rule distinct_map_filter)

section \<open>The environment\<close>

text \<open>An environment whose keys can be read back, and what no source may smuggle in.\<close>

definition env_wf :: "env_map \<Rightarrow> bool" where
  "env_wf env \<longleftrightarrow> distinct (map fst env) \<and> (\<forall>k \<in> dom (map_of env). CHR ''='' \<notin> set k)"

definition clean_source :: "launch \<Rightarrow> env_map \<Rightarrow> bool" where
  "clean_source l env \<longleftrightarrow> env_wf env \<and> (\<forall>k v. map_of env k = Some v \<longrightarrow>
     k \<notin> set scrubbedKeys \<or> k = ''SSH_AUTH_SOCK'' \<and> bindsSocket l v)"

lemma env_wf_put [simp]: "env_wf env \<Longrightarrow> CHR ''='' \<notin> set k \<Longrightarrow> env_wf (alist_put k v env)"
  by (auto simp: env_wf_def)

lemma env_wf_delete [simp]: "env_wf env \<Longrightarrow> env_wf (env_delete ks env)"
  unfolding env_wf_def by (metis (no_types, lifting) domIff keys_env_delete map_of_env_delete)

lemma env_wf_fold: "env_wf env \<Longrightarrow> \<forall>k \<in> set ks. CHR ''='' \<notin> set k \<Longrightarrow> env_wf (fold (\<lambda>k. alist_put k (f k)) ks env)"
  by (induction ks arbitrary: env) auto

lemma clean_source_put:
  "clean_source l env \<Longrightarrow> CHR ''='' \<notin> set k \<Longrightarrow> k \<notin> set scrubbedKeys \<or> k = ''SSH_AUTH_SOCK'' \<and> bindsSocket l v \<Longrightarrow>
     clean_source l (alist_put k v env)"
  by (auto simp: clean_source_def)

lemma tmp_not_scrubbed: "k \<in> set tmpDirKeys \<Longrightarrow> k \<notin> set scrubbedKeys"
  by (auto simp: tmpDirKeys_def scrubbedKeys_def)

lemma clean_frontend_entry: "clean_source l env \<Longrightarrow> clean_source l (frontend_entry l kv env)"
  using cut_key tmp_not_scrubbed by (auto simp: frontend_entry_def intro!: clean_source_put split: prod.split)

lemma clean_extra_entry: "clean_source l env \<Longrightarrow> clean_source l (extra_entry kv env)"
  using cut_key by (auto simp: extra_entry_def intro!: clean_source_put split: prod.split)

lemma clean_fold: "(\<And>x env. x \<in> set xs \<Longrightarrow> clean_source l env \<Longrightarrow> clean_source l (f x env)) \<Longrightarrow> clean_source l env \<Longrightarrow> clean_source l (fold f xs env)"
  by (induction xs arbitrary: env) auto

lemma clean_inherited_env:
  assumes "Validate_spec readlink cwd environ (la_spec l) = None"
  shows "clean_source l (inherited_env l)"
proof -
  have checked: "check_spec_env e = None" if "e \<in> set (ss_env (la_spec l))" for e
    using iffD1 [OF Validate_spec_None assms] that by blast
  then have spec: "CHR ''='' \<notin> set k \<and> k \<notin> set scrubbedKeys" if "(k, v) \<in> set (ss_env (la_spec l))" for k v
    using checked [OF that] unfolding check_spec_env_def prod.case by (metis option.distinct(1))
  have just: "clean_source l (just_entry l env)" if "clean_source l env" for env
    unfolding just_entry_def using that by (rule clean_source_put) (simp_all add: scrubbedKeys_def)
  have put: "clean_source l ((case e of (k, v) \<Rightarrow> alist_put k v) env)" if "e \<in> set (ss_env (la_spec l))" "clean_source l env" for e env
    using clean_source_put [OF that(2)] spec that(1) by (cases e) auto
  have "clean_source l []" by (simp add: clean_source_def env_wf_def)
  then have "clean_source l (fold (frontend_entry l) (la_frontend_env l) [])" by (intro clean_fold clean_frontend_entry)
  from just [OF this] have "clean_source l (fold extra_entry (la_extra_env l) (just_entry l (fold (frontend_entry l) (la_frontend_env l) [])))"
    by (intro clean_fold clean_extra_entry)
  then show ?thesis unfolding inherited_env_def by (rule clean_fold [rotated]) (rule put)
qed

lemma env_wf_stages:
  "env_wf env \<Longrightarrow> env_wf (owned_entries l env)" "env_wf env \<Longrightarrow> env_wf (xdg_entries l env)"
  "env_wf env \<Longrightarrow> env_wf (network_entries l env)" "env_wf env \<Longrightarrow> env_wf (model_entries l env)"
  by (simp_all add: owned_entries_def xdg_entries_def network_entries_def model_entries_def proxyKeys_def Let_def split: list.split)

text \<open>The keys each of clown's own stages writes; for any other key the sources decide.\<close>

definition networkKeys :: "string list" where
  "networkKeys = proxyKeys @ [''NO_PROXY'', ''no_proxy'', ''STATSD_HOST'', ''STATSD_PORT'', ''GIT_SSH_COMMAND'']"

definition xdgKeys :: "string list" where
  "xdgKeys = [''XDG_STATE_HOME'', ''XDG_LOG_HOME'', ''XDG_DATA_HOME'']"

definition unitKeys :: "string list" where
  "unitKeys = [''HOME'', ''CLOWN_UNIT'', ''CLOWN_BIN'']"

lemma model_other: "k \<notin> set modelCredentialKeys \<Longrightarrow> map_of (model_entries l env) k = map_of env k"
  by (simp add: model_entries_def map_of_env_delete) (simp add: modelCredentialKeys_def)

lemma map_of_fold_puts: "map_of (fold (\<lambda>k. alist_put k (f k)) ks env) k = (if k \<in> set ks then Some (f k) else map_of env k)"
  by (induction ks arbitrary: env) auto

lemma network_other: "k \<notin> set networkKeys \<Longrightarrow> map_of (network_entries l env) k = map_of env k"
  by (simp add: network_entries_def networkKeys_def Let_def map_of_fold_puts split: list.split)

lemma network_proxy: "k \<in> set proxyKeys \<Longrightarrow> map_of (network_entries l env) k = Some (''http://'' @ RelayAddr)"
proof -
  assume k: "k \<in> set proxyKeys"
  then have "k \<noteq> ''NO_PROXY''" "k \<noteq> ''no_proxy''" "k \<noteq> ''STATSD_HOST''" "k \<noteq> ''STATSD_PORT''" "k \<noteq> ''GIT_SSH_COMMAND''"
    by (auto simp: proxyKeys_def)
  with k show ?thesis by (simp add: network_entries_def Let_def map_of_fold_puts split: list.split)
qed

lemma xdg_other: "k \<notin> set xdgKeys \<Longrightarrow> map_of (xdg_entries l env) k = map_of env k"
  by (simp add: xdg_entries_def xdgKeys_def)

lemma owned_other: "k \<notin> set unitKeys \<Longrightarrow> map_of (owned_entries l env) k = map_of env k"
  by (simp add: owned_entries_def unitKeys_def map_of_env_delete Let_def split: list.split)

lemma owned_identity:
  "map_of (owned_entries l env) ''HOME'' = Some (la_agent_home l)" "map_of (owned_entries l env) ''CLOWN_UNIT'' = Some (la_unit l)"
  "map_of (owned_entries l env) ''CLOWN_BIN'' = (case la_shim l of [] \<Rightarrow> None | b # _ \<Rightarrow> Some b)"
  by (simp_all add: owned_entries_def map_of_env_delete Let_def split: list.split)

lemma unit_keys_apart: "k \<in> set unitKeys \<Longrightarrow> k \<notin> set modelCredentialKeys \<and> k \<notin> set networkKeys \<and> k \<notin> set xdgKeys"
  by (auto simp: unitKeys_def modelCredentialKeys_def networkKeys_def proxyKeys_def xdgKeys_def)

lemma proxy_keys_apart: "k \<in> set proxyKeys \<Longrightarrow> k \<notin> set modelCredentialKeys"
  by (auto simp: proxyKeys_def modelCredentialKeys_def)

lemma scrubbed_keys_apart:
  "k \<in> set scrubbedKeys \<Longrightarrow> k \<notin> set unitKeys \<Longrightarrow> k \<notin> set modelCredentialKeys \<and> k \<notin> set networkKeys \<and> k \<notin> set xdgKeys"
  by (auto simp: scrubbedKeys_def modelCredentialKeys_def networkKeys_def proxyKeys_def xdgKeys_def)

lemma launch_env_scrubbed:
  "k \<in> set scrubbedKeys \<Longrightarrow> k \<notin> set unitKeys \<Longrightarrow> map_of (launch_env l) k = map_of (inherited_env l) k"
  using scrubbed_keys_apart by (simp add: launch_env_def model_other network_other xdg_other owned_other)

lemma launch_env_unit: "k \<in> set unitKeys \<Longrightarrow> map_of (launch_env l) k = map_of (owned_entries l (inherited_env l)) k"
  using unit_keys_apart by (simp add: launch_env_def model_other network_other xdg_other)

lemma launch_env_identity:
  "map_of (launch_env l) ''HOME'' = Some (la_agent_home l)" "map_of (launch_env l) ''CLOWN_UNIT'' = Some (la_unit l)"
  "map_of (launch_env l) ''CLOWN_BIN'' = (case la_shim l of [] \<Rightarrow> None | b # _ \<Rightarrow> Some b)"
  by (simp_all add: launch_env_unit unitKeys_def owned_identity)

lemma launch_env_proxy: "k \<in> set proxyKeys \<Longrightarrow> map_of (launch_env l) k = Some (''http://'' @ RelayAddr)"
  using proxy_keys_apart by (simp add: launch_env_def model_other network_proxy)

lemma launch_env_model:
  assumes "ry_socket (la_model l) \<noteq> []" and "k \<in> set modelCredentialKeys"
  shows "map_of (launch_env l) k =
    (if k = ''ANTHROPIC_BASE_URL'' then Some (''http://'' @ ry_listen (la_model l))
     else if k = ''CLAUDE_CODE_OAUTH_TOKEN'' then Some ModelPlaceholder
     else if k = ''ANTHROPIC_API_KEY'' then Some [] else None)"
  using assms by (simp add: launch_env_def model_entries_def map_of_env_delete)


lemma launch_env_wf: "env_wf (inherited_env l) \<Longrightarrow> env_wf (launch_env l)"
  unfolding launch_env_def by (intro env_wf_stages)

lemma entry_of_environment:
  assumes "env_wf (launch_env l)" and "kv \<in> set (fst (launch_environment l))" and "cut (CHR ''='') kv = (k, v, ok)"
  shows "ok \<and> map_of (launch_env l) k = Some v"
proof -
  obtain k' v' where e: "(k', v') \<in> set (launch_env l)" "kv = k' @ ''='' @ v'" using assms(2) by (auto simp: launch_environment_def Let_def)
  have "map_of (launch_env l) k' = Some v'" using assms(1) e(1) by (simp add: env_wf_def)
  moreover from this have "CHR ''='' \<notin> set k'" using assms(1) by (auto simp: env_wf_def)
  ultimately show ?thesis using assms(3) e(2) cut_found [of "CHR ''=''" k' v'] by simp
qed

lemma environment_entry: "map_of (launch_env l) k = Some v \<Longrightarrow> k @ ''='' @ v \<in> set (fst (launch_environment l))"
  using map_of_SomeD [of "launch_env l" k v] by (force simp: launch_environment_def Let_def)

lemma environment_once:
  assumes "env_wf (launch_env l)"
  shows "distinct (map (\<lambda>kv. fst (cut (CHR ''='') kv)) (fst (launch_environment l)))"
proof -
  let ?key = "\<lambda>kv. fst (cut (CHR ''='') kv)" and ?entry = "\<lambda>(k, v). k @ ''='' @ v"
  have keys: "distinct (map fst (launch_env l))" "\<forall>k \<in> dom (map_of (launch_env l)). CHR ''='' \<notin> set k"
    using assms by (auto simp: env_wf_def)
  have key: "?key (?entry e) = fst e" if "e \<in> set (launch_env l)" for e
  proof -
    have "map_of (launch_env l) (fst e) = Some (snd e)" using keys(1) that by simp
    then have "CHR ''='' \<notin> set (fst e)" using keys(2) by blast
    then show ?thesis using cut_found [of "CHR ''=''" "fst e" "snd e"] by (simp add: case_prod_beta)
  qed
  have "distinct (map ?key (map ?entry (launch_env l)))" using keys(1) key by (simp add: comp_def cong: map_cong)
  then have "distinct (map ?entry (launch_env l)) \<and> inj_on ?key (set (map ?entry (launch_env l)))" by (simp only: distinct_map)
  then show ?thesis by (simp add: distinct_map launch_environment_def Let_def)
qed

text \<open>C8. The unit's environment is clown's. For a specification that validates, whatever the frontend's
  own environment, the provider binding and the specification set: every variable is set once; no
  scrubbed variable is set but \<open>HOME\<close>, \<open>CLOWN_UNIT\<close> and an \<open>SSH_AUTH_SOCK\<close> the specification bound
  in; those name the agent's home and the unit itself, and every proxy variable the in-unit relay;
  \<open>CLOWN_BIN\<close> is the shim's own binary; and with the injection proxy no variable that can carry a
  model credential holds anything but the placeholder.\<close>

theorem unit_environment_sealed:
  assumes "Validate_spec readlink cwd environ (la_spec l) = None"
  shows "distinct (map (\<lambda>kv. fst (cut (CHR ''='') kv)) (fst (launch_environment l)))
    \<and> {''HOME='' @ la_agent_home l, ''CLOWN_UNIT='' @ la_unit l} \<subseteq> set (fst (launch_environment l))
    \<and> (\<forall>kv \<in> set (fst (launch_environment l)). case cut (CHR ''='') kv of (k, v, ok) \<Rightarrow> ok
       \<and> (k \<in> set scrubbedKeys \<longrightarrow> k = ''HOME'' \<and> v = la_agent_home l \<or> k = ''CLOWN_UNIT'' \<and> v = la_unit l
            \<or> k = ''SSH_AUTH_SOCK'' \<and> v \<in> so_path ` set (ss_sockets (la_spec l)))
       \<and> (k = ''CLOWN_BIN'' \<longrightarrow> [v] = take 1 (la_shim l))
       \<and> (k \<in> set proxyKeys \<longrightarrow> v = ''http://'' @ RelayAddr)
       \<and> (ry_socket (la_model l) \<noteq> [] \<and> k \<in> set modelCredentialKeys \<longrightarrow>
            (k, v) \<in> {(''ANTHROPIC_BASE_URL'', ''http://'' @ ry_listen (la_model l)), (''CLAUDE_CODE_OAUTH_TOKEN'', ModelPlaceholder),
              (''ANTHROPIC_API_KEY'', [])}))"
proof -
  have clean: "clean_source l (inherited_env l)" using clean_inherited_env [OF assms] .
  then have wf: "env_wf (launch_env l)" by (intro launch_env_wf) (simp add: clean_source_def)
  have scrubbed: "k = ''HOME'' \<and> v = la_agent_home l \<or> k = ''CLOWN_UNIT'' \<and> v = la_unit l
      \<or> k = ''SSH_AUTH_SOCK'' \<and> v \<in> so_path ` set (ss_sockets (la_spec l))"
    if "map_of (launch_env l) k = Some v" "k \<in> set scrubbedKeys" for k v
  proof (cases "k \<in> set unitKeys")
    case True
    then show ?thesis using that launch_env_identity [of l] by (auto simp: unitKeys_def scrubbedKeys_def)
  next
    case False
    then have "map_of (inherited_env l) k = Some v" using that launch_env_scrubbed by simp
    then show ?thesis using clean that(2) by (auto simp: clean_source_def bindsSocket_def)
  qed
  have model: "(k, v) \<in> {(''ANTHROPIC_BASE_URL'', ''http://'' @ ry_listen (la_model l)), (''CLAUDE_CODE_OAUTH_TOKEN'', ModelPlaceholder),
      (''ANTHROPIC_API_KEY'', [])}"
    if "map_of (launch_env l) k = Some v" "ry_socket (la_model l) \<noteq> []" "k \<in> set modelCredentialKeys" for k v
    using launch_env_model [OF that(2,3)] that(1) by (simp split: if_splits)
  have bin: "[v] = take 1 (la_shim l)" if "map_of (launch_env l) ''CLOWN_BIN'' = Some v" for v
    using that launch_env_identity(3) [of l] by (cases "la_shim l") simp_all
  let ?each = "\<lambda>k v ok. ok \<and> (k \<in> set scrubbedKeys \<longrightarrow> k = ''HOME'' \<and> v = la_agent_home l \<or> k = ''CLOWN_UNIT'' \<and> v = la_unit l
            \<or> k = ''SSH_AUTH_SOCK'' \<and> v \<in> so_path ` set (ss_sockets (la_spec l)))
       \<and> (k = ''CLOWN_BIN'' \<longrightarrow> [v] = take 1 (la_shim l))
       \<and> (k \<in> set proxyKeys \<longrightarrow> v = ''http://'' @ RelayAddr)
       \<and> (ry_socket (la_model l) \<noteq> [] \<and> k \<in> set modelCredentialKeys \<longrightarrow>
            (k, v) \<in> {(''ANTHROPIC_BASE_URL'', ''http://'' @ ry_listen (la_model l)), (''CLAUDE_CODE_OAUTH_TOKEN'', ModelPlaceholder),
              (''ANTHROPIC_API_KEY'', [])})"
  have each: "?each k v ok" if "kv \<in> set (fst (launch_environment l))" "cut (CHR ''='') kv = (k, v, ok)" for kv k v ok
  proof -
    have found: "ok" "map_of (launch_env l) k = Some v" using entry_of_environment [OF wf that] by simp_all
    have proxied: "k \<in> set proxyKeys \<longrightarrow> v = ''http://'' @ RelayAddr" using launch_env_proxy [of k l] found(2) by auto
    have shim: "k = ''CLOWN_BIN'' \<longrightarrow> [v] = take 1 (la_shim l)" using bin [of v] found(2) by (intro impI) simp
    show ?thesis
      by (rule conjI [OF found(1) conjI [OF impI [OF scrubbed [OF found(2)]] conjI [OF shim conjI [OF proxied]]]])
         (assumption, intro impI, elim conjE, rule model [OF found(2)])
  qed
  have identity: "{''HOME='' @ la_agent_home l, ''CLOWN_UNIT='' @ la_unit l} \<subseteq> set (fst (launch_environment l))"
    using environment_entry [OF launch_env_identity(1)] environment_entry [OF launch_env_identity(2)] by simp
  have entry: "case cut (CHR ''='') kv of (k, v, ok) \<Rightarrow> ?each k v ok" if "kv \<in> set (fst (launch_environment l))" for kv
  proof -
    obtain k v ok where cut: "cut (CHR ''='') kv = (k, v, ok)" by (metis prod_cases3)
    show ?thesis unfolding cut prod.case by (rule each [OF that cut])
  qed
  show ?thesis by (rule conjI [OF environment_once [OF wf] conjI [OF identity]], rule ballI, rule entry)
qed


section \<open>The command line\<close>

lemma takeWhile_stop: "takeWhile (\<lambda>a. a \<noteq> c) (xs @ c # ys) = takeWhile (\<lambda>a. a \<noteq> c) xs"
  by (induction xs) auto

text \<open>The options \<open>systemd-run\<close> reads, before its own end-of-options mark.\<close>

definition run_options :: "string list \<Rightarrow> string list" where
  "run_options args = takeWhile (\<lambda>a. a \<noteq> ''--'') args"

lemma unit_options_long: "a \<in> set (unit_options l) \<Longrightarrow> a \<noteq> ''--''"
  by (auto simp: unit_options_def split: prod.splits if_splits)

lemma run_options_of: "SystemdRunArgs l = Inr args \<Longrightarrow> run_options args = unit_options l"
  unfolding SystemdRunArgs_def run_options_def
  by (auto simp: takeWhile_stop takeWhile_eq_all_conv unit_options_long split: if_splits)

lemma property_option:
  "''--property='' @ p \<in> set (unit_options l) \<longleftrightarrow> p \<in> set (launch_properties l)
     \<or> (case launch_environment l of (set_env, unset) \<Rightarrow> unset \<noteq> [] \<and> p = ''UnsetEnvironment='' @ join '' '' unset)"
  by (auto simp: unit_options_def split: prod.split)

text \<open>The values a property is given.\<close>

lemma named_option:
  assumes "k \<noteq> ''UnsetEnvironment''" and "CHR ''='' \<notin> set k"
  shows "''--property='' @ k @ ''='' @ v \<in> set (unit_options l) \<longleftrightarrow> k @ ''='' @ v \<in> set (launch_properties l)"
proof -
  have "k @ ''='' @ v \<noteq> ''UnsetEnvironment='' @ u" for u
  proof
    assume "k @ ''='' @ v = ''UnsetEnvironment='' @ u"
    then have "cut (CHR ''='') (k @ CHR ''='' # v) = cut (CHR ''='') (''UnsetEnvironment'' @ CHR ''='' # u)" by simp
    with assms cut_found [OF assms(2), of v] cut_found [of "CHR ''=''" "''UnsetEnvironment''" u] show False by simp
  qed
  then show ?thesis unfolding property_option by (auto split: prod.split)
qed

definition set_once :: "string list \<Rightarrow> string \<times> string \<Rightarrow> bool" where
  "set_once opts kv \<longleftrightarrow> (case kv of (k, v) \<Rightarrow> ''--property='' @ k @ ''='' @ v \<in> set opts
     \<and> (\<forall>v'. ''--property='' @ k @ ''='' @ v' \<in> set opts \<longrightarrow> v' = v))"

text \<open>The properties of a launch as pairs of a name and a value.\<close>

definition property_pairs :: "launch \<Rightarrow> (string \<times> string) list" where
  "property_pairs l = (let s = la_spec l in
     [(''PrivateUsers'', ''self''), (''PrivatePIDs'', ''yes''), (''ProtectHome'', ''tmpfs''), (''TemporaryFileSystem'', ''/dev/pts''),
      (''PrivateTmp'', ''yes''), (''ProtectSystem'', ''strict''), (''NoNewPrivileges'', ''yes''), (''WorkingDirectory'', la_work_dir l),
      (''PrivateNetwork'', ''yes''), (''BindPaths'', la_egress_socket l), (''BindPaths'', ss_worktree s), (''ReadWritePaths'', ss_worktree s)]
     @ map (Pair ''BindPaths'') (ss_binds_rw s @ map so_path (ss_sockets s) @ own_sockets l @ map ((@) ''-'') (la_plumbing_rw l))
     @ map (Pair ''BindReadOnlyPaths'') (ss_binds_ro s @ (if la_serve_file l \<noteq> [] then [la_serve_file l] else []) @ map ((@) ''-'') (la_plumbing_ro l))
     @ map (Pair ''InaccessiblePaths'') (map ((@) ''-'') (ss_deny_paths s))
     @ [(''MemoryHigh'', ''6G''), (''MemoryMax'', ''8G''), (''MemorySwapMax'', ''2G''), (''TasksMax'', ''4096''), (''CPUQuota'', ''400%''),
        (''IOWeight'', ''50''), (''OOMPolicy'', ''stop''), (''Restart'', ''no'')]
     @ (if la_unattended l then [(''RuntimeMaxSec'', ''604800'')] else []))"

definition property_text :: "string \<times> string \<Rightarrow> string" where
  "property_text kv = fst kv @ ''='' @ snd kv"

lemma launch_properties_pairs: "launch_properties l = map property_text (property_pairs l)"
  by (simp add: launch_properties_def property_pairs_def property_text_def bind_path_def bind_read_only_def resourceLimits_def
      unattendedRuntimeMax_def Let_def comp_def)

lemma pair_names: "kv \<in> set (property_pairs l) \<Longrightarrow> CHR ''='' \<notin> set (fst kv)"
  by (auto simp: property_pairs_def Let_def split: if_splits)

lemma named_inject:
  fixes c :: char
  assumes "c \<notin> set a" and "c \<notin> set b" and "a @ c # v = b @ c # w"
  shows "a = b \<and> v = w"
proof -
  have "(a, v, True) = (b, w, True)"
    using cut_found [OF assms(1), of v] cut_found [OF assms(2), of w] unfolding assms(3) by (rule trans [OF sym])
  then show ?thesis by simp
qed

lemma property_pair:
  assumes "CHR ''='' \<notin> set k"
  shows "k @ ''='' @ v \<in> set (launch_properties l) \<longleftrightarrow> (k, v) \<in> set (property_pairs l)"
proof
  assume "k @ ''='' @ v \<in> set (launch_properties l)"
  then obtain k' v' where kv: "(k', v') \<in> set (property_pairs l)" "k @ CHR ''='' # v = k' @ CHR ''='' # v'"
    unfolding launch_properties_pairs property_text_def by auto
  from pair_names [OF kv(1)] have "CHR ''='' \<notin> set k'" by simp
  from named_inject [OF assms this kv(2)] kv(1) show "(k, v) \<in> set (property_pairs l)" by blast
next
  assume "(k, v) \<in> set (property_pairs l)"
  then have "property_text (k, v) \<in> set (launch_properties l)" unfolding launch_properties_pairs set_map by (rule imageI)
  then show "k @ ''='' @ v \<in> set (launch_properties l)" unfolding property_text_def fst_conv snd_conv .
qed

lemma pair_option:
  assumes "k \<noteq> ''UnsetEnvironment''" and "CHR ''='' \<notin> set k"
  shows "''--property='' @ k @ ''='' @ v \<in> set (unit_options l) \<longleftrightarrow> (k, v) \<in> set (property_pairs l)"
  unfolding named_option [OF assms] property_pair [OF assms(2)] ..

lemma set_once_unit:
  assumes "k \<noteq> ''UnsetEnvironment''" and "CHR ''='' \<notin> set k" and "\<And>v'. (k, v') \<in> set (property_pairs l) \<longleftrightarrow> v' = v"
  shows "set_once (unit_options l) (k, v)"
  unfolding set_once_def prod.case pair_option [OF assms(1,2)] assms(3) by simp

lemma bound_paths:
  assumes "bind_path p \<in> set (launch_properties l)"
  shows "p = la_egress_socket l \<or> p \<in> set (own_sockets l) \<or> p \<in> (@) ''-'' ` set (la_plumbing_rw l)
    \<or> p \<in> set (writable (la_spec l)) \<or> p \<in> so_path ` set (ss_sockets (la_spec l))"
  using assms by (auto simp: launch_properties_def bind_path_def bind_read_only_def resourceLimits_def unattendedRuntimeMax_def
      writable_def Let_def split: if_splits)

lemma isolation_options:
  "set_once (unit_options l) (''PrivateUsers'', ''self'')" "set_once (unit_options l) (''PrivatePIDs'', ''yes'')"
  "set_once (unit_options l) (''ProtectHome'', ''tmpfs'')" "set_once (unit_options l) (''PrivateTmp'', ''yes'')"
  "set_once (unit_options l) (''ProtectSystem'', ''strict'')" "set_once (unit_options l) (''NoNewPrivileges'', ''yes'')"
  "set_once (unit_options l) (''PrivateNetwork'', ''yes'')" "set_once (unit_options l) (''TemporaryFileSystem'', ''/dev/pts'')"
  "set_once (unit_options l) (''WorkingDirectory'', la_work_dir l)" "set_once (unit_options l) (''ReadWritePaths'', ss_worktree (la_spec l))"
  "set_once (unit_options l) (''MemoryHigh'', ''6G'')" "set_once (unit_options l) (''MemoryMax'', ''8G'')"
  "set_once (unit_options l) (''MemorySwapMax'', ''2G'')" "set_once (unit_options l) (''TasksMax'', ''4096'')"
  "set_once (unit_options l) (''CPUQuota'', ''400%'')" "set_once (unit_options l) (''IOWeight'', ''50'')"
  "set_once (unit_options l) (''OOMPolicy'', ''stop'')" "set_once (unit_options l) (''Restart'', ''no'')"
  "la_unattended l \<Longrightarrow> set_once (unit_options l) (''RuntimeMaxSec'', ''604800'')"
  by (rule set_once_unit; simp add: property_pairs_def Let_def image_iff)+

lemma listed_options:
  "''--property=InaccessiblePaths='' @ p \<in> set (unit_options l) \<longleftrightarrow> p \<in> (@) ''-'' ` set (ss_deny_paths (la_spec l))"
  "''--property=BindReadOnlyPaths='' @ p \<in> set (unit_options l) \<longleftrightarrow>
     p \<in> set (ss_binds_ro (la_spec l)) \<union> (@) ''-'' ` set (la_plumbing_ro l) \<or> la_serve_file l \<noteq> [] \<and> p = la_serve_file l"
  "''--property=BindPaths='' @ p \<in> set (unit_options l) \<longleftrightarrow> bind_path p \<in> set (launch_properties l)"
proof -
  have "(''InaccessiblePaths'', p) \<in> set (property_pairs l) \<longleftrightarrow> p \<in> (@) ''-'' ` set (ss_deny_paths (la_spec l))"
    by (simp add: property_pairs_def Let_def image_iff)
  with pair_option [of "''InaccessiblePaths''" p l]
  show "''--property=InaccessiblePaths='' @ p \<in> set (unit_options l) \<longleftrightarrow> p \<in> (@) ''-'' ` set (ss_deny_paths (la_spec l))" by simp
  have "(''BindReadOnlyPaths'', p) \<in> set (property_pairs l) \<longleftrightarrow>
     p \<in> set (ss_binds_ro (la_spec l)) \<union> (@) ''-'' ` set (la_plumbing_ro l) \<or> la_serve_file l \<noteq> [] \<and> p = la_serve_file l"
    by (simp add: property_pairs_def Let_def image_iff; blast)
  with pair_option [of "''BindReadOnlyPaths''" p l]
  show "''--property=BindReadOnlyPaths='' @ p \<in> set (unit_options l) \<longleftrightarrow>
     p \<in> set (ss_binds_ro (la_spec l)) \<union> (@) ''-'' ` set (la_plumbing_ro l) \<or> la_serve_file l \<noteq> [] \<and> p = la_serve_file l" by simp
  show "''--property=BindPaths='' @ p \<in> set (unit_options l) \<longleftrightarrow> bind_path p \<in> set (launch_properties l)"
    using named_option [of "''BindPaths''" p l] by (simp add: bind_path_def)
qed

lemma path_push_named: "\<forall>s \<in> set out. s \<noteq> [] \<and> CHR ''/'' \<notin> set s \<Longrightarrow> CHR ''/'' \<notin> set seg \<Longrightarrow>
    \<forall>s \<in> set (path_push False out seg). s \<noteq> [] \<and> CHR ''/'' \<notin> set s"
  by (auto simp: path_push_def split: list.splits if_splits)

lemma clean_fold_named:
  "\<forall>s \<in> set segs. CHR ''/'' \<notin> set s \<Longrightarrow> \<forall>s \<in> set out. s \<noteq> [] \<and> CHR ''/'' \<notin> set s \<Longrightarrow>
    \<forall>s \<in> set (fold (\<lambda>seg out. path_push False out seg) segs out). s \<noteq> [] \<and> CHR ''/'' \<notin> set s"
proof (induction segs arbitrary: out)
  case (Cons a segs)
  show ?case using Cons.IH [OF _ path_push_named [OF Cons.prems(2)], of a] Cons.prems(1) by simp
qed simp

lemma path_clean_rooted:
  assumes "has_prefix (path_clean p) ''/''"
  shows "has_prefix p ''/''"
proof (rule ccontr)
  assume rel: "\<not> has_prefix p ''/''"
  from clean_fold_named [of "split_on (CHR ''/'') p" "[]"] split_on_pieces [of "CHR ''/''" p]
  have names: "\<forall>s \<in> set (clean_segments False (split_on (CHR ''/'') p)). s \<noteq> [] \<and> CHR ''/'' \<notin> set s"
    by (simp add: clean_segments_def)
  have "\<not> has_prefix (join ''/'' ss) ''/''" if "\<forall>s \<in> set ss. s \<noteq> [] \<and> CHR ''/'' \<notin> set s" for ss
    using that by (induction "''/''" ss rule: join.induct) (auto simp: has_prefix_def prefix_def neq_Nil_conv)
  then show False using assms rel names by (simp add: path_clean_def Let_def has_prefix_def prefix_def split: if_splits)
qed

lemma work_dir_inside:
  assumes "within p dir" and "clean_abs dir" and "segments dir \<noteq> []"
  shows "clean_abs (path_clean p) \<and> covers dir (path_clean p)"
proof -
  have "has_prefix (path_clean p) ''/''"
    using assms(1) clean_abs_fixed(2) [OF assms(2)] by (auto simp: within_def has_prefix_def prefix_def)
  then have clean: "clean_abs (path_clean p)" using path_clean_rooted path_clean_abs by blast
  then have "within (path_clean p) dir" using assms(1) clean_abs_fixed(1) by (simp add: within_def)
  with clean show ?thesis using within_covers [OF clean assms(2,3)] by simp
qed

text \<open>C10. A unit that starts is the sandbox the specification allows. With a specification that validates,
  the options \<open>systemd-run\<close> gets set, and set only once, private users and pids, a hidden home, an empty
  \<open>/dev/pts\<close>, private temporary files, a read-only system, no new privileges, a private network, the
  working directory, which is inside the worktree, the worktree as the path writable in place, and the
  limits on memory, tasks, processor time and, for an unattended unit, run time;
  they make inaccessible exactly the denied paths, bind read-only exactly the paths the specification
  and the frontend list for that, and bind the worktree; and
  every path bound in to be written is one of clown's own sockets and plumbing directories or is apart
  from the operator's nix configuration and from the issue-filer's token, and covers neither the
  operator's home nor, for a directory, clown's own state.\<close>

theorem unit_mounts_sealed:
  assumes "Validate_spec readlink cwd environ (la_spec l) = None" and "SystemdRunArgs l = Inr args"
  shows "list_all (set_once (run_options args)) [(''PrivateUsers'', ''self''), (''PrivatePIDs'', ''yes''), (''ProtectHome'', ''tmpfs''),
      (''TemporaryFileSystem'', ''/dev/pts''), (''PrivateTmp'', ''yes''), (''ProtectSystem'', ''strict''), (''NoNewPrivileges'', ''yes''),
      (''PrivateNetwork'', ''yes''), (''WorkingDirectory'', la_work_dir l), (''ReadWritePaths'', ss_worktree (la_spec l)),
      (''MemoryHigh'', ''6G''), (''MemoryMax'', ''8G''), (''MemorySwapMax'', ''2G''), (''TasksMax'', ''4096''), (''CPUQuota'', ''400%''),
      (''IOWeight'', ''50''), (''OOMPolicy'', ''stop''), (''Restart'', ''no'')]
    \<and> (la_unattended l \<longrightarrow> set_once (run_options args) (''RuntimeMaxSec'', ''604800''))
    \<and> clean_abs (path_clean (la_work_dir l)) \<and> covers (ss_worktree (la_spec l)) (path_clean (la_work_dir l))
    \<and> (\<forall>p. ''--property=InaccessiblePaths='' @ p \<in> set (run_options args) \<longleftrightarrow> p \<in> (@) ''-'' ` set (ss_deny_paths (la_spec l)))
    \<and> (\<forall>p. ''--property=BindReadOnlyPaths='' @ p \<in> set (run_options args) \<longleftrightarrow>
         p \<in> set (ss_binds_ro (la_spec l)) \<union> (@) ''-'' ` set (la_plumbing_ro l) \<or> la_serve_file l \<noteq> [] \<and> p = la_serve_file l)
    \<and> ''--property=BindPaths='' @ ss_worktree (la_spec l) \<in> set (run_options args)
    \<and> (\<forall>p. ''--property=BindPaths='' @ p \<in> set (run_options args) \<longrightarrow>
         p \<in> set (la_egress_socket l # own_sockets l) \<union> (@) ''-'' ` set (la_plumbing_rw l)
         \<or> \<not> covers p (ss_operator_home (la_spec l))
           \<and> apart p (path_join_clean (path_join_clean (ss_operator_home (la_spec l)) ''.config'') ''nix'')
           \<and> sealed_off readlink cwd p (state_dir environ (la_spec l) ''circus'')
           \<and> (p \<in> so_path ` set (ss_sockets (la_spec l)) \<or> sealed_off readlink cwd p (state_dir environ (la_spec l) ''clown'')))"
proof -
  note seals = validated_seals [OF assms(1)]
  have "(''worktree'', ss_worktree (la_spec l)) \<in> set (exposed (la_spec l))" by (simp add: exposed_def)
  then have "\<not> covers (ss_worktree (la_spec l)) (ss_operator_home (la_spec l))" using seals by blast
  then have wt: "clean_abs (ss_worktree (la_spec l))" "segments (ss_worktree (la_spec l)) \<noteq> []"
    using iffD1 [OF Validate_spec_None assms(1)] unfolding covers_def by (blast, metis Nil_prefix)
  have "within (la_work_dir l) (ss_worktree (la_spec l))" using assms(2) unfolding SystemdRunArgs_def by (simp split: if_splits)
  note inside = work_dir_inside [OF this wt]
  have mounts: "p \<in> set (la_egress_socket l # own_sockets l) \<union> (@) ''-'' ` set (la_plumbing_rw l)
         \<or> \<not> covers p (ss_operator_home (la_spec l))
           \<and> apart p (path_join_clean (path_join_clean (ss_operator_home (la_spec l)) ''.config'') ''nix'')
           \<and> sealed_off readlink cwd p (state_dir environ (la_spec l) ''circus'')
           \<and> (p \<in> so_path ` set (ss_sockets (la_spec l)) \<or> sealed_off readlink cwd p (state_dir environ (la_spec l) ''clown''))"
    if "''--property=BindPaths='' @ p \<in> set (run_options args)" for p
  proof -
    have "bind_path p \<in> set (launch_properties l)" using that listed_options(3) [of p l] by (simp only: run_options_of [OF assms(2)])
    then consider "p \<in> set (la_egress_socket l # own_sockets l) \<union> (@) ''-'' ` set (la_plumbing_rw l)"
      | "p \<in> set (writable (la_spec l))" | "p \<in> so_path ` set (ss_sockets (la_spec l))"
      using bound_paths by fastforce
    then show ?thesis
    proof cases
      case 2
      then show ?thesis using seals writable_exposed [OF 2] by blast
    next
      case 3
      then have "\<exists>field. (field, p) \<in> set (exposed (la_spec l))" by (auto simp: exposed_def)
      then show ?thesis using seals 3 by blast
    qed blast
  qed
  have bound: "bind_path (ss_worktree (la_spec l)) \<in> set (launch_properties l)" by (simp add: launch_properties_def Let_def)
  note opts = run_options_of [OF assms(2)]
  show ?thesis
    unfolding opts listed_options
  proof (intro conjI allI impI, goal_cases)
    case 1
    show ?case by (intro list.pred_inject(1) list.pred_inject(2) [THEN iffD2] conjI isolation_options)
  qed (assumption | rule inside [THEN conjunct1] inside [THEN conjunct2] bound isolation_options mounts [unfolded opts listed_options] refl)+
qed

lemma relay_reads_back:
  assumes "ry_listen r \<noteq> []" and "CHR ''='' \<notin> set (ry_listen r)" and "ry_socket r \<noteq> []" and "ry_target r = []"
    and "ry_udp r \<or> \<not> has_prefix (ry_listen r) udpPrefix"
  shows "ParseRelay (relay_string r) = Inr r"
proof -
  have "trim_prefix (relay_string r) udpPrefix = ry_listen r @ CHR ''='' # ry_socket r" "has_prefix (relay_string r) udpPrefix = ry_udp r"
    using assms(2,5) by (auto simp: relay_string_def trim_prefix_def has_prefix_def prefix_append udpPrefix_def prefix_Cons Cons_eq_append_conv)
  then show ?thesis using assms(1,3,4) by (simp add: ParseRelay_def cut_found [OF assms(2)] Let_def)
qed

text \<open>A relay reads back from its argument: what \<open>ParseRelay\<close> makes of a relay's \<open>[udp:]ADDR=SOCK\<close> is that
  relay, whatever bytes the socket's path holds.\<close>

theorem relay_roundtrip:
  assumes "ry_listen r \<noteq> []" and "CHR ''='' \<notin> set (ry_listen r)" and "ry_socket r \<noteq> []" and "ry_target r = []"
    and "ry_udp r \<or> \<not> has_prefix (ry_listen r) udpPrefix"
  shows "ParseRelay (relay_string r) = Inr r"
  by (rule relay_reads_back [OF assms])

text \<open>A run never reports success for a provider that did not run. When the result it writes last
  carries an exit code and no error, and that code is 0, either the provider was seen started, or the
  unit was reported started and left with no refusal of the shim and no failure to start; and whenever
  the written result is an error, \<open>Run\<close> returns an error too.\<close>

theorem run_reports_truth:
  shows "(case snd (run_outcome code err report) of
      Wrote_exit seen c e \<Rightarrow> c = code \<and> e = err \<and> snd (fst (run_outcome code err report)) = err
        \<and> (if report = Some Started then seen
           else \<not> seen \<and> \<not> ShimRefused code \<and> (report \<in> {Some UnitEnded, Some (WaitCanceled True)} \<or> report = Some (WaitCanceled False) \<and> code = 0))
    | Wrote_error e \<Rightarrow> snd (fst (run_outcome code err report)) = Some e)"
  by (auto simp: run_outcome_def Let_def split: option.split start_seen.split)


section \<open>Witnesses\<close>

definition demo_launch :: launch where
  "demo_launch = \<lparr>la_spec = demo_spec, la_unit = ''u.service'', la_work_dir = ''/w/x/d'', la_agent_home = ''/h'',
     la_frontend_env = [''PATH=/b'', ''NIX_CONFIG=t'', ''ANTHROPIC_API_KEY=k''], la_manager_env_keys = [''DISPLAY''], la_extra_env = [],
     la_plumbing_rw = [], la_plumbing_ro = [], la_shim = [''/c'', ''agent-exec''], la_argv = [''claude''], la_egress_socket = ''/e'',
     la_forwards = [], la_statsd_socket = [], la_idle_socket = [], la_serve_file = [], la_monitor_sockets = [], la_principal = [],
     la_serve = no_relay, la_broker = no_relay, la_model = \<lparr>ry_listen = ''127.0.0.1:19002'', ry_socket = ''/m'', ry_target = [], ry_udp = False\<rparr>,
     la_model_credential = ''proxy'', la_unattended = False, la_dead_man_socket = []\<rparr>"

lemma demo_launch_valid: "Validate_spec demo_links None [] (la_spec demo_launch) = None"
  by code_simp

theorem unit_environment_sealed_witness:
  "''CLOWN_UNIT=u.service'' \<in> set (fst (launch_environment demo_launch)) \<and> ''NIX_CONFIG=t'' \<notin> set (fst (launch_environment demo_launch))"
proof -
  note sealed = unit_environment_sealed [OF demo_launch_valid]
  have unit: "''CLOWN_UNIT='' @ la_unit demo_launch = ''CLOWN_UNIT=u.service''" by (simp add: demo_launch_def)
  have "''CLOWN_UNIT='' @ la_unit demo_launch \<in> set (fst (launch_environment demo_launch))"
    using sealed [THEN conjunct2, THEN conjunct1] by simp
  moreover have "''NIX_CONFIG=t'' \<notin> set (fst (launch_environment demo_launch))"
  proof
    assume "''NIX_CONFIG=t'' \<in> set (fst (launch_environment demo_launch))"
    from sealed [THEN conjunct2, THEN conjunct2, rule_format, OF this] show False by (simp add: scrubbedKeys_def)
  qed
  ultimately show ?thesis unfolding unit by simp
qed

theorem unit_mounts_sealed_witness:
  "case SystemdRunArgs demo_launch of Inl e \<Rightarrow> False | Inr args \<Rightarrow>
     set_once (run_options args) (''PrivateNetwork'', ''yes'') \<and> covers ''/w/x'' (path_clean ''/w/x/d'')"
proof (cases "SystemdRunArgs demo_launch")
  case (Inl e)
  have "suffix ''.service'' (la_unit demo_launch)" "within (la_work_dir demo_launch) (ss_worktree (la_spec demo_launch))"
    "la_argv demo_launch \<noteq> []" "la_egress_socket demo_launch \<noteq> []" by code_simp+
  then show ?thesis using Inl unfolding SystemdRunArgs_def by simp
next
  case (Inr args)
  have "ss_worktree (la_spec demo_launch) = ''/w/x''" "la_work_dir demo_launch = ''/w/x/d''" by (simp_all add: demo_launch_def demo_spec_def)
  then show ?thesis using unit_mounts_sealed [OF demo_launch_valid Inr] Inr by simp
qed

theorem relay_roundtrip_witness: "ParseRelay ''udp:127.0.0.1:8125=/run/a=b'' = Inr \<lparr>ry_listen = ''127.0.0.1:8125'', ry_socket = ''/run/a=b'', ry_target = [], ry_udp = True\<rparr>"
  using relay_roundtrip [of "\<lparr>ry_listen = ''127.0.0.1:8125'', ry_socket = ''/run/a=b'', ry_target = [], ry_udp = True\<rparr>"]
  by (simp add: relay_string_def udpPrefix_def)

end
