(* ===== verification/Go_Sort.thy ===== *)
theory Go_Sort
  imports Go_Json
begin

text \<open>
  Sorted lists and sorted keys: \<open>sort.Strings\<close> with \<open>slices.Compact\<close>, and the order in which
  \<open>encoding/json\<close> writes a map. Both depend on the elements alone, so equal texts mean equal sets
  and equal maps.
\<close>

definition sortedUnique :: "string list \<Rightarrow> string list" where
  "sortedUnique items = remdups_adj (sort_strings items)"

lemma set_sortedUnique [simp]: "set (sortedUnique xs) = set xs"
  by (simp add: sortedUnique_def)

lemma sortedUnique_strict: "sorted_wrt str_less (sortedUnique xs)"
proof -
  have "sorted_wrt str_le ys \<Longrightarrow> sorted_wrt str_less (remdups_adj ys)" for ys
  proof (induction ys rule: remdups_adj.induct)
    case (3 x y ys)
    have below: "str_le x z \<and> str_le y z" if "z \<in> set (y # ys)" for z using 3(3) that by auto
    show ?case
    proof (cases "x = y")
      case False
      have "str_less x z" if "z \<in> set (remdups_adj (y # ys))" for z
      proof -
        have "z \<in> set (y # ys)" using that by (simp only: remdups_adj_set)
        moreover have "str_less x y" using 3(3) False by (simp add: str_le_def)
        ultimately show ?thesis using below [of z] str_less_trans [of x y z] by (auto simp: str_le_def)
      qed
      then show ?thesis using 3 False by simp
    qed (use 3 in simp)
  qed auto
  then show ?thesis by (simp add: sortedUnique_def sorted_sort_strings)
qed

lemma str_less_asym: "str_less a b \<Longrightarrow> \<not> str_less b a"
  using str_less_trans str_less_irrefl by blast

text \<open>A strictly sorted list is determined by its elements.\<close>

lemma sorted_set_unique:
  assumes "sorted_wrt R xs" and "sorted_wrt R ys" and "set xs = set ys" and "\<And>a b. R a b \<Longrightarrow> \<not> R b a"
  shows "xs = ys"
  using assms(1-3)
proof (induction xs arbitrary: ys)
  case (Cons x xs)
  then obtain y ys' where ys: "ys = y # ys'" by (cases ys) auto
  have "x = y"
  proof (rule ccontr)
    assume "x \<noteq> y"
    then have "x \<in> set ys'" "y \<in> set xs" using Cons.prems(3) ys by auto
    then have "R y x" "R x y" using Cons.prems(1,2) ys by auto
    then show False using assms(4) by blast
  qed
  have "x \<notin> set xs" "y \<notin> set ys'" using Cons.prems(1,2) ys assms(4) by auto
  then have "set xs = set ys'" using Cons.prems(3) ys \<open>x = y\<close> by auto
  then show ?case using Cons.IH [of ys'] Cons.prems(1,2) ys \<open>x = y\<close> by simp
qed simp

lemma sortedUnique_eq_iff: "sortedUnique xs = sortedUnique ys \<longleftrightarrow> set xs = set ys"
  using sorted_set_unique [OF sortedUnique_strict [of xs] sortedUnique_strict [of ys] _ str_less_asym]
  by (metis set_sortedUnique)

lemma sortedUnique_Nil_iff [simp]: "sortedUnique xs = [] \<longleftrightarrow> xs = []"
  by (metis set_empty set_sortedUnique)

section \<open>Sorted keys\<close>

lemma set_insert_key [simp]: "set (insert_key p qs) = insert p (set qs)"
  by (induction qs) auto

lemma set_sort_keys [simp]: "set (sort_keys ms) = set ms"
  by (induction ms) (simp_all add: sort_keys_def)

lemma sort_keys_Nil [simp]: "sort_keys [] = []"
  by (simp add: sort_keys_def)

definition key_less :: "string \<times> 'a \<Rightarrow> string \<times> 'a \<Rightarrow> bool" where
  "key_less p q \<longleftrightarrow> str_less (fst p) (fst q)"

lemma sorted_insert_key:
  assumes "sorted_wrt key_less qs" and "fst p \<notin> fst ` set qs"
  shows "sorted_wrt key_less (insert_key p qs)"
  using assms
proof (induction qs)
  case (Cons q qs)
  show ?case
  proof (cases "str_le (fst p) (fst q)")
    case True
    then have "str_less (fst p) (fst q)" using Cons.prems(2) by (simp add: str_le_def)
    then show ?thesis using Cons.prems(1) str_less_trans True by (auto simp: key_less_def)
  next
    case False
    then have "str_less (fst q) (fst p)" using str_less_linear by (auto simp: str_le_def)
    then show ?thesis using Cons False by (simp add: key_less_def)
  qed
qed simp

lemma sorted_sort_keys: "distinct (map fst ms) \<Longrightarrow> sorted_wrt key_less (sort_keys ms)"
proof (induction ms)
  case (Cons m ms)
  then have "fst m \<notin> fst ` set (sort_keys ms)" "sorted_wrt key_less (sort_keys ms)" by simp_all
  then show ?case using sorted_insert_key by (simp add: sort_keys_def)
qed simp

lemma sort_keys_eq_iff:
  assumes "distinct (map fst ms)" and "distinct (map fst ns)"
  shows "sort_keys ms = sort_keys ns \<longleftrightarrow> map_of ms = map_of ns"
proof -
  have "map_of ms = map_of ns \<longleftrightarrow> set ms = set ns" by (rule map_of_inject_set [OF assms])
  moreover have "sort_keys ms = sort_keys ns" if "set ms = set ns"
    using sorted_set_unique [OF sorted_sort_keys [OF assms(1)] sorted_sort_keys [OF assms(2)]] that by (simp add: key_less_def str_less_asym)
  ultimately show ?thesis by (metis set_sort_keys)
qed

end
