(* ===== verification/Scope_Net.thy ===== *)
theory Scope_Net
  imports Scope_Unit Go_Sort
begin

text \<open>
  The frontend's ends of an agent unit's sockets: who may connect (\<open>internal/0/peercheck\<close>), the
  CONNECT proxy with its allowlist (\<open>internal/alfa/agentscope/egress.go\<close>), the proxy that injects the
  model credential (\<open>inject.go\<close>, \<open>tokensource.go\<close>) and the ceiling of the in-unit tool server
  (\<open>ceiling.go\<close>). The kernel's answers (a peer's pid, its cgroup, a lookup, a dial, a file) are
  arguments. Text is lowered as ASCII; an address to dial is the checked IP and the port, whose text
  is Go's.
\<close>

section \<open>Peers\<close>

text \<open>\<open>ProcCgroupAt\<close> on the content of the cgroup file.\<close>

definition cgroup_v2 :: "int \<Rightarrow> string \<Rightarrow> gerror + string" where
  "cgroup_v2 pid raw = (case find (\<lambda>line. has_prefix line ''0::'') (split_on (CHR 0x0A) raw) of
      Some line \<Rightarrow> Inr (trim_prefix line ''0::'')
    | None \<Rightarrow> Inl (ErrMsg (''no cgroup v2 entry for pid '' @ itoa pid)))"

definition unit_cgroup :: "string \<Rightarrow> string \<Rightarrow> bool" where
  "unit_cgroup unit_name cg \<longleftrightarrow> suffix (''/'' @ unit_slice @ ''/'' @ unit_name) cg"

definition CheckUnitCgroup :: "int \<Rightarrow> string \<Rightarrow> (int \<Rightarrow> gerror + string) \<Rightarrow> gerror option" where
  "CheckUnitCgroup pid unit_name read = (case read pid of
      Inl e \<Rightarrow> Some e
    | Inr cg \<Rightarrow> if unit_cgroup unit_name cg then None
        else Some (ErrMsg (''caller pid '' @ itoa pid @ '' is in '' @ quoted cg @ '', not in unit '' @ unit_name)))"

text \<open>\<open>authorizeUnitPeer\<close>, and \<open>authorizeServePeer\<close>: whether the peer is the frontend itself.\<close>

definition authorizeUnitPeer :: "gerror + int \<Rightarrow> string \<Rightarrow> (int \<Rightarrow> gerror + string) \<Rightarrow> gerror option" where
  "authorizeUnitPeer peer unit_name read = (case peer of Inl e \<Rightarrow> Some e | Inr pid \<Rightarrow> CheckUnitCgroup pid unit_name read)"

definition authorizeServePeer :: "gerror + int \<Rightarrow> string \<Rightarrow> int option \<Rightarrow> (int \<Rightarrow> gerror + string) \<Rightarrow> gerror + bool" where
  "authorizeServePeer peer unit_name frontend read = (case peer of
      Inl e \<Rightarrow> Inl (ErrWrap ''caller's pid unreadable, cgroup unknown: '' e [])
    | Inr pid \<Rightarrow> if \<exists>fp \<in> set_option frontend. 1 < fp \<and> pid = fp then Inr True
        else (case CheckUnitCgroup pid unit_name read of Some e \<Rightarrow> Inl e | None \<Rightarrow> Inr False))"

definition single_segment :: "string \<Rightarrow> bool" where
  "single_segment seg \<longleftrightarrow> seg \<noteq> [] \<and> seg \<noteq> ''.'' \<and> seg \<noteq> ''..'' \<and> (\<forall>c \<in> set seg. c \<noteq> CHR ''/'' \<and> c \<noteq> CHR 0x00)"

definition sessionSocketPath :: "string \<Rightarrow> string \<Rightarrow> string \<Rightarrow> gerror + string" where
  "sessionSocketPath runtimeDir session file =
     (if \<not> path_is_abs runtimeDir then Inl (ErrMsg ''XDG_RUNTIME_DIR is unset; nowhere to put the session socket'')
      else case find (\<lambda>seg. \<not> single_segment seg) [session, file] of
          Some seg \<Rightarrow> Inl (ErrMsg (quoted seg @ '' is not a single path segment''))
        | None \<Rightarrow> let p = path_clean (join ''/'' [runtimeDir, ''clown'', ''serve'', session, file]) in
            if 108 \<le> length p then Inl (ErrMsg (''session socket path '' @ quoted p @ '' exceeds the unix socket limit'')) else Inr p)"

definition ServeSocketPath :: "string \<Rightarrow> string \<Rightarrow> string \<Rightarrow> gerror + string" where
  "ServeSocketPath runtimeDir session server = sessionSocketPath runtimeDir session (server @ ''.sock'')"

definition BrokerSocketPath :: "string \<Rightarrow> string \<Rightarrow> gerror + string" where
  "BrokerSocketPath runtimeDir session = sessionSocketPath runtimeDir session ''broker.sock''"

section \<open>Hosts and addresses\<close>

text \<open>\<open>net.SplitHostPort\<close>; every malformed text is an error.\<close>

definition last_colon :: "string \<Rightarrow> nat option" where
  "last_colon s = (if CHR '':'' \<in> set s then Some (length s - 1 - length (takeWhile (\<lambda>c. c \<noteq> CHR '':'') (rev s))) else None)"

definition SplitHostPort :: "string \<Rightarrow> (string \<times> string) option" where
  "SplitHostPort s = (case last_colon s of
      None \<Rightarrow> None
    | Some i \<Rightarrow>
        if has_prefix s ''['' then
          (let e = length (takeWhile (\<lambda>c. c \<noteq> CHR '']'') s) in
           if e = length s \<or> e + 1 \<noteq> i \<or> CHR ''['' \<in> set (drop 1 s) \<or> CHR '']'' \<in> set (drop (e + 1) s) then None
           else Some (take (e - 1) (drop 1 s), drop (i + 1) s))
        else if CHR '':'' \<in> set (take i s) \<or> CHR ''['' \<in> set s \<or> CHR '']'' \<in> set s then None
        else Some (take i s, drop (i + 1) s))"

definition trim_suffix :: "string \<Rightarrow> string \<Rightarrow> string" where
  "trim_suffix s t = (if suffix t s then take (length s - length t) s else s)"

definition trim_brackets :: "string \<Rightarrow> string" where
  "trim_brackets s = (let cutset = (\<lambda>c. c = CHR ''['' \<or> c = CHR '']'') in rev (dropWhile cutset (rev (dropWhile cutset s))))"

text \<open>A \<open>net.IP\<close>: its bytes, four or sixteen.\<close>

type_synonym ip = "nat list"

definition mapped_v4 :: "ip \<Rightarrow> bool" where
  "mapped_v4 a \<longleftrightarrow> length a = 16 \<and> take 10 a = replicate 10 0 \<and> take 2 (drop 10 a) = [255, 255]"

definition To4 :: "ip \<Rightarrow> ip option" where
  "To4 a = (if length a = 4 then Some a else if mapped_v4 a then Some (drop 12 a) else None)"

definition ip_equal :: "ip \<Rightarrow> ip \<Rightarrow> bool" where
  "ip_equal a b \<longleftrightarrow> (if length a = length b then a = b
     else if length a = 4 \<and> length b = 16 then mapped_v4 b \<and> a = drop 12 b
     else length a = 16 \<and> length b = 4 \<and> mapped_v4 a \<and> drop 12 a = b)"

definition IsLoopback :: "ip \<Rightarrow> bool" where
  "IsLoopback a \<longleftrightarrow> (case To4 a of Some v4 \<Rightarrow> v4 ! 0 = 127 | None \<Rightarrow> ip_equal a (replicate 15 0 @ [1]))"

definition IsUnspecified :: "ip \<Rightarrow> bool" where
  "IsUnspecified a \<longleftrightarrow> ip_equal a (replicate 10 0 @ [255, 255, 0, 0, 0, 0]) \<or> ip_equal a (replicate 16 0)"

text \<open>\<open>net.ParseIP\<close>. A dotted quad has four decimal octets without leading zeros.\<close>

definition dec_value :: "string \<Rightarrow> nat" where
  "dec_value s = fold (\<lambda>c n. 10 * n + (byte c - 48)) s 0"

definition parse_octet :: "string \<Rightarrow> nat option" where
  "parse_octet s = (if s = [] \<or> 3 < length s \<or> \<not> list_all is_digit s \<or> (1 < length s \<and> hd s = CHR ''0'') \<or> 255 < dec_value s then None
     else Some (dec_value s))"

definition sequence :: "'a option list \<Rightarrow> 'a list option" where
  "sequence xs = (if None \<in> set xs then None else Some (map the xs))"

definition parse_v4 :: "string \<Rightarrow> ip option" where
  "parse_v4 s = (let parts = split_on (CHR ''.'') s in if length parts = 4 then sequence (map parse_octet parts) else None)"

text \<open>An IPv6 text: groups of up to four hexadecimal digits, a dotted quad at the end at most, and one
  \<open>::\<close> at most for a run of zero groups.\<close>

definition hex_value :: "string \<Rightarrow> nat" where
  "hex_value s = fold (\<lambda>c n. 16 * n + hex_val c) s 0"

definition parse_group :: "string \<Rightarrow> nat list option" where
  "parse_group s = (if s \<noteq> [] \<and> length s \<le> 4 \<and> list_all is_hex s then Some [hex_value s div 256, hex_value s mod 256] else None)"

definition parse_groups :: "bool \<Rightarrow> string list \<Rightarrow> nat list option" where
  "parse_groups at_end gs =
     (if gs = [] then Some []
      else map_option concat (sequence (map parse_group (butlast gs)
        @ [if at_end \<and> CHR ''.'' \<in> set (last gs) then parse_v4 (last gs) else parse_group (last gs)])))"

text \<open>The text around the first \<open>::\<close>.\<close>

fun around_ellipsis :: "string \<Rightarrow> (string \<times> string) option" where
  "around_ellipsis (a # b # cs) = (if a = CHR '':'' \<and> b = CHR '':'' then Some ([], cs)
     else map_option (\<lambda>(l, r). (a # l, r)) (around_ellipsis (b # cs)))"
| "around_ellipsis _ = None"

definition groups :: "string \<Rightarrow> string list" where
  "groups s = (if s = [] then [] else split_on (CHR '':'') s)"

definition parse_v6 :: "string \<Rightarrow> ip option" where
  "parse_v6 s = (case around_ellipsis s of
      Some (l, r) \<Rightarrow> (case (parse_groups False (groups l), parse_groups True (groups r)) of
          (Some a, Some b) \<Rightarrow> if length a + length b < 16 then Some (a @ replicate (16 - length a - length b) 0 @ b) else None
        | _ \<Rightarrow> None)
    | None \<Rightarrow> (case parse_groups True (groups s) of
          Some a \<Rightarrow> if length a = 16 then Some a else None
        | None \<Rightarrow> None))"

definition ParseIP :: "string \<Rightarrow> ip option" where
  "ParseIP s = (case find (\<lambda>c. c = CHR ''.'' \<or> c = CHR '':'') s of
      None \<Rightarrow> None
    | Some c \<Rightarrow> if c = CHR ''.'' then map_option (\<lambda>a. replicate 10 0 @ [255, 255] @ a) (parse_v4 s) else parse_v6 s)"

definition IsLoopbackHost :: "string \<Rightarrow> bool" where
  "IsLoopbackHost host = (let h = to_lower (trim_suffix (trim_brackets host) ''.'') in
     h = ''localhost'' \<or> suffix ''.localhost'' h \<or> (case ParseIP h of Some a \<Rightarrow> IsLoopback a \<or> IsUnspecified a | None \<Rightarrow> False))"

section \<open>The egress proxy\<close>

definition entry_allows :: "string \<Rightarrow> string \<Rightarrow> string \<Rightarrow> bool" where
  "entry_allows host port entry = (case SplitHostPort entry of
      None \<Rightarrow> False
    | Some (eh, ep) \<Rightarrow> ep = port \<and> (to_lower eh = host \<or> has_prefix (to_lower eh) ''*.'' \<and> suffix (drop 1 (to_lower eh)) host))"

definition Allows :: "string list \<Rightarrow> string \<Rightarrow> bool" where
  "Allows allow hostport = (case SplitHostPort hostport of
      None \<Rightarrow> False
    | Some (host, port) \<Rightarrow> \<exists>e \<in> set allow. entry_allows (to_lower (trim_suffix host ''.'')) port e)"

definition modelAPIHosts :: "string list" where
  "modelAPIHosts = [''api.anthropic.com:443'', ''console.anthropic.com:443'', ''platform.claude.com:443'', ''claude.ai:443'']"

definition WithoutModelAPIHosts :: "string list \<Rightarrow> string list" where
  "WithoutModelAPIHosts a = filter (\<lambda>e. to_lower e \<notin> set modelAPIHosts) a"

type_synonym address = "ip \<times> string"

definition resolveNonLoopback :: "(string \<Rightarrow> gerror + ip list) \<Rightarrow> (ip \<Rightarrow> string) \<Rightarrow> string \<Rightarrow> string + address list" where
  "resolveNonLoopback lookup ip_text target = (case SplitHostPort target of
      None \<Rightarrow> Inl ''malformed host:port''
    | Some (host, port) \<Rightarrow>
        if IsLoopbackHost host then Inl ''it names the loopback''
        else (case lookup host of
            Inl e \<Rightarrow> Inl (''it does not resolve ('' @ err_text e @ '')'')
          | Inr ips \<Rightarrow> if ips = [] then Inl ''it resolves to no address''
              else (case find (\<lambda>a. IsLoopback a \<or> IsUnspecified a) ips of
                  Some a \<Rightarrow> Inl (''it resolves to the loopback address '' @ ip_text a)
                | None \<Rightarrow> Inr (map (\<lambda>a. (a, port)) ips))))"

text \<open>\<open>handle\<close>: the addresses dialled, in order, and how the connection ended.\<close>

datatype egress_end =
    Caller_refused gerror
  | No_request
  | Replied nat string
  | Tunnelled address

fun dial_first :: "(address \<Rightarrow> gerror option) \<Rightarrow> address list \<Rightarrow> gerror option \<Rightarrow> address list \<times> (gerror option + address)" where
  "dial_first dial [] err = ([], Inl err)"
| "dial_first dial (a # as) err = (case dial a of
      None \<Rightarrow> ([a], Inr a)
    | Some e \<Rightarrow> (case dial_first dial as (Some e) of (tried, r) \<Rightarrow> (a # tried, r)))"

record egress =
  eg_allow :: "string list"
  eg_unit :: string
  eg_peer :: "gerror + int"
  eg_cgroup :: "int \<Rightarrow> gerror + string"
  eg_request :: "(string \<times> string) option"
  eg_lookup :: "string \<Rightarrow> gerror + ip list"
  eg_dial :: "address \<Rightarrow> gerror option"
  eg_ip_text :: "ip \<Rightarrow> string"

definition egress_handle :: "egress \<Rightarrow> address list \<times> egress_end" where
  "egress_handle p = (case authorizeUnitPeer (eg_peer p) (eg_unit p) (eg_cgroup p) of
      Some e \<Rightarrow> ([], Caller_refused e)
    | None \<Rightarrow> (case eg_request p of
        None \<Rightarrow> ([], No_request)
      | Some (http_method, target) \<Rightarrow>
          if http_method \<noteq> ''CONNECT'' then ([], Replied 405 ''only CONNECT is proxied; use https'')
          else if \<not> Allows (eg_allow p) target
            then ([], Replied 403 (''destination not on the agent scope's egress allowlist: '' @ target))
          else (case resolveNonLoopback (eg_lookup p) (eg_ip_text p) target of
              Inl why \<Rightarrow> ([], Replied 403 (''destination '' @ target @ '' refused: '' @ why @ ''; an agent unit never reaches the host's loopback''))
            | Inr addrs \<Rightarrow> (case dial_first (eg_dial p) addrs None of
                (tried, Inr a) \<Rightarrow> (tried, Tunnelled a)
              | (tried, Inl (Some e)) \<Rightarrow> (tried, Replied 502 (err_text e))
              | (tried, Inl None) \<Rightarrow> (tried, Replied 502 [])))))"

section \<open>The model injection proxy\<close>

text \<open>A request's headers by canonical name. \<open>inj_raw_path\<close> is \<open>URL.RawPath\<close>, empty when the default
  encoding of the path is the one the client sent.\<close>

record inject_request =
  mr_method :: string
  mr_path :: string
  mr_raw_path :: string
  mr_headers :: "(string \<times> string list) list"

datatype inject_end =
    Rejected nat string            \<comment> \<open>the status and body answered\<close>
  | Forwarded inject_request        \<comment> \<open>handed to the reverse proxy\<close>

definition inject_allowed :: "bool \<Rightarrow> inject_request \<Rightarrow> bool" where
  "inject_allowed permissive r \<longleftrightarrow>
     (mr_raw_path r = [] \<or> mr_raw_path r = mr_path r)
       \<and> (mr_method r = ''HEAD'' \<and> mr_path r = ''/api/hello''
          \<or> mr_method r = ''POST'' \<and> (mr_path r = ''/v1/messages'' \<or> mr_path r = ''/v1/messages/count_tokens''))
     \<or> permissive \<and> (has_prefix (mr_path r) ''/v1/'' \<or> has_prefix (mr_path r) ''/api/'')"

definition header_set :: "string \<Rightarrow> string list \<Rightarrow> (string \<times> string list) list \<Rightarrow> (string \<times> string list) list" where
  "header_set k v hs = alist_put k v hs"

definition header_del :: "string \<Rightarrow> (string \<times> string list) list \<Rightarrow> (string \<times> string list) list" where
  "header_del k hs = filter (\<lambda>(h, _). h \<noteq> k) hs"

definition inject_serve :: "bool \<Rightarrow> gerror + string \<Rightarrow> inject_request \<Rightarrow> inject_end" where
  "inject_serve permissive token r =
     (if \<not> inject_allowed permissive r
      then Rejected 403 (''not a model API request clown forwards: '' @ mr_method r @ '' '' @ mr_path r)
      else if mr_method r = ''HEAD'' \<and> mr_path r = ''/api/hello''
      then Forwarded (r\<lparr>mr_headers := header_del ''Authorization'' (mr_headers r)\<rparr>)
      else (case token of
          Inl e \<Rightarrow> Rejected 503 ''model credential unavailable''
        | Inr tok \<Rightarrow> Forwarded (r\<lparr>mr_headers := header_set ''Authorization'' [''Bearer '' @ tok] (mr_headers r)\<rparr>)))"

text \<open>\<open>TokenSource.Token\<close>, from what opening the file without following a symlink gives.\<close>

record token_file =
  tf_regular :: bool
  tf_perm :: nat
  tf_uid :: "int option"
  tf_content :: "gerror + string"

datatype token_open = Token_absent | Token_symlink | Token_unreadable gerror | Token_opened token_file

definition maxTokenBytes :: nat where "maxTokenBytes = 16384"

definition token_error :: "string \<Rightarrow> string \<Rightarrow> gerror" where
  "token_error p s = ErrMsg (''model credential '' @ p @ s)"

definition octal4 :: "nat \<Rightarrow> string" where
  "octal4 n = [digit_char (n div 512 mod 8), digit_char (n div 64 mod 8), digit_char (n div 8 mod 8), digit_char (n mod 8)]"

definition Token :: "string \<Rightarrow> int \<Rightarrow> token_open \<Rightarrow> gerror + string" where
  "Token p uid opened =
     (if p = [] then Inl (ErrMsg ''no model credential path (XDG_RUNTIME_DIR is unset and CLOWN_MODEL_TOKEN_FILE is not)'')
      else (case opened of
          Token_absent \<Rightarrow> Inl (ErrMsg (''no model credential at '' @ p @ '': absent''))
        | Token_symlink \<Rightarrow> Inl (token_error p '' is a symlink; it must be a regular file'')
        | Token_unreadable e \<Rightarrow> Inl (ErrWrap (''model credential '' @ p @ '': '') e [])
        | Token_opened f \<Rightarrow>
            if \<not> tf_regular f then Inl (token_error p '' is not a regular file'')
            else if tf_perm f mod 64 \<noteq> 0 then Inl (token_error p ('' has mode '' @ octal4 (tf_perm f) @ ''; it must be 0600''))
            else (case find (\<lambda>u. u \<noteq> uid) (case tf_uid f of Some u \<Rightarrow> [u] | None \<Rightarrow> []) of
              Some u \<Rightarrow> Inl (token_error p ('' is owned by uid '' @ itoa u @ '', not '' @ itoa uid))
            | None \<Rightarrow> (case tf_content f of
                Inl e \<Rightarrow> Inl (ErrWrap (''model credential '' @ p @ '': '') e [])
              | Inr raw \<Rightarrow>
                  if maxTokenBytes < length raw then Inl (token_error p ('' is larger than '' @ itoa (int maxTokenBytes) @ '' bytes''))
                  else (let tok = trim_suffix (trim_suffix raw [CHR 0x0A]) [CHR 0x0D] in
                    if tok = [] then Inl (token_error p '' is empty'') else Inr tok)))))"

section \<open>The tool ceiling\<close>

definition DefaultCeiling :: "string list" where
  "DefaultCeiling = [''toolbox'', ''env'', ''man'', ''rg.search'', ''folio.read'', ''folio.ls'', ''folio.glob'', ''folio.tree'',
     ''folio.file-type'', ''folio.mktemp'', ''folio.write'', ''folio.mkdir'', ''folio.mv'', ''folio.rm'']"

definition DefaultDisabledMoxins :: "string list" where
  "DefaultDisabledMoxins = [''smith'', ''chrest'', ''calendar'', ''car'', ''gmail'', ''gws'', ''piers'', ''prison'', ''freud'', ''stats-me'',
     ''grit'', ''chix'', ''jq'']"

definition ceiling_list :: "string \<Rightarrow> string list \<Rightarrow> string" where
  "ceiling_list key items = key @ '' = ['' @ join '','' (map (\<lambda>it. [CHR 0x0A] @ ''  '' @ quoted it) items)
     @ (if items \<noteq> [] then [CHR 0x0A] else []) @ '']'' @ [CHR 0x0A]"

definition CeilingMoxyfile :: "string list \<Rightarrow> string list \<Rightarrow> string" where
  "CeilingMoxyfile allow disable =
     ''# Written by clown for an agent unit (clown#244, FDR 0020; V3 ceiling, clown#339).'' @ [CHR 0x0A]
     @ ''# Read-only inside the unit. moxy enforces that nothing below this file widens it'' @ [CHR 0x0A]
     @ ''# (MOXY_PARENT_MOXYFILE, moxyfile(5) NARROWING); enforce refuses tools not listed.'' @ [CHR 0x0A]
     @ ''permission-mode = '' @ quoted ''enforce'' @ [CHR 0x0A]
     @ ceiling_list ''allow-tools'' (sortedUnique allow) @ ceiling_list ''disable-moxins'' (sortedUnique disable)"

definition covered_by :: "string list \<Rightarrow> string \<Rightarrow> bool" where
  "covered_by held r \<longleftrightarrow> r \<in> set held \<or> (case cut (CHR ''.'') r of (moxin, _, dotted) \<Rightarrow> dotted \<and> moxin \<in> set held)"

definition IntersectAllow :: "string list \<Rightarrow> string list option \<Rightarrow> gerror + string list" where
  "IntersectAllow held requested = (case requested of
      None \<Rightarrow> Inr (sortedUnique held)
    | Some req \<Rightarrow> (case filter (\<lambda>r. \<not> covered_by held r) (sortedUnique req) of
        [] \<Rightarrow> Inr (filter (covered_by held) (sortedUnique req))
      | refused \<Rightarrow> Inl (ErrMsg (''moxy ceiling: '' @ join '', '' refused
          @ '' not in the default ceiling (a profile or spec may only narrow it)''))))"

end
