(* ===== verification/Scope_Net_Claims.thy ===== *)
theory Scope_Net_Claims
  imports Scope_Net Scope_Claims
begin

text \<open>
  What an agent unit can reach through the frontend: an allowlisted host that is not the host's own
  loopback, a model API request of three shapes that carries the frontend's bearer and no other, and
  tools no wider than the default ceiling; and a session socket is its session's alone.
\<close>

section \<open>Loopback addresses\<close>

text \<open>The addresses that name the host itself: 127.0.0.0/8 and 0.0.0.0, plain or mapped into IPv6, and
  the IPv6 loopback and unspecified address.\<close>

definition host_address :: "ip \<Rightarrow> bool" where
  "host_address a \<longleftrightarrow> (\<exists>v. (a = v \<or> a = replicate 10 0 @ [255, 255] @ v) \<and> length v = 4 \<and> (hd v = 127 \<or> v = [0, 0, 0, 0]))
     \<or> a = replicate 15 0 @ [1] \<or> a = replicate 16 0"

lemma host_address_refused: "host_address a \<Longrightarrow> IsLoopback a \<or> IsUnspecified a"
proof -
  have four: "To4 v = Some v" if "length v = 4" for v using that by (simp add: To4_def)
  have mapped: "To4 (replicate 10 0 @ [255, 255] @ v) = Some v" "mapped_v4 (replicate 10 0 @ [255, 255] @ v)" if "length v = 4" for v
    using that by (simp_all add: To4_def mapped_v4_def)
  assume "host_address a"
  then consider v where "a = v \<or> a = replicate 10 0 @ [255, 255] @ v" "length v = 4" "hd v = 127"
    | "a = [0, 0, 0, 0] \<or> a = replicate 10 0 @ [255, 255] @ [0, 0, 0, 0]" | "a = replicate 15 0 @ [1]" | "a = replicate 16 0"
    unfolding host_address_def by metis
  then show ?thesis
  proof cases
    case 1
    then have "To4 a = Some v" using four mapped(1) by auto
    then show ?thesis using 1 by (cases v) (auto simp: IsLoopback_def)
  next
    case 2
    moreover have "IsUnspecified [0, 0, 0, 0]" "IsUnspecified (replicate 10 0 @ [255, 255] @ [0, 0, 0, 0])" by code_simp+
    ultimately show ?thesis by metis
  next
    case 3
    moreover have "IsLoopback (replicate 15 0 @ [1])" by code_simp
    ultimately show ?thesis by simp
  next
    case 4
    moreover have "IsUnspecified (replicate 16 0)" by code_simp
    ultimately show ?thesis by simp
  qed
qed

section \<open>The egress proxy\<close>

lemma dial_first_tried:
  "dial_first dial as err = (tried, r) \<Longrightarrow> set tried \<subseteq> set as \<and> (\<forall>a. r = Inr a \<longrightarrow> a \<in> set tried \<and> dial a = None)"
  by (induction as arbitrary: err tried r) (fastforce split: option.splits prod.splits)+

lemma resolveNonLoopback_addrs:
  assumes "resolveNonLoopback ask ip_text target = Inr addrs" and "(a, port) \<in> set addrs"
  shows "\<exists>host ips. SplitHostPort target = Some (host, port) \<and> \<not> IsLoopbackHost host \<and> ask host = Inr ips \<and> a \<in> set ips \<and> \<not> host_address a"
proof -
  from assms obtain host port' ips where r: "SplitHostPort target = Some (host, port')" "\<not> IsLoopbackHost host" "ask host = Inr ips"
      "find (\<lambda>a. IsLoopback a \<or> IsUnspecified a) ips = None" "addrs = map (\<lambda>a. (a, port')) ips"
    by (auto simp: resolveNonLoopback_def split: option.splits prod.splits if_splits sum.splits)
  then show ?thesis using assms(2) host_address_refused by (auto simp: find_None_iff)
qed

text \<open>C9. The egress proxy dials for nobody else and nowhere else. Every address it dials was asked for by
  a process whose cgroup is the unit's, in a CONNECT whose target is on the allowlist and whose host is
  not the loopback's name; it is one of the addresses the host resolved to, with the port of the
  target, and none of the addresses of the host itself, whether plain or mapped into IPv6.\<close>

theorem egress_confined:
  assumes "egress_handle p = (tried, r)" and "(a, port) \<in> set tried \<or> r = Tunnelled (a, port)"
  shows "\<exists>pid cg target host ips. eg_peer p = Inr pid \<and> eg_cgroup p pid = Inr cg
    \<and> suffix (''/clown-agent.slice/'' @ eg_unit p) cg
    \<and> eg_request p = Some (''CONNECT'', target) \<and> SplitHostPort target = Some (host, port)
    \<and> (\<exists>e \<in> set (eg_allow p). entry_allows (to_lower (trim_suffix host ''.'')) port e)
    \<and> \<not> IsLoopbackHost host \<and> eg_lookup p host = Inr ips \<and> a \<in> set ips \<and> \<not> host_address a"
proof -
  have peer: "\<exists>pid cg. eg_peer p = Inr pid \<and> eg_cgroup p pid = Inr cg \<and> suffix (''/clown-agent.slice/'' @ eg_unit p) cg"
    if "authorizeUnitPeer (eg_peer p) (eg_unit p) (eg_cgroup p) = None"
    using that by (auto simp: authorizeUnitPeer_def CheckUnitCgroup_def unit_cgroup_def unit_slice_def split: sum.splits if_splits)
  obtain target addrs where h: "authorizeUnitPeer (eg_peer p) (eg_unit p) (eg_cgroup p) = None" "eg_request p = Some (''CONNECT'', target)"
      "Allows (eg_allow p) target" "resolveNonLoopback (eg_lookup p) (eg_ip_text p) target = Inr addrs" "(a, port) \<in> set addrs"
  proof (cases "authorizeUnitPeer (eg_peer p) (eg_unit p) (eg_cgroup p)")
    case None
    show ?thesis
    proof (cases "eg_request p")
      case (Some req)
      obtain m target where req: "req = (m, target)" by (cases req)
      show ?thesis
      proof (cases "m = ''CONNECT'' \<and> Allows (eg_allow p) target")
        case True
        show ?thesis
        proof (cases "resolveNonLoopback (eg_lookup p) (eg_ip_text p) target")
          case (Inl why)
          then show ?thesis using assms None Some req True by (simp add: egress_handle_def)
        next
          case (Inr addrs)
          obtain t res where dial: "dial_first (eg_dial p) addrs None = (t, res)" by fastforce
          have "tried = t" "\<forall>b. r = Tunnelled b \<longrightarrow> res = Inr b"
            using assms(1) None Some req True Inr dial by (auto simp: egress_handle_def split: sum.splits option.splits)
          then have "(a, port) \<in> set addrs" using dial_first_tried [OF dial] assms(2) by blast
          then show ?thesis using that None Some req True Inr by blast
        qed
      next
        case False
        then show ?thesis using assms None Some req by (auto simp: egress_handle_def split: if_splits)
      qed
    qed (use assms None in \<open>simp add: egress_handle_def\<close>)
  qed (use assms in \<open>simp add: egress_handle_def\<close>)
  obtain host ips where host: "SplitHostPort target = Some (host, port)" "\<not> IsLoopbackHost host" "eg_lookup p host = Inr ips" "a \<in> set ips" "\<not> host_address a"
    using resolveNonLoopback_addrs [OF h(4,5)] by blast
  have "\<exists>e \<in> set (eg_allow p). entry_allows (to_lower (trim_suffix host ''.'')) port e"
    using h(3) host(1) by (simp add: Allows_def)
  then show ?thesis using peer [OF h(1)] h(2) host by blast
qed

section \<open>Session sockets\<close>

lemma clean_segments_append:
  "list_all plain_segment segs \<Longrightarrow> clean_segments True (xs @ segs) = clean_segments True xs @ segs"
proof (induction segs rule: rev_induct)
  case (snoc s segs)
  then show ?case using path_push_snoc [of s "xs @ segs"] by simp
qed simp

lemma path_clean_append:
  assumes "path_is_abs v" and "list_all plain_segment segs" and "segs \<noteq> []"
  shows "path_clean (v @ CHR ''/'' # join ''/'' segs) = of_segments (clean_segments True (split_on (CHR ''/'') v) @ segs)"
    and "list_all plain_segment (clean_segments True (split_on (CHR ''/'') v) @ segs)"
proof -
  have "has_prefix (v @ CHR ''/'' # join ''/'' segs) ''/''" using assms(1) by (auto simp: path_is_abs_def has_prefix_def prefix_def)
  moreover have "\<forall>s \<in> set segs. CHR ''/'' \<notin> set s" using assms(2) by (auto simp: list_all_iff plain_segment_def)
  ultimately show "path_clean (v @ CHR ''/'' # join ''/'' segs) = of_segments (clean_segments True (split_on (CHR ''/'') v) @ segs)"
    using assms(2,3) by (simp add: path_clean_def split_on_at split_join clean_segments_append of_segments_def Let_def)
  show "list_all plain_segment (clean_segments True (split_on (CHR ''/'') v) @ segs)"
    using clean_segments_plain [of "split_on (CHR ''/'') v"] split_on_pieces [of "CHR ''/''" v] assms(2) by auto
qed

lemma sessionSocketPath_Inr:
  assumes "sessionSocketPath dir session file = Inr p"
  shows "p = of_segments (clean_segments True (split_on (CHR ''/'') dir) @ [''clown'', ''serve'', session, file])
    \<and> list_all plain_segment (clean_segments True (split_on (CHR ''/'') dir) @ [''clown'', ''serve'', session, file]) \<and> length p < 108"
proof -
  have checks: "path_is_abs dir" "single_segment session" "single_segment file"
      "p = path_clean (dir @ CHR ''/'' # join ''/'' [''clown'', ''serve'', session, file])" "length p < 108"
    using assms by (auto simp: sessionSocketPath_def Let_def split: if_splits)
  then have "list_all plain_segment [''clown'', ''serve'', session, file]" by (auto simp: plain_segment_def single_segment_def)
  from path_clean_append [OF checks(1) this] show ?thesis using checks(4,5) by simp
qed

text \<open>A session's socket is its own. Two session socket paths under one runtime directory are the same
  only for the same session and the same file, so two sessions never share a socket; and the path
  fits a unix socket address and lies below the directory of its session.\<close>

theorem session_socket_private:
  assumes "sessionSocketPath dir session file = Inr p" and "sessionSocketPath dir session' file' = Inr p'"
  shows "(p = p' \<longleftrightarrow> session = session' \<and> file = file') \<and> length p < 108
    \<and> covers (path_join_clean (path_join_clean (path_clean dir) ''clown'') ''serve'') p"
proof -
  note p = sessionSocketPath_Inr [OF assms(1)] and p' = sessionSocketPath_Inr [OF assms(2)]
  have abs: "path_is_abs dir" using assms(1) by (simp add: sessionSocketPath_def split: if_splits)
  have base: "clean_abs (path_clean dir)" using abs path_clean_abs by (simp add: path_is_abs_def)
  have dir: "path_clean dir = of_segments (clean_segments True (split_on (CHR ''/'') dir))"
    using abs by (simp add: path_clean_def path_is_abs_def of_segments_def Let_def)
  have segs: "segments p = clean_segments True (split_on (CHR ''/'') dir) @ [''clown'', ''serve'', session, file]"
    "segments p' = clean_segments True (split_on (CHR ''/'') dir) @ [''clown'', ''serve'', session', file']"
    using p p' by simp_all
  have plain: "list_all plain_segment (clean_segments True (split_on (CHR ''/'') dir))" using p by simp
  have names: "plain_segment ''clown''" "plain_segment ''serve''" by (simp_all add: plain_segment_def)
  have "segments (path_join_clean (path_join_clean (path_clean dir) ''clown'') ''serve'')
      = clean_segments True (split_on (CHR ''/'') dir) @ [''clown'', ''serve'']"
    using join_clean_one [OF base names(1)] join_clean_one [OF clean_join_one [OF base names(1)] names(2)] plain names dir by simp
  moreover have "p = p' \<longleftrightarrow> segments p = segments p'" using p p' by (metis segments_of_segments)
  moreover have "length p < 108" using p by blast
  ultimately show ?thesis using segs by (simp add: covers_def)
qed

section \<open>Injection\<close>

lemma length_trim_suffix: "length (trim_suffix s t) \<le> length s"
  by (simp add: trim_suffix_def)

lemma Token_Inr:
  assumes "Token path uid opened = Inr tok"
  shows "\<exists>f. opened = Token_opened f \<and> tf_regular f \<and> tf_perm f mod 64 = 0 \<and> tf_uid f \<in> {None, Some uid} \<and> tok \<noteq> [] \<and> length tok \<le> 16384"
proof -
  obtain f where f: "opened = Token_opened f" "tf_regular f" "tf_perm f mod 64 = 0" "tf_uid f \<in> {None, Some uid}"
    using assms unfolding Token_def by (auto split: if_splits token_open.splits option.splits)
  obtain raw where raw: "tf_content f = Inr raw" "length raw \<le> maxTokenBytes" "tok = trim_suffix (trim_suffix raw [CHR 0x0A]) [CHR 0x0D]" "tok \<noteq> []"
    using assms f(1) unfolding Token_def by (auto simp: Let_def split: if_splits sum.splits option.splits)
  have "length tok \<le> length raw" unfolding raw(3) using length_trim_suffix le_trans by blast
  then have "length tok \<le> 16384" using raw(2) by (simp add: maxTokenBytes_def)
  then show ?thesis by (intro exI [of _ f] conjI f raw(4))
qed

text \<open>C11. The model credential goes only where clown sends it. Without the permissive probe, a request is
  forwarded only as \<open>HEAD /api/hello\<close> or as a POST of messages or of a token count, with its path and
  every other header untouched; it then carries no credential, or exactly the bearer read for it, which
  came from a regular file owned by clown's user that no other user may access, is at most 16384 bytes
  long and not empty. A request that is not forwarded is answered without that bearer.\<close>

theorem model_credential_contained:
  assumes "inject_serve False (Token path uid opened) r = out"
  shows "(case out of
      Rejected status body \<Rightarrow> status \<in> {403, 503} \<and> body \<in> {''model credential unavailable'',
        ''not a model API request clown forwards: '' @ mr_method r @ '' '' @ mr_path r}
    | Forwarded q \<Rightarrow> mr_method q = mr_method r \<and> mr_path q = mr_path r \<and> mr_raw_path q = mr_raw_path r
        \<and> (\<forall>h. h \<noteq> ''Authorization'' \<longrightarrow> map_of (mr_headers q) h = map_of (mr_headers r) h)
        \<and> (if mr_method r = ''HEAD'' then mr_path r = ''/api/hello'' \<and> map_of (mr_headers q) ''Authorization'' = None
           else mr_method r = ''POST'' \<and> mr_path r \<in> {''/v1/messages'', ''/v1/messages/count_tokens''}
             \<and> (\<exists>tok f. Token path uid opened = Inr tok \<and> map_of (mr_headers q) ''Authorization'' = Some [''Bearer '' @ tok]
               \<and> opened = Token_opened f \<and> tf_regular f \<and> tf_perm f mod 64 = 0 \<and> tf_uid f \<in> {None, Some uid}
               \<and> tok \<noteq> [] \<and> length tok \<le> 16384)))"
proof -
  note out = assms [symmetric]
  show ?thesis
  proof (cases "inject_allowed False r")
    case False
    then show ?thesis unfolding out inject_serve_def by simp
  next
    case True
    show ?thesis
    proof (cases "mr_method r = ''HEAD''")
      case head: True
      then have "mr_path r = ''/api/hello''" using True by (simp add: inject_allowed_def)
      then show ?thesis unfolding out inject_serve_def using True head by (simp add: header_del_def map_of_filter_key [where P = "\<lambda>h. h \<noteq> ''Authorization''"])
    next
      case False
      then have post: "mr_method r = ''POST''" "mr_path r \<in> {''/v1/messages'', ''/v1/messages/count_tokens''}"
        using True by (auto simp: inject_allowed_def)
      show ?thesis
      proof (cases "Token path uid opened")
        case (Inl e)
        then show ?thesis unfolding out inject_serve_def using True False by simp
      next
        case (Inr tok)
        then show ?thesis unfolding out inject_serve_def using True False post Token_Inr [OF Inr] by (simp add: header_set_def)
      qed
    qed
  qed
qed

section \<open>The ceiling\<close>

lemma covered_by_trans:
  assumes "\<forall>r \<in> set req. covered_by held r" and "covered_by req tool"
  shows "covered_by held tool"
proof (cases "tool \<in> set req")
  case False
  obtain moxin rest ok where tool: "cut (CHR ''.'') tool = (moxin, rest, ok)" by (metis prod_cases3)
  then have m: "moxin \<in> set req" "ok" using assms(2) False by (simp_all add: covered_by_def)
  then have "covered_by held moxin" using assms(1) by blast
  then have "moxin \<in> set held" using cut_absent [OF cut_key [OF tool]] by (simp add: covered_by_def)
  then show ?thesis using tool m by (simp add: covered_by_def)
qed (use assms in blast)

text \<open>C38. A profile only narrows the tool ceiling. When \<open>IntersectAllow\<close> accepts a request, every tool the
  result covers is covered by the default ceiling, and the result is exactly what was asked for; it
  refuses just the requests with an entry the default does not cover.\<close>

theorem ceiling_narrows:
  shows "case IntersectAllow held (Some req) of
      Inr out \<Rightarrow> set out = set req \<and> sorted_wrt str_less out \<and> (\<forall>tool \<in> Collect (covered_by out). covered_by held tool)
    | Inl e \<Rightarrow> \<not> (set req \<subseteq> Collect (covered_by held))"
proof (cases "filter (\<lambda>r. \<not> covered_by held r) (sortedUnique req)")
  case Nil
  then have all: "\<forall>r \<in> set req. covered_by held r" by (simp add: filter_empty_conv sortedUnique_def)
  then have "filter (covered_by held) (sortedUnique req) = sortedUnique req" by (intro filter_True) (simp add: sortedUnique_def)
  then have out: "IntersectAllow held (Some req) = Inr (sortedUnique req)" using Nil by (simp add: IntersectAllow_def)
  have "covered_by held tool" if "covered_by (sortedUnique req) tool" for tool
    using that all covered_by_trans [of req held tool] by (auto simp: covered_by_def sortedUnique_def)
  then show ?thesis using sortedUnique_strict [of req] unfolding out by (simp add: sortedUnique_def)
next
  case (Cons r rs)
  then have "r \<in> set (filter (\<lambda>r. \<not> covered_by held r) (sortedUnique req))" by simp
  then have "r \<in> set req" "\<not> covered_by held r" by (simp_all add: sortedUnique_def)
  then show ?thesis using Cons by (auto simp: IntersectAllow_def)
qed


section \<open>Witnesses\<close>

text \<open>Hosts that name the loopback, and one that does not.\<close>

lemma loopback_hosts:
  "IsLoopbackHost ''localhost.''" "IsLoopbackHost ''a.localhost''" "IsLoopbackHost ''127.9.0.1''" "IsLoopbackHost ''[::1]''"
  "IsLoopbackHost ''0.0.0.0''" "\<not> IsLoopbackHost ''github.com''"
  by code_simp+

definition demo_egress :: egress where
  "demo_egress = \<lparr>eg_allow = [''*.example.org:443''], eg_unit = ''u.service'', eg_peer = Inr 7,
     eg_cgroup = (\<lambda>_. Inr ''/x/clown-agent.slice/u.service''), eg_request = Some (''CONNECT'', ''a.example.org:443''),
     eg_lookup = (\<lambda>_. Inr [[93, 184, 216, 34], [1, 1, 1, 1]]), eg_dial = (\<lambda>(a, _). if hd a = 1 then None else Some ErrCanceled),
     eg_ip_text = (\<lambda>_. [])\<rparr>"

theorem egress_confined_witness:
  "egress_handle demo_egress = ([([93, 184, 216, 34], ''443''), ([1, 1, 1, 1], ''443'')], Tunnelled ([1, 1, 1, 1], ''443''))
     \<and> \<not> host_address [93, 184, 216, 34]"
proof -
  have run: "egress_handle demo_egress = ([([93, 184, 216, 34], ''443''), ([1, 1, 1, 1], ''443'')], Tunnelled ([1, 1, 1, 1], ''443''))"
    by code_simp
  have dialled: "([93, 184, 216, 34], ''443'') \<in> set [([93, 184, 216, 34], ''443''), ([1, 1, 1, 1], ''443'')] \<or>
      Tunnelled ([1, 1, 1, 1], ''443'') = Tunnelled ([93, 184, 216, 34], ''443'')" by simp
  show ?thesis using egress_confined [OF run dialled] run by (elim exE conjE) (rule conjI)
qed

theorem session_socket_private_witness:
  "BrokerSocketPath ''/run/user/1/'' ''a'' = Inr ''/run/user/1/clown/serve/a/broker.sock''
     \<and> ''/run/user/1/clown/serve/a/broker.sock'' \<noteq> ''/run/user/1/clown/serve/b/broker.sock''"
proof -
  have a: "sessionSocketPath ''/run/user/1/'' ''a'' ''broker.sock'' = Inr ''/run/user/1/clown/serve/a/broker.sock''" by code_simp
  have b: "sessionSocketPath ''/run/user/1/'' ''b'' ''broker.sock'' = Inr ''/run/user/1/clown/serve/b/broker.sock''" by code_simp
  show ?thesis using session_socket_private [OF a b] a unfolding BrokerSocketPath_def by auto
qed

definition demo_token :: token_open where
  "demo_token = Token_opened \<lparr>tf_regular = True, tf_perm = 384, tf_uid = Some 1000, tf_content = Inr (''tok'' @ [CHR 0x0A])\<rparr>"

definition demo_request :: inject_request where
  "demo_request = \<lparr>mr_method = ''POST'', mr_path = ''/v1/messages'', mr_raw_path = [],
     mr_headers = [(''Authorization'', [''Bearer '' @ ModelPlaceholder]), (''Anthropic-Beta'', [''b''])]\<rparr>"

theorem model_credential_contained_witness:
  "\<exists>q. inject_serve False (Token ''/t'' 1000 demo_token) demo_request = Forwarded q
     \<and> map_of (mr_headers q) ''Authorization'' = Some [''Bearer tok''] \<and> map_of (mr_headers q) ''Anthropic-Beta'' = Some [''b'']"
proof -
  have token: "Token ''/t'' 1000 demo_token = Inr ''tok''" by code_simp
  have allowed: "inject_allowed False demo_request" by code_simp
  have shape: "mr_method demo_request = ''POST''" "map_of (mr_headers demo_request) ''Anthropic-Beta'' = Some [''b'']"
    by (simp_all add: demo_request_def)
  define q where "q = demo_request\<lparr>mr_headers := header_set ''Authorization'' [''Bearer '' @ ''tok''] (mr_headers demo_request)\<rparr>"
  have run: "inject_serve False (Token ''/t'' 1000 demo_token) demo_request = Forwarded q"
    unfolding inject_serve_def q_def token using allowed shape(1) by simp
  from model_credential_contained [OF run] run shape token show ?thesis by auto
qed

theorem ceiling_narrows_witness:
  "IntersectAllow DefaultCeiling (Some [''rg.search'', ''folio.read'']) = Inr [''folio.read'', ''rg.search'']
     \<and> covered_by DefaultCeiling ''rg.search''"
proof -
  have run: "IntersectAllow DefaultCeiling (Some [''rg.search'', ''folio.read'']) = Inr [''folio.read'', ''rg.search'']" by code_simp
  have "covered_by [''folio.read'', ''rg.search''] ''rg.search''" by (simp add: covered_by_def)
  then show ?thesis using ceiling_narrows [where held = DefaultCeiling and req = "[''rg.search'', ''folio.read'']"] unfolding run by simp
qed

end
