(* ===== verification/Scope_Monitor.thy ===== *)
theory Scope_Monitor
  imports Scope_Net
begin

text \<open>
  The monitor relay and the dead-man socket (\<open>internal/alfa/agentscope/monitor.go\<close>, \<open>deadman.go\<close>) as
  machines. A step is one critical section of the code under the relay's mutex: a connection, a
  line of the monitor, a reader that goes away, an exit of the command, the close. Whether a write
  reaches its reader is an argument of the step (\<open>reaches\<close>), so is the verdict on a caller. What a
  step does outside its state is its list of outputs.
\<close>

section \<open>The relay\<close>

record monitor_config =
  mc_name :: string
  mc_buffer_lines :: int
  mc_min_backoff :: int
  mc_max_backoff :: int
  mc_short_run :: int
  mc_give_up_after :: int

definition monitor_defaults :: "monitor_config \<Rightarrow> monitor_config" where
  "monitor_defaults m = m\<lparr>
     mc_buffer_lines := if mc_buffer_lines m \<le> 0 then 1024 else mc_buffer_lines m,
     mc_min_backoff := if mc_min_backoff m \<le> 0 then 1000000000 else mc_min_backoff m,
     mc_max_backoff := if mc_max_backoff m \<le> 0 then 30000000000 else mc_max_backoff m,
     mc_short_run := if mc_short_run m \<le> 0 then 10000000000 else mc_short_run m,
     mc_give_up_after := if mc_give_up_after m \<le> 0 then 5 else mc_give_up_after m\<rparr>"

type_synonym conn = nat

record monitor =
  mo_clients :: "conn list"
  mo_queue :: "string list"
  mo_dropped :: nat
  mo_started :: bool
  mo_stopped :: bool
  mo_backoff :: int
  mo_short :: int
  mo_announced :: bool

datatype relay_output =
    Emitted string                 \<comment> \<open>the monitor's line, or the relay's notice\<close>
  | Wrote conn string bool         \<comment> \<open>a line written to a reader, and whether it arrived\<close>
  | Hung_up conn                   \<comment> \<open>a connection closed\<close>
  | Command_started
  | Command_stopped                \<comment> \<open>its process group signalled\<close>
  | Waits int                      \<comment> \<open>before the next start of the command\<close>

text \<open>The lines of a replay up to the first that does not arrive.\<close>

fun replay :: "(string \<Rightarrow> bool) \<Rightarrow> conn \<Rightarrow> string list \<Rightarrow> relay_output list \<times> bool" where
  "replay reaches c [] = ([], True)"
| "replay reaches c (l # ls) = (if reaches l then (case replay reaches c ls of (out, ok) \<Rightarrow> (Wrote c l True # out, ok))
     else ([Wrote c l False], False))"

definition relay_accept :: "gerror option \<Rightarrow> (string \<Rightarrow> bool) \<Rightarrow> conn \<Rightarrow> monitor \<Rightarrow> monitor \<times> relay_output list" where
  "relay_accept verdict reaches c m =
     (if verdict \<noteq> None \<or> mo_stopped m then (m, [Hung_up c])
      else case replay reaches c (mo_queue m) of
          (out, False) \<Rightarrow> (m, out @ [Hung_up c])
        | (out, True) \<Rightarrow> (m\<lparr>mo_queue := [], mo_clients := mo_clients m @ [c], mo_started := True\<rparr>,
            out @ (if mo_started m then [] else [Command_started])))"

definition relay_gone :: "conn \<Rightarrow> monitor \<Rightarrow> monitor \<times> relay_output list" where
  "relay_gone c m = (m\<lparr>mo_clients := remove1 c (mo_clients m)\<rparr>, [Hung_up c])"

text \<open>\<open>emit\<close>: to every reader; queued when none is left, the oldest lines dropped over the bound.\<close>

definition relay_emit :: "monitor_config \<Rightarrow> (conn \<Rightarrow> bool) \<Rightarrow> string \<Rightarrow> monitor \<Rightarrow> monitor \<times> relay_output list" where
  "relay_emit cfg reaches line m =
     (let live = filter reaches (mo_clients m);
          out = Emitted line # concat (map (\<lambda>c. if reaches c then [Wrote c line True] else [Wrote c line False, Hung_up c]) (mo_clients m));
          m = m\<lparr>mo_clients := live\<rparr> in
      if live \<noteq> [] then (m, out)
      else (let queue = mo_queue m @ [line]; over = nat (int (length queue) - mc_buffer_lines cfg) in
        (m\<lparr>mo_queue := drop over queue, mo_dropped := mo_dropped m + over\<rparr>, out)))"

definition relay_notice :: "monitor_config \<Rightarrow> (int \<Rightarrow> string) \<Rightarrow> int \<Rightarrow> string" where
  "relay_notice cfg duration short = ''[clown] monitor '' @ mc_name cfg @ '' unavailable: it exited '' @ itoa short
     @ '' times in a row; retrying every '' @ duration (mc_max_backoff cfg)"

text \<open>One turn of \<open>run\<close> after the command exited, having run for \<open>lasted\<close>.\<close>

definition relay_exited :: "monitor_config \<Rightarrow> (int \<Rightarrow> string) \<Rightarrow> (conn \<Rightarrow> bool) \<Rightarrow> int \<Rightarrow> monitor \<Rightarrow> monitor \<times> relay_output list" where
  "relay_exited cfg duration reaches lasted m =
     (if mo_stopped m then (m, [])
      else (let m = (if lasted < mc_short_run cfg then m\<lparr>mo_short := mo_short m + 1\<rparr>
                     else m\<lparr>mo_short := 0, mo_backoff := mc_min_backoff cfg, mo_announced := False\<rparr>);
                (m, out) = (if mc_give_up_after cfg \<le> mo_short m \<and> \<not> mo_announced m
                  then (case relay_emit cfg reaches (relay_notice cfg duration (mo_short m)) m of (m, out) \<Rightarrow> (m\<lparr>mo_announced := True\<rparr>, out))
                  else (m, []))
        in (m\<lparr>mo_backoff := min (mo_backoff m * 2) (mc_max_backoff cfg)\<rparr>, out @ [Waits (mo_backoff m)])))"

definition relay_close :: "monitor \<Rightarrow> monitor \<times> relay_output list" where
  "relay_close m = (if mo_stopped m then (m, [])
     else (m\<lparr>mo_stopped := True, mo_clients := []\<rparr>, map Hung_up (mo_clients m) @ [Command_stopped]))"

definition monitor_start :: "monitor_config \<Rightarrow> monitor" where
  "monitor_start cfg = \<lparr>mo_clients = [], mo_queue = [], mo_dropped = 0, mo_started = False, mo_stopped = False,
     mo_backoff = mc_min_backoff cfg, mo_short = 0, mo_announced = False\<rparr>"

text \<open>The relay's runs: the state after a history of outputs. A connection is its own number.\<close>

definition writes_to :: "conn \<Rightarrow> relay_output list \<Rightarrow> bool" where
  "writes_to c tr \<longleftrightarrow> (\<exists>l ok. Wrote c l ok \<in> set tr)"

inductive relayed :: "monitor_config \<Rightarrow> (int \<Rightarrow> string) \<Rightarrow> monitor \<Rightarrow> relay_output list \<Rightarrow> bool" for cfg duration where
  started: "relayed cfg duration (monitor_start cfg) []"
| accepts: "relayed cfg duration m tr \<Longrightarrow> c \<notin> set (mo_clients m) \<Longrightarrow> \<not> writes_to c tr \<Longrightarrow>
    relay_accept verdict reaches c m = (m', out) \<Longrightarrow> relayed cfg duration m' (tr @ out)"
| emits: "relayed cfg duration m tr \<Longrightarrow> relay_emit cfg reaches_now line m = (m', out) \<Longrightarrow> relayed cfg duration m' (tr @ out)"
| gone: "relayed cfg duration m tr \<Longrightarrow> relay_gone c m = (m', out) \<Longrightarrow> relayed cfg duration m' (tr @ out)"
| exited: "relayed cfg duration m tr \<Longrightarrow> relay_exited cfg duration reaches_now lasted m = (m', out) \<Longrightarrow> relayed cfg duration m' (tr @ out)"
| closed: "relayed cfg duration m tr \<Longrightarrow> relay_close m = (m', out) \<Longrightarrow> relayed cfg duration m' (tr @ out)"

section \<open>The dead man's socket\<close>

text \<open>The frontend's end: one connection of the unit is held, then nothing more is accepted.\<close>

record dead_man =
  dm_listening :: bool
  dm_held :: "conn option"
  dm_closed :: bool
  dm_hung_up :: "conn list"

definition dead_man_start :: dead_man where
  "dead_man_start = \<lparr>dm_listening = True, dm_held = None, dm_closed = False, dm_hung_up = []\<rparr>"

definition dead_man_accept :: "gerror option \<Rightarrow> conn \<Rightarrow> dead_man \<Rightarrow> dead_man" where
  "dead_man_accept verdict c d =
     (if \<not> dm_listening d then d
      else if verdict \<noteq> None then d\<lparr>dm_hung_up := c # dm_hung_up d\<rparr>
      else if dm_closed d then d\<lparr>dm_hung_up := c # dm_hung_up d, dm_listening := False\<rparr>
      else d\<lparr>dm_held := Some c, dm_listening := False\<rparr>)"

definition dead_man_close :: "dead_man \<Rightarrow> dead_man" where
  "dead_man_close d = d\<lparr>dm_closed := True, dm_listening := False,
     dm_hung_up := (case dm_held d of Some c \<Rightarrow> c # dm_hung_up d | None \<Rightarrow> dm_hung_up d)\<rparr>"

end
