(* ===== verification/Scope_Monitor_Claims.thy ===== *)
theory Scope_Monitor_Claims
  imports Scope_Monitor
begin

text \<open>
  The monitor relay loses no line silently and gives each reader a gapless stream; the dead man's
  socket holds one connection of the unit at most.
\<close>

section \<open>Histories\<close>

fun emitted :: "relay_output list \<Rightarrow> string list" where
  "emitted [] = []"
| "emitted (Emitted l # tr) = l # emitted tr"
| "emitted (_ # tr) = emitted tr"

fun received :: "conn \<Rightarrow> relay_output list \<Rightarrow> string list" where
  "received c [] = []"
| "received c (Wrote d l ok # tr) = (if d = c \<and> ok then l # received c tr else received c tr)"
| "received c (_ # tr) = received c tr"

lemma emitted_append [simp]: "emitted (a @ b) = emitted a @ emitted b"
  by (induction a rule: emitted.induct) auto

lemma received_append [simp]: "received c (a @ b) = received c a @ received c b"
  by (induction c a rule: received.induct) auto

lemma received_none: "\<not> writes_to c tr \<Longrightarrow> received c tr = []"
  by (induction c tr rule: received.induct) (auto simp: writes_to_def)

lemma hung_up_only: "emitted (map Hung_up cs) = []" "received c (map Hung_up cs) = []"
  by (induction cs) auto

lemma replay_emits: "emitted (fst (replay reaches c ls)) = []"
  by (induction ls) (auto split: prod.splits)

lemma replay_received: "replay reaches c ls = (out, True) \<Longrightarrow> received c out = ls \<and> (\<forall>l \<in> set ls. Wrote c l True \<in> set out)"
  by (induction ls arbitrary: out) (auto split: prod.splits if_splits)

lemma replay_others: "replay reaches c ls = (out, ok) \<Longrightarrow> d \<noteq> c \<Longrightarrow> received d out = []"
  by (induction ls arbitrary: out ok) (auto split: prod.splits if_splits)

definition write_all :: "(conn \<Rightarrow> bool) \<Rightarrow> string \<Rightarrow> conn list \<Rightarrow> relay_output list" where
  "write_all reaches line cs = concat (map (\<lambda>c. if reaches c then [Wrote c line True] else [Wrote c line False, Hung_up c]) cs)"

lemma write_all_emits [simp]: "emitted (write_all reaches line cs) = []"
  by (induction cs) (auto simp: write_all_def)

lemma write_all_received: "distinct cs \<Longrightarrow> received c (write_all reaches line cs) = (if c \<in> set cs \<and> reaches c then [line] else [])"
  by (induction cs) (auto simp: write_all_def)

lemma write_all_reached: "c \<in> set cs \<Longrightarrow> reaches c \<Longrightarrow> Wrote c line True \<in> set (write_all reaches line cs)"
  by (force simp: write_all_def)

section \<open>The relay's invariant\<close>

text \<open>What became of every line that left the queue: marked true, some reader got it; marked false, it is
  counted as dropped.\<close>

definition accounted :: "relay_output list \<Rightarrow> nat \<Rightarrow> string list \<Rightarrow> bool" where
  "accounted tr dropped queue \<longleftrightarrow> (\<exists>settled. emitted tr = map fst settled @ queue
     \<and> dropped = length (filter (\<lambda>(l, got). \<not> got) settled)
     \<and> (\<forall>(l, got) \<in> set settled. got \<longrightarrow> (\<exists>c. Wrote c l True \<in> set tr)))"

definition relay_inv :: "monitor_config \<Rightarrow> monitor \<Rightarrow> relay_output list \<Rightarrow> bool" where
  "relay_inv cfg m tr \<longleftrightarrow> int (length (mo_queue m)) \<le> mc_buffer_lines cfg \<and> distinct (mo_clients m)
     \<and> (mo_clients m \<noteq> [] \<longrightarrow> mo_queue m = [])
     \<and> accounted tr (mo_dropped m) (mo_queue m)
     \<and> (\<forall>c \<in> set (mo_clients m). suffix (received c tr) (emitted tr))"

lemma accounted_extend: "accounted tr d q \<Longrightarrow> emitted out = [] \<Longrightarrow> accounted (tr @ out) d q"
  unfolding accounted_def by (elim exE conjE, rule_tac x = settled in exI) fastforce

lemma accounted_queue:
  assumes "accounted tr d q" and "emitted out = [line]"
  shows "accounted (tr @ out) d (q @ [line])"
proof -
  from assms(1) obtain settled where s: "emitted tr = map fst settled @ q" "d = length (filter (\<lambda>(l, got). \<not> got) settled)"
    "\<forall>(l, got) \<in> set settled. got \<longrightarrow> (\<exists>c. Wrote c l True \<in> set tr)" unfolding accounted_def by blast
  then show ?thesis unfolding accounted_def using assms(2) by (intro exI [of _ settled]) fastforce
qed

lemma accounted_settle:
  assumes "accounted tr d (a @ q)" and "\<forall>l \<in> set a. got \<longrightarrow> (\<exists>c. Wrote c l True \<in> set tr)"
  shows "accounted tr (if got then d else d + length a) q"
proof -
  from assms(1) obtain settled where s: "emitted tr = map fst settled @ a @ q" "d = length (filter (\<lambda>(l, got). \<not> got) settled)"
    "\<forall>(l, got) \<in> set settled. got \<longrightarrow> (\<exists>c. Wrote c l True \<in> set tr)" unfolding accounted_def by blast
  let ?settled = "settled @ map (\<lambda>l. (l, got)) a"
  have "emitted tr = map fst ?settled @ q" using s(1) by (simp add: comp_def)
  moreover have "(if got then d else d + length a) = length (filter (\<lambda>(l, got). \<not> got) ?settled)"
    using s(2) by (simp add: filter_map comp_def)
  moreover have "\<forall>(l, got) \<in> set ?settled. got \<longrightarrow> (\<exists>c. Wrote c l True \<in> set tr)" using s(3) assms(2) by auto
  ultimately show ?thesis unfolding accounted_def by blast
qed

lemma relay_emit_inv:
  assumes inv: "relay_inv cfg m tr" and step: "relay_emit cfg reaches line m = (m', out)" and cfg: "0 < mc_buffer_lines cfg"
  shows "relay_inv cfg m' (tr @ out)"
proof -
  let ?live = "filter reaches (mo_clients m)"
  have out: "out = Emitted line # write_all reaches line (mo_clients m)"
    using step by (auto simp: relay_emit_def write_all_def Let_def split: if_splits)
  have emits: "emitted out = [line]" by (simp add: out)
  have streams: "\<forall>c \<in> set ?live. suffix (received c (tr @ out)) (emitted (tr @ out))"
    using inv by (auto simp: relay_inv_def out write_all_received)
  show ?thesis
  proof (cases "?live = []")
    case False
    then obtain c where c: "c \<in> set (mo_clients m)" "reaches c" by (auto simp: filter_empty_conv)
    have m': "m' = m\<lparr>mo_clients := ?live\<rparr>" using step False by (simp add: relay_emit_def Let_def)
    have queue: "mo_queue m = []" using inv c(1) by (auto simp: relay_inv_def)
    have "accounted (tr @ out) (mo_dropped m) (mo_queue m @ [line])"
      using inv emits by (intro accounted_queue) (simp_all add: relay_inv_def)
    moreover have "Wrote c line True \<in> set (tr @ out)" using write_all_reached [of c "mo_clients m" reaches line] c by (simp add: out)
    ultimately have "accounted (tr @ out) (mo_dropped m) []"
      using accounted_settle [of "tr @ out" "mo_dropped m" "[line]" "[]" True] queue by auto
    then show ?thesis using inv streams queue by (simp add: relay_inv_def m')
  next
    case True
    define q where "q = mo_queue m @ [line]"
    define over where "over = nat (int (length q) - mc_buffer_lines cfg)"
    have m': "m' = m\<lparr>mo_clients := [], mo_queue := drop over q, mo_dropped := mo_dropped m + over\<rparr>"
      using step True by (simp add: relay_emit_def Let_def over_def q_def)
    have over: "over \<le> length q" using cfg by (simp add: over_def)
    have "accounted (tr @ out) (mo_dropped m) q" using inv emits unfolding q_def by (intro accounted_queue) (simp_all add: relay_inv_def)
    then have "accounted (tr @ out) (mo_dropped m) (take over q @ drop over q)" by simp
    from accounted_settle [OF this, of False] over
    have "accounted (tr @ out) (mo_dropped m + over) (drop over q)" by simp
    then show ?thesis using inv cfg by (auto simp: relay_inv_def m' over_def)
  qed
qed

lemma relay_inv_quiet:
  assumes "relay_inv cfg m tr" and "emitted out = []" and "\<And>c. received c out = []"
    and "mo_queue m' = mo_queue m" and "mo_dropped m' = mo_dropped m" and "set (mo_clients m') \<subseteq> set (mo_clients m)" and "distinct (mo_clients m')"
  shows "relay_inv cfg m' (tr @ out)"
  using assms accounted_extend [of tr "mo_dropped m" "mo_queue m" out] by (fastforce simp: relay_inv_def)

lemma relay_accept_inv:
  assumes inv: "relay_inv cfg m tr" and step: "relay_accept verdict reaches c m = (m', out)"
    and fresh: "c \<notin> set (mo_clients m)" "\<not> writes_to c tr" and cfg: "0 < mc_buffer_lines cfg"
  shows "relay_inv cfg m' (tr @ out)"
proof -
  obtain lines ok where replay: "replay reaches c (mo_queue m) = (lines, ok)" by fastforce
  have emits: "emitted lines = []" using replay_emits [of reaches c "mo_queue m"] replay by simp
  have others: "\<forall>d \<in> set (mo_clients m). received d lines = []" using replay_others [OF replay] fresh(1) by metis
  consider "m' = m" "emitted out = []" "\<forall>d \<in> set (mo_clients m). received d out = []"
    | "ok" "m' = m\<lparr>mo_queue := [], mo_clients := mo_clients m @ [c], mo_started := True\<rparr>"
      "out = lines @ (if mo_started m then [] else [Command_started])"
    using step replay emits others
    by (cases ok) (auto simp: relay_accept_def split: if_splits)
  then show ?thesis
  proof cases
    case 1
    then show ?thesis using inv accounted_extend [of tr "mo_dropped m" "mo_queue m" out] by (auto simp: relay_inv_def)
  next
    case 2
    have got: "received c lines = mo_queue m" "\<forall>l \<in> set (mo_queue m). Wrote c l True \<in> set lines"
      using replay_received [of reaches c "mo_queue m" lines] replay 2(1) by auto
    have out: "emitted out = []" "received c out = mo_queue m" "\<forall>d. d \<noteq> c \<longrightarrow> received d out = []"
      using emits got(1) replay_others [OF replay] 2(3) by auto
    have "accounted (tr @ out) (mo_dropped m) (mo_queue m @ [])"
      using accounted_extend [of tr "mo_dropped m" "mo_queue m" out] inv out(1) by (simp add: relay_inv_def)
    from accounted_settle [OF this, of True] got(2) 2(3)
    have settled: "accounted (tr @ out) (mo_dropped m) []" by fastforce
    have "suffix (mo_queue m) (emitted tr)" using inv by (auto simp: relay_inv_def accounted_def suffix_def)
    then have "suffix (received c (tr @ out)) (emitted (tr @ out))" using out received_none [OF fresh(2)] by simp
    moreover have "suffix (received d (tr @ out)) (emitted (tr @ out))" if "d \<in> set (mo_clients m)" for d
      using inv that out(1,3) fresh(1) by (auto simp: relay_inv_def)
    ultimately show ?thesis using inv settled fresh(1) cfg by (auto simp: relay_inv_def 2(2))
  qed
qed

lemma relay_exited_inv:
  assumes inv: "relay_inv cfg m tr" and step: "relay_exited cfg duration reaches lasted m = (m', out)" and cfg: "0 < mc_buffer_lines cfg"
  shows "relay_inv cfg m' (tr @ out)"
proof (cases "mo_stopped m")
  case True
  then show ?thesis using inv step by (simp add: relay_exited_def)
next
  case False
  define m1 where "m1 = (if lasted < mc_short_run cfg then m\<lparr>mo_short := mo_short m + 1\<rparr>
      else m\<lparr>mo_short := 0, mo_backoff := mc_min_backoff cfg, mo_announced := False\<rparr>)"
  have inv1: "relay_inv cfg m1 tr" using inv by (simp add: relay_inv_def m1_def)
  obtain m2 out2 where emit: "relay_emit cfg reaches (relay_notice cfg duration (mo_short m1)) m1 = (m2, out2)" by fastforce
  have "(\<exists>b. m' = m1\<lparr>mo_backoff := b\<rparr> \<and> out = [Waits (mo_backoff m1)])
    \<or> (\<exists>b. m' = m2\<lparr>mo_announced := True, mo_backoff := b\<rparr> \<and> out = out2 @ [Waits (mo_backoff m2)])"
    using step False emit unfolding relay_exited_def m1_def [symmetric] by (auto simp: Let_def split: if_splits)
  then show ?thesis
  proof
    assume "\<exists>b. m' = m1\<lparr>mo_backoff := b\<rparr> \<and> out = [Waits (mo_backoff m1)]"
    moreover have "distinct (mo_clients m1)" using inv1 by (simp add: relay_inv_def)
    ultimately show ?thesis using relay_inv_quiet [OF inv1, of "[Waits (mo_backoff m1)]" m'] by auto
  next
    assume "\<exists>b. m' = m2\<lparr>mo_announced := True, mo_backoff := b\<rparr> \<and> out = out2 @ [Waits (mo_backoff m2)]"
    then obtain b where m': "m' = m2\<lparr>mo_announced := True, mo_backoff := b\<rparr>" and out: "out = out2 @ [Waits (mo_backoff m2)]" by blast
    have inv2: "relay_inv cfg m2 (tr @ out2)" by (rule relay_emit_inv [OF inv1 emit cfg])
    then have "distinct (mo_clients m2)" by (simp add: relay_inv_def)
    with relay_inv_quiet [OF inv2, of "[Waits (mo_backoff m2)]" m'] show ?thesis by (simp add: m' out)
  qed
qed

lemma relayed_inv: "relayed cfg duration m tr \<Longrightarrow> 0 < mc_buffer_lines cfg \<Longrightarrow> relay_inv cfg m tr"
proof (induction rule: relayed.induct)
  case started
  then show ?case by (auto simp: relay_inv_def monitor_start_def accounted_def intro!: exI [of _ "[]"])
next
  case (accepts m tr c verdict reaches m' out)
  then show ?case using relay_accept_inv by blast
next
  case (emits m tr reaches line m' out)
  then show ?case using relay_emit_inv by blast
next
  case (gone m tr c m' out)
  then have inv: "relay_inv cfg m tr" by blast
  then have "distinct (remove1 c (mo_clients m))" by (simp add: relay_inv_def)
  with gone set_remove1_subset [of c "mo_clients m"] show ?case by (intro relay_inv_quiet [OF inv]) (auto simp: relay_gone_def)
next
  case (exited m tr reaches lasted m' out)
  then show ?case using relay_exited_inv by blast
next
  case (closed m tr m' out)
  then have inv: "relay_inv cfg m tr" by blast
  with closed show ?case
    by (intro relay_inv_quiet [OF inv]) (auto simp: relay_close_def hung_up_only relay_inv_def split: if_splits)
qed

text \<open>C35. The monitor relay loses no line silently. In every reachable state of a relay with its defaults
  applied: the queue holds at most \<open>BufferLines\<close> lines and none while a reader is connected; the lines
  emitted so far are, in order, those that left the queue and then the queue, and each that left was
  delivered to some reader or is one of the counted drops; and a connected reader has received the
  most recent lines emitted, in order and without a gap.\<close>

theorem monitor_accounts_for_lines:
  assumes "relayed (monitor_defaults cfg) duration m tr"
  shows "int (length (mo_queue m)) \<le> mc_buffer_lines (monitor_defaults cfg) \<and> (mo_clients m \<noteq> [] \<longrightarrow> mo_queue m = [])
    \<and> (\<exists>settled. emitted tr = map fst settled @ mo_queue m
         \<and> mo_dropped m = length (filter (\<lambda>(l, got). \<not> got) settled)
         \<and> (\<forall>(l, got) \<in> set settled. got \<longrightarrow> (\<exists>c. Wrote c l True \<in> set tr)))
    \<and> (\<forall>c \<in> set (mo_clients m). suffix (received c tr) (emitted tr))"
proof -
  have "0 < mc_buffer_lines (monitor_defaults cfg)" by (simp add: monitor_defaults_def)
  from relayed_inv [OF assms this] show ?thesis unfolding relay_inv_def accounted_def by blast
qed


section \<open>The restart of the command\<close>

text \<open>Between two starts of the command the relay waits at least \<open>MinBackoff\<close> and at most
  \<open>MaxBackoff\<close>.\<close>

lemma backoff_bounded:
  assumes "relayed cfg duration m tr" and "0 < mc_min_backoff cfg" and "mc_min_backoff cfg \<le> mc_max_backoff cfg"
  shows "(mc_min_backoff cfg \<le> mo_backoff m \<and> mo_backoff m \<le> mc_max_backoff cfg)
    \<and> (\<forall>w. Waits w \<in> set tr \<longrightarrow> mc_min_backoff cfg \<le> w \<and> w \<le> mc_max_backoff cfg)"
  using assms
proof (induction rule: relayed.induct)
  case (accepts m tr c verdict reaches m' out)
  have "Waits w \<notin> set (fst (replay reaches c ls))" for w ls by (induction ls) (auto split: prod.splits)
  then have "Waits w \<notin> set lines" if "replay reaches c ls = (lines, ok)" for w ls lines ok by (metis fst_conv that)
  then show ?case using accepts by (auto simp: relay_accept_def split: if_splits prod.splits bool.splits)
next
  case (emits m tr reaches line m' out)
  then show ?case by (auto simp: relay_emit_def Let_def split: if_splits)
next
  case (exited m tr reaches lasted m' out)
  have emit: "mo_backoff m2 = mo_backoff m1 \<and> (\<forall>w. Waits w \<notin> set out2)" if "relay_emit cfg reaches line m1 = (m2, out2)" for m1 m2 out2 line
    using that by (auto simp: relay_emit_def Let_def split: if_splits)
  show ?case using exited emit by (auto simp: relay_exited_def Let_def split: if_splits prod.splits)
qed (auto simp: monitor_start_def relay_gone_def relay_close_def split: if_splits)

section \<open>The dead man's socket\<close>

text \<open>However callers and the close interleave, the socket holds at most one connection, one the unit
  made; once it is held nothing more is accepted, and after the close it is hung up.\<close>

inductive dead_man_reach :: "dead_man \<Rightarrow> conn set \<Rightarrow> bool" where
  "dead_man_reach dead_man_start {}"
| "dead_man_reach d admitted \<Longrightarrow> dead_man_reach (dead_man_accept verdict c d) (if verdict = None then insert c admitted else admitted)"
| "dead_man_reach d admitted \<Longrightarrow> dead_man_reach (dead_man_close d) admitted"

lemma dead_man_holds_one:
  "dead_man_reach d admitted \<Longrightarrow>
     (\<forall>c. dm_held d = Some c \<longrightarrow> c \<in> admitted \<and> \<not> dm_listening d \<and> (dm_closed d \<longrightarrow> c \<in> set (dm_hung_up d))
        \<and> (\<forall>verdict e. dead_man_accept verdict e d = d))"
  by (induction rule: dead_man_reach.induct)
     (auto simp: dead_man_start_def dead_man_accept_def dead_man_close_def split: option.splits)

section \<open>Witness\<close>

definition demo_monitor :: monitor_config where
  "demo_monitor = \<lparr>mc_name = ''m'', mc_buffer_lines = 1, mc_min_backoff = 1, mc_max_backoff = 4, mc_short_run = 2, mc_give_up_after = 3\<rparr>"

theorem monitor_accounts_for_lines_witness:
  "\<exists>m tr. relayed (monitor_defaults demo_monitor) (\<lambda>_. []) m tr \<and> mo_dropped m = 1 \<and> emitted tr = [''a'', ''b'', ''c'']
     \<and> mo_clients m = [1] \<and> received 1 tr = [''b'', ''c''] \<and> suffix (received 1 tr) (emitted tr)"
proof -
  define cfg where "cfg = monitor_defaults demo_monitor"
  have buffer: "mc_buffer_lines cfg = 1" by (simp add: cfg_def demo_monitor_def monitor_defaults_def)
  let ?emit = "relay_emit cfg (\<lambda>_. True)"
  define m0 where "m0 = monitor_start cfg"
  define m1 where "m1 = m0\<lparr>mo_queue := [''a'']\<rparr>"
  define m2 where "m2 = m1\<lparr>mo_queue := [''b''], mo_dropped := 1\<rparr>"
  define m3 where "m3 = m2\<lparr>mo_queue := [], mo_clients := [1], mo_started := True\<rparr>"
  have steps: "?emit ''a'' m0 = (m1, [Emitted ''a''])" "?emit ''b'' m1 = (m2, [Emitted ''b''])"
    "relay_accept None (\<lambda>_. True) 1 m2 = (m3, [Wrote 1 ''b'' True, Command_started])"
    "?emit ''c'' m3 = (m3, [Emitted ''c'', Wrote 1 ''c'' True])"
    by (simp_all add: m3_def m2_def m1_def m0_def monitor_start_def relay_emit_def relay_accept_def buffer Let_def)
  define tr where "tr = [Emitted ''a'', Emitted ''b'', Wrote 1 ''b'' True, Command_started, Emitted ''c'', Wrote 1 ''c'' True]"
  have "relayed cfg (\<lambda>_. []) m0 []" unfolding m0_def by (rule relayed.started)
  from relayed.emits [OF this steps(1)] have "relayed cfg (\<lambda>_. []) m1 [Emitted ''a'']" by simp
  from relayed.emits [OF this steps(2)] have "relayed cfg (\<lambda>_. []) m2 [Emitted ''a'', Emitted ''b'']" by simp
  from relayed.accepts [OF this _ _ steps(3)]
  have "relayed cfg (\<lambda>_. []) m3 [Emitted ''a'', Emitted ''b'', Wrote 1 ''b'' True, Command_started]"
    by (simp add: writes_to_def m2_def m1_def m0_def monitor_start_def)
  from relayed.emits [OF this steps(4)] have run: "relayed cfg (\<lambda>_. []) m3 tr" by (simp add: tr_def)
  have final: "mo_dropped m3 = 1" "mo_clients m3 = [1]" "emitted tr = [''a'', ''b'', ''c'']" "received 1 tr = [''b'', ''c'']"
    by (simp_all add: m3_def m2_def tr_def)
  have "suffix (received 1 tr) (emitted tr)" using monitor_accounts_for_lines [OF run [unfolded cfg_def]] final(2) by simp
  with run final show ?thesis unfolding cfg_def by blast
qed

end
