(* ===== verification/Scope_Init.thy ===== *)
theory Scope_Init
  imports Scope_Unit
begin

text \<open>
  The inside of an agent unit (\<open>cmd/clown/agentscope.go\<close>): the exec shim that reads the command line
  the launch wrote, the relay process it starts, and the init that supervises the provider and stops
  the unit when the frontend dies. The kernel's answers are arguments; the init is a machine of
  timed turns, each one pass over the exited children and one ready case of its select.
\<close>

section \<open>The exec shim\<close>

definition ShimExitUsage :: int where "ShimExitUsage = 2"
definition ShimExitRefused :: int where "ShimExitRefused = 126"
definition ShimExitNotFound :: int where "ShimExitNotFound = 127"

text \<open>The flags up to the end mark: the dead man's socket, the relay arguments and what is left.\<close>

fun shim_flags :: "string \<Rightarrow> string list \<Rightarrow> string list \<Rightarrow> (string \<times> string list \<times> string list) option" where
  "shim_flags deadman relay_args [] = Some (deadman, relay_args, [])"
| "shim_flags deadman relay_args [a] = (if a = ''--'' then Some (deadman, relay_args, []) else None)"
| "shim_flags deadman relay_args (a # b # rest) =
     (if a = ''--'' then Some (deadman, relay_args, b # rest)
      else if a = ''--deadman'' then shim_flags b relay_args rest
      else if a = ''--relay'' \<or> a = ''--serve'' then shim_flags deadman (relay_args @ [a, b]) rest
      else None)"

record shim_host =
  sh_is_init :: bool
  sh_watch :: "string \<Rightarrow> gerror option"
  sh_start_relays :: "string list \<Rightarrow> gerror option"
  sh_terminal :: bool
  sh_acquire_tty :: "gerror option"
  sh_look_path :: "string \<Rightarrow> string option"
  sh_exec_fails :: "string \<Rightarrow> string list \<Rightarrow> bool"

datatype shim_end =
    Shim_exits int
  | Runs_as_init string "string list" bool    \<comment> \<open>the provider, its arguments, whether the frontend is watched\<close>
  | Execs string "string list"

definition runAgentExec :: "shim_host \<Rightarrow> string list \<Rightarrow> shim_end" where
  "runAgentExec h args = (case shim_flags [] [] args of
      None \<Rightarrow> Shim_exits ShimExitUsage
    | Some (deadman, relay_args, argv) \<Rightarrow>
        if argv = [] then Shim_exits ShimExitUsage
        else if deadman \<noteq> [] \<and> (\<not> sh_is_init h \<or> sh_watch h deadman \<noteq> None) then Shim_exits ShimExitRefused
        else if relay_args \<noteq> [] \<and> sh_start_relays h relay_args \<noteq> None then Shim_exits ShimExitRefused
        else if sh_terminal h \<and> sh_acquire_tty h \<noteq> None then Shim_exits ShimExitRefused
        else (case sh_look_path h (hd argv) of
            None \<Rightarrow> Shim_exits ShimExitNotFound
          | Some p \<Rightarrow>
              if sh_exec_fails h p argv then Shim_exits ShimExitRefused
              else if sh_is_init h then Runs_as_init p argv (deadman \<noteq> []) else Execs p argv))"

text \<open>\<open>runAgentRelay\<close> up to its listening: the relays it serves, or its exit code. \<open>serve\<close> starts the
  servers of a list and answers their relays, or the code it exits with.\<close>

fun relay_flags :: "(string \<Rightarrow> int + unit_relay list) \<Rightarrow> unit_relay list \<Rightarrow> string list \<Rightarrow> int + unit_relay list" where
  "relay_flags serve relays [] = (if relays = [] then Inl 2 else Inr relays)"
| "relay_flags serve relays [a] = Inl 2"
| "relay_flags serve relays (a # b # rest) =
     (if a = ''--relay'' then (case ParseRelay b of Inl e \<Rightarrow> Inl 2 | Inr r \<Rightarrow> relay_flags serve (relays @ [r]) rest)
      else if a = ''--serve'' then (case serve b of Inl code \<Rightarrow> Inl code | Inr started \<Rightarrow> relay_flags serve (relays @ started) rest)
      else Inl 2)"

section \<open>The init\<close>

definition DeadManGrace :: int where "DeadManGrace = 10000000000"
definition deadManKillWait :: int where "deadManKillWait = 5000000000"

definition SIGINT :: int where "SIGINT = 2"
definition SIGQUIT :: int where "SIGQUIT = 3"
definition SIGKILL :: int where "SIGKILL = 9"
definition SIGTERM :: int where "SIGTERM = 15"
definition SIGCHLD :: int where "SIGCHLD = 17"

datatype wait_status = Exited int | Signaled int

definition exitCodeOf :: "wait_status \<Rightarrow> int" where
  "exitCodeOf ws = (case ws of Signaled s \<Rightarrow> 128 + s | Exited c \<Rightarrow> c)"

datatype sent = To_all int | To_provider int

record init_config =
  ic_provider :: int
  ic_on_terminal :: bool
  ic_grace :: int

record init_state =
  is_watching :: bool
  is_stopping :: bool
  is_deadline :: "int option"
  is_give_up :: "int option"
  is_sent :: "sent list"
  is_exit :: "int option"

datatype init_event = Got_signal int | Frontend_gone | Deadline_passed | Give_up_passed

definition init_start :: "bool \<Rightarrow> init_state" where
  "init_start watching = \<lparr>is_watching = watching, is_stopping = False, is_deadline = None, is_give_up = None, is_sent = [], is_exit = None\<rparr>"

definition init_reap :: "init_config \<Rightarrow> (int \<times> wait_status) list \<Rightarrow> init_state \<Rightarrow> init_state" where
  "init_reap cfg reaped st = (case map_of reaped (ic_provider cfg) of
      None \<Rightarrow> st
    | Some ws \<Rightarrow> st\<lparr>is_exit := Some (exitCodeOf ws), is_sent := is_sent st @ (if is_stopping st then [To_all SIGKILL] else [])\<rparr>)"

definition init_select :: "init_config \<Rightarrow> int \<Rightarrow> init_event \<Rightarrow> init_state \<Rightarrow> init_state" where
  "init_select cfg t ev st = (case ev of
      Got_signal s \<Rightarrow>
        if s = SIGCHLD \<or> (s = SIGINT \<or> s = SIGQUIT) \<and> ic_on_terminal cfg then st
        else st\<lparr>is_sent := is_sent st @ [To_provider s]\<rparr>
    | Frontend_gone \<Rightarrow> st\<lparr>is_watching := False, is_stopping := True, is_sent := is_sent st @ [To_all SIGTERM],
        is_deadline := Some (t + ic_grace cfg)\<rparr>
    | Deadline_passed \<Rightarrow> st\<lparr>is_deadline := None, is_sent := is_sent st @ [To_all SIGKILL], is_give_up := Some (t + deadManKillWait)\<rparr>
    | Give_up_passed \<Rightarrow> st\<lparr>is_exit := Some (128 + SIGKILL)\<rparr>)"

definition init_turn :: "init_config \<Rightarrow> int \<Rightarrow> (int \<times> wait_status) list \<Rightarrow> init_event \<Rightarrow> init_state \<Rightarrow> init_state" where
  "init_turn cfg t reaped ev st = (let st = init_reap cfg reaped st in if is_exit st \<noteq> None then st else init_select cfg t ev st)"

text \<open>Which cases of the select can be ready at time \<open>t\<close>; a nil channel never is.\<close>

definition ready :: "init_state \<Rightarrow> int \<Rightarrow> init_event \<Rightarrow> bool" where
  "ready st t ev \<longleftrightarrow> (case ev of Got_signal s \<Rightarrow> True | Frontend_gone \<Rightarrow> is_watching st
     | Deadline_passed \<Rightarrow> (case is_deadline st of Some d \<Rightarrow> d \<le> t | None \<Rightarrow> False)
     | Give_up_passed \<Rightarrow> (case is_give_up st of Some d \<Rightarrow> d \<le> t | None \<Rightarrow> False))"

text \<open>The timed runs: a state, the time, and when the init saw the frontend gone. Time does not pass a
  timer that is due.\<close>

inductive supervised :: "init_config \<Rightarrow> bool \<Rightarrow> init_state \<Rightarrow> int \<Rightarrow> int option \<Rightarrow> bool" for cfg watching where
  starts: "supervised cfg watching (init_start watching) t None"
| turns: "supervised cfg watching st t g \<Longrightarrow> is_exit st = None \<Longrightarrow> t \<le> t' \<Longrightarrow>
    \<forall>d \<in> set_option (is_deadline st) \<union> set_option (is_give_up st). t' \<le> d \<Longrightarrow> ready st t' ev \<Longrightarrow>
    st' = init_turn cfg t' reaped ev st \<Longrightarrow>
    supervised cfg watching st' t' (if is_stopping st' \<and> \<not> is_stopping st then Some t' else g)"

end
