(* ===== verification/Scope_Init_Claims.thy ===== *)
theory Scope_Init_Claims
  imports Scope_Init Scope_Unit_Claims
begin

text \<open>
  The two ends of a unit agree: the shim reads back what the launch wrote, and the relay process
  serves the launch's relays. The init ends a bounded time after it saw the frontend gone.
\<close>

section \<open>Reading the command line back\<close>

lemma shim_flags_relays:
  "shim_flags d rs (concat (map (\<lambda>r. [''--relay'', relay_string r]) relays) @ ''--'' # argv)
     = Some (d, rs @ concat (map (\<lambda>r. [''--relay'', relay_string r]) relays), argv)"
proof (induction relays arbitrary: rs)
  case Nil
  then show ?case by (cases argv) auto
qed simp

definition launch_relay_args :: "launch \<Rightarrow> string list" where
  "launch_relay_args l = (if la_serve_file l \<noteq> [] then [''--serve'', la_serve_file l] else [])
     @ concat (map (\<lambda>r. [''--relay'', relay_string r]) (launch_relays l))"

lemma shim_flags_launch:
  "shim_flags [] [] (drop (length (la_shim l)) (shim_args l) @ ''--'' # argv) = Some (la_dead_man_socket l, launch_relay_args l, argv)"
  using shim_flags_relays [of _ _ "launch_relays l" argv]
  by (cases "la_dead_man_socket l = []"; cases "la_serve_file l = []") (simp_all add: shim_args_def launch_relay_args_def)

text \<open>A relay whose argument reads back.\<close>

definition relay_argument :: "unit_relay \<Rightarrow> bool" where
  "relay_argument r \<longleftrightarrow> ry_listen r \<noteq> [] \<and> CHR ''='' \<notin> set (ry_listen r) \<and> ry_socket r \<noteq> [] \<and> ry_target r = []
     \<and> (ry_udp r \<or> \<not> has_prefix (ry_listen r) udpPrefix)"

lemma relay_flags_relays:
  "list_all relay_argument relays \<Longrightarrow>
     relay_flags serve rs (concat (map (\<lambda>r. [''--relay'', relay_string r]) relays)) = (if rs @ relays = [] then Inl 2 else Inr (rs @ relays))"
proof (induction relays arbitrary: rs)
  case (Cons r relays)
  then have "ParseRelay (relay_string r) = Inr r" by (intro relay_reads_back) (simp_all add: relay_argument_def)
  then show ?case using Cons by simp
qed simp

lemma own_addresses: "relay_argument \<lparr>ry_listen = RelayAddr, ry_socket = s, ry_target = [], ry_udp = False\<rparr> \<longleftrightarrow> s \<noteq> []"
  "relay_argument \<lparr>ry_listen = StatsdAddr, ry_socket = s, ry_target = [], ry_udp = True\<rparr> \<longleftrightarrow> s \<noteq> []"
proof -
  have addrs: "RelayAddr = ''127.0.0.1:3128''" "StatsdAddr = ''127.0.0.1:8125''"
    by (simp_all add: RelayAddr_def RelayPort_def StatsdAddr_def StatsdPort_def itoa_def nat_str.simps digit_char_def char_of_def bit_iff_odd)
  show "relay_argument \<lparr>ry_listen = RelayAddr, ry_socket = s, ry_target = [], ry_udp = False\<rparr> \<longleftrightarrow> s \<noteq> []"
    "relay_argument \<lparr>ry_listen = StatsdAddr, ry_socket = s, ry_target = [], ry_udp = True\<rparr> \<longleftrightarrow> s \<noteq> []"
    unfolding addrs relay_argument_def has_prefix_def udpPrefix_def by simp_all
qed

text \<open>C37. The unit's shim reads back what the launch wrote. After its own name, the command line a launch
  hands to \<open>systemd-run\<close> is read as the launch's dead man's socket, its relay arguments and the
  provider's command line unchanged; and when the relay process reads those arguments it serves, after
  what the in-unit servers add, exactly the launch's relays in their order.\<close>

theorem shim_reads_launch:
  assumes "SystemdRunArgs l = Inr args"
    and "\<forall>r \<in> set (la_forwards l @ present (la_serve l) @ present (la_broker l) @ present (la_model l)). relay_argument r"
    and "la_serve_file l \<noteq> [] \<longrightarrow> serve (la_serve_file l) = Inr started"
  shows "\<exists>options. args = options @ ''--'' # la_shim l @ drop (length (la_shim l)) (shim_args l) @ ''--'' # la_argv l
    \<and> shim_flags [] [] (drop (length (la_shim l)) (shim_args l) @ ''--'' # la_argv l)
        = Some (la_dead_man_socket l, launch_relay_args l, la_argv l)
    \<and> relay_flags serve [] (launch_relay_args l) = Inr ((if la_serve_file l \<noteq> [] then started else []) @ launch_relays l)"
proof -
  have egress: "la_egress_socket l \<noteq> []" "args = unit_options l @ ''--'' # shim_args l @ ''--'' # la_argv l"
    using assms(1) unfolding SystemdRunArgs_def by (simp_all split: if_splits)
  have relays: "list_all relay_argument (launch_relays l)"
    using assms(2) egress(1) own_addresses by (auto simp: launch_relays_def list_all_iff present_def split: if_splits)
  have "launch_relays l \<noteq> []" by (simp add: launch_relays_def)
  then have "relay_flags serve [] (launch_relay_args l) = Inr ((if la_serve_file l \<noteq> [] then started else []) @ launch_relays l)"
    using relay_flags_relays [OF relays, of serve] assms(3) by (simp add: launch_relay_args_def)
  moreover have "shim_args l = la_shim l @ drop (length (la_shim l)) (shim_args l)" by (simp add: shim_args_def)
  ultimately show ?thesis using egress(2) shim_flags_launch [of l "la_argv l"] by (intro exI [of _ "unit_options l"]) simp
qed

section \<open>The end of the unit\<close>

text \<open>The turns left when nothing more is reaped: each armed timer fires when it is due.\<close>

definition expire :: "init_config \<Rightarrow> init_state \<Rightarrow> init_state" where
  "expire cfg st =
     (let st = (case is_deadline st of Some d \<Rightarrow> init_turn cfg d [] Deadline_passed st | None \<Rightarrow> st)
      in case is_give_up st of Some d \<Rightarrow> init_turn cfg d [] Give_up_passed st | None \<Rightarrow> st)"

definition init_inv :: "init_config \<Rightarrow> init_state \<Rightarrow> int \<Rightarrow> int option \<Rightarrow> bool" where
  "init_inv cfg st t g \<longleftrightarrow> (is_stopping st \<longleftrightarrow> g \<noteq> None) \<and> (g \<noteq> None \<longrightarrow> \<not> is_watching st)
     \<and> (g = None \<longrightarrow> is_deadline st = None \<and> is_give_up st = None)
     \<and> (\<forall>g'. g = Some g' \<longrightarrow> To_all SIGTERM \<in> set (is_sent st) \<and> t \<le> g' + ic_grace cfg + deadManKillWait
          \<and> (is_deadline st = Some (g' + ic_grace cfg) \<and> is_give_up st = None \<and> t \<le> g' + ic_grace cfg
             \<or> is_deadline st = None \<and> is_give_up st = Some (g' + ic_grace cfg + deadManKillWait) \<and> To_all SIGKILL \<in> set (is_sent st))
          \<and> (is_exit st \<noteq> None \<longrightarrow> To_all SIGKILL \<in> set (is_sent st)))"

lemma supervised_inv: "supervised cfg watching st t g \<Longrightarrow> 0 \<le> ic_grace cfg \<Longrightarrow> init_inv cfg st t g"
proof (induction rule: supervised.induct)
  case (starts t)
  then show ?case by (simp add: init_inv_def init_start_def)
next
  case (turns st t g t' ev st' reaped)
  then have inv: "init_inv cfg st t g" by blast
  show ?case
  proof (cases "map_of reaped (ic_provider cfg)")
    case (Some ws)
    then have st': "st' = st\<lparr>is_exit := Some (exitCodeOf ws), is_sent := is_sent st @ (if is_stopping st then [To_all SIGKILL] else [])\<rparr>"
      using turns.hyps(6) by (simp add: init_turn_def init_reap_def)
    show ?thesis using inv turns.hyps(3,4) turns.prems unfolding st' by (cases g) (auto simp: init_inv_def deadManKillWait_def)
  next
    case None
    then have st': "st' = init_select cfg t' ev st" using turns.hyps(2,6) by (simp add: init_turn_def init_reap_def)
    show ?thesis
    proof (cases g)
      case first: None
      then show ?thesis using inv turns.hyps(2,5) turns.prems unfolding st'
        by (cases ev) (auto simp: init_inv_def init_select_def ready_def deadManKillWait_def)
    next
      case (Some g')
      then show ?thesis using inv turns.hyps(2-5) turns.prems unfolding st'
        by (cases ev) (auto simp: init_inv_def init_select_def ready_def deadManKillWait_def)
    qed
  qed
qed

lemma expire_ends:
  assumes "is_exit st = None" and "is_deadline st = Some d \<and> is_give_up st = None \<or> is_deadline st = None \<and> is_give_up st = Some e"
  shows "is_exit (expire cfg st) = Some (128 + SIGKILL)
    \<and> set (is_sent (expire cfg st)) = set (is_sent st) \<union> (if is_deadline st = None then {} else {To_all SIGKILL})"
  using assms by (auto simp: expire_def init_turn_def init_reap_def init_select_def Let_def)

text \<open>C15. A unit never outlives its frontend for long. Once its init has seen the frontend gone at time
  \<open>g\<close>, it has asked everything in the unit to stop, and at every later moment it has ended or is at
  most the grace and the kill wait after \<open>g\<close> with a timer armed that is due by then; letting the armed
  timers fire ends it whatever the provider does, and it has not ended without killing everything in
  the unit first.\<close>

theorem unit_ends_with_frontend:
  assumes "supervised cfg watching st t (Some g)" and "0 \<le> ic_grace cfg"
  shows "To_all SIGTERM \<in> set (is_sent st) \<and> t \<le> g + ic_grace cfg + deadManKillWait
    \<and> (if is_exit st = None
       then (\<exists>d ev. t \<le> d \<and> d \<le> g + ic_grace cfg + deadManKillWait \<and> ev \<in> {Deadline_passed, Give_up_passed} \<and> ready st d ev)
         \<and> is_exit (expire cfg st) = Some (128 + SIGKILL) \<and> To_all SIGKILL \<in> set (is_sent (expire cfg st))
       else To_all SIGKILL \<in> set (is_sent st))"
proof -
  note inv = supervised_inv [OF assms]
  show ?thesis
  proof (cases "is_exit st")
    case (Some c)
    then show ?thesis using inv by (auto simp: init_inv_def)
  next
    case None
    have timers: "is_deadline st = Some (g + ic_grace cfg) \<and> is_give_up st = None \<and> t \<le> g + ic_grace cfg
        \<or> is_deadline st = None \<and> is_give_up st = Some (g + ic_grace cfg + deadManKillWait) \<and> To_all SIGKILL \<in> set (is_sent st)"
      and sent: "To_all SIGTERM \<in> set (is_sent st)" "t \<le> g + ic_grace cfg + deadManKillWait" using inv by (auto simp: init_inv_def)
    then have ends: "is_exit (expire cfg st) = Some (128 + SIGKILL) \<and> To_all SIGKILL \<in> set (is_sent (expire cfg st))"
      using expire_ends [OF None, of "g + ic_grace cfg" "g + ic_grace cfg + deadManKillWait" cfg] by (elim disjE) auto
    have "\<exists>d ev. t \<le> d \<and> d \<le> g + ic_grace cfg + deadManKillWait \<and> ev \<in> {Deadline_passed, Give_up_passed} \<and> ready st d ev"
      using timers
    proof
      assume "is_deadline st = Some (g + ic_grace cfg) \<and> is_give_up st = None \<and> t \<le> g + ic_grace cfg"
      then show ?thesis by (intro exI [of _ "g + ic_grace cfg"] exI [of _ Deadline_passed]) (simp add: ready_def deadManKillWait_def)
    next
      assume "is_deadline st = None \<and> is_give_up st = Some (g + ic_grace cfg + deadManKillWait) \<and> To_all SIGKILL \<in> set (is_sent st)"
      then show ?thesis using sent(2)
        by (intro exI [of _ "g + ic_grace cfg + deadManKillWait"] exI [of _ Give_up_passed]) (simp add: ready_def)
    qed
    then show ?thesis using None ends sent by simp
  qed
qed

section \<open>Witnesses\<close>

theorem shim_reads_launch_witness:
  "shim_flags [] [] (drop 2 (shim_args demo_launch) @ [''--'', ''claude'']) = Some ([], launch_relay_args demo_launch, [''claude''])
     \<and> relay_flags (\<lambda>_. Inl 1) [] (launch_relay_args demo_launch) = Inr (launch_relays demo_launch)"
proof -
  have "suffix ''.service'' (la_unit demo_launch)" "within (la_work_dir demo_launch) (ss_worktree (la_spec demo_launch))"
    "la_argv demo_launch = [''claude'']" "la_egress_socket demo_launch \<noteq> []" by code_simp+
  then obtain args where args: "SystemdRunArgs demo_launch = Inr args" by (simp add: SystemdRunArgs_def)
  have relays: "\<forall>r \<in> set (la_forwards demo_launch @ present (la_serve demo_launch) @ present (la_broker demo_launch) @ present (la_model demo_launch)).
      relay_argument r"
    by (simp add: demo_launch_def present_def no_relay_def relay_argument_def has_prefix_def udpPrefix_def)
  have "length (la_shim demo_launch) = 2" "la_serve_file demo_launch = []" "la_dead_man_socket demo_launch = []" by (simp_all add: demo_launch_def)
  with shim_reads_launch [OF args relays, of "\<lambda>_. Inl 1" "[]"] \<open>la_argv demo_launch = [''claude'']\<close> show ?thesis by simp
qed

theorem unit_ends_with_frontend_witness:
  "\<exists>st. supervised \<lparr>ic_provider = 7, ic_on_terminal = False, ic_grace = 10\<rparr> True st 3 (Some 3) \<and> is_exit st = None
     \<and> is_exit (expire \<lparr>ic_provider = 7, ic_on_terminal = False, ic_grace = 10\<rparr> st) = Some 137"
proof -
  let ?cfg = "\<lparr>ic_provider = 7, ic_on_terminal = False, ic_grace = 10\<rparr>"
  define st where "st = init_turn ?cfg 3 [] Frontend_gone (init_start True)"
  have "supervised ?cfg True (init_start True) 0 None" by (rule supervised.starts)
  from supervised.turns [OF this, of 3 Frontend_gone st "[]"]
  have run: "supervised ?cfg True st 3 (Some 3)" "is_exit st = None"
    by (simp_all add: st_def init_start_def ready_def init_turn_def init_reap_def init_select_def)
  from unit_ends_with_frontend [OF run(1)] run show ?thesis by (intro exI [of _ st]) (simp add: SIGKILL_def)
qed

end
