(* ===== verification/Clownfile.thy ===== *)
theory Clownfile
  imports Go_Path
begin

text \<open>
  clown's cascading configuration (\<open>internal/alfa/clownfile/clownfile.go\<close>) and the ascent it shares
  with the prompt fragments (\<open>internal/0/promptwalk/walk.go\<close>). The file system is an argument: \<open>fs\<close>
  gives the clownfile at a path, \<open>None\<close> when there is none, or the error of reading it as TOML; a Go
  map is an association list, and a slice or pointer that may be nil is an option.
\<close>

section \<open>The ascent\<close>

definition abs_path :: "string option \<Rightarrow> string \<Rightarrow> gerror + string" where
  "abs_path cwd p = (if path_is_abs p then Inr (path_clean p)
     else (case cwd of Some d \<Rightarrow> Inr (path_join_clean d p) | None \<Rightarrow> Inl (ErrMsg ''getwd'')))"

text \<open>The loop of \<open>walkAncestors\<close>: it ends at \<open>home\<close> or at the root.\<close>

partial_function (option) walk_up :: "string \<Rightarrow> string \<Rightarrow> string list option" where
  "walk_up home d = (if d = home \<or> d = ''/'' then Some [d] else Option.bind (walk_up home (path_dir d)) (\<lambda>ds. Some (d # ds)))"

declare walk_up.simps [code]

definition Ancestors :: "string option \<Rightarrow> string \<Rightarrow> string \<Rightarrow> gerror + string list option" where
  "Ancestors cwd startDir homeDir = (case abs_path cwd startDir of
      Inl e \<Rightarrow> Inl e
    | Inr start \<Rightarrow> (case abs_path cwd homeDir of Inl e \<Rightarrow> Inl e | Inr home \<Rightarrow> Inr (walk_up home start)))"

section \<open>Tables\<close>

record cf_profile =
  pr_provider :: string
  pr_backend :: string
  pr_model :: string
  pr_profile_name :: string
  pr_env :: "(string \<times> string) list"

record cf_attach =
  ca_multiplexer :: string
  ca_group_id :: string
  ca_description :: string
  ca_group_id_command :: "string list option"
  ca_start :: "string list option"
  ca_resume :: "string list option"
  ca_resume_title :: string
  ca_spawn :: "string list option"
  ca_spawn_entry :: "string list option"
  ca_spawn_window :: "string list option"
  ca_pty_suspend :: "bool option"
  ca_escape_key :: string
  ca_escape_command :: "string list option"

record messaging_room =
  ro_jid :: string
  ro_wake :: string

record cf_messaging =
  me_transport :: string
  me_xmpp_host :: string
  me_xmpp_port :: int
  me_xmpp_domain :: string
  me_xmpp_muc_domain :: string
  me_xmpp_nick :: string
  me_xmpp_insecure :: "bool option"
  me_xmpp_user :: string
  me_xmpp_password_file :: string
  me_rooms :: "messaging_room list"

record cf_providers =
  pv_hermetic_config :: "bool option"

record clownfile =
  cf_profile :: cf_profile
  cf_attach :: cf_attach
  cf_messaging :: cf_messaging
  cf_providers :: cf_providers

definition no_clownfile :: clownfile where
  "no_clownfile = \<lparr>cf_profile = \<lparr>pr_provider = [], pr_backend = [], pr_model = [], pr_profile_name = [], pr_env = []\<rparr>,
     cf_attach = \<lparr>ca_multiplexer = [], ca_group_id = [], ca_description = [], ca_group_id_command = None, ca_start = None,
       ca_resume = None, ca_resume_title = [], ca_spawn = None, ca_spawn_entry = None, ca_spawn_window = None,
       ca_pty_suspend = None, ca_escape_key = [], ca_escape_command = None\<rparr>,
     cf_messaging = \<lparr>me_transport = [], me_xmpp_host = [], me_xmpp_port = 0, me_xmpp_domain = [], me_xmpp_muc_domain = [],
       me_xmpp_nick = [], me_xmpp_insecure = None, me_xmpp_user = [], me_xmpp_password_file = [], me_rooms = []\<rparr>,
     cf_providers = \<lparr>pv_hermetic_config = None\<rparr>\<rparr>"

section \<open>The cascade\<close>

text \<open>A set value replaces, one that was not set leaves what was there.\<close>

definition over_text :: "string \<Rightarrow> string \<Rightarrow> string" where
  "over_text d s = (if s \<noteq> [] then s else d)"

definition over_option :: "'a option \<Rightarrow> 'a option \<Rightarrow> 'a option" where
  "over_option d s = (if s \<noteq> None then s else d)"

definition merge_profile :: "cf_profile \<Rightarrow> cf_profile \<Rightarrow> cf_profile" where
  "merge_profile d s =
     \<lparr>pr_provider = over_text (pr_provider d) (pr_provider s), pr_backend = over_text (pr_backend d) (pr_backend s),
      pr_model = over_text (pr_model d) (pr_model s), pr_profile_name = over_text (pr_profile_name d) (pr_profile_name s),
      pr_env = fold (\<lambda>(k, v). alist_put k v) (pr_env s) (pr_env d)\<rparr>"

definition merge_attach :: "cf_attach \<Rightarrow> cf_attach \<Rightarrow> cf_attach" where
  "merge_attach d s =
     \<lparr>ca_multiplexer = over_text (ca_multiplexer d) (ca_multiplexer s), ca_group_id = over_text (ca_group_id d) (ca_group_id s),
      ca_description = over_text (ca_description d) (ca_description s),
      ca_group_id_command = over_option (ca_group_id_command d) (ca_group_id_command s),
      ca_start = over_option (ca_start d) (ca_start s), ca_resume = over_option (ca_resume d) (ca_resume s),
      ca_resume_title = over_text (ca_resume_title d) (ca_resume_title s),
      ca_spawn = over_option (ca_spawn d) (ca_spawn s), ca_spawn_entry = over_option (ca_spawn_entry d) (ca_spawn_entry s),
      ca_spawn_window = over_option (ca_spawn_window d) (ca_spawn_window s),
      ca_pty_suspend = over_option (ca_pty_suspend d) (ca_pty_suspend s),
      ca_escape_key = over_text (ca_escape_key d) (ca_escape_key s),
      ca_escape_command = over_option (ca_escape_command d) (ca_escape_command s)\<rparr>"

text \<open>The rooms are not merged: the destination's stay.\<close>

definition merge_messaging :: "cf_messaging \<Rightarrow> cf_messaging \<Rightarrow> cf_messaging" where
  "merge_messaging d s =
     \<lparr>me_transport = over_text (me_transport d) (me_transport s), me_xmpp_host = over_text (me_xmpp_host d) (me_xmpp_host s),
      me_xmpp_port = (if me_xmpp_port s \<noteq> 0 then me_xmpp_port s else me_xmpp_port d),
      me_xmpp_domain = over_text (me_xmpp_domain d) (me_xmpp_domain s),
      me_xmpp_muc_domain = over_text (me_xmpp_muc_domain d) (me_xmpp_muc_domain s),
      me_xmpp_nick = over_text (me_xmpp_nick d) (me_xmpp_nick s),
      me_xmpp_insecure = over_option (me_xmpp_insecure d) (me_xmpp_insecure s),
      me_xmpp_user = over_text (me_xmpp_user d) (me_xmpp_user s),
      me_xmpp_password_file = over_text (me_xmpp_password_file d) (me_xmpp_password_file s),
      me_rooms = me_rooms d\<rparr>"

definition mergeInto :: "clownfile \<Rightarrow> clownfile \<Rightarrow> clownfile" where
  "mergeInto d s =
     \<lparr>cf_profile = merge_profile (cf_profile d) (cf_profile s), cf_attach = merge_attach (cf_attach d) (cf_attach s),
      cf_messaging = merge_messaging (cf_messaging d) (cf_messaging s),
      cf_providers = \<lparr>pv_hermetic_config = over_option (pv_hermetic_config (cf_providers d)) (pv_hermetic_config (cf_providers s))\<rparr>\<rparr>"

type_synonym clownfiles = "string \<Rightarrow> (gerror + clownfile) option"

definition mergeFileIfPresent :: "clownfiles \<Rightarrow> clownfile \<Rightarrow> string \<Rightarrow> string \<Rightarrow> gerror + clownfile" where
  "mergeFileIfPresent fs merged p label =
     (if p = [] then Inr merged
      else (case fs p of
          None \<Rightarrow> Inr merged
        | Some (Inl e) \<Rightarrow> Inl (ErrWrap (label @ '' '' @ p @ '': '') e [])
        | Some (Inr c) \<Rightarrow> Inr (mergeInto merged c)))"

text \<open>The loop over the ancestors, the shallowest first.\<close>

fun merge_dirs :: "clownfiles \<Rightarrow> clownfile \<Rightarrow> string list \<Rightarrow> gerror + clownfile" where
  "merge_dirs fs merged [] = Inr merged"
| "merge_dirs fs merged (d # ds) = (let p = path_join_clean d ''clownfile'' in case fs p of
      None \<Rightarrow> merge_dirs fs merged ds
    | Some (Inl e) \<Rightarrow> Inl (ErrWrap (''clownfile '' @ p @ '': '') e [])
    | Some (Inr c) \<Rightarrow> merge_dirs fs (mergeInto merged c) ds)"

text \<open>\<open>None\<close>: the ascent never ends.\<close>

definition Discover :: "clownfiles \<Rightarrow> string option \<Rightarrow> string \<Rightarrow> string \<Rightarrow> string \<Rightarrow> string \<Rightarrow> (gerror + clownfile) option" where
  "Discover fs cwd startDir homeDir basePath xdgPath =
     (case mergeFileIfPresent fs no_clownfile basePath ''default clownfile'' of
        Inl e \<Rightarrow> Some (Inl e)
      | Inr m \<Rightarrow> (case mergeFileIfPresent fs m xdgPath ''xdg clownfile'' of
          Inl e \<Rightarrow> Some (Inl e)
        | Inr m \<Rightarrow> (case Ancestors cwd startDir homeDir of
            Inl e \<Rightarrow> Some (Inl e)
          | Inr None \<Rightarrow> None
          | Inr (Some ds) \<Rightarrow> Some (merge_dirs fs m (rev ds)))))"

definition XDGPath :: "string \<Rightarrow> string \<Rightarrow> string" where
  "XDGPath xdg_config_home homeDir =
     (if xdg_config_home = [] \<and> homeDir = [] then []
      else path_join_clean (path_join_clean (if xdg_config_home = [] then path_join_clean homeDir ''.config'' else xdg_config_home) ''clown'') ''clownfile'')"

section \<open>Templates\<close>

text \<open>\<open>os.ExpandEnv\<close>, with the name after a dollar and its width as \<open>getShellName\<close> reads them.\<close>

definition special_var :: "char \<Rightarrow> bool" where
  "special_var c \<longleftrightarrow> is_digit c \<or> c \<in> set ''*#$@!?-''"

definition name_char :: "char \<Rightarrow> bool" where
  "name_char c \<longleftrightarrow> is_alnum c \<or> c = CHR ''_''"

definition shell_name :: "string \<Rightarrow> string \<times> nat" where
  "shell_name s = (case s of
      [] \<Rightarrow> ([], 0)
    | c # cs \<Rightarrow>
        if c = CHR ''{'' then
          (let name = takeWhile (\<lambda>x. x \<noteq> CHR ''}'') cs in
           if length cs > 1 \<and> special_var (cs ! 0) \<and> cs ! 1 = CHR ''}'' then ([cs ! 0], 3)
           else if name = cs then ([], 1)
           else (name, length name + 2))
        else if special_var c then ([c], 1)
        else (takeWhile name_char s, length (takeWhile name_char s)))"

function ExpandEnv :: "(string \<Rightarrow> string) \<Rightarrow> string \<Rightarrow> string" where
  "ExpandEnv env [] = []"
| "ExpandEnv env (c # cs) =
     (if c = CHR ''$'' \<and> cs \<noteq> [] then
        (case shell_name cs of (name, w) \<Rightarrow>
           (if name \<noteq> [] then env name else if w = 0 then [c] else []) @ ExpandEnv env (drop w cs))
      else c # ExpandEnv env cs)"
  by pat_completeness auto
termination
  by (relation "measure (\<lambda>(env, s). length s)") auto

text \<open>\<open>strings.ReplaceAll\<close> of a non-empty text, and the first match of \<open>placeholderRe\<close>.\<close>

function replace_all :: "string \<Rightarrow> string \<Rightarrow> string \<Rightarrow> string" where
  "replace_all old new [] = []"
| "replace_all old new (c # cs) =
     (if old \<noteq> [] \<and> prefix old (c # cs) then new @ replace_all old new (drop (length old) (c # cs))
      else c # replace_all old new cs)"
  by pat_completeness auto
termination
  by (relation "measure (\<lambda>(a, b, s). length s)") (auto simp: neq_Nil_conv)

definition placeholder_char :: "char \<Rightarrow> bool" where
  "placeholder_char c \<longleftrightarrow> is_alnum c \<or> c = CHR ''_'' \<or> c = CHR ''-''"

definition placeholder_at :: "string \<Rightarrow> string option" where
  "placeholder_at s = (case s of
      a # b # cs \<Rightarrow>
        if a = CHR ''{'' \<and> (is_upper b \<or> is_lower b) \<and> has_prefix (dropWhile placeholder_char cs) ''}''
        then Some (a # b # takeWhile placeholder_char cs @ ''}'') else None
    | _ \<Rightarrow> None)"

fun find_placeholder :: "string \<Rightarrow> string option" where
  "find_placeholder [] = None"
| "find_placeholder (c # cs) = (case placeholder_at (c # cs) of Some m \<Rightarrow> Some m | None \<Rightarrow> find_placeholder cs)"

definition given :: "string list option \<Rightarrow> string list" where
  "given v = (case v of Some xs \<Rightarrow> xs | None \<Rightarrow> [])"

fun render :: "(string \<Rightarrow> string) \<Rightarrow> (string \<Rightarrow> string) \<Rightarrow> string list \<Rightarrow> gerror + string list" where
  "render subst why [] = Inr []"
| "render subst why (el # els) = (case find_placeholder (subst el) of
      Some m \<Rightarrow> Inl (ErrMsg (''clownfile [attach]: unrecognized or unavailable placeholder '' @ m @ why el))
    | None \<Rightarrow> (case render subst why els of Inl e \<Rightarrow> Inl e | Inr out \<Rightarrow> Inr (subst el # out)))"

definition ResolveGroupIDCommand :: "cf_attach \<Rightarrow> string \<Rightarrow> string \<Rightarrow> gerror + string list option" where
  "ResolveGroupIDCommand a cwd sessionID =
     (if given (ca_group_id_command a) = [] \<or> sessionID = [] then Inr None
      else map_sum id Some (render (\<lambda>el. replace_all ''{session-id}'' sessionID (replace_all ''{cwd}'' cwd el))
        (\<lambda>el. '' in group-id-command element '' @ quoted el) (given (ca_group_id_command a))))"

datatype attach_mode = ModeStart | ModeResume | ModeSpawn

definition attach_enabled :: "cf_attach \<Rightarrow> bool" where
  "attach_enabled a \<longleftrightarrow> ca_multiplexer a \<noteq> [] \<and> ca_multiplexer a \<noteq> ''none''"

text \<open>An element that is exactly \<open>{entry}\<close> is spliced, any other has its \<open>{id}\<close> replaced.\<close>

fun splice :: "string \<Rightarrow> string list \<Rightarrow> string list \<Rightarrow> gerror + string list" where
  "splice key entry [] = Inr []"
| "splice key entry (el # els) =
     (if el = ''{entry}'' then map_sum (\<lambda>e. e) ((@) entry) (splice key entry els)
      else (let s = replace_all ''{id}'' key el in case find_placeholder s of
          Some m \<Rightarrow> Inl (ErrMsg (''clownfile [attach]: unrecognized or unavailable placeholder '' @ m @ '' in '' @ quoted el))
        | None \<Rightarrow> map_sum (\<lambda>e. e) ((#) s) (splice key entry els)))"

definition Resolve_attach :: "cf_attach \<Rightarrow> attach_mode \<Rightarrow> string \<Rightarrow> string list \<Rightarrow> gerror + string list" where
  "Resolve_attach a mode key entry =
     (if ca_multiplexer a \<notin> set [''zmx'', ''posh'', ''none'']
      then Inl (ErrMsg (''clownfile [attach]: multiplexer must be '' @ quoted ''zmx'' @ '', '' @ quoted ''posh'' @ '', or '' @ quoted ''none''
        @ '', got '' @ quoted (ca_multiplexer a)))
      else if \<not> attach_enabled a
      then Inl (ErrMsg (''clownfile [attach]: multiplexer is '' @ quoted (ca_multiplexer a) @ ''; no wrap''))
      else (let tmpl = given (case mode of ModeStart \<Rightarrow> ca_start a | ModeResume \<Rightarrow> ca_resume a | ModeSpawn \<Rightarrow> ca_spawn a) in
        if tmpl = [] then Inl (ErrMsg ''clownfile [attach]: empty template for the requested mode'') else splice key entry tmpl))"

definition Title :: "cf_attach \<Rightarrow> string \<Rightarrow> string \<Rightarrow> bool \<Rightarrow> string" where
  "Title a key grp showID =
     (let t = replace_all ''{group}'' (if grp = [] then key else grp) (ca_resume_title a) in
      if showID then replace_all ''{id}'' key t else replace_all ''{id}'' [] (replace_all ''/{id}'' [] t))"

section \<open>Messaging\<close>

definition messaging_error :: "string \<Rightarrow> gerror" where
  "messaging_error s = ErrMsg (''clownfile [messaging]: '' @ s)"

fun rooms_env :: "(string \<Rightarrow> string) \<Rightarrow> nat \<Rightarrow> messaging_room list \<Rightarrow> gerror + string list" where
  "rooms_env env i [] = Inr []"
| "rooms_env env i (r # rs) =
     (let jid = ExpandEnv env (ro_jid r); wake = (if ro_wake r = [] then ''mentions'' else ro_wake r) in
      if jid = [] then Inl (messaging_error (''rooms['' @ itoa (int i) @ ''] requires a jid''))
      else if CHR '','' \<in> set jid \<or> CHR ''='' \<in> set jid
      then Inl (messaging_error (''rooms['' @ itoa (int i) @ ''] jid '' @ quoted jid
        @ '' cannot contain ',' or '=' (the TROUPE_XMPP_ROOMS encoding delimiters)''))
      else if wake \<noteq> ''mentions'' \<and> wake \<noteq> ''all''
      then Inl (messaging_error (''rooms['' @ itoa (int i) @ ''] ('' @ jid @ '') wake must be '' @ quoted ''mentions'' @ '' or '' @ quoted ''all''
        @ '', got '' @ quoted (ro_wake r)))
      else (case rooms_env env (i + 1) rs of Inl e \<Rightarrow> Inl e | Inr parts \<Rightarrow> Inr ((jid @ ''='' @ wake) # parts)))"

definition env_if :: "bool \<Rightarrow> string \<Rightarrow> string \<Rightarrow> (string \<times> string) list" where
  "env_if b k v = (if b then [(k, v)] else [])"

definition Messaging_Env :: "(string \<Rightarrow> string) \<Rightarrow> cf_messaging \<Rightarrow> gerror + (string \<times> string) list" where
  "Messaging_Env env m =
     (if me_transport m = [] \<or> me_transport m = ''local'' then Inr []
      else if me_transport m \<noteq> ''xmpp'' \<and> me_transport m \<noteq> ''xmpp-native''
      then Inl (messaging_error (''transport must be '' @ quoted ''local'' @ '', '' @ quoted ''xmpp'' @ '', or '' @ quoted ''xmpp-native''
        @ '', got '' @ quoted (me_transport m)))
      else if me_xmpp_domain m = [] then Inl (messaging_error (''transport='' @ me_transport m @ '' requires xmpp-domain''))
      else if me_transport m = ''xmpp'' \<and> me_xmpp_muc_domain m = [] then Inl (messaging_error ''transport=xmpp requires xmpp-muc-domain'')
      else (let vars = [(''TROUPE_TRANSPORT'', me_transport m), (''TROUPE_XMPP_DOMAIN'', me_xmpp_domain m)]
          @ env_if (me_xmpp_muc_domain m \<noteq> []) ''TROUPE_XMPP_MUC_DOMAIN'' (me_xmpp_muc_domain m)
          @ env_if (me_xmpp_host m \<noteq> []) ''TROUPE_XMPP_HOST'' (ExpandEnv env (me_xmpp_host m))
          @ env_if (me_xmpp_port m \<noteq> 0) ''TROUPE_XMPP_PORT'' (itoa (me_xmpp_port m))
          @ env_if (me_xmpp_nick m \<noteq> []) ''TROUPE_XMPP_NICK'' (me_xmpp_nick m)
          @ env_if (me_xmpp_insecure m = Some True) ''TROUPE_XMPP_INSECURE'' ''1''
          @ env_if (me_xmpp_user m \<noteq> []) ''TROUPE_XMPP_USER'' (me_xmpp_user m)
          @ env_if (me_xmpp_password_file m \<noteq> []) ''TROUPE_XMPP_PASSWORD_FILE'' (ExpandEnv env (me_xmpp_password_file m)) in
        if me_rooms m = [] then Inr vars
        else (case rooms_env env 0 (me_rooms m) of
            Inl e \<Rightarrow> Inl e
          | Inr parts \<Rightarrow> Inr (vars @ [(''TROUPE_XMPP_ROOMS'', join '','' parts)]))))"

definition HermeticConfigEnabled :: "cf_providers \<Rightarrow> bool" where
  "HermeticConfigEnabled p \<longleftrightarrow> pv_hermetic_config p = None \<or> pv_hermetic_config p = Some True"

definition PtySuspendEnabled :: "cf_attach \<Rightarrow> bool" where
  "PtySuspendEnabled a \<longleftrightarrow> ca_pty_suspend a = Some True"

section \<open>Prompt fragments\<close>

text \<open>A directory's listing with whether an entry is a directory, and a file's content.\<close>

record prompt_fs =
  fs_dir :: "string \<Rightarrow> gerror + (string \<times> bool) list"
  fs_read :: "string \<Rightarrow> gerror + string"
  fs_is_file :: "string \<Rightarrow> bool"

fun append_files :: "prompt_fs \<Rightarrow> string \<Rightarrow> string list \<Rightarrow> string \<Rightarrow> string \<times> gerror option" where
  "append_files fs dir [] b = (b, None)"
| "append_files fs dir (n # ns) b = (case fs_read fs (path_join_clean dir n) of
      Inl e \<Rightarrow> (b, Some e)
    | Inr content \<Rightarrow> append_files fs dir ns (if content = [] then b else b @ content @ [CHR 0x0A, CHR 0x0A]))"

definition collectFragments :: "prompt_fs \<Rightarrow> string \<Rightarrow> string \<Rightarrow> string \<times> gerror option" where
  "collectFragments fs b dir = (case fs_dir fs dir of
      Inl e \<Rightarrow> (b, Some e)
    | Inr entries \<Rightarrow> append_files fs dir (sort_strings (map fst (filter (\<lambda>(n, d). \<not> d \<and> suffix ''.md'' n) entries))) b)"

definition os_not_exist :: "gerror \<Rightarrow> bool" where
  "os_not_exist e = (case e of ErrNotExist _ \<Rightarrow> True | _ \<Rightarrow> False)"

text \<open>A directory that is not there is skipped, any other error ends the walk.\<close>

fun collect_all :: "prompt_fs \<Rightarrow> string list \<Rightarrow> string \<Rightarrow> gerror + string" where
  "collect_all fs [] b = Inr b"
| "collect_all fs (d # ds) b = (case collectFragments fs b d of
      (b', None) \<Rightarrow> collect_all fs ds b'
    | (b', Some e) \<Rightarrow> if os_not_exist e then collect_all fs ds b' else Inl e)"

definition WalkPrompts :: "prompt_fs \<Rightarrow> string option \<Rightarrow> string \<Rightarrow> string \<Rightarrow> string list \<Rightarrow> (gerror + string \<times> string) option" where
  "WalkPrompts fs cwd startDir homeDir builtin = (case Ancestors cwd startDir homeDir of
      Inl e \<Rightarrow> Some (Inl e)
    | Inr None \<Rightarrow> None
    | Inr (Some ds) \<Rightarrow> Some (case collect_all fs (filter (\<lambda>d. d \<noteq> []) builtin
          @ map (\<lambda>d. path_join_clean (path_join_clean d ''.clown'') ''system-prompt.d'') (rev ds)) [] of
        Inl e \<Rightarrow> Inl e
      | Inr b \<Rightarrow> Inr (case find (fs_is_file fs) (map (\<lambda>d. path_join_clean (path_join_clean d ''.clown'') ''system-prompt'') ds) of
            Some p \<Rightarrow> p | None \<Rightarrow> [], b)))"

end
