(* ===== verification/Clownfile_Claims.thy ===== *)
theory Clownfile_Claims
  imports Clownfile Scope_Facts
begin

text \<open>
  The cascade's reference: each key has the value of the highest layer that sets it. The ascent is
  the chain of directories from the start up to the home directory, and the templates and titles
  hold no placeholder clown did not resolve.
\<close>

section \<open>The ascent\<close>

text \<open>The directories from \<open>start\<close> up to \<open>home\<close> when it is one of them, else to the root.\<close>

definition chain :: "string list \<Rightarrow> string list \<Rightarrow> string list" where
  "chain home start = map (\<lambda>n. of_segments (take n start)) (rev [(if prefix home start then length home else 0) ..< Suc (length start)])"

lemma of_segments_inject: "list_all plain_segment a \<Longrightarrow> list_all plain_segment b \<Longrightarrow> of_segments a = of_segments b \<longleftrightarrow> a = b"
  by (metis segments_of_segments)

lemma root_is: "of_segments [] = ''/''"
  by (simp add: of_segments_def)

lemma walk_up_chain:
  assumes "list_all plain_segment home"
  shows "list_all plain_segment segs \<Longrightarrow> walk_up (of_segments home) (of_segments segs) = Some (chain home segs)"
proof (induction segs rule: rev_induct)
  case Nil
  then show ?case by (subst walk_up.simps) (simp add: chain_def root_is)
next
  case (snoc s segs)
  have plain: "list_all plain_segment segs" "list_all plain_segment (segs @ [s])" using snoc.prems by simp_all
  show ?case
  proof (cases "home = segs @ [s]")
    case True
    then show ?thesis by (subst walk_up.simps) (simp add: chain_def)
  next
    case False
    have distinct: "of_segments (segs @ [s]) \<noteq> of_segments home" "of_segments (segs @ [s]) \<noteq> ''/''"
      using of_segments_inject [OF plain(2) assms] of_segments_inject [OF plain(2), of "[]"] False root_is by auto
    have "prefix home (segs @ [s]) \<longleftrightarrow> prefix home segs" using False by auto
    moreover have "prefix home segs \<Longrightarrow> length home \<le> length segs" by (rule prefix_length_le)
    ultimately have "chain home (segs @ [s]) = of_segments (segs @ [s]) # chain home segs" by (auto simp: chain_def)
    then show ?thesis
      using distinct snoc.IH [OF plain(1)] dir_of_snoc [OF plain(2)] by (subst walk_up.simps) simp
  qed
qed

lemma take_plain: "list_all plain_segment segs \<Longrightarrow> list_all plain_segment (take n segs)"
  by (metis append_take_drop_id list_all_append)

lemma chain_facts:
  fixes start home
  assumes plain: "list_all plain_segment start"
  shows "hd (chain home start) = of_segments start"
    and "last (chain home start) = (if prefix home start then of_segments home else of_segments [])"
    and "distinct (chain home start)"
    and "\<forall>i. Suc i < length (chain home start) \<longrightarrow> chain home start ! Suc i = path_dir (chain home start ! i)"
    and "\<forall>d \<in> set (chain home start). clean_abs d \<and> prefix (segments d) start"
proof -
  define k where "k = (if prefix home start then length home else 0)"
  have k: "k \<le> length start" using prefix_length_le by (auto simp: k_def)
  have chain: "chain home start = map (\<lambda>n. of_segments (take n start)) (rev [k ..< Suc (length start)])" by (simp add: chain_def k_def)
  show "hd (chain home start) = of_segments start" using k by (simp add: chain)
  have "last (chain home start) = of_segments (take k start)" using k by (simp add: chain last_map last_rev hd_upt del: upt_Suc)
  moreover have "prefix home start \<Longrightarrow> take (length home) start = home" by (auto simp: prefix_def)
  ultimately show "last (chain home start) = (if prefix home start then of_segments home else of_segments [])" by (simp add: k_def)
  have "inj_on (\<lambda>n. of_segments (take n start)) {k ..< Suc (length start)}"
  proof (rule inj_onI)
    fix m n assume range: "m \<in> {k ..< Suc (length start)}" "n \<in> {k ..< Suc (length start)}"
      and "of_segments (take m start) = of_segments (take n start)"
    then have "take m start = take n start" using of_segments_inject [OF take_plain [OF plain] take_plain [OF plain]] by simp
    then have "length (take m start) = length (take n start)" by simp
    then show "m = n" using range by simp
  qed
  then show "distinct (chain home start)" by (simp add: chain distinct_map del: upt_Suc)
  show "\<forall>i. Suc i < length (chain home start) \<longrightarrow> chain home start ! Suc i = path_dir (chain home start ! i)"
  proof (intro allI impI)
    fix i assume i: "Suc i < length (chain home start)"
    define n where "n = length start - Suc i"
    have n: "Suc n \<le> length start" "rev [k ..< Suc (length start)] ! i = Suc n" "rev [k ..< Suc (length start)] ! Suc i = n"
      using i k by (auto simp: chain n_def rev_nth simp del: upt_Suc)
    have "take (Suc n) start = take n start @ [start ! n]" using n(1) by (simp add: take_Suc_conv_app_nth)
    moreover have "list_all plain_segment (take n start @ [start ! n])" using take_plain [OF plain, of "Suc n"] calculation by simp
    ultimately have "path_dir (of_segments (take (Suc n) start)) = of_segments (take n start)" using dir_of_snoc by simp
    then show "chain home start ! Suc i = path_dir (chain home start ! i)" using i n by (simp add: chain del: upt_Suc)
  qed
  show "\<forall>d \<in> set (chain home start). clean_abs d \<and> prefix (segments d) start"
    using take_plain [OF plain] by (auto simp: chain clean_abs_of_segments take_is_prefix simp del: upt_Suc)
qed

lemma Ancestors_chain:
  assumes "path_is_abs startDir" and "path_is_abs homeDir"
  shows "Ancestors cwd startDir homeDir = Inr (Some (chain (segments (path_clean homeDir)) (segments (path_clean startDir))))"
proof -
  have clean: "clean_abs (path_clean startDir)" "clean_abs (path_clean homeDir)"
    using assms path_clean_abs by (auto simp: path_is_abs_def)
  have "walk_up (path_clean homeDir) (path_clean startDir) = Some (chain (segments (path_clean homeDir)) (segments (path_clean startDir)))"
    using walk_up_chain [OF clean_abs_segments(1) [OF clean(2)] clean_abs_segments(1) [OF clean(1)]]
      clean_abs_segments(2) [OF clean(1)] clean_abs_segments(2) [OF clean(2)] by simp
  then show ?thesis using assms by (simp add: Ancestors_def abs_path_def)
qed

text \<open>C39. The ascent always ends, with every directory on the way. From an absolute start directory it
  answers the start directory first, then each parent in turn, and stops at the home directory when
  that is an ancestor of the start or the start itself, and at the root otherwise; each of them is a
  clean absolute path that contains the start, and none comes twice.\<close>

theorem ascent_ends:
  assumes "path_is_abs startDir" and "path_is_abs homeDir"
  shows "\<exists>ds. Ancestors cwd startDir homeDir = Inr (Some ds) \<and> hd ds = path_clean startDir
    \<and> last ds = (if prefix (segments (path_clean homeDir)) (segments (path_clean startDir)) then path_clean homeDir else ''/'')
    \<and> distinct ds \<and> (\<forall>i. Suc i < length ds \<longrightarrow> ds ! Suc i = path_dir (ds ! i))
    \<and> (\<forall>d \<in> set ds. clean_abs d \<and> prefix (segments d) (segments (path_clean startDir)))"
proof -
  let ?start = "segments (path_clean startDir)" and ?home = "segments (path_clean homeDir)"
  have clean: "clean_abs (path_clean startDir)" "clean_abs (path_clean homeDir)"
    using assms path_clean_abs by (auto simp: path_is_abs_def)
  have start: "list_all plain_segment ?start" "of_segments ?start = path_clean startDir" "of_segments ?home = path_clean homeDir"
    using clean_abs_segments [OF clean(1)] clean_abs_segments(2) [OF clean(2)] by simp_all
  note facts = chain_facts [OF start(1), of ?home]
  show ?thesis
    using facts Ancestors_chain [OF assms] start(2,3) by (intro exI [of _ "chain ?home ?start"]) (simp add: root_is)
qed

section \<open>The cascade\<close>

text \<open>The value of the last layer that sets a key.\<close>

definition setting :: "('b \<Rightarrow> bool) \<Rightarrow> (clownfile \<Rightarrow> 'b) \<Rightarrow> 'b \<Rightarrow> clownfile list \<Rightarrow> 'b" where
  "setting is_set f d layers = (case filter (\<lambda>c. is_set (f c)) (rev layers) of [] \<Rightarrow> d | c # _ \<Rightarrow> f c)"

definition text_setting :: "(clownfile \<Rightarrow> string) \<Rightarrow> clownfile list \<Rightarrow> string" where
  "text_setting f = setting (\<lambda>s. s \<noteq> []) f []"

definition option_setting :: "(clownfile \<Rightarrow> 'a option) \<Rightarrow> clownfile list \<Rightarrow> 'a option" where
  "option_setting f = setting (\<lambda>s. s \<noteq> None) f None"

definition cascade :: "clownfile list \<Rightarrow> clownfile" where
  "cascade cs =
     \<lparr>cf_profile = \<lparr>pr_provider = text_setting (pr_provider \<circ> cf_profile) cs, pr_backend = text_setting (pr_backend \<circ> cf_profile) cs,
        pr_model = text_setting (pr_model \<circ> cf_profile) cs, pr_profile_name = text_setting (pr_profile_name \<circ> cf_profile) cs,
        pr_env = fold (\<lambda>(k, v). alist_put k v) (concat (map (pr_env \<circ> cf_profile) cs)) []\<rparr>,
      cf_attach = \<lparr>ca_multiplexer = text_setting (ca_multiplexer \<circ> cf_attach) cs, ca_group_id = text_setting (ca_group_id \<circ> cf_attach) cs,
        ca_description = text_setting (ca_description \<circ> cf_attach) cs,
        ca_group_id_command = option_setting (ca_group_id_command \<circ> cf_attach) cs,
        ca_start = option_setting (ca_start \<circ> cf_attach) cs, ca_resume = option_setting (ca_resume \<circ> cf_attach) cs,
        ca_resume_title = text_setting (ca_resume_title \<circ> cf_attach) cs, ca_spawn = option_setting (ca_spawn \<circ> cf_attach) cs,
        ca_spawn_entry = option_setting (ca_spawn_entry \<circ> cf_attach) cs, ca_spawn_window = option_setting (ca_spawn_window \<circ> cf_attach) cs,
        ca_pty_suspend = option_setting (ca_pty_suspend \<circ> cf_attach) cs, ca_escape_key = text_setting (ca_escape_key \<circ> cf_attach) cs,
        ca_escape_command = option_setting (ca_escape_command \<circ> cf_attach) cs\<rparr>,
      cf_messaging = \<lparr>me_transport = text_setting (me_transport \<circ> cf_messaging) cs, me_xmpp_host = text_setting (me_xmpp_host \<circ> cf_messaging) cs,
        me_xmpp_port = setting (\<lambda>n. n \<noteq> 0) (me_xmpp_port \<circ> cf_messaging) 0 cs,
        me_xmpp_domain = text_setting (me_xmpp_domain \<circ> cf_messaging) cs,
        me_xmpp_muc_domain = text_setting (me_xmpp_muc_domain \<circ> cf_messaging) cs, me_xmpp_nick = text_setting (me_xmpp_nick \<circ> cf_messaging) cs,
        me_xmpp_insecure = option_setting (me_xmpp_insecure \<circ> cf_messaging) cs, me_xmpp_user = text_setting (me_xmpp_user \<circ> cf_messaging) cs,
        me_xmpp_password_file = text_setting (me_xmpp_password_file \<circ> cf_messaging) cs,
        me_rooms = setting (\<lambda>rs. rs \<noteq> []) (me_rooms \<circ> cf_messaging) [] cs\<rparr>,
      cf_providers = \<lparr>pv_hermetic_config = option_setting (pv_hermetic_config \<circ> cf_providers) cs\<rparr>\<rparr>"

lemma setting_snoc: "setting is_set f d (cs @ [c]) = (if is_set (f c) then f c else setting is_set f d cs)"
  by (simp add: setting_def)

text \<open>A clownfile without its \<open>[[messaging.rooms]]\<close>.\<close>

definition without_rooms :: "clownfile \<Rightarrow> clownfile" where
  "without_rooms c = c\<lparr>cf_messaging := (cf_messaging c)\<lparr>me_rooms := []\<rparr>\<rparr>"

lemma cascade_empty: "without_rooms (cascade []) = no_clownfile"
  by (simp add: without_rooms_def cascade_def no_clownfile_def text_setting_def option_setting_def setting_def)

lemma text_setting_snoc: "text_setting f (cs @ [c]) = over_text (text_setting f cs) (f c)"
  by (simp add: text_setting_def setting_snoc over_text_def)

lemma option_setting_snoc: "option_setting f (cs @ [c]) = over_option (option_setting f cs) (f c)"
  by (simp add: option_setting_def setting_snoc over_option_def)

lemma cascade_merge: "mergeInto (without_rooms (cascade cs)) c = without_rooms (cascade (cs @ [c]))"
  by (simp add: without_rooms_def cascade_def mergeInto_def merge_profile_def merge_attach_def merge_messaging_def
      text_setting_snoc option_setting_snoc setting_snoc del: not_Cons_self)

text \<open>The layers that are present, and the paths the cascade looks at, the lowest first.\<close>

definition present_layers :: "clownfiles \<Rightarrow> string list \<Rightarrow> clownfile list" where
  "present_layers fs paths = concat (map (\<lambda>p. case fs p of Some (Inr c) \<Rightarrow> [c] | _ \<Rightarrow> []) paths)"

definition malformed :: "clownfiles \<Rightarrow> string \<Rightarrow> bool" where
  "malformed fs p \<longleftrightarrow> (\<exists>e. fs p = Some (Inl e))"

definition cascade_paths :: "string \<Rightarrow> string \<Rightarrow> string list \<Rightarrow> string list" where
  "cascade_paths base xdg ds = filter (\<lambda>p. p \<noteq> []) [base, xdg] @ map (\<lambda>d. path_join_clean d ''clownfile'') (rev ds)"

text \<open>A partial result: the layers so far merged, or an error of one of them.\<close>

definition merges :: "clownfiles \<Rightarrow> string list \<Rightarrow> gerror + clownfile \<Rightarrow> bool" where
  "merges fs paths r \<longleftrightarrow> (case r of Inl e \<Rightarrow> \<exists>p \<in> set paths. malformed fs p
     | Inr c \<Rightarrow> (\<forall>p \<in> set paths. \<not> malformed fs p) \<and> c = without_rooms (cascade (present_layers fs paths)))"

lemma merge_one:
  assumes "merges fs paths (Inr m)"
  shows "merges fs (paths @ filter (\<lambda>p. p \<noteq> []) [p]) (mergeFileIfPresent fs m p label)"
  using assms by (auto simp: merges_def mergeFileIfPresent_def malformed_def present_layers_def cascade_merge split: option.split sum.split)

lemma merge_dirs_merges:
  "merges fs paths (Inr m) \<Longrightarrow> merges fs (paths @ map (\<lambda>d. path_join_clean d ''clownfile'') ds) (merge_dirs fs m ds)"
proof (induction ds arbitrary: paths m)
  case (Cons d ds)
  let ?p = "path_join_clean d ''clownfile''"
  consider (absent) "fs ?p = None" | (bad) e where "fs ?p = Some (Inl e)" | (here) c where "fs ?p = Some (Inr c)"
    by (cases "fs ?p"; cases "the (fs ?p)") auto
  then show ?case
  proof cases
    case absent
    then have "merges fs (paths @ [?p]) (Inr m)" using Cons.prems by (simp add: merges_def malformed_def present_layers_def)
    from Cons.IH [OF this] absent show ?thesis by (simp add: Let_def)
  next
    case bad
    then show ?thesis by (auto simp: merges_def malformed_def Let_def)
  next
    case here
    then have "merges fs (paths @ [?p]) (Inr (mergeInto m c))"
      using Cons.prems by (auto simp: merges_def malformed_def present_layers_def cascade_merge)
    from Cons.IH [OF this] here show ?thesis by (simp add: Let_def)
  qed
qed simp

lemma discover_is_cascade_fact:
  assumes "path_is_abs startDir" and "path_is_abs homeDir"
  shows "\<exists>ds r. Ancestors cwd startDir homeDir = Inr (Some ds) \<and> Discover fs cwd startDir homeDir base xdg = Some r
    \<and> (let paths = cascade_paths base xdg ds in case r of
        Inl e \<Rightarrow> \<exists>p \<in> set paths. malformed fs p
      | Inr c \<Rightarrow> (\<forall>p \<in> set paths. \<not> malformed fs p) \<and> c = without_rooms (cascade (present_layers fs paths)))"
proof -
  obtain ds where ds: "Ancestors cwd startDir homeDir = Inr (Some ds)" using Ancestors_chain [OF assms] by blast
  have empty: "merges fs [] (Inr no_clownfile)" by (simp add: merges_def present_layers_def cascade_empty)
  have failed: "merges fs paths (Inl e) \<Longrightarrow> set paths \<subseteq> set more \<Longrightarrow> merges fs more (Inl e)" for paths more e by (auto simp: merges_def)
  have "\<exists>r. Discover fs cwd startDir homeDir base xdg = Some r \<and> merges fs (cascade_paths base xdg ds) r"
  proof (cases "mergeFileIfPresent fs no_clownfile base ''default clownfile''")
    case (Inl e)
    then show ?thesis using failed [of _ e "cascade_paths base xdg ds"] merge_one [OF empty, of base "''default clownfile''"]
      by (fastforce simp: Discover_def cascade_paths_def)
  next
    case one: (Inr m)
    then have m: "merges fs (filter (\<lambda>p. p \<noteq> []) [base]) (Inr m)" using merge_one [OF empty, of base "''default clownfile''"] by simp
    show ?thesis
    proof (cases "mergeFileIfPresent fs m xdg ''xdg clownfile''")
      case (Inl e)
      then show ?thesis using failed [of _ e "cascade_paths base xdg ds"] merge_one [OF m, of xdg "''xdg clownfile''"] one
        by (fastforce simp: Discover_def cascade_paths_def)
    next
      case (Inr m')
      then have "merges fs (filter (\<lambda>p. p \<noteq> []) [base, xdg]) (Inr m')"
        using merge_one [OF m, of xdg "''xdg clownfile''"] by (auto split: if_splits)
      from merge_dirs_merges [OF this, of "rev ds"] one Inr ds show ?thesis by (simp add: Discover_def cascade_paths_def rev_map)
    qed
  qed
  then show ?thesis using ds by (auto simp: merges_def Let_def)
qed

text \<open>The rooms a clownfile names never reach the messaging environment.\<close>

lemma discover_drops_rooms:
  assumes "path_is_abs startDir" and "path_is_abs homeDir" and "Discover fs cwd startDir homeDir base xdg = Some (Inr c)"
  shows "me_rooms (cf_messaging c) = [] \<and> (\<forall>vars. Messaging_Env env (cf_messaging c) = Inr vars \<longrightarrow> ''TROUPE_XMPP_ROOMS'' \<notin> fst ` set vars)"
proof -
  have rooms: "me_rooms (cf_messaging c) = []"
    using discover_is_cascade_fact [OF assms(1,2), where fs = fs and cwd = cwd and base = base and xdg = xdg] assms(3) by (auto simp: Let_def without_rooms_def)
  then show ?thesis by (auto simp: Messaging_Env_def env_if_def Let_def split: if_splits)
qed

text \<open>C36. Every key of a clownfile but one cascades: it has the value of the deepest file that sets it. From
  absolute directories \<open>Discover\<close> always returns. It fails just when one of the default file, the user's
  file and the files of the ancestors is malformed; otherwise every key of the tables, the rooms of the
  messaging table excepted, has the value the last of these files that sets it gives, in that order, the
  environment of the profile is the union with the later file winning, and a key no file sets has its
  zero value. The one exception is \<open>[[messaging.rooms]]\<close>, which the result never has, whatever the
  files set (\<open>mergeInto\<close> leaves it out).\<close>

theorem discover_is_cascade:
  assumes "path_is_abs startDir" and "path_is_abs homeDir"
  shows "\<exists>ds r. Ancestors cwd startDir homeDir = Inr (Some ds) \<and> Discover fs cwd startDir homeDir base xdg = Some r
    \<and> (let paths = cascade_paths base xdg ds in case r of
        Inl e \<Rightarrow> \<exists>p \<in> set paths. malformed fs p
      | Inr c \<Rightarrow> (\<forall>p \<in> set paths. \<not> malformed fs p) \<and> c = without_rooms (cascade (present_layers fs paths)))"
  by (rule discover_is_cascade_fact [OF assms])

section \<open>Templates\<close>

text \<open>No placeholder survives an attach template. When \<open>Resolve\<close> answers a command line, it has one
  element or the whole entry for each element of the template, in order, every element that is not
  the spliced entry is free of placeholders, and the multiplexer is one clown wraps with.\<close>

theorem attach_placeholders_resolved:
  assumes "Resolve_attach a mode key entry = Inr argv"
  shows "ca_multiplexer a \<in> {''zmx'', ''posh''} \<and> (\<exists>tmpl parts. tmpl \<noteq> []
    \<and> Some tmpl = (case mode of ModeStart \<Rightarrow> ca_start a | ModeResume \<Rightarrow> ca_resume a | ModeSpawn \<Rightarrow> ca_spawn a)
    \<and> argv = concat parts
    \<and> list_all2 (\<lambda>el part. if el = ''{entry}'' then part = entry
         else part = [replace_all ''{id}'' key el] \<and> find_placeholder (hd part) = None) tmpl parts)"
proof -
  have spliced: "splice key entry tmpl = Inr out \<Longrightarrow> \<exists>parts. out = concat parts \<and> list_all2 (\<lambda>el part. if el = ''{entry}'' then part = entry
         else part = [replace_all ''{id}'' key el] \<and> find_placeholder (hd part) = None) tmpl parts" for tmpl out
  proof (induction tmpl arbitrary: out)
    case Nil
    then show ?case by (intro exI [of _ "[]"]) simp
  next
    case (Cons el els)
    obtain rest where rest: "splice key entry els = Inr rest"
      using Cons.prems by (cases "splice key entry els") (auto simp: Let_def split: if_splits option.splits)
    from Cons.IH [OF this] obtain parts where parts: "rest = concat parts" "list_all2 (\<lambda>el part. if el = ''{entry}'' then part = entry
         else part = [replace_all ''{id}'' key el] \<and> find_placeholder (hd part) = None) els parts" by blast
    show ?case
    proof (cases "el = ''{entry}''")
      case True
      then show ?thesis using Cons.prems rest parts by (intro exI [of _ "entry # parts"]) simp
    next
      case False
      then have "find_placeholder (replace_all ''{id}'' key el) = None" "out = replace_all ''{id}'' key el # rest"
        using Cons.prems rest by (auto simp: Let_def split: option.splits)
      then show ?thesis using False parts by (intro exI [of _ "[replace_all ''{id}'' key el] # parts"]) simp
    qed
  qed
  define t where "t = (case mode of ModeStart \<Rightarrow> ca_start a | ModeResume \<Rightarrow> ca_resume a | ModeSpawn \<Rightarrow> ca_spawn a)"
  have checks: "ca_multiplexer a \<in> set [''zmx'', ''posh'', ''none'']" "attach_enabled a" "given t \<noteq> []" "splice key entry (given t) = Inr argv"
    using assms unfolding Resolve_attach_def t_def [symmetric] by (simp_all add: Let_def split: if_splits)
  have "ca_multiplexer a \<in> {''zmx'', ''posh''}" using checks(1,2) by (auto simp: attach_enabled_def)
  moreover have "Some (given t) = t" using checks(3) by (cases t) (simp_all add: given_def)
  ultimately show ?thesis using spliced [OF checks(4)] checks(3) unfolding t_def [symmetric] by blast
qed

section \<open>Witnesses\<close>

definition demo_layer :: "string \<Rightarrow> clownfile" where
  "demo_layer m = no_clownfile\<lparr>cf_profile := (cf_profile no_clownfile)\<lparr>pr_model := m\<rparr>\<rparr>"

definition demo_clownfiles :: clownfiles where
  "demo_clownfiles p = (if p = ''/h/clownfile'' then Some (Inr (demo_layer ''shallow''))
     else if p = ''/h/w/clownfile'' then Some (Inr (demo_layer ''deep'')) else None)"

lemma demo_ascent: "Ancestors None ''/h/w/x'' ''/h'' = Inr (Some [''/h/w/x'', ''/h/w'', ''/h''])"
  by code_simp

theorem ascent_ends_witness:
  "\<exists>ds. Ancestors None ''/h/w/x'' ''/h'' = Inr (Some ds) \<and> ds = [''/h/w/x'', ''/h/w'', ''/h''] \<and> distinct ds"
proof -
  have abs: "path_is_abs ''/h/w/x''" "path_is_abs ''/h''" by (simp_all add: path_is_abs_def)
  from ascent_ends [OF abs, of None] demo_ascent show ?thesis by auto
qed

theorem discover_is_cascade_witness:
  "\<exists>c. Discover demo_clownfiles None ''/h/w/x'' ''/h'' [] [] = Some (Inr c) \<and> pr_model (cf_profile c) = ''deep''"
proof -
  have abs: "path_is_abs ''/h/w/x''" "path_is_abs ''/h''" by (simp_all add: path_is_abs_def)
  have paths: "cascade_paths [] [] [''/h/w/x'', ''/h/w'', ''/h''] = [''/h/clownfile'', ''/h/w/clownfile'', ''/h/w/x/clownfile'']"
    by code_simp
  have sound: "\<not> malformed demo_clownfiles p" for p by (simp add: malformed_def demo_clownfiles_def)
  obtain ds r where r: "Ancestors None ''/h/w/x'' ''/h'' = Inr (Some ds)" "Discover demo_clownfiles None ''/h/w/x'' ''/h'' [] [] = Some r"
      "let paths = cascade_paths [] [] ds in case r of Inl e \<Rightarrow> \<exists>p \<in> set paths. malformed demo_clownfiles p
       | Inr c \<Rightarrow> (\<forall>p \<in> set paths. \<not> malformed demo_clownfiles p) \<and> c = without_rooms (cascade (present_layers demo_clownfiles paths))"
    using discover_is_cascade [OF abs, where cwd = None and fs = demo_clownfiles and base = "[]" and xdg = "[]"] by blast
  have ds: "ds = [''/h/w/x'', ''/h/w'', ''/h'']" using r(1) demo_ascent by simp
  obtain c where c: "r = Inr c" "c = without_rooms (cascade (present_layers demo_clownfiles [''/h/clownfile'', ''/h/w/clownfile'', ''/h/w/x/clownfile'']))"
    using r(3) sound unfolding ds Let_def paths by (cases r) simp_all
  have "pr_model (cf_profile c) = ''deep''"
    unfolding c(2) by (simp add: present_layers_def demo_clownfiles_def demo_layer_def without_rooms_def cascade_def text_setting_def setting_def no_clownfile_def)
  with r(2) c(1) show ?thesis by blast
qed

definition demo_attach :: cf_attach where
  "demo_attach = (cf_attach no_clownfile)\<lparr>ca_multiplexer := ''posh'', ca_start := Some [''posh'', ''new-{id}'', ''{entry}'']\<rparr>"

theorem attach_placeholders_resolved_witness:
  "Resolve_attach demo_attach ModeStart ''k'' [''clown'', ''run''] = Inr [''posh'', ''new-k'', ''clown'', ''run'']
     \<and> ca_multiplexer demo_attach \<in> {''zmx'', ''posh''}"
proof -
  have run: "Resolve_attach demo_attach ModeStart ''k'' [''clown'', ''run''] = Inr [''posh'', ''new-k'', ''clown'', ''run'']" by code_simp
  show ?thesis using attach_placeholders_resolved [OF run] run by blast
qed

end
