(* ===== verification/Profile.thy ===== *)
theory Profile
  imports Go_Base
begin

text \<open>
  Named profiles (\<open>internal/0/profile\<close>): a profile's fields, its validation, the merge of the
  user's registry over the builtins, the registry's writer stamp and its protocols. A Go map is an
  association list with distinct keys, a slice that may be nil an option. The TOML reader is a
  parameter: a registry file is given decoded, with the keys the decoder did not know.
\<close>

section \<open>Profiles\<close>

record profile =
  pf_name :: string
  pf_display :: string
  pf_provider :: string
  pf_backend :: string
  pf_model :: string
  pf_url :: string
  pf_token :: string
  pf_env :: "(string \<times> string) list"
  pf_context_servers :: "string list option"
  pf_context_excluded :: "(string \<times> string list) list"
  pf_base :: string
  pf_moxy_placement :: string
  pf_moxy_allow_tools :: "string list option"
  pf_moxy_tools :: "string list option"

record moxy =
  mx_placement :: string
  mx_allow_tools :: "string list option"
  mx_tools :: "string list option"

definition MoxyTable :: "profile \<Rightarrow> moxy option" where
  "MoxyTable p = (if pf_moxy_placement p = [] \<and> pf_moxy_allow_tools p = None \<and> pf_moxy_tools p = None then None
     else Some \<lparr>mx_placement = pf_moxy_placement p, mx_allow_tools = pf_moxy_allow_tools p, mx_tools = pf_moxy_tools p\<rparr>)"

definition SetMoxy :: "moxy option \<Rightarrow> profile \<Rightarrow> profile" where
  "SetMoxy m p = (case m of
      None \<Rightarrow> p\<lparr>pf_moxy_placement := [], pf_moxy_allow_tools := None, pf_moxy_tools := None\<rparr>
    | Some m \<Rightarrow> p\<lparr>pf_moxy_placement := mx_placement m, pf_moxy_allow_tools := mx_allow_tools m, pf_moxy_tools := mx_tools m\<rparr>)"

definition MoxyPlacements :: "string list" where
  "MoxyPlacements = [''in-unit'', ''frontend'', ''twin'']"

text \<open>The elements of a slice that may be nil.\<close>

definition elems :: "string list option \<Rightarrow> string list" where
  "elems xs = (case xs of None \<Rightarrow> [] | Some l \<Rightarrow> l)"

section \<open>Protocols\<close>

definition ProtocolVersion :: int where "ProtocolVersion = 3"
definition OldestReadableProtocol :: int where "OldestReadableProtocol = 1"

definition ReadableProtocol :: "int \<Rightarrow> bool" where
  "ReadableProtocol p \<longleftrightarrow> OldestReadableProtocol \<le> p \<and> p \<le> ProtocolVersion"

definition protocolOf :: "profile \<Rightarrow> int" where
  "protocolOf p = (if MoxyTable p \<noteq> None then 3 else if pf_base p \<noteq> [] then 2 else 1)"

definition protocolFor :: "profile list \<Rightarrow> int" where
  "protocolFor ps = fold (\<lambda>p n. max n (protocolOf p)) ps 1"

section \<open>Bases\<close>

definition base_error :: "string \<Rightarrow> string \<Rightarrow> gerror" where
  "base_error base why = ErrMsg (''base '' @ quoted base @ '': '' @ why)"

definition ParseBase :: "string \<Rightarrow> gerror + string \<times> string" where
  "ParseBase base = (case cut (CHR ''@'') base of (name, rest, pinned) \<Rightarrow>
     if name = [] \<or> trim_space name \<noteq> name then Inl (base_error base ''no builtin name'')
     else if \<not> pinned then Inr (name, [])
     else (let pin = trim_prefix rest ''sha256:'' in
       if \<not> has_prefix rest ''sha256:'' \<or> length pin \<noteq> 64 \<or> \<not> (\<forall>c \<in> set pin. c \<in> set ''0123456789abcdef'')
       then Inl (base_error base ''a pin is sha256: followed by 64 lowercase hex digits'')
       else Inr (name, pin)))"

section \<open>Validation\<close>

definition validCombos :: "(string \<times> string list) list" where
  "validCombos = [(''claude'', [''anthropic'', ''gateway'', ''local'']), (''opencode'', [''anthropic'', ''gateway'', ''local'']),
     (''crush'', [''anthropic'', ''gateway'', ''local'']), (''openrouter'', [''gateway''])]"

definition Providers :: "string list" where
  "Providers = sort_strings (map fst validCombos)"

definition Backends :: "string \<Rightarrow> string list option" where
  "Backends provider = map_option sort_strings (map_of validCombos provider)"

text \<open>\<open>strings.Split\<close> at each double underscore.\<close>

fun split_uu :: "string \<Rightarrow> string list" where
  "split_uu (a # b # s) = (if a = CHR ''_'' \<and> b = CHR ''_'' then [] # split_uu s
     else case split_uu (b # s) of p # ps \<Rightarrow> (a # p) # ps | [] \<Rightarrow> [[a]])"
| "split_uu s = [s]"

definition checkToolName :: "string \<Rightarrow> gerror option" where
  "checkToolName name = (let parts = split_uu (trim_prefix name ''mcp__'') in
     if \<not> has_prefix name ''mcp__'' \<or> length parts \<noteq> 2
     then Some (ErrMsg (''tool name '' @ quoted name @ '' is not mcp__<server>__<tool>''))
     else if \<exists>part \<in> set parts. part = [] \<or> (\<exists>c \<in> set part. c = CHR '' '' \<or> c = CHR 0x09 \<or> c = CHR 0x0A)
     then Some (ErrMsg (''tool name '' @ quoted name @ '' has an empty or blank part''))
     else None)"

definition tool_error :: "string \<Rightarrow> gerror option \<Rightarrow> gerror option" where
  "tool_error pre e = map_option (\<lambda>e. ErrWrap pre e []) e"

definition validate_moxy :: "moxy \<Rightarrow> gerror option" where
  "validate_moxy m = first_error
     ((if mx_placement m \<notin> set MoxyPlacements
       then Some (ErrMsg (''moxy_placement '' @ quoted (mx_placement m) @ '' is not one of '' @ join '', '' MoxyPlacements)) else None)
      # map (\<lambda>t. tool_error ''allow_tools: '' (checkToolName t)) (elems (mx_allow_tools m))
      @ map (\<lambda>t. first_error [tool_error ''tools: '' (checkToolName t),
            if t \<notin> set (elems (mx_allow_tools m))
            then Some (ErrMsg (''tools entry '' @ quoted t @ '' is not in allow_tools (the effective set may only narrow the ceiling)'')) else None])
          (elems (mx_tools m)))"

definition profile_error :: "profile \<Rightarrow> string \<Rightarrow> gerror option" where
  "profile_error p why = Some (ErrMsg (''profile '' @ quoted (pf_name p) @ '': '' @ why))"

definition check_gateway :: "profile \<Rightarrow> gerror option" where
  "check_gateway p =
     (if pf_backend p \<noteq> ''gateway'' then None
      else if pf_provider p = ''claude'' then
        (if pf_url p = [] \<and> pf_model p = [] then profile_error p ''backend gateway requires url or model (model resolves via juggler)''
         else if pf_url p \<noteq> [] \<and> pf_token p = [] then profile_error p ''backend gateway requires token when url is set''
         else None)
      else if pf_provider p = ''openrouter'' then
        (if pf_token p = [] then profile_error p ''backend gateway requires token'' else None)
      else if pf_url p = [] then profile_error p ''backend gateway requires url''
      else if pf_token p = [] then profile_error p ''backend gateway requires token''
      else None)"

definition Validate_profile :: "profile \<Rightarrow> gerror option" where
  "Validate_profile p = (case map_of validCombos (pf_provider p) of
      None \<Rightarrow> profile_error p (''unknown provider '' @ quoted (pf_provider p) @ '' (valid: '' @ join '', '' Providers @ '')'')
    | Some backends \<Rightarrow>
        if pf_backend p \<notin> set backends
        then profile_error p (''provider '' @ quoted (pf_provider p) @ '' does not support backend '' @ quoted (pf_backend p))
        else first_error [check_gateway p,
          if pf_context_servers p = Some []
          then profile_error p (''context_servers must be nil or non-empty, not an empty list (an empty saved selection can never be ''
            @ ''told apart from no saved selection)'') else None,
          if pf_base p = [] then None
          else (case ParseBase (pf_base p) of Inl e \<Rightarrow> Some (ErrWrap (''profile '' @ quoted (pf_name p) @ '': '') e []) | Inr _ \<Rightarrow> None),
          (case MoxyTable p of None \<Rightarrow> None
           | Some m \<Rightarrow> map_option (\<lambda>e. ErrWrap (''profile '' @ quoted (pf_name p) @ '': moxy: '') e []) (validate_moxy m))])"

section \<open>The registry\<close>

record registry_stamp =
  st_clown_version :: string
  st_protocol :: int

record registry =
  rg_profiles :: "profile list"
  rg_stamp :: registry_stamp
  rg_undecoded :: "string list"

definition no_stamp :: registry_stamp where
  "no_stamp = \<lparr>st_clown_version = [], st_protocol = 0\<rparr>"

definition stampFromMap :: "(string \<times> string) list \<Rightarrow> registry_stamp" where
  "stampFromMap m = (if m = [] then no_stamp
     else \<lparr>st_clown_version = (case map_of m ''clown_version'' of Some v \<Rightarrow> v | None \<Rightarrow> []),
       st_protocol = (case map_of m ''protocol'' of None \<Rightarrow> 0
         | Some raw \<Rightarrow> (case Atoi raw of Some n \<Rightarrow> n | None \<Rightarrow> -1))\<rparr>)"

definition toMap :: "registry_stamp \<Rightarrow> (string \<times> string) list" where
  "toMap s = [(''clown_version'', st_clown_version s), (''protocol'', itoa (st_protocol s))]"

definition MisstampedBase :: "registry \<Rightarrow> string list" where
  "MisstampedBase r = (if 2 \<le> st_protocol (rg_stamp r) then []
     else map pf_name (filter (\<lambda>p. pf_base p \<noteq> []) (rg_profiles r)))"

definition MisstampedMoxy :: "registry \<Rightarrow> string list" where
  "MisstampedMoxy r = (if 3 \<le> st_protocol (rg_stamp r) then []
     else map pf_name (filter (\<lambda>p. MoxyTable p \<noteq> None) (rg_profiles r)))"

text \<open>The document \<open>profiles.toml\<close> decodes to; \<open>Save\<close> replaces its profiles and its stamp.\<close>

record registry_file =
  rf_registry :: "(string \<times> string) list"
  rf_profile :: "profile list"

definition read_registry :: "registry_file \<Rightarrow> string list \<Rightarrow> registry" where
  "read_registry f unknown = \<lparr>rg_profiles = rf_profile f, rg_stamp = stampFromMap (rf_registry f), rg_undecoded = unknown\<rparr>"

definition saved_file :: "profile list \<Rightarrow> string \<Rightarrow> registry_file" where
  "saved_file profiles version = \<lparr>rf_registry = toMap \<lparr>st_clown_version = version, st_protocol = protocolFor profiles\<rparr>, rf_profile = profiles\<rparr>"

text \<open>\<open>parseBuiltins\<close>: a builtin with a base is refused.\<close>

definition parseBuiltins :: "gerror + profile list \<Rightarrow> gerror + profile list" where
  "parseBuiltins decoded = (case decoded of
      Inl e \<Rightarrow> Inl (ErrWrap ''builtin profiles: '' e [])
    | Inr ps \<Rightarrow> (case find (\<lambda>p. pf_base p \<noteq> []) ps of
        Some p \<Rightarrow> Inl (ErrMsg (''builtin profile '' @ quoted (pf_name p) @ '' has base '' @ quoted (pf_base p) @ ''; builtins are roots''))
      | None \<Rightarrow> Inr ps))"

text \<open>\<open>index\<close> has the position of the last builtin of a name; the user's profile replaces that one.\<close>

definition index_names :: "profile list \<Rightarrow> string \<rightharpoonup> nat" where
  "index_names ps = map_of (rev (zip (map pf_name ps) [0 ..< length ps]))"

definition Merge :: "profile list \<Rightarrow> profile list \<Rightarrow> profile list" where
  "Merge builtin additional = fold (\<lambda>p result. case index_names builtin (pf_name p) of
       Some i \<Rightarrow> result[i := p] | None \<Rightarrow> result @ [p]) additional builtin"

fun Upsert :: "profile list \<Rightarrow> profile \<Rightarrow> profile list" where
  "Upsert [] p = [p]"
| "Upsert (q # qs) p = (if pf_name q = pf_name p then p # qs else q # Upsert qs p)"

definition Remove :: "profile list \<Rightarrow> string \<Rightarrow> profile list \<times> bool" where
  "Remove ps name = (filter (\<lambda>p. pf_name p \<noteq> name) ps, \<exists>p \<in> set ps. pf_name p = name)"

definition findProfile :: "profile list \<Rightarrow> string \<Rightarrow> profile option" where
  "findProfile ps name = find (\<lambda>p. pf_name p = name) ps"

text \<open>The launcher's own check of the registry (\<open>registrySkewRefusal\<close>), laxer than the library's: it
  reads an unstamped registry.\<close>

definition stamp_words :: "int \<Rightarrow> string" where
  "stamp_words n = (if 0 < n then ''a protocol '' @ itoa n @ '' stamp'' else ''no protocol stamp'')"

definition skew_held :: "registry \<Rightarrow> (string \<times> string) list" where
  "skew_held r = (let n = st_protocol (rg_stamp r) in
     (if n < 0 then [(''an unreadable protocol stamp in its [registry] table'', ''fix or remove the [registry] protocol value'')]
      else if ProtocolVersion < n then [(''profile protocol '' @ itoa n @ '', written by clown '' @ st_clown_version (rg_stamp r), ''use that clown or a newer one'')]
      else [])
     @ (if rg_undecoded r \<noteq> [] then [(''keys this clown does not know: '' @ join '', '' (rg_undecoded r),
          ''if they are typos or stale, remove them by hand; if a newer clown wrote them, use it'')] else [])
     @ (if MisstampedBase r \<noteq> [] \<and> 0 \<le> n then [(''base on profiles '' @ join '', '' (MisstampedBase r) @ '' under '' @ stamp_words n @ '' (base needs protocol 2)'',
          ''if you wrote base on purpose, set the [registry] protocol to '' @ quoted ''2'' @ '' by hand; otherwise remove base'')] else [])
     @ (if MisstampedMoxy r \<noteq> [] \<and> 0 \<le> n then [(''a moxy table on profiles '' @ join '', '' (MisstampedMoxy r) @ '' under '' @ stamp_words n @ '' (the table needs protocol 3)'',
          ''if you wrote the moxy table on purpose, set the [registry] protocol to '' @ quoted ''3'' @ '' by hand; otherwise remove it'')] else []))"

definition registrySkewRefusal :: "string \<Rightarrow> string \<Rightarrow> registry \<Rightarrow> gerror option" where
  "registrySkewRefusal version path r = (let held = skew_held r in
     if held = [] then None
     else Some (ErrMsg (''profile registry '' @ path @ '' holds '' @ join '' and '' (map fst held) @ ''; this clown '' @ version
       @ '' speaks profile protocol '' @ itoa ProtocolVersion @ '' and refuses the registry rather than drop what it cannot read (''
       @ join ''; '' (map snd held) @ '')'')))"

end
