(* ===== verification/Json_Text.thy ===== *)
theory Json_Text
  imports Json_Facts
begin

text \<open>
  Writing a document member by member, as \<open>encoding/json\<close> writes a struct (its fields in
  declaration order) or a map (its keys sorted by the caller), and reading it back: what
  \<open>json_text\<close> writes of a document of valid UTF-8 is read as that document, by the reader and by the
  splitter, so two documents with the same text are the same document.
\<close>

fun json_text :: "bool \<Rightarrow> json \<Rightarrow> string" where
  "json_text html JNull = ''null''"
| "json_text html (JBool b) = (if b then ''true'' else ''false'')"
| "json_text html (JNum t) = t"
| "json_text html (JStr s) = json_quote html s"
| "json_text html (JArr vs) = ''['' @ join '','' (map (json_text html) vs) @ '']''"
| "json_text html (JObj ms) = [CHR 0x7B] @ join '','' (map (\<lambda>(k, v). json_quote html k @ '':'' @ json_text html v) ms) @ [CHR 0x7D]"

text \<open>The documents written here: valid UTF-8, and numbers as \<open>strconv\<close> writes naturals.\<close>

fun json_ok :: "json \<Rightarrow> bool" where
  "json_ok JNull \<longleftrightarrow> True"
| "json_ok (JBool b) \<longleftrightarrow> True"
| "json_ok (JNum t) \<longleftrightarrow> (\<exists>n. t = nat_str n)"
| "json_ok (JStr s) \<longleftrightarrow> valid_utf8 s"
| "json_ok (JArr vs) \<longleftrightarrow> (\<forall>v \<in> set vs. json_ok v)"
| "json_ok (JObj ms) \<longleftrightarrow> (\<forall>(k, v) \<in> set ms. valid_utf8 k \<and> json_ok v)"

definition delimited :: "string \<Rightarrow> bool" where
  "delimited r \<longleftrightarrow> (case r of [] \<Rightarrow> True | c # _ \<Rightarrow> c = CHR '','' \<or> c = CHR '']'' \<or> c = CHR 0x7D)"

lemma delimited_simps [simp]: "delimited []" "delimited (CHR '','' # r)" "delimited (CHR '']'' # r)" "delimited (CHR 0x7D # r)"
  by (simp_all add: delimited_def)

section \<open>Numbers\<close>

lemma is_digit_char [simp]: "d < 10 \<Longrightarrow> is_digit (digit_char d)"
  by (simp add: is_digit_def digit_char_def)

lemma nat_str_digits: "\<forall>c \<in> set (nat_str n). is_digit c"
proof (induction n rule: nat_str.induct)
  case (1 n)
  then show ?case by (subst nat_str.simps) auto
qed

lemma nat_str_Nil [simp]: "nat_str n \<noteq> []"
  by (subst nat_str.simps) simp

lemma digit_char_0: "d < 10 \<Longrightarrow> digit_char d = CHR ''0'' \<longleftrightarrow> d = 0"
proof -
  assume "d < 10"
  then have "byte (digit_char d) = 48 + d" by (simp add: digit_char_def)
  moreover have "byte (CHR ''0'') = 48" by (simp add: byte_def)
  ultimately show ?thesis by (metis byte_inject add_cancel_left_right)
qed

lemma nat_str_head: "hd (nat_str n) = CHR ''0'' \<longleftrightarrow> n = 0"
proof (induction n rule: nat_str.induct)
  case (1 n)
  show ?case
  proof (cases "n < 10")
    case True
    then show ?thesis by (subst nat_str.simps) (simp add: digit_char_0)
  next
    case False
    then have "hd (nat_str n) = hd (nat_str (n div 10))" by (subst nat_str.simps) simp
    then show ?thesis using 1 False by simp
  qed
qed

lemma take_digits_nat_str: "delimited r \<Longrightarrow> take_digits (nat_str n @ r) = (nat_str n, r)"
proof -
  assume "delimited r"
  then have "r = [] \<or> \<not> is_digit (hd r)" by (auto simp: delimited_def is_digit_def byte_def split: list.splits)
  then show ?thesis using nat_str_digits [of n] by (cases r) (simp_all add: take_digits_def)
qed

lemma scan_number_nat_str: "delimited r \<Longrightarrow> scan_number (nat_str n @ r) = Some (nat_str n, r)"
proof -
  assume r: "delimited r"
  obtain c cs where cs: "nat_str n = c # cs" by (cases "nat_str n") auto
  have "is_digit c" using nat_str_digits [of n] cs by simp
  then have minus: "c \<noteq> CHR ''-''" by (auto simp: is_digit_def byte_def)
  have zero: "cs = []" if "c = CHR ''0''"
    using that nat_str_head [of n] cs by (simp add: nat_str.simps)
  have tail: "scan_frac r = Some ([], r)" "scan_exp r = Some ([], r)"
    using r by (auto simp: scan_frac_def scan_exp_def delimited_def split: list.splits)
  have "scan_int (nat_str n @ r) = Some (nat_str n, r)"
    using take_digits_nat_str [OF r, of n] zero cs by (auto simp: scan_int_def)
  then show ?thesis using minus tail cs by (simp add: scan_number_def)
qed

section \<open>Reading back\<close>

lemma text_head:
  assumes "json_ok v"
  obtains c cs where "json_text html v = c # cs" and "\<not> is_json_space c" and "c \<noteq> CHR '']''" and "c \<noteq> CHR 0x7D"
proof (cases v)
  case (JNum t)
  then obtain n where t: "t = nat_str n" using assms by auto
  obtain c cs where cs: "nat_str n = c # cs" by (cases "nat_str n") auto
  have "is_digit c" using nat_str_digits [of n] cs by simp
  then have "\<not> is_json_space c \<and> c \<noteq> CHR '']'' \<and> c \<noteq> CHR 0x7D" by (auto simp: is_digit_def byte_def is_json_space_def)
  then show ?thesis using that [of c cs] cs JNum t by simp
next
  case (JBool b)
  then show ?thesis using that by (cases b) (auto simp: is_json_space_def)
qed (use that in \<open>auto simp: is_json_space_def json_quote_def\<close>)

definition text_reads :: "bool \<Rightarrow> json \<Rightarrow> bool" where
  "text_reads html v \<longleftrightarrow> (\<forall>r. delimited r \<longrightarrow> (\<exists>n. json_value n (json_text html v @ r) = Some (v, r)))"

lemma text_readsD:
  assumes "text_reads html v" and "delimited r"
  obtains N where "\<And>m. N \<le> m \<Longrightarrow> json_value m (json_text html v @ r) = Some (v, r)"
proof -
  obtain n where "json_value n (json_text html v @ r) = Some (v, r)" using assms by (auto simp: text_reads_def)
  from json_read_bound(1) [OF this] that show ?thesis by blast
qed

lemma join_Cons: "join sep (x # xs) = x @ (if xs = [] then [] else sep @ join sep xs)"
  by (cases xs) simp_all

lemma elems_read:
  assumes "vs \<noteq> []" and "\<forall>v \<in> set vs. text_reads html v \<and> json_ok v"
  shows "\<exists>n. json_elems n (join '','' (map (json_text html) vs) @ CHR '']'' # r) = Some (vs, r)"
  using assms
proof (induction vs)
  case (Cons v vs)
  obtain c cs where head: "json_text html v = c # cs" "\<not> is_json_space c" using Cons.prems(2) by (auto elim: text_head [of v html])
  have skip: "skip_ws (json_text html v @ s) = json_text html v @ s" for s using head by (simp add: skip_ws_def)
  have reads: "text_reads html v" using Cons.prems(2) by simp
  show ?case
  proof (cases "vs = []")
    case True
    obtain N where N: "\<And>m. N \<le> m \<Longrightarrow> json_value m (json_text html v @ CHR '']'' # r) = Some (v, CHR '']'' # r)"
      using text_readsD [OF reads, of "CHR '']'' # r"] by auto
    have "json_elems (Suc N) (json_text html v @ CHR '']'' # r) = Some ([v], r)"
      using N [of N] skip by (simp add: skip_ws_def is_json_space_def)
    then have "\<exists>n. json_elems n (json_text html v @ CHR '']'' # r) = Some ([v], r)" by (rule exI)
    then show ?thesis using True by (simp del: json_elems.simps)
  next
    case False
    then obtain n where n: "json_elems n (join '','' (map (json_text html) vs) @ CHR '']'' # r) = Some (vs, r)" using Cons by auto
    let ?rest = "join '','' (map (json_text html) vs) @ CHR '']'' # r"
    obtain N where N: "\<And>m. N \<le> m \<Longrightarrow> json_value m (json_text html v @ CHR '','' # ?rest) = Some (v, CHR '','' # ?rest)"
      using text_readsD [OF reads, of "CHR '','' # ?rest"] by auto
    obtain k where k: "\<And>m. k \<le> m \<Longrightarrow> json_elems m ?rest = Some (vs, r)" using json_read_bound(2) [OF n] by blast
    have "json_elems (Suc (max N k)) (json_text html v @ CHR '','' # ?rest) = Some (v # vs, r)"
      using N [of "max N k"] k [of "max N k"] skip by (simp add: skip_ws_def is_json_space_def)
    then have "\<exists>n. json_elems n (json_text html v @ CHR '','' # ?rest) = Some (v # vs, r)" by (rule exI)
    then show ?thesis using False by (simp add: join_Cons del: json_elems.simps)
  qed
qed simp

definition member_text :: "bool \<Rightarrow> string \<times> json \<Rightarrow> string" where
  "member_text html = (\<lambda>(k, v). json_quote html k @ '':'' @ json_text html v)"

lemma json_text_obj: "json_text html (JObj ms) = [CHR 0x7B] @ join '','' (map (member_text html) ms) @ [CHR 0x7D]"
  by (simp add: member_text_def)

lemma member_text_append: "member_text html (k, v) @ s = CHR 0x22 # quote_body html k @ CHR 0x22 # CHR '':'' # json_text html v @ s"
  by (simp add: member_text_def json_quote_def)

lemma members_read_text:
  assumes "ms \<noteq> []" and "\<forall>(k, v) \<in> set ms. valid_utf8 k \<and> text_reads html v \<and> json_ok v"
  shows "\<exists>n. json_members n (join '','' (map (member_text html) ms) @ CHR 0x7D # r) = Some (ms, r)"
  using assms
proof (induction ms)
  case (Cons m ms)
  obtain k v where m: "m = (k, v)" by (cases m)
  then have ok: "valid_utf8 k" "text_reads html v" "json_ok v" using Cons.prems(2) by auto
  obtain c cs where head: "json_text html v = c # cs" "\<not> is_json_space c" using ok(3) by (auto elim: text_head [of v html])
  have skip: "skip_ws (json_text html v @ s) = json_text html v @ s" for s using head by (simp add: skip_ws_def)
  have step: "json_members (Suc j) (member_text html (k, v) @ e # s) =
      (if e = CHR 0x7D then Some ([(k, v)], s) else if e = CHR '','' then map_option (\<lambda>(ms, r'). ((k, v) # ms, r')) (json_members j s) else None)"
    if "json_value j (json_text html v @ e # s) = Some (v, e # s)" "\<not> is_json_space e" for j e s
    using that skip unfolding member_text_append
    by (subst json_members.simps) (simp add: skip_ws_def is_json_space_def scan_lit_quote_body unquote_quote_body ok(1) del: json_value.simps json_members.simps)
  show ?case
  proof (cases "ms = []")
    case True
    obtain N where "\<And>i. N \<le> i \<Longrightarrow> json_value i (json_text html v @ CHR 0x7D # r) = Some (v, CHR 0x7D # r)"
      using text_readsD [OF ok(2), of "CHR 0x7D # r"] by auto
    then have "json_members (Suc N) (member_text html (k, v) @ CHR 0x7D # r) = Some ([(k, v)], r)"
      by (subst step) (simp_all add: is_json_space_def)
    then have "\<exists>n. json_members n (member_text html (k, v) @ CHR 0x7D # r) = Some ([(k, v)], r)" by (rule exI)
    then show ?thesis using True m by (simp del: json_members.simps)
  next
    case False
    then obtain n where n: "json_members n (join '','' (map (member_text html) ms) @ CHR 0x7D # r) = Some (ms, r)" using Cons by auto
    let ?rest = "join '','' (map (member_text html) ms) @ CHR 0x7D # r"
    obtain N where N: "\<And>i. N \<le> i \<Longrightarrow> json_value i (json_text html v @ CHR '','' # ?rest) = Some (v, CHR '','' # ?rest)"
      using text_readsD [OF ok(2), of "CHR '','' # ?rest"] by auto
    obtain j where j: "\<And>i. j \<le> i \<Longrightarrow> json_members i ?rest = Some (ms, r)" using json_read_bound(3) [OF n] by blast
    have "json_members (Suc (max N j)) (member_text html (k, v) @ CHR '','' # ?rest) = Some ((k, v) # ms, r)"
      by (subst step) (use N [of "max N j"] j [of "max N j"] in \<open>simp_all add: is_json_space_def del: json_members.simps\<close>)
    then have "\<exists>n. json_members n (member_text html (k, v) @ CHR '','' # ?rest) = Some ((k, v) # ms, r)" by (rule exI)
    then show ?thesis using False m by (simp add: join_Cons del: json_members.simps)
  qed
qed simp

lemma all_text_reads: "json_ok v \<Longrightarrow> text_reads html v"
proof (induction v)
  case JNull
  show ?case by (auto simp: text_reads_def scan_scalar_def scan_word_def has_prefix_def intro!: exI [of _ "Suc 0"])
next
  case (JBool b)
  show ?case by (auto simp: text_reads_def scan_scalar_def scan_word_def has_prefix_def intro!: exI [of _ "Suc 0"])
next
  case (JNum t)
  then obtain n where t: "t = nat_str n" by auto
  obtain c cs where cs: "nat_str n = c # cs" by (cases "nat_str n") auto
  have "is_digit c" using nat_str_digits [of n] cs by simp
  then have "c \<notin> {CHR ''['', CHR 0x7B, CHR 0x22, CHR ''t'', CHR ''f'', CHR ''n''}" by (auto simp: is_digit_def byte_def)
  then have "json_value (Suc 0) (nat_str n @ r) = Some (JNum t, r)" if "delimited r" for r
    using scan_number_nat_str [OF that, of n] cs t by (simp add: scan_scalar_def)
  then have "\<exists>n. json_value n (json_text html (JNum t) @ r) = Some (JNum t, r)" if "delimited r" for r
    using that t by (intro exI [of _ "Suc 0"]) simp
  then show ?case by (simp add: text_reads_def)
next
  case (JStr s)
  then have "json_value (Suc 0) (json_quote html s @ r) = Some (JStr s, r)" for r
    using json_value_quote [of 0 html s r] by (simp add: unquote_quote_body del: json_value.simps)
  then show ?case unfolding text_reads_def json_text.simps by blast
next
  case (JArr vs)
  show ?case
  proof (cases vs)
    case Nil
    then show ?thesis by (auto simp: text_reads_def skip_ws_def is_json_space_def intro!: exI [of _ "Suc 0"])
  next
    case (Cons w ws)
    obtain c cs where head: "json_text html w = c # cs" "\<not> is_json_space c" "c \<noteq> CHR '']''"
      using JArr.prems Cons by (auto elim: text_head [of w html])
    have "\<exists>n. json_value n (json_text html (JArr vs) @ r) = Some (JArr vs, r)" for r
    proof -
      obtain n where n: "json_elems n (join '','' (map (json_text html) vs) @ CHR '']'' # r) = Some (vs, r)"
        using elems_read [of vs html r] JArr Cons by auto
      obtain s where s: "join '','' (map (json_text html) vs) @ CHR '']'' # r = c # s" using Cons head by (simp add: join_Cons)
      have "json_value (Suc n) (json_text html (JArr vs) @ r) = Some (JArr vs, r)"
        using n s head by (simp add: skip_ws_def)
      then show ?thesis by blast
    qed
    then show ?thesis by (simp add: text_reads_def)
  qed
next
  case (JObj ms)
  show ?case
  proof (cases ms)
    case Nil
    then show ?thesis by (auto simp: text_reads_def skip_ws_def is_json_space_def intro!: exI [of _ "Suc 0"])
  next
    case (Cons m ms')
    have ok: "\<forall>(k, v) \<in> set ms. valid_utf8 k \<and> text_reads html v \<and> json_ok v"
      using JObj by (fastforce simp: snds.simps)
    have "\<exists>n. json_value n (json_text html (JObj ms) @ r) = Some (JObj ms, r)" for r
    proof -
      obtain n where n: "json_members n (join '','' (map (member_text html) ms) @ CHR 0x7D # r) = Some (ms, r)"
        using members_read_text [OF _ ok] Cons by auto
      obtain s where s: "join '','' (map (member_text html) ms) @ CHR 0x7D # r = CHR 0x22 # s"
        using Cons by (cases m) (simp add: join_Cons member_text_def json_quote_def)
      have "json_value (Suc n) (json_text html (JObj ms) @ r) = Some (JObj ms, r)"
        unfolding json_text_obj using n s by (simp add: skip_ws_def is_json_space_def del: json_text.simps)
      then show ?thesis by blast
    qed
    then show ?thesis by (simp add: text_reads_def)
  qed
qed

theorem json_text_reads: "json_ok v \<Longrightarrow> json_parse (json_text html v) = Some v"
proof -
  assume ok: "json_ok v"
  obtain n where "json_value n (json_text html v @ []) = Some (v, [])" using all_text_reads [OF ok, of html] delimited_simps(1) unfolding text_reads_def by blast
  then have "json_value (json_fuel (json_text html v)) (json_text html v) = Some (v, [])" using json_value_fuel by simp
  moreover obtain c cs where "json_text html v = c # cs" "\<not> is_json_space c" using ok by (auto elim: text_head [of v html])
  ultimately show ?thesis by (simp add: json_parse_def skip_ws_def del: json_value.simps)
qed

corollary json_text_inject: "json_ok v \<Longrightarrow> json_ok w \<Longrightarrow> json_text html v = json_text html w \<longleftrightarrow> v = w"
  using json_text_reads by (metis option.inject)

lemma raw_value_text: "json_ok v \<Longrightarrow> delimited r \<Longrightarrow> raw_value (json_text html v @ r) = Some (json_text html v, r)"
proof -
  assume "json_ok v" "delimited r"
  then obtain n where "json_value n (json_text html v @ r) = Some (v, r)" using all_text_reads [of v html] by (auto simp: text_reads_def)
  from json_value_fuel [OF this] show ?thesis by (simp add: raw_value_def del: json_value.simps)
qed

lemma raw_members_text:
  assumes "ms \<noteq> []" and "json_ok (JObj ms)" and "length ms \<le> n"
  shows "raw_members n (join '','' (map (member_text html) ms) @ CHR 0x7D # r) = Some (map (\<lambda>(k, v). (k, json_text html v)) ms)"
  using assms
proof (induction ms arbitrary: n)
  case (Cons m ms)
  obtain k v where m: "m = (k, v)" by (cases m)
  then have ok: "valid_utf8 k" "json_ok v" "json_ok (JObj ms)" using Cons.prems(2) by auto
  obtain n' where n: "n = Suc n'" "length ms \<le> n'" using Cons.prems(3) by (cases n) auto
  obtain c cs where head: "json_text html v = c # cs" "\<not> is_json_space c" using ok(2) by (auto elim: text_head [of v html])
  have skip: "skip_ws (json_text html v @ s) = json_text html v @ s" for s using head by (simp add: skip_ws_def)
  have step: "raw_members (Suc j) (member_text html (k, v) @ e # s) =
      (if e = CHR 0x7D then Some [(k, json_text html v)] else if e = CHR '','' then map_option (\<lambda>ms. (k, json_text html v) # ms) (raw_members j s) else None)"
    if "delimited (e # s)" "\<not> is_json_space e" for j e s
    using that skip raw_value_text [OF ok(2) that(1)] unfolding member_text_append
    by (subst raw_members.simps) (simp add: skip_ws_def is_json_space_def scan_lit_quote_body unquote_quote_body ok(1) del: raw_members.simps)
  show ?case
  proof (cases "ms = []")
    case True
    then show ?thesis using step [of "CHR 0x7D" r n'] by (simp add: m n(1) is_json_space_def del: raw_members.simps)
  next
    case False
    then have "raw_members n' (join '','' (map (member_text html) ms) @ CHR 0x7D # r) = Some (map (\<lambda>(k, v). (k, json_text html v)) ms)"
      using Cons.IH ok(3) n(2) by blast
    then show ?thesis using False step [of "CHR '',''" "join '','' (map (member_text html) ms) @ CHR 0x7D # r" n']
      by (simp add: m n(1) is_json_space_def join_Cons del: raw_members.simps)
  qed
qed simp

lemma members_text_length: "length ms \<le> length (join '','' (map (member_text html) ms))"
proof (induction ms)
  case (Cons m ms)
  have "1 \<le> length (member_text html m)" by (cases m) (simp add: member_text_def json_quote_def)
  with Cons show ?case by (cases "ms = []") (auto simp: join_Cons)
qed simp

theorem un_object_text:
  assumes "json_ok (JObj ms)" and "ms \<noteq> []"
  shows "un_object (json_text html (JObj ms)) = UVal (map (\<lambda>(k, v). (k, json_text html v)) ms)"
proof -
  have "raw_members (length (json_text html (JObj ms))) (join '','' (map (member_text html) ms) @ CHR 0x7D # [])
      = Some (map (\<lambda>(k, v). (k, json_text html v)) ms)"
    by (rule raw_members_text [OF assms(2,1)]) (use members_text_length [of ms html] in \<open>simp add: json_text_obj del: json_text.simps\<close>)
  moreover have "tl (skip_ws (json_text html (JObj ms))) = join '','' (map (member_text html) ms) @ CHR 0x7D # []"
    by (simp add: json_text_obj skip_ws_def is_json_space_def del: json_text.simps)
  ultimately show ?thesis using json_text_reads [OF assms(1), of html] assms(2)
    by (cases ms) (simp_all add: un_object_def del: json_text.simps)
qed

end
