(* ===== verification/Profile_Lookup.thy ===== *)
theory Profile_Lookup
  imports Profile Json_Text Go_Sort
begin

text \<open>
  The linkable view of the profile registry (\<open>pkg/profilelookup/lookup.go\<close>): resolving a name among
  the builtins and the user's registry, the canonical form of a definition and its digest. The
  hexadecimal SHA-256 of a text is a parameter \<open>sha\<close>; the registry file is given as what
  \<open>LoadRegistry\<close> returns for a path.
\<close>

section \<open>Selections\<close>

record selection =
  sl_selective :: bool
  sl_kept :: "string list"
  sl_excluded :: "(string \<times> string list) list"

definition no_selection :: selection where
  "no_selection = \<lparr>sl_selective = False, sl_kept = [], sl_excluded = []\<rparr>"

definition excludedOf :: "(string \<times> string list) list \<Rightarrow> (string \<times> string list) list" where
  "excludedOf excl = filter (\<lambda>(_, tools). tools \<noteq> []) (map (\<lambda>(server, tools). (server, sortedUnique tools)) excl)"

definition selectionOf :: "profile \<Rightarrow> selection" where
  "selectionOf p = (case pf_context_servers p of
      None \<Rightarrow> no_selection
    | Some servers \<Rightarrow> \<lparr>sl_selective = True, sl_kept = sortedUnique servers, sl_excluded = excludedOf (pf_context_excluded p)\<rparr>)"

definition Keeps :: "selection \<Rightarrow> string \<Rightarrow> bool" where
  "Keeps s server \<longleftrightarrow> (sl_selective s \<longrightarrow> server \<in> set (sl_kept s))"

definition Missing :: "selection \<Rightarrow> string list \<Rightarrow> string list" where
  "Missing s required = filter (\<lambda>r. \<not> Keeps s r) required"

definition CrippledTools :: "selection \<Rightarrow> string list \<Rightarrow> (string \<times> string list) list" where
  "CrippledTools s required = fold (\<lambda>r out. case map_of (sl_excluded s) r of
       Some tools \<Rightarrow> if Keeps s r \<and> tools \<noteq> [] then alist_put r tools out else out | None \<Rightarrow> out) required []"

definition JobsPluginName :: string where "JobsPluginName = ''clown-builtin-jobs''"

definition RequiredServers :: "string list" where
  "RequiredServers = [JobsPluginName @ ''/ringmaster'', JobsPluginName @ ''/troupe'']"

section \<open>The canonical form\<close>

definition envDigests :: "(string \<Rightarrow> string) \<Rightarrow> (string \<times> string) list \<Rightarrow> (string \<times> string) list" where
  "envDigests sha env = map (\<lambda>(k, v). (k, sha v)) env"

record moxy_table =
  mt_placement :: string
  mt_allow_tools :: "string list"
  mt_tools :: "string list"

definition moxyTableOf :: "profile \<Rightarrow> moxy_table option" where
  "moxyTableOf p = (case MoxyTable p of
      None \<Rightarrow> None
    | Some m \<Rightarrow> Some \<lparr>mt_placement = mx_placement m, mt_allow_tools = sortedUnique (elems (mx_allow_tools m)),
        mt_tools = sortedUnique (elems (mx_tools m))\<rparr>)"

definition json_strings :: "string list \<Rightarrow> json" where
  "json_strings xs = JArr (map JStr xs)"

definition json_map :: "('a \<Rightarrow> json) \<Rightarrow> (string \<times> 'a) list \<Rightarrow> json" where
  "json_map f m = JObj (map (\<lambda>(k, v). (k, f v)) (sort_keys m))"

definition canonical_moxy :: "moxy_table option \<Rightarrow> json" where
  "canonical_moxy t = (case t of None \<Rightarrow> JNull
    | Some m \<Rightarrow> JObj [(''placement'', JStr (mt_placement m)), (''allow_tools'', json_strings (mt_allow_tools m)),
        (''tools'', json_strings (mt_tools m))])"

definition canonical :: "(string \<Rightarrow> string) \<Rightarrow> profile \<Rightarrow> json" where
  "canonical sha p = JObj
     [(''protocol'', JNum (itoa ProtocolVersion)), (''name'', JStr (pf_name p)), (''display'', JStr (pf_display p)),
      (''provider'', JStr (pf_provider p)), (''backend'', JStr (pf_backend p)), (''model'', JStr (pf_model p)),
      (''url'', JStr (pf_url p)), (''token_set'', JBool (pf_token p \<noteq> [])), (''env'', json_map JStr (envDigests sha (pf_env p))),
      (''context_servers'', case pf_context_servers p of None \<Rightarrow> JNull | Some xs \<Rightarrow> json_strings (sortedUnique xs)),
      (''context_excluded'', json_map json_strings (excludedOf (pf_context_excluded p))),
      (''base'', JStr (pf_base p)), (''moxy'', canonical_moxy (moxyTableOf p))]"

definition Canonicalize :: "(string \<Rightarrow> string) \<Rightarrow> profile \<Rightarrow> string" where
  "Canonicalize sha p = json_text False (canonical sha p)"

definition profile_digest :: "(string \<Rightarrow> string) \<Rightarrow> profile \<Rightarrow> string" where
  "profile_digest sha p = sha (Canonicalize sha p)"

section \<open>Resolving\<close>

datatype profile_source = SourceBuiltin | SourceUser

record lookup_stamp =
  ls_present :: bool
  ls_clown_version :: string
  ls_protocol :: int

definition no_lookup_stamp :: lookup_stamp where
  "no_lookup_stamp = \<lparr>ls_present = False, ls_clown_version = [], ls_protocol = 0\<rparr>"

record resolved =
  re_profile :: "string \<times> string \<times> string \<times> string \<times> string"   \<comment> \<open>name, display, provider, backend, model\<close>
  re_source :: profile_source
  re_selection :: selection
  re_env :: "(string \<times> string) list"
  re_moxy :: "moxy_table option"
  re_canonical :: string
  re_digest :: string
  re_registry :: lookup_stamp

text \<open>\<open>Resolve\<close>'s errors. The base of a profile is \<open>Resolved.Base\<close>, here a second result.\<close>

record skew_error =
  sk_path :: string
  sk_version :: string
  sk_protocol :: int
  sk_unknown :: "string list"
  sk_base :: "string list"
  sk_moxy :: "string list"

record base_failure =
  bf_profile :: string
  bf_base :: string
  bf_pinned :: string
  bf_current :: string
  bf_reason :: string

datatype lookup_error =
    Profile_not_found string "string list"
  | Skew skew_error
  | Bad_base base_failure
  | Lookup_failed gerror

definition skew_text :: "skew_error \<Rightarrow> string" where
  "skew_text e = (let reads = ''this library speaks profile protocol '' @ itoa ProtocolVersion @ '' and reads protocols ''
          @ itoa OldestReadableProtocol @ '' to '' @ itoa ProtocolVersion;
        stamped = ''profile registry '' @ sk_path e @ '' is stamped profile protocol '' @ itoa (sk_protocol e) @ '' (by clown '' @ sk_version e @ '') but profiles '' in
     if sk_protocol e = 0 then ''profile registry '' @ sk_path e @ '' was written by a clown that predates version stamping ('' @ reads
       @ ''); save any profile with `clown profile` to restamp it''
     else if \<not> ReadableProtocol (sk_protocol e) then ''profile registry '' @ sk_path e @ '' was last written by clown '' @ sk_version e
       @ '' (profile protocol '' @ itoa (sk_protocol e) @ ''); '' @ reads
     else if sk_base e \<noteq> [] then stamped @ join '', '' (sk_base e)
       @ '' carry base, which needs protocol 2; save it with a clown that speaks protocol 2, or remove base''
     else if sk_moxy e \<noteq> [] then stamped @ join '', '' (sk_moxy e)
       @ '' carry a moxy table, which needs protocol 3; save it with a clown that speaks protocol 3, or remove the table''
     else ''profile registry '' @ sk_path e @ '' (last written by clown '' @ sk_version e @ '') holds fields unknown to this library ('' @ reads @ ''): ''
       @ join '', '' (sk_unknown e))"

definition base_text :: "base_failure \<Rightarrow> string" where
  "base_text e = ''profile '' @ quoted (bf_profile e) @ '': base '' @ quoted (bf_base e)
     @ (if bf_pinned e \<noteq> [] \<and> bf_current e \<noteq> []
        then '' pins sha256 '' @ bf_pinned e @ '', but the builtin now has '' @ bf_current e @ ''; re-pin it after checking the builtin's change''
        else '': '' @ bf_reason e)"

fun lookup_text :: "lookup_error \<Rightarrow> string" where
  "lookup_text (Profile_not_found name known) = ''profile not found: '' @ quoted name @ '' (known: '' @ join '', '' known @ '')''"
| "lookup_text (Skew e) = skew_text e"
| "lookup_text (Bad_base e) = base_text e"
| "lookup_text (Lookup_failed e) = err_text e"

definition profile_names :: "profile list \<Rightarrow> string list" where
  "profile_names ps = sort_strings (map pf_name ps)"

text \<open>\<open>resolved\<close>: validate, then render.\<close>

definition resolve_profile :: "(string \<Rightarrow> string) \<Rightarrow> profile \<Rightarrow> profile_source \<Rightarrow> lookup_stamp \<Rightarrow> lookup_error + resolved" where
  "resolve_profile sha p source stamp = (case Validate_profile p of
      Some e \<Rightarrow> Inl (Lookup_failed e)
    | None \<Rightarrow> Inr \<lparr>re_profile = (pf_name p, pf_display p, pf_provider p, pf_backend p, pf_model p), re_source = source,
        re_selection = selectionOf p, re_env = envDigests sha (pf_env p), re_moxy = moxyTableOf p,
        re_canonical = Canonicalize sha p, re_digest = profile_digest sha p, re_registry = stamp\<rparr>)"

definition resolveBase :: "(string \<Rightarrow> string) \<Rightarrow> profile \<Rightarrow> profile list \<Rightarrow> lookup_error + resolved" where
  "resolveBase sha p builtin = (case ParseBase (pf_base p) of
      Inl e \<Rightarrow> Inl (Bad_base \<lparr>bf_profile = pf_name p, bf_base = pf_base p, bf_pinned = [], bf_current = [], bf_reason = err_text e\<rparr>)
    | Inr (name, pin) \<Rightarrow> (case findProfile builtin name of
        None \<Rightarrow> Inl (Bad_base \<lparr>bf_profile = pf_name p, bf_base = pf_base p, bf_pinned = [], bf_current = [],
            bf_reason = ''no builtin profile is named '' @ quoted name @ '' (builtins: '' @ join '', '' (profile_names builtin) @ '')''\<rparr>)
      | Some b \<Rightarrow> (case resolve_profile sha b SourceBuiltin no_lookup_stamp of
            Inl e \<Rightarrow> Inl e
          | Inr r \<Rightarrow> if pin \<noteq> [] \<and> pin \<noteq> re_digest r
              then Inl (Bad_base \<lparr>bf_profile = pf_name p, bf_base = pf_base p, bf_pinned = pin, bf_current = re_digest r, bf_reason = []\<rparr>)
              else Inr r)))"

text \<open>\<open>loadUserRegistry\<close>: \<open>path\<close> is the registry's path, \<open>None\<close> when no home is known; \<open>load\<close> is
  \<open>LoadRegistry\<close>, with \<open>None\<close> for a file that does not exist.\<close>

definition loadUserRegistry :: "string option \<Rightarrow> (string \<Rightarrow> (gerror + registry) option) \<Rightarrow> lookup_error + profile list \<times> lookup_stamp" where
  "loadUserRegistry path load = (case path of
      None \<Rightarrow> Inr ([], no_lookup_stamp)
    | Some path \<Rightarrow> (case load path of
        None \<Rightarrow> Inr ([], no_lookup_stamp)
      | Some (Inl e) \<Rightarrow> Inl (Lookup_failed e)
      | Some (Inr reg) \<Rightarrow>
          if \<not> ReadableProtocol (st_protocol (rg_stamp reg)) \<or> rg_undecoded reg \<noteq> [] \<or> MisstampedBase reg \<noteq> [] \<or> MisstampedMoxy reg \<noteq> []
          then Inl (Skew \<lparr>sk_path = path, sk_version = st_clown_version (rg_stamp reg), sk_protocol = st_protocol (rg_stamp reg),
              sk_unknown = rg_undecoded reg, sk_base = MisstampedBase reg, sk_moxy = MisstampedMoxy reg\<rparr>)
          else Inr (rg_profiles reg, \<lparr>ls_present = True, ls_clown_version = st_clown_version (rg_stamp reg),
              ls_protocol = st_protocol (rg_stamp reg)\<rparr>)))"

definition Resolve_profile :: "(string \<Rightarrow> string) \<Rightarrow> gerror + profile list \<Rightarrow> string option \<Rightarrow> (string \<Rightarrow> (gerror + registry) option)
    \<Rightarrow> string \<Rightarrow> lookup_error + resolved \<times> resolved option" where
  "Resolve_profile sha builtins path load name = (case builtins of
      Inl e \<Rightarrow> Inl (Lookup_failed e)
    | Inr builtin \<Rightarrow> (case loadUserRegistry path load of
        Inl e \<Rightarrow> Inl e
      | Inr (user, stamp) \<Rightarrow> (case findProfile (Merge builtin user) name of
            None \<Rightarrow> Inl (Profile_not_found name (profile_names (Merge builtin user)))
          | Some p \<Rightarrow> (case resolve_profile sha p (if findProfile user name = None then SourceBuiltin else SourceUser) stamp of
                Inl e \<Rightarrow> Inl e
              | Inr r \<Rightarrow> if pf_base p = [] then Inr (r, None)
                  else (case resolveBase sha p builtin of Inl e \<Rightarrow> Inl e | Inr b \<Rightarrow> Inr (r, Some b))))))"

end
