(* ===== verification/Profile_Claims.thy ===== *)
theory Profile_Claims
  imports Profile_Lookup
begin

text \<open>
  The canonical form identifies a definition up to what it leaves out, a registry clown saves is
  read back and vouched for, and what \<open>Resolve\<close> answers.
\<close>

section \<open>The canonical form is a document of the definition\<close>

text \<open>What TOML guarantees of a decoded profile: valid UTF-8, and maps without repeated keys.\<close>

definition plain_profile :: "profile \<Rightarrow> bool" where
  "plain_profile p \<longleftrightarrow>
     list_all valid_utf8 [pf_name p, pf_display p, pf_provider p, pf_backend p, pf_model p, pf_url p, pf_base p, pf_moxy_placement p]
     \<and> (\<forall>(k, v) \<in> set (pf_env p). valid_utf8 k)
     \<and> (\<forall>(srv, tools) \<in> set (pf_context_excluded p). valid_utf8 srv \<and> list_all valid_utf8 tools)
     \<and> list_all valid_utf8 (elems (pf_context_servers p) @ elems (pf_moxy_allow_tools p) @ elems (pf_moxy_tools p))
     \<and> distinct (map fst (pf_env p)) \<and> distinct (map fst (pf_context_excluded p))"

lemma json_ok_strings [simp]: "json_ok (json_strings xs) \<longleftrightarrow> (\<forall>s \<in> set xs. valid_utf8 s)"
  by (auto simp: json_strings_def)

lemma json_strings_inject [simp]: "json_strings xs = json_strings ys \<longleftrightarrow> xs = ys"
  by (auto simp: json_strings_def inj_map_eq_map inj_def)

lemma json_ok_map: "json_ok (json_map f m) \<longleftrightarrow> (\<forall>(k, v) \<in> set m. valid_utf8 k \<and> json_ok (f v))"
  by (auto simp: json_map_def)

lemma json_map_inject:
  assumes "inj f" and "distinct (map fst m)" and "distinct (map fst m')"
  shows "json_map f m = json_map f m' \<longleftrightarrow> map_of m = map_of m'"
proof -
  have "inj (\<lambda>(k, v). (k, f v))" using assms(1) by (auto simp: inj_def)
  then have "map (\<lambda>(k, v). (k, f v)) (sort_keys m) = map (\<lambda>(k, v). (k, f v)) (sort_keys m') \<longleftrightarrow> sort_keys m = sort_keys m'"
    by (rule inj_map_eq_map)
  then show ?thesis using sort_keys_eq_iff [OF assms(2,3)] by (simp add: json_map_def)
qed

lemma keys_envDigests [simp]: "map fst (envDigests sha env) = map fst env"
  by (simp add: envDigests_def case_prod_unfold)

lemma map_of_envDigests: "map_of (envDigests sha env) k = map_option sha (map_of env k)"
  by (simp add: envDigests_def map_of_map)

lemma keys_excludedOf: "distinct (map fst excl) \<Longrightarrow> distinct (map fst (excludedOf excl))"
  by (induction excl) (force simp: excludedOf_def)+

definition nonempty :: "string list option \<Rightarrow> string set" where
  "nonempty tools = (case tools of None \<Rightarrow> {} | Some ts \<Rightarrow> set ts)"

lemma map_of_excludedOf:
  assumes "distinct (map fst excl)"
  shows "map_of (excludedOf excl) srv = (case map_of excl srv of None \<Rightarrow> None | Some ts \<Rightarrow> if ts = [] then None else Some (sortedUnique ts))"
  using assms
proof (induction excl)
  case Nil
  then show ?case by (simp add: excludedOf_def)
next
  case (Cons e excl)
  have "srv \<notin> fst ` set excl \<Longrightarrow> map_of (excludedOf excl) srv = None" for srv
    by (force simp: excludedOf_def map_of_eq_None_iff)
  then show ?case using Cons by (cases e) (auto simp: excludedOf_def split: option.splits)
qed

lemma excluded_same:
  assumes "distinct (map fst m)" and "distinct (map fst m')"
  shows "map_of (excludedOf m) = map_of (excludedOf m') \<longleftrightarrow> (\<forall>srv. nonempty (map_of m srv) = nonempty (map_of m' srv))"
proof -
  have "map_of (excludedOf m) srv = map_of (excludedOf m') srv \<longleftrightarrow> nonempty (map_of m srv) = nonempty (map_of m' srv)" for srv
    by (auto simp: map_of_excludedOf assms nonempty_def sortedUnique_eq_iff split: option.splits)
  then show ?thesis by (simp add: fun_eq_iff)
qed

text \<open>The tools a profile's moxy may use, as sets.\<close>

definition moxy_sets :: "profile \<Rightarrow> (string \<times> string set \<times> string set) option" where
  "moxy_sets p = map_option (\<lambda>m. (mx_placement m, set (elems (mx_allow_tools m)), set (elems (mx_tools m)))) (MoxyTable p)"

lemma canonical_moxy_inject:
  "canonical_moxy (moxyTableOf p) = canonical_moxy (moxyTableOf q) \<longleftrightarrow> moxy_sets p = moxy_sets q"
  by (auto simp: canonical_moxy_def moxyTableOf_def moxy_sets_def sortedUnique_eq_iff split: option.splits)

lemma elems_utf8: "xs = Some ys \<Longrightarrow> set (elems xs) = set ys"
  by (simp add: elems_def)

lemma itoa_protocol: "itoa ProtocolVersion = nat_str 3"
  by (simp add: itoa_def ProtocolVersion_def)

lemma canonical_ok:
  assumes "plain_profile p" and "\<forall>t. valid_utf8 (sha t)"
  shows "json_ok (canonical sha p)"
proof -
  have keys: "valid_utf8 ''protocol''" "valid_utf8 ''name''" "valid_utf8 ''display''" "valid_utf8 ''provider''" "valid_utf8 ''backend''"
    "valid_utf8 ''model''" "valid_utf8 ''url''" "valid_utf8 ''token_set''" "valid_utf8 ''env''" "valid_utf8 ''context_servers''"
    "valid_utf8 ''context_excluded''" "valid_utf8 ''base''" "valid_utf8 ''moxy''" "valid_utf8 ''placement''" "valid_utf8 ''allow_tools''"
    "valid_utf8 ''tools''" by code_simp+
  have env: "json_ok (json_map JStr (envDigests sha (pf_env p)))"
    using assms by (auto simp: json_ok_map envDigests_def plain_profile_def)
  have servers: "json_ok (case pf_context_servers p of None \<Rightarrow> JNull | Some xs \<Rightarrow> json_strings (sortedUnique xs))"
    using assms(1) by (auto simp: plain_profile_def elems_def list_all_iff split: option.splits)
  have excl: "json_ok (json_map json_strings (excludedOf (pf_context_excluded p)))"
    using assms(1) by (auto simp: json_ok_map excludedOf_def plain_profile_def list_all_iff)
  have moxy: "json_ok (canonical_moxy (moxyTableOf p))"
    using assms(1) keys by (auto simp: canonical_moxy_def moxyTableOf_def MoxyTable_def plain_profile_def list_all_iff split: option.splits)
  show ?thesis using assms(1) keys env servers excl moxy itoa_protocol
    by (auto simp: canonical_def plain_profile_def)
qed

text \<open>Two profiles are the same definition up to the token's and the environment's values.\<close>

definition same_definition :: "(string \<Rightarrow> string) \<Rightarrow> profile \<Rightarrow> profile \<Rightarrow> bool" where
  "same_definition sha p q \<longleftrightarrow> pf_name p = pf_name q \<and> pf_display p = pf_display q \<and> pf_provider p = pf_provider q
     \<and> pf_backend p = pf_backend q \<and> pf_model p = pf_model q \<and> pf_url p = pf_url q \<and> pf_base p = pf_base q
     \<and> (pf_token p = [] \<longleftrightarrow> pf_token q = [])
     \<and> (\<forall>k. map_option sha (map_of (pf_env p) k) = map_option sha (map_of (pf_env q) k))
     \<and> map_option set (pf_context_servers p) = map_option set (pf_context_servers q)
     \<and> (\<forall>srv. nonempty (map_of (pf_context_excluded p) srv) = nonempty (map_of (pf_context_excluded q) srv))
     \<and> moxy_sets p = moxy_sets q"

lemma canonical_same:
  assumes "plain_profile p" and "plain_profile q"
  shows "canonical sha p = canonical sha q \<longleftrightarrow> same_definition sha p q"
proof -
  have dist: "distinct (map fst (pf_env p))" "distinct (map fst (pf_env q))"
      "distinct (map fst (pf_context_excluded p))" "distinct (map fst (pf_context_excluded q))"
    using assms by (simp_all add: plain_profile_def)
  have env: "json_map JStr (envDigests sha (pf_env p)) = json_map JStr (envDigests sha (pf_env q))
      \<longleftrightarrow> (\<forall>k. map_option sha (map_of (pf_env p) k) = map_option sha (map_of (pf_env q) k))"
    using json_map_inject [of JStr "envDigests sha (pf_env p)" "envDigests sha (pf_env q)"] dist
    by (simp add: inj_def fun_eq_iff map_of_envDigests)
  have excl: "json_map json_strings (excludedOf (pf_context_excluded p)) = json_map json_strings (excludedOf (pf_context_excluded q))
      \<longleftrightarrow> (\<forall>srv. nonempty (map_of (pf_context_excluded p) srv) = nonempty (map_of (pf_context_excluded q) srv))"
    using json_map_inject [OF _ keys_excludedOf keys_excludedOf] excluded_same dist by (simp add: inj_def)
  have servers: "(case pf_context_servers p of None \<Rightarrow> JNull | Some xs \<Rightarrow> json_strings (sortedUnique xs))
        = (case pf_context_servers q of None \<Rightarrow> JNull | Some xs \<Rightarrow> json_strings (sortedUnique xs))
      \<longleftrightarrow> map_option set (pf_context_servers p) = map_option set (pf_context_servers q)"
    by (auto simp: sortedUnique_eq_iff json_strings_def inj_map_eq_map inj_def split: option.splits)
  show ?thesis unfolding same_definition_def canonical_def json.inject
    by (auto simp: env excl servers canonical_moxy_inject)
qed

text \<open>C13. The digest pins the definition. Two profiles have the same canonical form just when they are
  the same definition: the same name, display name, provider, backend, model, URL and base, the same
  servers kept and tools excluded, the same moxy table up to order and repetition, the same environment
  keys with values of the same digest, and a token in both or in neither. So rotating a token changes
  no digest, and any other change does unless the hash collides.\<close>

theorem digest_pins_definition:
  assumes "plain_profile p" and "plain_profile q" and "\<forall>t. valid_utf8 (sha t)"
  shows "Canonicalize sha p = Canonicalize sha q \<longleftrightarrow> same_definition sha p q"
  using json_text_inject [OF canonical_ok [OF assms(1,3)] canonical_ok [OF assms(2,3)]] canonical_same [OF assms(1,2)]
  by (simp add: Canonicalize_def)

section \<open>The registry\<close>

lemma protocolFor_le: "protocolFor ps \<le> n \<longleftrightarrow> 1 \<le> n \<and> (\<forall>p \<in> set ps. protocolOf p \<le> n)"
proof -
  have "fold (\<lambda>p k. max k (protocolOf p)) ps m \<le> n \<longleftrightarrow> m \<le> n \<and> (\<forall>p \<in> set ps. protocolOf p \<le> n)" for m
    by (induction ps arbitrary: m) auto
  then show ?thesis by (simp add: protocolFor_def)
qed

lemma protocolFor_cases: "protocolFor ps \<in> {1, 2, 3}"
proof -
  have "1 \<le> protocolFor ps" using protocolFor_le [of ps "protocolFor ps"] by simp
  moreover have "protocolFor ps \<le> 3" unfolding protocolFor_le by (auto simp: protocolOf_def)
  ultimately show ?thesis by auto
qed

definition vouched :: "registry \<Rightarrow> bool" where
  "vouched r \<longleftrightarrow> ReadableProtocol (st_protocol (rg_stamp r)) \<and> rg_undecoded r = [] \<and> MisstampedBase r = [] \<and> MisstampedMoxy r = []"

lemma loaded_vouched:
  "load path = Some (Inr r) \<Longrightarrow> loadUserRegistry (Some path) load = (if vouched r
     then Inr (rg_profiles r, \<lparr>ls_present = True, ls_clown_version = st_clown_version (rg_stamp r), ls_protocol = st_protocol (rg_stamp r)\<rparr>)
     else Inl (Skew \<lparr>sk_path = path, sk_version = st_clown_version (rg_stamp r), sk_protocol = st_protocol (rg_stamp r),
              sk_unknown = rg_undecoded r, sk_base = MisstampedBase r, sk_moxy = MisstampedMoxy r\<rparr>))"
  by (auto simp: loadUserRegistry_def vouched_def)

lemma vouched_iff:
  "vouched r \<longleftrightarrow> ReadableProtocol (st_protocol (rg_stamp r)) \<and> rg_undecoded r = [] \<and> (\<forall>p \<in> set (rg_profiles r). protocolOf p \<le> st_protocol (rg_stamp r))"
  by (auto simp: vouched_def MisstampedBase_def MisstampedMoxy_def protocolOf_def filter_empty_conv ReadableProtocol_def
      OldestReadableProtocol_def ProtocolVersion_def split: if_splits)

lemma vouched_protocol:
  "ReadableProtocol n \<Longrightarrow>
     vouched \<lparr>rg_profiles = ps, rg_stamp = \<lparr>st_clown_version = v, st_protocol = n\<rparr>, rg_undecoded = []\<rparr> \<longleftrightarrow> protocolFor ps \<le> n"
  unfolding protocolFor_le vouched_iff by (simp add: ReadableProtocol_def OldestReadableProtocol_def)

lemma Atoi_protocol: "n \<in> {1, 2, 3} \<Longrightarrow> Atoi (itoa n) = Some n"
proof -
  have "Atoi (itoa 1) = Some 1" "Atoi (itoa 2) = Some 2" "Atoi (itoa 3) = Some 3" by code_simp+
  then show "n \<in> {1, 2, 3} \<Longrightarrow> Atoi (itoa n) = Some n" by auto
qed

lemma saved_stamp: "stampFromMap (toMap \<lparr>st_clown_version = v, st_protocol = protocolFor ps\<rparr>) = \<lparr>st_clown_version = v, st_protocol = protocolFor ps\<rparr>"
  using Atoi_protocol [OF protocolFor_cases] by (simp add: stampFromMap_def toMap_def)

text \<open>C14. A registry clown saves is read back. What \<open>Save\<close> writes loads as the profiles saved, stamped with
  the saving clown and its protocol, vouched for by the library and accepted by the launcher; and the
  protocol it stamps is the lowest: under a readable protocol the library vouches for these profiles
  exactly when that protocol is at least the one saved.\<close>

theorem saved_registry_vouched:
  assumes "load path = Some (Inr (read_registry (saved_file ps version) []))"
  shows "loadUserRegistry (Some path) load
      = Inr (ps, \<lparr>ls_present = True, ls_clown_version = version, ls_protocol = protocolFor ps\<rparr>)
    \<and> registrySkewRefusal build path (read_registry (saved_file ps version) []) = None
    \<and> (\<forall>n. ReadableProtocol n \<longrightarrow>
        (vouched \<lparr>rg_profiles = ps, rg_stamp = \<lparr>st_clown_version = version, st_protocol = n\<rparr>, rg_undecoded = []\<rparr> \<longleftrightarrow> protocolFor ps \<le> n))"
proof -
  have read: "read_registry (saved_file ps version) []
      = \<lparr>rg_profiles = ps, rg_stamp = \<lparr>st_clown_version = version, st_protocol = protocolFor ps\<rparr>, rg_undecoded = []\<rparr>"
    by (simp add: read_registry_def saved_file_def saved_stamp)
  have readable: "ReadableProtocol (protocolFor ps)"
    using protocolFor_cases [of ps] by (auto simp: ReadableProtocol_def OldestReadableProtocol_def ProtocolVersion_def)
  then have v: "vouched (read_registry (saved_file ps version) [])" unfolding read by (simp add: vouched_protocol)
  then have "registrySkewRefusal build path (read_registry (saved_file ps version) []) = None"
    using readable unfolding read by (auto simp: registrySkewRefusal_def skew_held_def vouched_def ReadableProtocol_def OldestReadableProtocol_def)
  then show ?thesis using loaded_vouched [of load path, OF assms] v vouched_protocol unfolding read by simp
qed

section \<open>What Resolve answers\<close>

lemma findProfile_Some: "findProfile ps name = Some p \<Longrightarrow> p \<in> set ps \<and> pf_name p = name"
  by (auto simp: findProfile_def dest!: find_SomeD)

lemma resolve_profile_Inr:
  "resolve_profile sha p source stamp = Inr r \<longleftrightarrow> Validate_profile p = None
     \<and> r = \<lparr>re_profile = (pf_name p, pf_display p, pf_provider p, pf_backend p, pf_model p), re_source = source,
        re_selection = selectionOf p, re_env = envDigests sha (pf_env p), re_moxy = moxyTableOf p,
        re_canonical = Canonicalize sha p, re_digest = profile_digest sha p, re_registry = stamp\<rparr>"
  by (auto simp: resolve_profile_def split: option.splits)

lemma resolveBase_Inr:
  assumes "resolveBase sha p builtin = Inr r"
  shows "\<exists>name pin b. ParseBase (pf_base p) = Inr (name, pin) \<and> findProfile builtin name = Some b \<and> Validate_profile b = None
    \<and> re_source r = SourceBuiltin \<and> re_digest r = profile_digest sha b \<and> (pin \<noteq> [] \<longrightarrow> pin = profile_digest sha b)"
  using assms by (auto simp: resolveBase_def resolve_profile_Inr split: sum.splits option.splits if_splits)

text \<open>What the user's side of a lookup is: nothing when there is no registry file to read, and otherwise the
  registry, read in full by this build: its protocol readable, all its keys known, and no profile with a
  key younger than its stamp.\<close>

definition user_side :: "string option \<Rightarrow> (string \<Rightarrow> (gerror + registry) option) \<Rightarrow> profile list \<Rightarrow> bool" where
  "user_side path load user \<longleftrightarrow> (case Option.bind path load of
      None \<Rightarrow> user = []
    | Some (Inl e) \<Rightarrow> False
    | Some (Inr reg) \<Rightarrow> user = rg_profiles reg \<and> ReadableProtocol (st_protocol (rg_stamp reg)) \<and> rg_undecoded reg = []
        \<and> (\<forall>q \<in> set user. protocolOf q \<le> st_protocol (rg_stamp reg)))"

lemma loadUserRegistry_Inr:
  assumes "loadUserRegistry path load = Inr (user, stamp)"
  shows "user_side path load user \<and> (ls_present stamp \<longleftrightarrow> (\<exists>reg. Option.bind path load = Some (Inr reg)))"
proof -
  have "vouched reg \<longleftrightarrow> ReadableProtocol (st_protocol (rg_stamp reg)) \<and> rg_undecoded reg = []
        \<and> (\<forall>q \<in> set (rg_profiles reg). protocolOf q \<le> st_protocol (rg_stamp reg))" for reg
    by (rule vouched_iff)
  with assms show ?thesis
    by (auto simp: user_side_def loadUserRegistry_def vouched_def no_lookup_stamp_def split: option.splits sum.splits if_splits)
qed

text \<open>C12. \<open>Resolve\<close> vouches for what it answers. The profile it answers for a name is the first entry of that
  name in the builtins merged with the user's registry; the definition is valid and the digest is that
  of its canonical form. The user's profiles take part whenever there is a registry file, and
  \<open>Resolve\<close> answers only if this build reads the file, its protocol and every key of it, and no
  profile in it uses a key younger than its stamp: a skewed registry is never taken for an empty one,
  and the answer says whether it came from the user's profiles. A base is answered exactly
  when the profile names one: a valid builtin, never the user's profile of that name, whose digest is
  the pinned one if there is a pin.\<close>

theorem resolve_vouches:
  assumes "Resolve_profile sha builtins path load name = Inr (r, base)"
  shows "\<exists>builtin user p. builtins = Inr builtin \<and> findProfile (Merge builtin user) name = Some p
    \<and> (case Option.bind path load of
        None \<Rightarrow> user = []
      | Some (Inl e) \<Rightarrow> False
      | Some (Inr reg) \<Rightarrow> user = rg_profiles reg \<and> ReadableProtocol (st_protocol (rg_stamp reg)) \<and> rg_undecoded reg = []
          \<and> (\<forall>q \<in> set user. protocolOf q \<le> st_protocol (rg_stamp reg)))
    \<and> re_source r = (if findProfile user name = None then SourceBuiltin else SourceUser)
    \<and> (ls_present (re_registry r) \<longleftrightarrow> Option.bind path load \<noteq> None)
    \<and> Validate_profile p = None \<and> re_digest r = sha (Canonicalize sha p)
    \<and> (case base of
        None \<Rightarrow> pf_base p = []
      | Some rb \<Rightarrow> \<exists>bname pin b. ParseBase (pf_base p) = Inr (bname, pin) \<and> findProfile builtin bname = Some b
          \<and> Validate_profile b = None \<and> re_source rb = SourceBuiltin \<and> re_digest rb = sha (Canonicalize sha b)
          \<and> (pin \<noteq> [] \<longrightarrow> pin = sha (Canonicalize sha b)))"
proof -
  obtain builtin user stamp p where h: "builtins = Inr builtin" "loadUserRegistry path load = Inr (user, stamp)"
      "findProfile (Merge builtin user) name = Some p"
      "resolve_profile sha p (if findProfile user name = None then SourceBuiltin else SourceUser) stamp = Inr r"
      "if pf_base p = [] then base = None else (\<exists>b. resolveBase sha p builtin = Inr b \<and> base = Some b)"
    using assms by (auto simp: Resolve_profile_def split: sum.splits option.splits if_splits)
  note user = loadUserRegistry_Inr [OF h(2)]
  then have present: "ls_present stamp \<longleftrightarrow> Option.bind path load \<noteq> None"
    by (auto simp: user_side_def split: option.splits sum.splits)
  have "case base of None \<Rightarrow> pf_base p = []
      | Some rb \<Rightarrow> \<exists>bname pin b. ParseBase (pf_base p) = Inr (bname, pin) \<and> findProfile builtin bname = Some b
          \<and> Validate_profile b = None \<and> re_source rb = SourceBuiltin \<and> re_digest rb = sha (Canonicalize sha b)
          \<and> (pin \<noteq> [] \<longrightarrow> pin = sha (Canonicalize sha b))"
    using h(5) by (auto simp: profile_digest_def split: if_splits dest!: resolveBase_Inr)
  moreover have "Validate_profile p = None" "re_digest r = sha (Canonicalize sha p)" "re_registry r = stamp"
    "re_source r = (if findProfile user name = None then SourceBuiltin else SourceUser)"
    using h(4) unfolding resolve_profile_Inr by (simp_all add: profile_digest_def)
  ultimately show ?thesis using h(1,3) user [THEN conjunct1, unfolded user_side_def] present
    by (intro exI [of _ builtin] exI [of _ user] exI [of _ p] conjI) (assumption | simp only: simp_thms)+
qed


section \<open>Witnesses\<close>

definition demo_profile :: profile where
  "demo_profile = \<lparr>pf_name = ''opus'', pf_display = ''Opus'', pf_provider = ''claude'', pf_backend = ''anthropic'', pf_model = ''m'',
     pf_url = [], pf_token = ''t1'', pf_env = [(''A'', ''1'')], pf_context_servers = Some [''x/y'', ''a/b'', ''x/y''],
     pf_context_excluded = [(''a/b'', [''t''])], pf_base = [], pf_moxy_placement = ''in-unit'',
     pf_moxy_allow_tools = Some [''mcp__s__t''], pf_moxy_tools = None\<rparr>"

lemma demo_plain: "plain_profile demo_profile"
proof -
  have "\<forall>s \<in> {[], ''opus'', ''Opus'', ''claude'', ''anthropic'', ''m'', ''A'', ''a/b'', ''t'', ''x/y'', ''in-unit'', ''mcp__s__t''}. valid_utf8 s"
    unfolding ball_simps by (intro conjI; code_simp)
  then show ?thesis by (simp add: plain_profile_def demo_profile_def elems_def)
qed

theorem digest_pins_definition_witness:
  "Canonicalize (\<lambda>_. ''d'') demo_profile = Canonicalize (\<lambda>_. ''d'') (demo_profile\<lparr>pf_token := ''t2''\<rparr>)
   \<and> Canonicalize (\<lambda>_. ''d'') demo_profile \<noteq> Canonicalize (\<lambda>_. ''d'') (demo_profile\<lparr>pf_moxy_placement := ''twin''\<rparr>)"
proof -
  have "valid_utf8 ''d''" by code_simp
  then have ok: "\<forall>t :: string. valid_utf8 ((\<lambda>_. ''d'') t)" by simp
  have "valid_utf8 ''twin''" by code_simp
  then have "plain_profile (demo_profile\<lparr>pf_token := ''t2''\<rparr>)" "plain_profile (demo_profile\<lparr>pf_moxy_placement := ''twin''\<rparr>)"
    using demo_plain by (simp_all add: plain_profile_def)
  moreover have "same_definition (\<lambda>_. ''d'') demo_profile (demo_profile\<lparr>pf_token := ''t2''\<rparr>)"
    "\<not> same_definition (\<lambda>_. ''d'') demo_profile (demo_profile\<lparr>pf_moxy_placement := ''twin''\<rparr>)"
    by (simp_all add: same_definition_def demo_profile_def moxy_sets_def MoxyTable_def)
  ultimately show ?thesis using digest_pins_definition [OF demo_plain _ ok] by blast
qed

theorem saved_registry_vouched_witness:
  "loadUserRegistry (Some ''/p'') (\<lambda>_. Some (Inr (read_registry (saved_file [demo_profile] ''1.0'') [])))
     = Inr ([demo_profile], \<lparr>ls_present = True, ls_clown_version = ''1.0'', ls_protocol = 3\<rparr>)"
proof -
  have "protocolFor [demo_profile] = 3" by (simp add: protocolFor_def protocolOf_def MoxyTable_def demo_profile_def)
  then show ?thesis using saved_registry_vouched [of "\<lambda>_. Some (Inr (read_registry (saved_file [demo_profile] ''1.0'') []))" "''/p''"] by simp
qed

definition demo_user :: profile where
  "demo_user = demo_profile\<lparr>pf_name := ''mine'', pf_base := ''opus''\<rparr>"

definition demo_load :: "string \<Rightarrow> (gerror + registry) option" where
  "demo_load _ = Some (Inr (read_registry (saved_file [demo_user] ''1.0'') []))"

theorem resolve_vouches_witness:
  "\<exists>r rb. Resolve_profile (\<lambda>_. ''d'') (Inr [demo_profile]) (Some ''/p'') demo_load ''mine'' = Inr (r, Some rb) \<and> re_digest rb = ''d''"
proof -
  have "case Resolve_profile (\<lambda>_. ''d'') (Inr [demo_profile]) (Some ''/p'') demo_load ''mine'' of
      Inr (_, Some rb) \<Rightarrow> re_source rb = SourceBuiltin | _ \<Rightarrow> False" by code_simp
  then obtain r rb where r: "Resolve_profile (\<lambda>_. ''d'') (Inr [demo_profile]) (Some ''/p'') demo_load ''mine'' = Inr (r, Some rb)"
    by (auto split: sum.splits prod.splits option.splits)
  from resolve_vouches [OF this] show ?thesis using r by auto
qed

end
