(* ===== verification/Spec2Isabelle.thy ===== *)
theory Spec2Isabelle
  imports Loop_Claims Run_Lifecycle_Claims Run_Teardown_Claims Run_Claims Run_Verb_Claims Run_Sweep_Claims Run_Agent_Claims
    Brief_Claims Scope_Unit_Claims Scope_Net_Claims Scope_Monitor_Claims Scope_Init_Claims Clownfile_Claims Profile_Claims
begin

text \<open>
  A model of the core of clown: \<open>juggler\<close>, which launches agents, runs their tool-use loop and keeps
  the records of runs and subagents; the sandboxed unit an agent runs in and what the frontend serves
  it; and the two configurations clown resolves, the cascading clownfile and the profile registry.

  \<^bold>\<open>Parts and how they interact.\<close> A run is made by \<open>NewRun\<close>: a root account, a room, a record in
  juggler's store. \<open>SpawnChild\<close> turns a brief into an agent's systemd unit, with an account and a
  ringmaster job of its own. In the unit \<open>RunAgent\<close> opens the job, runs the loop \<open>Run\<close> over the
  tools the brief allows, posts each turn to the room, judges the ledger with the brief's evaluator and
  writes the job's terminal record; \<open>ExitWake\<close> writes one for an agent that could not. \<open>WaitChild\<close>
  reads the verdict. \<open>Resolve\<close> ends the run: children stopped, ledger closed, issuer woken, accounts
  revoked. \<open>Clean\<close> sweeps what was left behind. An interactive agent instead runs in an agent scope:
  the frontend validates a specification, writes a \<open>systemd-run\<close> command line, and serves the unit
  its network, model API and tools through sockets.

  \<^bold>\<open>Theories, bottom up.\<close>
  \<^item> Prelude: \<open>Go_Base\<close> (strings as byte lists, errors, operations on a state), \<open>Go_Path\<close>,
    \<open>Go_Sort\<close>, \<open>Go_Json\<close>, \<open>Json_Facts\<close>, \<open>Json_Text\<close> (\<open>path/filepath\<close>, sorted keys, and
    \<open>encoding/json\<close> read and written as text).
  \<^item> \<open>internal/alfa/jugglerloop\<close>: \<open>Loop_Types\<close> (turns, ledger, requests), \<open>Loop_Codec\<close> (the two
    provider codecs, with the locale \<open>wire_codec\<close>), \<open>Loop\<close> (the loop; \<open>Run\<close>), \<open>Loop_Facts\<close> (the
    locale \<open>run_invariant\<close> and what every run keeps), \<open>Loop_Wire\<close> (what the providers insist on:
    calls answered before anything else is said), \<open>Loop_Claims\<close>.
  \<^item> \<open>internal/alfa/jugglerbrief\<close>: \<open>Brief\<close>, \<open>Brief_Claims\<close> (with the environment and moxyfile
    derived from a brief).
  \<^item> \<open>internal/charlie/jugglerrun\<close>, definitions: \<open>Run_States\<close>, \<open>Run_Handles\<close>, \<open>Run_Store\<close>,
    \<open>Run_Services\<close> (the collaborators of \<open>LifecycleDeps\<close>), \<open>Run_ExitWake\<close>, \<open>Run_Resolve\<close>,
    \<open>Run_Clean\<close>, \<open>Run_Spawn\<close>, \<open>Run_Child\<close>, \<open>Run_Wait\<close>, \<open>Agent_Tools\<close>, \<open>Run_Agent\<close>.
    Specification: \<open>Run_Machine\<close> is the abstract life of one run key, a step relation on its record
    and its ledger; \<open>Run_Triples\<close>, \<open>Run_Follow\<close>, \<open>Run_Follow_Resolve\<close> and \<open>Run_Follow_Verbs\<close>
    show that every verb follows it; \<open>Run_Lifecycle\<close> composes verbs, agents and the outside to a
    transition system and holds the locale \<open>run_law\<close>, interpreted once for each law of a run.
    Claims: \<open>Run_Lifecycle_Claims\<close>, \<open>Run_Teardown_Claims\<close> (the accounts of a run), \<open>Run_Claims\<close>,
    \<open>Run_Verb_Facts\<close>, \<open>Run_New_Facts\<close>, \<open>Run_Verb_Claims\<close>, \<open>Run_Sweep_Claims\<close>,
    \<open>Run_Agent_Claims\<close>; \<open>Run_Demo\<close> is the instance their examples evaluate.
  \<^item> \<open>internal/alfa/agentscope\<close>, \<open>internal/0/peercheck\<close>, \<open>cmd/clown/agentscope.go\<close>: \<open>Scope_Spec\<close>
    (the specification, \<open>Validate\<close>, symlinks), \<open>Scope_Unit\<close> (mounts, environment, command line),
    \<open>Scope_Net\<close> (peers, egress proxy, injection proxy, tool ceiling), \<open>Scope_Monitor\<close> (the monitor
    relay and the dead-man socket as machines), \<open>Scope_Init\<close> (the exec shim and the unit's init),
    with \<open>Scope_Facts\<close> and a \<open>_Claims\<close> theory each.
  \<^item> \<open>internal/alfa/clownfile\<close>, \<open>internal/0/promptwalk\<close>: \<open>Clownfile\<close>, \<open>Clownfile_Claims\<close>.
  \<^item> \<open>internal/0/profile\<close>, \<open>pkg/profilelookup\<close>: \<open>Profile\<close>, \<open>Profile_Lookup\<close>, \<open>Profile_Claims\<close>.

  \<^bold>\<open>State and errors.\<close> Go functions keep their names. Strings are byte lists. juggler's state is the
  record \<open>world\<close>: its files, typed by what they hold (run records, children, ledgers, markers), the
  result spools, a list of faults that makes any file operation fail, and an abstract outside \<open>'e\<close>.
  An operation takes a world to a result, \<open>Inl\<close> for an error, and a world; every early return is a
  branch. What other processes do between two steps (children of a resolve, the cancel watcher) is
  given by a schedule or by the outside.

  \<^bold>\<open>What is shown.\<close> Of a run: every sequence of verbs, with any failures, refines the machine of each
  key, so a reaped key stays dead, a closed ledger sealed, and a resolution final; a run is torn down
  only when its accounts are revoked; wakes are sent once; success is never the agent's own word. Of
  the loop: transcript and ledger agree, every run ends with one terminal turn within the step bound,
  no tool outside the offered ones is called, and both wire formats carry the whole exchange with
  calls and results paired. Of the brief: reading back what was written, the environment and the
  tools it cannot widen. Of the agent scope: what a validated specification keeps out of the unit,
  the environment and the mounts of the command line, the reach of the two proxies, the end of the
  unit with its frontend, no line of a monitor lost silently. Of the configurations: the clownfile
  cascade against a reference, digests that identify profiles, registries vouched for.

  \<^bold>\<open>Parameters.\<close> What the code only calls is an argument, in \<open>deps\<close> (ringmaster, troupe, rooms, moxy,
  systemd, clock, SHA-256), the agent's dependencies, the provider and tool executor of the loop, the
  TOML package, the file systems of the clownfile and of symlink resolution, the kernel's answers to
  the shim and the init. What a claim needs of one is a named hypothesis in its statement:
  \<open>mint_law\<close> (minting answers with the password file it was given), \<open>revoke_law\<close> (when revoking answers
  success or a login failure the account is gone, and a gone account stays so),
  \<open>toml_reads_back\<close> (the encoder's document decodes to what was encoded, the keys left unused being
  below \<open>limits.sandbox\<close>), \<open>mirror_journal\<close> (a journal whose other records are not holder mirrors).

  \<^bold>\<open>Recursion, fuel and bounds.\<close> JSON is read with fuel \<open>json_fuel\<close>, twice the text's length and two,
  which \<open>json_value_fuel\<close> proves enough. The loop terminates by its step cap, the symlink walk by its
  forty hops. The two loops that may run on are partial: \<open>walk_up\<close> (it returns from an absolute
  directory) and \<open>doneWithRetry\<close> (it returns when the retry clock makes progress). Times are unbounded
  integers, in nanoseconds where the code has durations.

  \<^bold>\<open>Not modelled.\<close> Listening on and copying between sockets, the statsd datagrams, polling systemd and
  \<open>/proc\<close>, process supervision, shelling out to ringmaster, troupe and moxy, and printing: input and
  output with no decision in it. The launcher's command line (\<open>cmd/clown/main.go\<close>, but for the
  refusal of a skewed registry), juggler's flag parsing, the plugin host and the daemon are left out.
  \<open>strings.TrimSpace\<close> and \<open>ToLower\<close> are modelled for ASCII only; no property depends on the rest.
\<close>

end
